(* ===== verification/Prelude.thy ===== *)
theory Prelude
  imports Complex_Main "HOL-Library.Sublist"
begin

text \<open>
  Shared ground of the development: the fact collections, the generic list lemmas, and the
  two interfaces that several components implement.

  \<^item> \<open>keep_last\<close> is the contract of every "append and keep the newest n" list of the program
    (the channel memory of an account, the runner's recent decisions, the ring that
    reads the audit file).
  \<^item> \<open>bounded_memory\<close> is the contract of the two deduplication memories of the program (the
    guard's request tokens, the scanner's parsed files): a set of keys, an insertion order,
    and a cap after which the oldest keys are forgotten.
\<close>

named_theorems guard_simps \<open>branch equations of the guard's state machine\<close>
named_theorems frame_simps \<open>fields an operation leaves alone\<close>
named_theorems inv_intros \<open>an operation keeps its component's invariant\<close>

section \<open>Lists\<close>

definition lastn :: "nat \<Rightarrow> 'a list \<Rightarrow> 'a list" where
  "lastn n xs = drop (length xs - n) xs"

lemma length_lastn [simp]: "length (lastn n xs) = min n (length xs)"
  by (simp add: lastn_def)

lemma lastn_all [simp]: "length xs \<le> n \<Longrightarrow> lastn n xs = xs"
  by (simp add: lastn_def)

lemma lastn_Nil [simp]: "lastn n [] = []"
  by (simp add: lastn_def)

lemma set_lastn: "set (lastn n xs) \<subseteq> set xs"
  by (simp add: lastn_def set_drop_subset)

lemma distinct_lastn: "distinct xs \<Longrightarrow> distinct (lastn n xs)"
  by (simp add: lastn_def)

lemma suffix_lastn: "suffix (lastn n xs) xs"
  by (simp add: lastn_def suffix_drop)

lemma lastn_append_lastn: "lastn n (lastn n xs @ ys) = lastn n (xs @ ys)"
proof (cases "length xs \<le> n")
  case True
  then show ?thesis by simp
next
  case False
  then show ?thesis
    by (simp add: lastn_def add.commute)
qed

lemma last_lastn: "0 < n \<Longrightarrow> xs \<noteq> [] \<Longrightarrow> last (lastn n xs) = last xs"
  by (auto simp: lastn_def)

lemma distinct_drop_disjoint:
  "distinct xs \<Longrightarrow> set (take k xs) \<inter> set (drop k xs) = {}"
  by (simp add: set_take_disj_set_drop_if_distinct)

lemma set_minus_take:
  "distinct xs \<Longrightarrow> set xs - set (take k xs) = set (drop k xs)"
  by (metis Diff_disjoint Un_Diff append_take_drop_id Diff_cancel Diff_triv
      distinct_drop_disjoint inf_commute set_append sup_bot_left)

section \<open>Interface: keep the newest n\<close>

text \<open>
  \<open>push\<close> appends one value; only the newest \<open>n\<close> survive. The client lemma says that a whole
  run of pushes keeps exactly the newest \<open>n\<close> values of the run, oldest first.
\<close>

locale keep_last =
  fixes n :: nat
    and push :: "'a list \<Rightarrow> 'a \<Rightarrow> 'a list"
  assumes push_law: "length xs \<le> n \<Longrightarrow> push xs x = lastn n (xs @ [x])"
begin

lemma push_bound: "length xs \<le> n \<Longrightarrow> length (push xs x) \<le> n"
  by (simp add: push_law)

lemma push_run_gen: "length ys \<le> n \<Longrightarrow> foldl push ys xs = lastn n (ys @ xs)"
proof (induction xs arbitrary: ys)
  case Nil
  then show ?case by simp
next
  case (Cons x xs)
  have "foldl push ys (x # xs) = foldl push (lastn n (ys @ [x])) xs"
    using Cons.prems by (simp add: push_law)
  also have "\<dots> = lastn n (lastn n (ys @ [x]) @ xs)"
    by (rule Cons.IH) simp
  also have "\<dots> = lastn n (ys @ x # xs)"
    by (simp add: lastn_append_lastn)
  finally show ?case .
qed

lemma push_run: "foldl push [] xs = lastn n xs"
  by (simp add: push_run_gen)

lemma push_newest: "0 < n \<Longrightarrow> length xs \<le> n \<Longrightarrow> last (push xs x) = x"
  by (simp add: push_law last_lastn)

end

section \<open>Interface: bounded deduplication memory\<close>

text \<open>
  \<open>keys\<close> is the insertion order, \<open>has\<close> the membership test the code makes, \<open>mark\<close> the
  insertion. The provider promises that the order and the membership agree, that a mark of a
  remembered key changes nothing, and that a mark of a new key appends it and then drops some
  of the oldest keys, none of them while the memory is below its cap.
\<close>

locale bounded_memory =
  fixes inv :: "'s \<Rightarrow> bool"
    and keys :: "'s \<Rightarrow> 'k list"
    and has :: "'s \<Rightarrow> 'k \<Rightarrow> bool"
    and mark :: "'s \<Rightarrow> 'k \<Rightarrow> 's"
    and cap :: nat
  assumes cap_pos: "0 < cap"
    and inv_distinct: "inv s \<Longrightarrow> distinct (keys s)"
    and inv_cap: "inv s \<Longrightarrow> length (keys s) \<le> cap"
    and has_keys: "inv s \<Longrightarrow> has s k \<longleftrightarrow> k \<in> set (keys s)"
    and mark_inv: "inv s \<Longrightarrow> inv (mark s k)"
    and mark_old: "inv s \<Longrightarrow> has s k \<Longrightarrow> keys (mark s k) = keys s"
    and mark_new: "inv s \<Longrightarrow> \<not> has s k \<Longrightarrow>
      \<exists>d. keys (mark s k) = drop d (keys s @ [k]) \<and> d \<le> length (keys s) \<and>
          (length (keys s) < cap \<longrightarrow> d = 0)"
begin

lemma has_mark: "inv s \<Longrightarrow> has (mark s k) k"
proof (cases "has s k")
  case True
  assume "inv s"
  with True show ?thesis by (simp add: has_keys mark_inv mark_old)
next
  case False
  assume s: "inv s"
  with False obtain d where d: "keys (mark s k) = drop d (keys s @ [k])" "d \<le> length (keys s)"
    using mark_new by blast
  then have "k \<in> set (keys (mark s k))" by simp
  with s show ?thesis by (simp add: has_keys mark_inv)
qed

lemma mark_only_adds: "inv s \<Longrightarrow> has (mark s k) j \<Longrightarrow> j = k \<or> has s j"
proof (cases "has s k")
  case True
  assume "inv s" "has (mark s k) j"
  with True show ?thesis by (simp add: has_keys mark_inv mark_old)
next
  case False
  assume s: "inv s" and j: "has (mark s k) j"
  with False obtain d where d: "keys (mark s k) = drop d (keys s @ [k])"
    using mark_new by blast
  from s j have "j \<in> set (drop d (keys s @ [k]))"
    using d by (simp add: has_keys mark_inv del: drop_append)
  then have "j \<in> set (keys s @ [k])" by (rule in_set_dropD)
  with s show ?thesis by (auto simp: has_keys)
qed

lemma mark_keeps_below_cap:
  "inv s \<Longrightarrow> length (keys s) < cap \<Longrightarrow> has s j \<Longrightarrow> has (mark s k) j"
proof (cases "has s k")
  case True
  assume "inv s" "has s j"
  with True show ?thesis by (simp add: has_keys mark_inv mark_old)
next
  case False
  assume s: "inv s" and c: "length (keys s) < cap" and j: "has s j"
  with False obtain d where "keys (mark s k) = drop d (keys s @ [k])" "d = 0"
    using mark_new by blast
  with s j show ?thesis by (simp add: has_keys mark_inv)
qed

lemma mark_grows: "inv s \<Longrightarrow> length (keys (mark s k)) \<le> Suc (length (keys s))"
proof (cases "has s k")
  case True
  assume "inv s"
  with True show ?thesis by (simp add: mark_old)
next
  case False
  assume "inv s"
  with False obtain d where "keys (mark s k) = drop d (keys s @ [k])"
    using mark_new by blast
  then show ?thesis by simp
qed

lemma run_only_adds: "inv s \<Longrightarrow> has (foldl mark s ks) j \<Longrightarrow> has s j \<or> j \<in> set ks"
proof (induction ks arbitrary: s)
  case (Cons k ks)
  then have "has (mark s k) j \<or> j \<in> set ks" using mark_inv by auto
  with Cons.prems show ?case using mark_only_adds by auto
qed simp

lemma run_inv: "inv s \<Longrightarrow> inv (foldl mark s ks)"
  by (induction ks arbitrary: s) (auto intro: mark_inv)

text \<open>A run that stays within the cap forgets nothing: neither the old keys nor its own.\<close>

lemma run_remembers:
  assumes "inv s" and "length (keys s) + length ks \<le> cap" and "has s j \<or> j \<in> set ks"
  shows "has (foldl mark s ks) j"
  using assms
proof (induction ks arbitrary: s)
  case Nil
  then show ?case by simp
next
  case (Cons k ks)
  have i: "inv (mark s k)" using Cons.prems(1) by (rule mark_inv)
  have l: "length (keys (mark s k)) + length ks \<le> cap"
    using mark_grows[OF Cons.prems(1), of k] Cons.prems(2) by simp
  have "has (mark s k) j \<or> j \<in> set ks"
    using Cons.prems has_mark[OF Cons.prems(1), of k]
      mark_keeps_below_cap[OF Cons.prems(1), of j k] by auto
  with Cons.IH[OF i l] show ?case by simp
qed

end

end
