(* ===== verification/Go_Strings.thy ===== *)
theory Go_Strings
  imports Prelude
begin

text \<open>
  The part of Go's \<open>strings\<close>, \<open>bytes\<close>, \<open>strconv\<close> and \<open>unicode/utf8\<close> packages the program
  uses. A Go string is a sequence of bytes, so \<open>string\<close> is read as a list of bytes here: a
  character above 127 is a byte of a UTF-8 sequence.

  \<^item> \<open>TrimSpace\<close> strips exactly the encodings of the Unicode white space characters, on every
    byte string, valid UTF-8 or not.
  \<^item> \<open>ToLower\<close> and \<open>EqualFold\<close> fold the ASCII letters and leave every other byte alone. That is
    Go's result on every string whose non-ASCII letters have no case (the account and channel
    names of a deployment); cased non-ASCII letters are outside the model.
\<close>

abbreviation byte_of :: "char \<Rightarrow> nat" where "byte_of c \<equiv> of_char c"

section \<open>White space\<close>

text \<open>
  \<open>lead_space\<close> is the length of the white space character a string starts with, 0 if it starts
  with something else: the six ASCII ones, U+0085 and U+00A0, U+1680, U+2000 to U+200A, U+2028,
  U+2029, U+202F, U+205F and U+3000. \<open>tail_space\<close> reads a reversed string, so the bytes of a
  character come last byte first.
\<close>

definition ascii_space :: "char \<Rightarrow> bool" where
  "ascii_space c \<longleftrightarrow> c = CHR 0x20 \<or> c = CHR 0x0A \<or> c = CHR 0x09 \<or> c = CHR 0x0D \<or> c = CHR 0x0B \<or> c = CHR 0x0C"

definition space2 :: "char \<Rightarrow> char \<Rightarrow> bool" where
  "space2 a b \<longleftrightarrow> a = CHR 0xC2 \<and> (b = CHR 0x85 \<or> b = CHR 0xA0)"

definition space3 :: "char \<Rightarrow> char \<Rightarrow> char \<Rightarrow> bool" where
  "space3 a b c \<longleftrightarrow>
     (a = CHR 0xE2 \<and>
       (b = CHR 0x80 \<and> (c = CHR 0x80 \<or> c = CHR 0x81 \<or> c = CHR 0x82 \<or> c = CHR 0x83 \<or> c = CHR 0x84 \<or>
          c = CHR 0x85 \<or> c = CHR 0x86 \<or> c = CHR 0x87 \<or> c = CHR 0x88 \<or> c = CHR 0x89 \<or> c = CHR 0x8A \<or>
          c = CHR 0xA8 \<or> c = CHR 0xA9 \<or> c = CHR 0xAF)
        \<or> b = CHR 0x81 \<and> c = CHR 0x9F)) \<or>
     (a = CHR 0xE1 \<and> b = CHR 0x9A \<and> c = CHR 0x80) \<or>
     (a = CHR 0xE3 \<and> b = CHR 0x80 \<and> c = CHR 0x80)"

fun lead_space :: "string \<Rightarrow> nat" where
  "lead_space [] = 0"
| "lead_space [a] = (if ascii_space a then 1 else 0)"
| "lead_space [a, b] = (if ascii_space a then 1 else if space2 a b then 2 else 0)"
| "lead_space (a # b # c # _) =
     (if ascii_space a then 1 else if space2 a b then 2 else if space3 a b c then 3 else 0)"

fun tail_space :: "string \<Rightarrow> nat" where
  "tail_space [] = 0"
| "tail_space [a] = (if ascii_space a then 1 else 0)"
| "tail_space [a, b] = (if ascii_space a then 1 else if space2 b a then 2 else 0)"
| "tail_space (a # b # c # _) =
     (if ascii_space a then 1 else if space2 b a then 2 else if space3 c b a then 3 else 0)"

function strip :: "(string \<Rightarrow> nat) \<Rightarrow> string \<Rightarrow> string" where
  "strip f s = (if f s = 0 \<or> s = [] then s else strip f (drop (f s) s))"
  by pat_completeness auto
termination
  by (relation "measure (\<lambda>(f, s). length s)") auto

declare strip.simps [simp del]

definition TrimLeftSpace :: "string \<Rightarrow> string" where
  "TrimLeftSpace s = strip lead_space s"

definition TrimRightSpace :: "string \<Rightarrow> string" where
  "TrimRightSpace s = rev (strip tail_space (rev s))"

definition TrimSpace :: "string \<Rightarrow> string" where
  "TrimSpace s = TrimRightSpace (TrimLeftSpace s)"

lemma strip_fixed: "f s = 0 \<Longrightarrow> strip f s = s"
  by (simp add: strip.simps [of f s])

lemma strip_Nil [simp]: "strip f [] = []"
  by (simp add: strip.simps)

lemma strip_done: "f (strip f s) = 0 \<or> strip f s = []"
proof (induction f s rule: strip.induct)
  case (1 f s)
  then show ?case by (cases "f s = 0 \<or> s = []") (auto simp: strip.simps [of f s])
qed

lemma suffix_strip: "suffix (strip f s) s"
proof (induction f s rule: strip.induct)
  case (1 f s)
  show ?case
  proof (cases "f s = 0 \<or> s = []")
    case True
    then show ?thesis by (simp add: strip.simps [of f s])
  next
    case False
    then have "strip f s = strip f (drop (f s) s)"
      by (simp add: strip.simps [of f s])
    with 1 [OF False] show ?thesis
      using suffix_order.trans [OF _ suffix_drop] by metis
  qed
qed

lemma strip_idem: "f [] = 0 \<Longrightarrow> strip f (strip f s) = strip f s"
  using strip_done [of f s] by (auto simp: strip_fixed)

text \<open>Cutting a string short cannot make its head look like white space.\<close>

lemma lead_space_prefix: "prefix t s \<Longrightarrow> lead_space s = 0 \<Longrightarrow> lead_space t = 0"
proof (induction s rule: lead_space.induct)
  case 1
  then show ?case by simp
next
  case (2 a)
  then show ?case by (auto simp: prefix_Cons split: if_splits)
next
  case (3 a b)
  then show ?case by (auto simp: prefix_Cons split: if_splits)
next
  case (4 a b c r)
  then show ?case by (cases t rule: lead_space.cases) (auto split: if_splits)
qed

lemma TrimSpace_idem [simp]: "TrimSpace (TrimSpace s) = TrimSpace s"
proof -
  let ?l = "strip lead_space s"
  let ?t = "rev (strip tail_space (rev ?l))"
  have "prefix ?t ?l"
    using suffix_strip [of tail_space "rev ?l"] by (simp add: suffix_to_prefix)
  then have "lead_space ?t = 0"
    using strip_done [of lead_space s] lead_space_prefix by auto
  then show ?thesis
    by (simp add: TrimSpace_def TrimLeftSpace_def TrimRightSpace_def strip_fixed [of lead_space ?t] strip_idem)
qed

lemma TrimSpace_Nil [simp]: "TrimSpace [] = []"
  by (simp add: TrimSpace_def TrimLeftSpace_def TrimRightSpace_def)

section \<open>Case\<close>

definition lower_char :: "char \<Rightarrow> char" where
  "lower_char c = (if 65 \<le> byte_of c \<and> byte_of c \<le> 90 then char_of (byte_of c + 32) else c)"

definition ToLower :: "string \<Rightarrow> string" where
  "ToLower s = map lower_char s"

definition EqualFold :: "string \<Rightarrow> string \<Rightarrow> bool" where
  "EqualFold a b \<longleftrightarrow> ToLower a = ToLower b"

lemma byte_of_lower: "byte_of (lower_char c) =
    (if 65 \<le> byte_of c \<and> byte_of c \<le> 90 then byte_of c + 32 else (byte_of c :: nat))"
  by (auto simp: lower_char_def)

lemma lower_char_idem [simp]: "lower_char (lower_char c) = lower_char c"
  by (auto simp: lower_char_def)

lemma ToLower_idem [simp]: "ToLower (ToLower s) = ToLower s"
  by (simp add: ToLower_def)

lemma ToLower_Nil [simp]: "ToLower [] = []" and
  ToLower_eq_Nil [simp]: "ToLower s = [] \<longleftrightarrow> s = []" and
  length_ToLower [simp]: "length (ToLower s) = length s"
  by (simp_all add: ToLower_def)

lemma EqualFold_refl [simp]: "EqualFold a a" and
  EqualFold_sym: "EqualFold a b \<longleftrightarrow> EqualFold b a" and
  EqualFold_lower [simp]: "EqualFold (ToLower a) b \<longleftrightarrow> EqualFold a b"
  by (auto simp: EqualFold_def)

text \<open>Folding case never creates nor destroys white space: no letter is part of a space.\<close>

lemma lower_char_eq:
  assumes "\<not> (65 \<le> byte_of x \<and> byte_of x \<le> (122::nat))"
  shows "lower_char c = x \<longleftrightarrow> c = x"
proof
  assume e: "lower_char c = x"
  then have "byte_of (lower_char c) = (byte_of x :: nat)" by simp
  with assms have "\<not> (65 \<le> byte_of c \<and> byte_of c \<le> (90::nat))"
    by (auto simp: byte_of_lower split: if_splits)
  with e show "c = x" by (auto simp: lower_char_def)
next
  assume "c = x"
  with assms show "lower_char c = x" by (auto simp: lower_char_def)
qed

lemma ascii_space_lower [simp]: "ascii_space (lower_char c) = ascii_space c"
  by (simp add: ascii_space_def lower_char_eq)

lemma space2_lower [simp]: "space2 (lower_char a) (lower_char b) = space2 a b"
  by (simp add: space2_def lower_char_eq)

lemma space3_lower [simp]: "space3 (lower_char a) (lower_char b) (lower_char c) = space3 a b c"
  by (simp add: space3_def lower_char_eq)

lemma lead_space_lower: "lead_space (map lower_char s) = lead_space s"
  by (cases s rule: lead_space.cases) auto

lemma tail_space_lower: "tail_space (map lower_char s) = tail_space s"
  by (cases s rule: tail_space.cases) auto

lemma strip_lower:
  assumes "\<And>s. f (map lower_char s) = f s"
  shows "strip f (map lower_char s) = map lower_char (strip f s)"
  using assms
proof (induction f s rule: strip.induct)
  case (1 f s)
  show ?case
  proof (cases "f s = 0 \<or> s = []")
    case True
    with "1.prems" show ?thesis by (auto simp: strip.simps [of f s] strip_fixed)
  next
    case False
    then have "strip f (map lower_char s) = strip f (map lower_char (drop (f s) s))"
      by (simp add: strip.simps [of f "map lower_char s"] "1.prems" drop_map)
    also have "\<dots> = map lower_char (strip f (drop (f s) s))"
      using False "1.prems" by (rule "1.IH")
    finally show ?thesis using False by (simp add: strip.simps [of f s])
  qed
qed

lemma TrimSpace_lower: "TrimSpace (ToLower s) = ToLower (TrimSpace s)"
  by (simp add: TrimSpace_def TrimLeftSpace_def TrimRightSpace_def ToLower_def strip_lower
      lead_space_lower tail_space_lower rev_map)

text \<open>A string of visible ASCII characters has no space to trim.\<close>

definition visible :: "string \<Rightarrow> bool" where
  "visible s \<longleftrightarrow> list_all (\<lambda>c. 32 < byte_of c \<and> byte_of c < 127) s"

lemma ascii_space_byte: "ascii_space c \<Longrightarrow> byte_of c \<le> 32"
  unfolding ascii_space_def by (elim disjE) simp_all

lemma space2_byte: "space2 a b \<Longrightarrow> 127 < byte_of a"
  by (simp add: space2_def)

lemma space3_byte: "space3 a b c \<Longrightarrow> 127 < byte_of a"
  unfolding space3_def by (elim disjE conjE) simp_all

lemma visible_no_space:
  assumes "32 < byte_of a" "byte_of a < 127"
  shows "\<not> ascii_space a" "\<not> space2 a b" "\<not> space3 a b c"
  using assms ascii_space_byte [of a] space2_byte [of a b] space3_byte [of a b c] by auto

lemma lead_space_visible: "visible s \<Longrightarrow> lead_space s = 0"
  by (cases s rule: lead_space.cases) (simp_all add: visible_def visible_no_space)

lemma tail_space_visible: "visible s \<Longrightarrow> tail_space s = 0"
  by (cases s rule: tail_space.cases) (simp_all add: visible_def visible_no_space)

lemma TrimSpace_visible: "visible s \<Longrightarrow> TrimSpace s = s"
  by (simp add: TrimSpace_def TrimLeftSpace_def TrimRightSpace_def strip_fixed lead_space_visible
      tail_space_visible visible_def)

section \<open>Prefixes, suffixes, search\<close>

definition HasPrefix :: "string \<Rightarrow> string \<Rightarrow> bool" where
  "HasPrefix s p \<longleftrightarrow> take (length p) s = p"

definition HasSuffix :: "string \<Rightarrow> string \<Rightarrow> bool" where
  "HasSuffix s p \<longleftrightarrow> length p \<le> length s \<and> drop (length s - length p) s = p"

definition TrimPrefix :: "string \<Rightarrow> string \<Rightarrow> string" where
  "TrimPrefix s p = (if HasPrefix s p then drop (length p) s else s)"

definition TrimSuffix :: "string \<Rightarrow> string \<Rightarrow> string" where
  "TrimSuffix s p = (if HasSuffix s p then take (length s - length p) s else s)"

fun Contains :: "string \<Rightarrow> string \<Rightarrow> bool" where
  "Contains [] p = (p = [])"
| "Contains (c # s) p = (HasPrefix (c # s) p \<or> Contains s p)"

fun IndexByte :: "string \<Rightarrow> char \<Rightarrow> nat option" where
  "IndexByte [] b = None"
| "IndexByte (c # s) b = (if c = b then Some 0 else map_option Suc (IndexByte s b))"

lemma HasPrefix_prefix: "HasPrefix s p \<longleftrightarrow> prefix p s"
  by (auto simp: HasPrefix_def prefix_def) (metis append_take_drop_id)

lemma HasSuffix_suffix: "HasSuffix s p \<longleftrightarrow> suffix p s"
  by (auto simp: HasSuffix_def suffix_def) (metis append_take_drop_id)

lemma HasPrefix_append [simp]: "HasPrefix (p @ s) p" and
  HasSuffix_append [simp]: "HasSuffix (s @ p) p"
  by (auto simp: HasPrefix_def HasSuffix_def)

lemma TrimPrefix_append [simp]: "TrimPrefix (p @ s) p = s" and
  TrimSuffix_append [simp]: "TrimSuffix (s @ p) p = s"
  by (auto simp: TrimPrefix_def TrimSuffix_def)

lemma Contains_sublist: "Contains s p \<longleftrightarrow> sublist p s"
  by (induction s) (auto simp: HasPrefix_prefix sublist_Cons_right)

lemma IndexByte_Some:
  "IndexByte s b = Some i \<longleftrightarrow> i < length s \<and> s ! i = b \<and> (\<forall>j<i. s ! j \<noteq> b)"
proof (induction s arbitrary: i)
  case Nil
  then show ?case by simp
next
  case (Cons c s)
  then show ?case by (cases i) (auto simp: less_Suc_eq_0_disj)
qed

section \<open>Decimal integers\<close>

fun digits_of :: "nat \<Rightarrow> string" where
  "digits_of n = (if n < 10 then [char_of (48 + n)]
     else digits_of (n div 10) @ [char_of (48 + n mod 10)])"

declare digits_of.simps [simp del]

definition Itoa :: "int \<Rightarrow> string" where
  "Itoa i = (if i < 0 then CHR ''-'' # digits_of (nat (- i)) else digits_of (nat i))"

definition digit_val :: "char \<Rightarrow> nat option" where
  "digit_val c = (if 48 \<le> byte_of c \<and> byte_of c \<le> 57 then Some (byte_of c - 48) else None)"

fun parse_digits :: "nat \<Rightarrow> string \<Rightarrow> nat option" where
  "parse_digits acc [] = Some acc"
| "parse_digits acc (c # s) = (case digit_val c of None \<Rightarrow> None
     | Some d \<Rightarrow> parse_digits (10 * acc + d) s)"

text \<open>\<open>strconv.Atoi\<close>: an optional sign, then at least one digit, inside the range of \<open>int\<close>.\<close>

definition Atoi :: "string \<Rightarrow> int option" where
  "Atoi s = (let (neg, body) = (case s of [] \<Rightarrow> (False, [])
        | c # r \<Rightarrow> if c = CHR ''-'' then (True, r) else if c = CHR ''+'' then (False, r) else (False, s))
     in if body = [] then None
        else case parse_digits 0 body of None \<Rightarrow> None
          | Some n \<Rightarrow> (let v = (if neg then - int n else int n)
              in if - (2 ^ 63) \<le> v \<and> v < 2 ^ 63 then Some v else None))"

lemma parse_digits_append:
  "parse_digits a (s @ t) = (case parse_digits a s of None \<Rightarrow> None | Some b \<Rightarrow> parse_digits b t)"
  by (induction s arbitrary: a) (auto split: option.splits)

lemma digit_val_char: "d < 10 \<Longrightarrow> digit_val (char_of (48 + d)) = Some d"
  by (simp add: digit_val_def)

lemma parse_digits_of: "parse_digits 0 (digits_of n) = Some n"
proof (induction n rule: digits_of.induct)
  case (1 n)
  show ?case
  proof (cases "n < 10")
    case True
    then show ?thesis by (simp add: digits_of.simps [of n] digit_val_char del: of_char_of)
  next
    case False
    with 1 show ?thesis
      by (simp add: digits_of.simps [of n] parse_digits_append digit_val_char)
  qed
qed

lemma digits_of_nonempty [simp]: "digits_of n \<noteq> []"
  by (simp add: digits_of.simps [of n])

lemma digits_of_inject: "digits_of m = digits_of n \<longleftrightarrow> m = n"
  by (metis option.inject parse_digits_of)

lemma hd_digits_of: "hd (digits_of n) \<in> set (map char_of [48..<58])"
proof (induction n rule: digits_of.induct)
  case (1 n)
  then show ?case
    by (cases "n < 10") (auto simp: digits_of.simps [of n])
qed

end
