(* ===== verification/Go_Time.thy ===== *)
theory Go_Time
  imports Go_Strings
begin

text \<open>
  The part of Go's \<open>time\<close> package the program uses. An instant is the number of nanoseconds
  since the Unix epoch, so comparing two instants is comparing two integers and the location a
  value carries (which Go keeps for printing only) is left out: every value the program prints
  goes through \<open>UTC()\<close> first.

  A \<open>time.Duration\<close> is an \<open>int64\<close>: \<open>Time.Sub\<close> saturates at its range and negating the least
  value wraps back to it, and both are written out because the join measures distances between
  timestamps it did not produce itself.
\<close>

type_synonym time = int
type_synonym duration = int

section \<open>int64\<close>

definition wrap64 :: "int \<Rightarrow> int" where
  "wrap64 x = (x + 2 ^ 63) mod 2 ^ 64 - 2 ^ 63"

definition max_int64 :: int where "max_int64 = 2 ^ 63 - 1"
definition min_int64 :: int where "min_int64 = - (2 ^ 63)"

lemma wrap64_id: "min_int64 \<le> x \<Longrightarrow> x \<le> max_int64 \<Longrightarrow> wrap64 x = x"
  by (simp add: wrap64_def min_int64_def max_int64_def)

lemma wrap64_range: "min_int64 \<le> wrap64 x" "wrap64 x \<le> max_int64"
  by (simp_all add: wrap64_def min_int64_def max_int64_def)

section \<open>Durations and instants\<close>

definition Nanosecond :: duration where "Nanosecond = 1"
definition Millisecond :: duration where "Millisecond = 1000000"
definition Second :: duration where "Second = 1000000000"
definition Minute :: duration where "Minute = 60 * Second"
definition Hour :: duration where "Hour = 60 * Minute"
definition Day :: duration where "Day = 24 * Hour"

lemmas duration_defs = Nanosecond_def Millisecond_def Second_def Minute_def Hour_def Day_def

text \<open>Go's zero \<open>time.Time\<close> is the first instant of year 1.\<close>

definition zero_time :: time where
  "zero_time = - 62135596800 * Second"

definition IsZero :: "time \<Rightarrow> bool" where "IsZero t \<longleftrightarrow> t = zero_time"
definition Before :: "time \<Rightarrow> time \<Rightarrow> bool" where "Before t u \<longleftrightarrow> t < u"
definition After :: "time \<Rightarrow> time \<Rightarrow> bool" where "After t u \<longleftrightarrow> t > u"

definition Sub :: "time \<Rightarrow> time \<Rightarrow> duration" where
  "Sub t u = max min_int64 (min max_int64 (t - u))"

definition neg_duration :: "duration \<Rightarrow> duration" where
  "neg_duration d = wrap64 (- d)"

text \<open>The distance the join computes: \<open>delta := a.Sub(b); if delta < 0 { delta = -delta }\<close>.\<close>

definition abs_delta :: "time \<Rightarrow> time \<Rightarrow> duration" where
  "abs_delta t u = (let delta = Sub t u in if delta < 0 then neg_duration delta else delta)"

lemma abs_delta_exact: "\<bar>t - u\<bar> \<le> max_int64 \<Longrightarrow> abs_delta t u = \<bar>t - u\<bar>"
  by (auto simp: abs_delta_def Sub_def neg_duration_def Let_def min_int64_def max_int64_def wrap64_def)

text \<open>Past the range of a duration (292 years) the negation wraps and the distance is negative.\<close>

lemma abs_delta_wraps: "u - t > max_int64 \<Longrightarrow> abs_delta t u = min_int64"
  by (auto simp: abs_delta_def Sub_def neg_duration_def Let_def min_int64_def max_int64_def wrap64_def)

lemma abs_delta_far: "t - u > max_int64 \<Longrightarrow> abs_delta t u = max_int64"
  by (auto simp: abs_delta_def Sub_def neg_duration_def Let_def min_int64_def max_int64_def wrap64_def)

definition TruncateHour :: "time \<Rightarrow> time" where
  "TruncateHour t = t - (t - zero_time) mod Hour"

lemma TruncateHour_le: "TruncateHour t \<le> t"
  by (simp add: TruncateHour_def duration_defs)

lemma TruncateHour_gt: "t < TruncateHour t + Hour"
  using pos_mod_bound [of Hour "t - zero_time"] by (simp add: TruncateHour_def duration_defs)

lemma TruncateHour_aligned: "(TruncateHour t) mod Hour = 0"
proof -
  have "TruncateHour t - zero_time = (t - zero_time) - (t - zero_time) mod Hour"
    by (simp add: TruncateHour_def)
  also have "\<dots> = Hour * ((t - zero_time) div Hour)"
    by (rule minus_mod_eq_mult_div)
  finally have "TruncateHour t - zero_time = Hour * ((t - zero_time) div Hour)" .
  then have "TruncateHour t = Hour * ((t - zero_time) div Hour - 17259888)"
    by (simp add: zero_time_def duration_defs algebra_simps)
  then show ?thesis by simp
qed

section \<open>Calendar\<close>

text \<open>
  The proleptic Gregorian calendar Go prints dates in. \<open>civil_of_days\<close> counts years from the
  first of March, so the leap day is the last day of a year; an era is 400 years, 146097 days.
\<close>

definition civil_of_days :: "int \<Rightarrow> int \<times> int \<times> int" where
  "civil_of_days days =
     (let z = days + 719468;
          era = z div 146097;
          doe = z mod 146097;
          yoe = (doe - doe div 1460 + doe div 36524 - doe div 146096) div 365;
          doy = doe - (365 * yoe + yoe div 4 - yoe div 100);
          mp = (5 * doy + 2) div 153;
          d = doy - (153 * mp + 2) div 5 + 1;
          m = (if mp < 10 then mp + 3 else mp - 9);
          y = yoe + era * 400 + (if m \<le> 2 then 1 else 0)
      in (y, m, d))"

definition days_of_civil :: "int \<Rightarrow> int \<Rightarrow> int \<Rightarrow> int" where
  "days_of_civil y m d =
     (let y' = (if m \<le> 2 then y - 1 else y);
          era = y' div 400;
          yoe = y' mod 400;
          doy = (153 * (if m > 2 then m - 3 else m + 9) + 2) div 5 + d - 1;
          doe = yoe * 365 + yoe div 4 - yoe div 100 + doy
      in era * 146097 + doe - 719468)"

definition pad :: "nat \<Rightarrow> int \<Rightarrow> string" where
  "pad n i = (let s = Itoa i in replicate (n - length s) (CHR ''0'') @ s)"

definition day_number :: "time \<Rightarrow> int" where
  "day_number t = t div Day"

definition FormatDays :: "int \<Rightarrow> string" where
  "FormatDays days = (let (y, m, d) = civil_of_days days
     in pad 4 y @ ''-'' @ pad 2 m @ ''-'' @ pad 2 d)"

text \<open>\<open>t.UTC().Format("2006-01-02")\<close>.\<close>

definition FormatDate :: "time \<Rightarrow> string" where
  "FormatDate t = FormatDays (day_number t)"

definition FormatClock :: "time \<Rightarrow> string" where
  "FormatClock t = (let s = (t mod Day) div Second
     in pad 2 (s div 3600) @ '':'' @ pad 2 (s div 60 mod 60) @ '':'' @ pad 2 (s mod 60))"

definition FormatFraction :: "time \<Rightarrow> string" where
  "FormatFraction t = (let ns = t mod Second
     in if ns = 0 then [] else ''.'' @ rev (dropWhile (\<lambda>c. c = CHR ''0'') (rev (pad 9 ns))))"

text \<open>\<open>t.UTC().Format(time.RFC3339)\<close> and \<open>t.UTC().Format(time.RFC3339Nano)\<close>.\<close>

definition FormatRFC3339 :: "time \<Rightarrow> string" where
  "FormatRFC3339 t = FormatDate t @ ''T'' @ FormatClock t @ ''Z''"

definition FormatRFC3339Nano :: "time \<Rightarrow> string" where
  "FormatRFC3339Nano t = FormatDate t @ ''T'' @ FormatClock t @ FormatFraction t @ ''Z''"

definition days_in_month :: "int \<Rightarrow> int \<Rightarrow> int" where
  "days_in_month y m =
     (if m = 2 then (if 4 dvd y \<and> (\<not> 100 dvd y \<or> 400 dvd y) then 29 else 28)
      else if m = 4 \<or> m = 6 \<or> m = 9 \<or> m = 11 then 30 else 31)"

text \<open>\<open>time.Parse("2006-01-02", s)\<close>: four, two and two digits, and a day that exists.\<close>

definition ParseDate :: "string \<Rightarrow> time option" where
  "ParseDate s =
     (if length s = 10 \<and> s ! 4 = CHR ''-'' \<and> s ! 7 = CHR ''-'' then
        (case (parse_digits 0 (take 4 s), parse_digits 0 (take 2 (drop 5 s)), parse_digits 0 (drop 8 s)) of
           (Some y, Some m, Some d) \<Rightarrow>
             if 1 \<le> m \<and> m \<le> 12 \<and> 1 \<le> d \<and> int d \<le> days_in_month (int y) (int m)
             then Some (days_of_civil (int y) (int m) (int d) * Day) else None
         | _ \<Rightarrow> None)
      else None)"

section \<open>Durations as text\<close>

text \<open>\<open>time.Duration.String\<close>: the fraction without trailing zeros, then the units.\<close>

definition duration_fraction :: "nat \<Rightarrow> int \<Rightarrow> string" where
  "duration_fraction places v =
     (let digits = rev (dropWhile (\<lambda>c. c = CHR ''0'') (rev (pad places (v mod 10 ^ places))))
      in if digits = [] then [] else CHR ''.'' # digits)"

definition micro_sign :: string where "micro_sign = [CHR 0xC2, CHR 0xB5]"

definition duration_text :: "duration \<Rightarrow> string" where
  "duration_text u =
     (if u = 0 then ''0s''
      else if u < 1000 then Itoa u @ ''ns''
      else if u < 1000000 then Itoa (u div 1000) @ duration_fraction 3 u @ micro_sign @ ''s''
      else if u < Second then Itoa (u div 1000000) @ duration_fraction 6 u @ ''ms''
      else let secs = u div Second; mins = secs div 60; tail = Itoa (secs mod 60) @ duration_fraction 9 u @ ''s'' in
        if mins = 0 then tail
        else if mins div 60 = 0 then Itoa mins @ ''m'' @ tail
        else Itoa (mins div 60) @ ''h'' @ Itoa (mins mod 60) @ ''m'' @ tail)"

definition duration_String :: "duration \<Rightarrow> string" where
  "duration_String d = (if d < 0 then CHR ''-'' # duration_text (- d) else duration_text d)"

text \<open>\<open>d.Round(m)\<close>: half away from zero, saturating as the library does.\<close>

definition RoundTo :: "duration \<Rightarrow> duration \<Rightarrow> duration" where
  "RoundTo m d =
     (let r = \<bar>d\<bar> mod m in
      if d < 0 then (if 2 * r < m then d + r else if d - m + r < min_int64 then min_int64 else d - m + r)
      else (if 2 * r < m then d - r else if d + m - r > max_int64 then max_int64 else d + m - r))"

end
