(* ===== verification/Guard.thy ===== *)
theory Guard
  imports Go_Time
begin

text \<open>
  The account guard's decision logic, \<open>internal/guard/guard.go\<close>: one definition per function
  of the file, in its order.

  The state is the persisted \<open>State\<close>: one \<open>AccountState\<close> per provider key, and the ring of
  request tokens already consumed with the set that mirrors it. A Go map from keys to pointers
  is a partial function here; a key with a nil pointer behaves like an absent key everywhere in
  the file, so both are \<open>None\<close>. \<open>Advance\<close> is \<open>count\<close> (fold the samples into the streaks) followed
  by \<open>decide\<close> (walk the accounts, at most one decision each), and \<open>AdoptOwnership\<close> is the
  reconciliation with the audit trail. Counters are unbounded integers; \<open>float64\<close> arithmetic
  of the backoff is exact real arithmetic, which is what the hardware computes while the capped
  value in nanoseconds is below \<open>2 ^ 53\<close> (a cap of about 104 days).
\<close>

section \<open>Constants\<close>

definition defaultThreshold :: int where "defaultThreshold = 3"
definition defaultMinEnabled :: int where "defaultMinEnabled = 1"
definition defaultReenableMinutes :: int where "defaultReenableMinutes = 5"
definition defaultMaxDisableMinutes :: int where "defaultMaxDisableMinutes = 360"
definition seenLimit :: nat where "seenLimit = 4096"
definition channelMemory :: nat where "channelMemory = 5"

definition ActionDisable :: string where "ActionDisable = ''disable''"
definition ActionEnable :: string where "ActionEnable = ''enable''"
definition ActionDisableDry :: string where "ActionDisableDry = ''disable_dry_run''"
definition ActionEnableExternal :: string where "ActionEnableExternal = ''enable_external''"

lemmas action_defs = ActionDisable_def ActionEnable_def ActionDisableDry_def ActionEnableExternal_def

lemma actions_distinct [simp]:
  "ActionDisable \<noteq> ActionEnable" "ActionEnable \<noteq> ActionDisable"
  "ActionDisable \<noteq> ActionDisableDry" "ActionDisableDry \<noteq> ActionDisable"
  "ActionDisable \<noteq> ActionEnableExternal" "ActionEnableExternal \<noteq> ActionDisable"
  "ActionEnable \<noteq> ActionDisableDry" "ActionDisableDry \<noteq> ActionEnable"
  "ActionEnable \<noteq> ActionEnableExternal" "ActionEnableExternal \<noteq> ActionEnable"
  "ActionDisableDry \<noteq> ActionEnableExternal" "ActionEnableExternal \<noteq> ActionDisableDry"
  by (simp_all add: action_defs)

definition stateVersion :: int where "stateVersion = 1"

section \<open>Data\<close>

record Options =
  opt_Enabled :: bool
  opt_DryRun :: bool
  opt_Threshold :: int
  opt_MinEnabled :: int
  opt_ScopeNames :: "string list"
  opt_ReenableMinutes :: int
  opt_MaxDisableMinutes :: int
  opt_Baseline :: string

record Account =
  acc_Name :: string
  acc_ProviderKey :: string
  acc_Disabled :: bool

record Sample =
  smp_Time :: time
  smp_RequestID :: string
  smp_ProviderKey :: string
  smp_Channel :: string

record Decision =
  dec_Time :: time
  dec_Name :: string
  dec_ProviderKey :: string
  dec_Action :: string
  dec_Streak :: int
  dec_Baseline :: string
  dec_Channels :: "string list"
  dec_Reason :: string

record AccountState =
  as_Name :: string
  as_Streak :: int
  as_Channels :: "string list"
  as_DisabledByGuard :: bool
  as_DisableCount :: int
  as_NextRetryAt :: "time option"
  as_LastChannel :: string
  as_LastSampleAt :: "time option"
  as_DryRunReported :: bool

record State =
  st_Version :: int
  st_Accounts :: "string \<rightharpoonup> AccountState"
  st_Seen :: "string list"
  st_seen :: "string set option"

definition empty_account :: AccountState where
  "empty_account = \<lparr>as_Name = [], as_Streak = 0, as_Channels = [], as_DisabledByGuard = False,
     as_DisableCount = 0, as_NextRetryAt = None, as_LastChannel = [], as_LastSampleAt = None,
     as_DryRunReported = False\<rparr>"

definition NewState :: State where
  "NewState = \<lparr>st_Version = stateVersion, st_Accounts = Map.empty, st_Seen = [], st_seen = Some {}\<rparr>"

section \<open>Keys, options, scope\<close>

definition normalizeKey :: "string \<Rightarrow> string" where
  "normalizeKey value = ToLower (TrimSpace value)"

definition normalized :: "Options \<Rightarrow> Options" where
  "normalized o1 =
     (let o2 = (if opt_Threshold o1 \<le> 0 then o1\<lparr>opt_Threshold := defaultThreshold\<rparr> else o1);
          o3 = (if opt_MinEnabled o2 \<le> 0 then o2\<lparr>opt_MinEnabled := defaultMinEnabled\<rparr> else o2);
          o4 = (if opt_ReenableMinutes o3 < 0 then o3\<lparr>opt_ReenableMinutes := defaultReenableMinutes\<rparr> else o3);
          o5 = (if opt_MaxDisableMinutes o4 \<le> 0 then o4\<lparr>opt_MaxDisableMinutes := defaultMaxDisableMinutes\<rparr> else o4)
      in o5)"

definition canJudge :: "Options \<Rightarrow> bool" where
  "canJudge opts \<longleftrightarrow> opt_Enabled opts \<and> TrimSpace (opt_Baseline opts) \<noteq> []"

text \<open>\<open>None\<close> is the nil map: every account is in scope.\<close>

definition scopeSet :: "Options \<Rightarrow> string set option" where
  "scopeSet opts =
     (if opt_ScopeNames opts = [] then None
      else let names = set (filter (\<lambda>k. k \<noteq> []) (map normalizeKey (opt_ScopeNames opts)))
           in if names = {} then None else Some names)"

definition inScope :: "string set option \<Rightarrow> string \<Rightarrow> bool" where
  "inScope scope name = (case scope of None \<Rightarrow> True | Some names \<Rightarrow> normalizeKey name \<in> names)"

text \<open>
  \<open>uniqueAccounts\<close> keeps the first entry per key and drops the entries without one; \<open>seen\<close> is
  its local set.
\<close>

fun uniqueAccounts_from :: "string set \<Rightarrow> Account list \<Rightarrow> Account list" where
  "uniqueAccounts_from seen [] = []"
| "uniqueAccounts_from seen (account # rest) =
     (let key = normalizeKey (acc_ProviderKey account) in
      if key = [] then uniqueAccounts_from seen rest
      else if key \<in> seen then uniqueAccounts_from seen rest
      else account # uniqueAccounts_from (insert key seen) rest)"

definition uniqueAccounts :: "Account list \<Rightarrow> Account list" where
  "uniqueAccounts accounts = uniqueAccounts_from {} accounts"

fun build_index :: "(string \<rightharpoonup> Account) \<Rightarrow> Account list \<Rightarrow> (string \<rightharpoonup> Account)" where
  "build_index m [] = m"
| "build_index m (account # rest) =
     (let key = normalizeKey (acc_ProviderKey account)
      in build_index (if key \<noteq> [] then m(key \<mapsto> account) else m) rest)"

definition appendBounded :: "string list \<Rightarrow> string \<Rightarrow> nat \<Rightarrow> string list" where
  "appendBounded xs value limit =
     (let ys = xs @ [value] in if length ys > limit then drop (length ys - limit) ys else ys)"

section \<open>The state's slots and the token ring\<close>

definition account :: "State \<Rightarrow> string \<Rightarrow> AccountState" where
  "account s key = (case st_Accounts s key of None \<Rightarrow> empty_account | Some a \<Rightarrow> a)"

definition put_account :: "State \<Rightarrow> string \<Rightarrow> AccountState \<Rightarrow> State" where
  "put_account s key a = s\<lparr>st_Accounts := (st_Accounts s)(key \<mapsto> a)\<rparr>"

definition hydrate :: "State \<Rightarrow> State" where
  "hydrate s = s\<lparr>st_seen := Some (set (st_Seen s)),
     st_Version := (if st_Version s = 0 then stateVersion else st_Version s)\<rparr>"

definition hydrated :: "State \<Rightarrow> State" where
  "hydrated s = (case st_seen s of None \<Rightarrow> hydrate s | Some _ \<Rightarrow> s)"

definition seen_set :: "State \<Rightarrow> string set" where
  "seen_set s = (case st_seen s of None \<Rightarrow> {} | Some m \<Rightarrow> m)"

definition markSeen :: "State \<Rightarrow> string \<Rightarrow> bool \<times> State" where
  "markSeen s0 token =
     (let s = hydrated s0 in
      if token \<in> seen_set s then (True, s)
      else let seen = insert token (seen_set s); ring = st_Seen s @ [token] in
        if length ring > seenLimit then
          let d = length ring - seenLimit in
          (False, s\<lparr>st_seen := Some (seen - set (take d ring)), st_Seen := drop d ring\<rparr>)
        else (False, s\<lparr>st_seen := Some seen, st_Seen := ring\<rparr>))"

definition sampleToken :: "Sample \<Rightarrow> string \<Rightarrow> string" where
  "sampleToken sample key =
     (let id = TrimSpace (smp_RequestID sample)
      in if id \<noteq> [] then key @ ''|'' @ id
         else key @ ''@'' @ FormatRFC3339Nano (smp_Time sample))"

section \<open>count\<close>

definition count_channel :: "string \<Rightarrow> string \<Rightarrow> time \<Rightarrow> AccountState \<Rightarrow> AccountState" where
  "count_channel baseline channel stamp state0 =
     (let state = state0\<lparr>as_LastChannel := channel, as_LastSampleAt := Some stamp\<rparr> in
      if EqualFold channel baseline
      then state\<lparr>as_Streak := 0, as_Channels := [], as_DryRunReported := False\<rparr>
      else state\<lparr>as_Streak := as_Streak state + 1,
                 as_Channels := appendBounded (as_Channels state) channel channelMemory\<rparr>)"

definition count_sample :: "(string \<rightharpoonup> Account) \<Rightarrow> string \<Rightarrow> State \<Rightarrow> Sample \<Rightarrow> State" where
  "count_sample index baseline s sample =
     (let key = normalizeKey (smp_ProviderKey sample) in
      if key = [] then s
      else case index key of
        None \<Rightarrow> s
      | Some acct \<Rightarrow>
          let channel = TrimSpace (smp_Channel sample) in
          if channel = [] then s
          else let (before, s1) = markSeen s (sampleToken sample key) in
            if before then s1
            else let state = account s1 key;
                     named = (if as_Name state = [] then state\<lparr>as_Name := acc_Name acct\<rparr> else state)
                 in put_account s1 key (count_channel baseline channel (smp_Time sample) named))"

definition count :: "Sample list \<Rightarrow> (string \<rightharpoonup> Account) \<Rightarrow> Options \<Rightarrow> State \<Rightarrow> State" where
  "count samples index opts s = foldl (count_sample index (TrimSpace (opt_Baseline opts))) s samples"

section \<open>decide\<close>

definition msg_recover_a :: string where
  "msg_recover_a = [CHR 0xE9, CHR 0x80, CHR 0x80, CHR 0xE9, CHR 0x81, CHR 0xBF, CHR 0xE5, CHR 0x88, CHR 0xB0,
    CHR 0xE6, CHR 0x9C, CHR 0x9F, CHR 0xEF, CHR 0xBC, CHR 0x88, CHR 0xE7, CHR 0xAC, CHR 0xAC,
    CHR 0x20]"

definition msg_recover_b :: string where
  "msg_recover_b = [CHR 0x20, CHR 0xE6, CHR 0xAC, CHR 0xA1, CHR 0xE7, CHR 0xA6, CHR 0x81, CHR 0xE7, CHR 0x94,
    CHR 0xA8, CHR 0xE5, CHR 0x90, CHR 0x8E, CHR 0xEF, CHR 0xBC, CHR 0x89, CHR 0xEF, CHR 0xBC,
    CHR 0x8C, CHR 0xE6, CHR 0x81, CHR 0xA2, CHR 0xE5, CHR 0xA4, CHR 0x8D, CHR 0xE8, CHR 0xAF,
    CHR 0xA5, CHR 0xE8, CHR 0xB4, CHR 0xA6, CHR 0xE5, CHR 0x8F, CHR 0xB7]"

definition msg_external :: string where
  "msg_external = [CHR 0xE8, CHR 0xAF, CHR 0xA5, CHR 0xE8, CHR 0xB4, CHR 0xA6, CHR 0xE5, CHR 0x8F, CHR 0xB7,
    CHR 0xE5, CHR 0xB7, CHR 0xB2, CHR 0xE8, CHR 0xA2, CHR 0xAB, CHR 0xE4, CHR 0xBA, CHR 0xBA,
    CHR 0xE5, CHR 0xB7, CHR 0xA5, CHR 0xE6, CHR 0x94, CHR 0xBE, CHR 0xE5, CHR 0x9B, CHR 0x9E,
    CHR 0xEF, CHR 0xBC, CHR 0x8C, CHR 0xE5, CHR 0xAE, CHR 0x88, CHR 0xE5, CHR 0x8D, CHR 0xAB,
    CHR 0xE8, CHR 0xA7, CHR 0xA3, CHR 0xE9, CHR 0x99, CHR 0xA4, CHR 0xE6, CHR 0x8E, CHR 0xA5,
    CHR 0xE7, CHR 0xAE, CHR 0xA1]"

definition msg_dry_a :: string where
  "msg_dry_a = [CHR 0x64, CHR 0x72, CHR 0x79, CHR 0x2D, CHR 0x72, CHR 0x75, CHR 0x6E, CHR 0xEF, CHR 0xBC,
    CHR 0x9A, CHR 0xE8, CHR 0xBF, CHR 0x9E, CHR 0xE7, CHR 0xBB, CHR 0xAD, CHR 0x20]"

definition msg_streak_a :: string where
  "msg_streak_a = [CHR 0xE8, CHR 0xBF, CHR 0x9E, CHR 0xE7, CHR 0xBB, CHR 0xAD, CHR 0x20]"

definition msg_streak_b :: string where
  "msg_streak_b = [CHR 0x20, CHR 0xE6, CHR 0xAC, CHR 0xA1, CHR 0xE7, CHR 0x9C, CHR 0x9F, CHR 0xE5, CHR 0xAE,
    CHR 0x9E, CHR 0xE6, CHR 0xB8, CHR 0xA0, CHR 0xE9, CHR 0x81, CHR 0x93, CHR 0xE4, CHR 0xB8,
    CHR 0x8D, CHR 0xE6, CHR 0x98, CHR 0xAF, CHR 0xE5, CHR 0x9F, CHR 0xBA, CHR 0xE5, CHR 0x87,
    CHR 0x86, CHR 0xE6, CHR 0xB8, CHR 0xA0, CHR 0xE9, CHR 0x81, CHR 0x93, CHR 0x20]"

definition msg_dry_c :: string where
  "msg_dry_c = [CHR 0xEF, CHR 0xBC, CHR 0x8C, CHR 0xE6, CHR 0x9C, CHR 0xAC, CHR 0xE5, CHR 0xBA, CHR 0x94,
    CHR 0xE7, CHR 0xA6, CHR 0x81, CHR 0xE7, CHR 0x94, CHR 0xA8, CHR 0xE8, CHR 0xAF, CHR 0xA5,
    CHR 0xE8, CHR 0xB4, CHR 0xA6, CHR 0xE5, CHR 0x8F, CHR 0xB7]"

definition msg_disable_c :: string where
  "msg_disable_c = [CHR 0xEF, CHR 0xBC, CHR 0x8C, CHR 0xE7, CHR 0xA6, CHR 0x81, CHR 0xE7, CHR 0x94, CHR 0xA8,
    CHR 0xE8, CHR 0xAF, CHR 0xA5, CHR 0xE8, CHR 0xB4, CHR 0xA6, CHR 0xE5, CHR 0x8F, CHR 0xB7]"

definition trunc :: "real \<Rightarrow> int" where
  "trunc x = (if x < 0 then \<lceil>x\<rceil> else \<lfloor>x\<rfloor>)"

definition backoffNext :: "time \<Rightarrow> int \<Rightarrow> Options \<Rightarrow> time option" where
  "backoffNext now disableCount opts =
     (if opt_ReenableMinutes opts = 0 then None
      else let m = real_of_int (opt_ReenableMinutes opts) * 2 powi (disableCount - 1);
               minutes = (if m > real_of_int (opt_MaxDisableMinutes opts)
                          then real_of_int (opt_MaxDisableMinutes opts) else m)
           in Some (now + trunc (minutes * real_of_int Minute)))"

definition clear_streak :: "AccountState \<Rightarrow> AccountState" where
  "clear_streak a = a\<lparr>as_Streak := 0, as_Channels := [], as_DryRunReported := False\<rparr>"

definition decision :: "time \<Rightarrow> Options \<Rightarrow> Account \<Rightarrow> AccountState \<Rightarrow> string \<Rightarrow> string \<Rightarrow> Decision" where
  "decision now opts acct state action reason =
     \<lparr>dec_Time = now, dec_Name = acc_Name acct, dec_ProviderKey = acc_ProviderKey acct,
      dec_Action = action, dec_Streak = as_Streak state, dec_Baseline = TrimSpace (opt_Baseline opts),
      dec_Channels = as_Channels state, dec_Reason = reason\<rparr>"

text \<open>
  One iteration of the loop of \<open>decide\<close>: the account's new memory, the updated number of
  disables of this round and the decision, if there is one.
\<close>

definition decide_account ::
  "time \<Rightarrow> Options \<Rightarrow> string set option \<Rightarrow> int \<Rightarrow> int \<Rightarrow> Account \<Rightarrow> AccountState \<Rightarrow>
   AccountState \<times> int \<times> Decision list" where
  "decide_account now opts scope enabledInScope disables acct state0 =
     (let state = state0\<lparr>as_Name := acc_Name acct\<rparr> in
      if acc_Disabled acct \<and> as_DisabledByGuard state then
        (case as_NextRetryAt state of
           None \<Rightarrow> (state, disables, [])
         | Some retry \<Rightarrow>
             if Before now retry then (state, disables, [])
             else ((clear_streak state)\<lparr>as_DisabledByGuard := False, as_NextRetryAt := None\<rparr>, disables,
                   [decision now opts acct state ActionEnable
                      (msg_recover_a @ Itoa (as_DisableCount state) @ msg_recover_b)]))
      else if \<not> acc_Disabled acct \<and> as_DisabledByGuard state then
        ((clear_streak state)\<lparr>as_DisabledByGuard := False, as_DisableCount := 0, as_NextRetryAt := None\<rparr>,
         disables, [decision now opts acct state ActionEnableExternal msg_external])
      else if acc_Disabled acct \<and> \<not> as_DisabledByGuard state then
        (clear_streak state, disables, [])
      else if \<not> canJudge opts \<or> \<not> inScope scope (acc_Name acct) \<or> as_Streak state < opt_Threshold opts then
        (state, disables, [])
      else if opt_DryRun opts then
        (if as_DryRunReported state then (state, disables, [])
         else (state\<lparr>as_DryRunReported := True\<rparr>, disables,
               [decision now opts acct state ActionDisableDry
                  (msg_dry_a @ Itoa (as_Streak state) @ msg_streak_b @ TrimSpace (opt_Baseline opts) @ msg_dry_c)]))
      else if enabledInScope - disables \<le> opt_MinEnabled opts then (state, disables, [])
      else (state\<lparr>as_DisabledByGuard := True, as_DisableCount := as_DisableCount state + 1,
                  as_NextRetryAt := backoffNext now (as_DisableCount state + 1) opts\<rparr>,
            disables + 1,
            [decision now opts acct state ActionDisable
               (msg_streak_a @ Itoa (as_Streak state) @ msg_streak_b @ TrimSpace (opt_Baseline opts) @ msg_disable_c)]))"

fun decide_loop ::
  "time \<Rightarrow> Options \<Rightarrow> string set option \<Rightarrow> int \<Rightarrow> Account list \<Rightarrow> State \<Rightarrow> int \<Rightarrow> State \<times> Decision list" where
  "decide_loop now opts scope enabledInScope [] s disables = (s, [])"
| "decide_loop now opts scope enabledInScope (acct # rest) s disables =
     (let key = normalizeKey (acc_ProviderKey acct) in
      if key = [] then decide_loop now opts scope enabledInScope rest s disables
      else let (state, disables', ds) =
                 decide_account now opts scope enabledInScope disables acct (account s key);
               (s', ds') = decide_loop now opts scope enabledInScope rest (put_account s key state) disables'
           in (s', ds @ ds'))"

definition enabledInScope :: "string set option \<Rightarrow> Account list \<Rightarrow> int" where
  "enabledInScope scope accounts =
     int (length (filter (\<lambda>a. inScope scope (acc_Name a) \<and> \<not> acc_Disabled a) accounts))"

definition decide :: "Account list \<Rightarrow> time \<Rightarrow> Options \<Rightarrow> State \<Rightarrow> State \<times> Decision list" where
  "decide accounts now opts s =
     (let scope = scopeSet opts
      in decide_loop now opts scope (enabledInScope scope accounts) accounts s 0)"

section \<open>Advance and AdoptOwnership\<close>

definition Advance :: "Sample list \<Rightarrow> Account list \<Rightarrow> time \<Rightarrow> Options \<Rightarrow> State \<Rightarrow> State \<times> Decision list" where
  "Advance samples accounts now opts0 s0 =
     (let opts = normalized opts0;
          unique = uniqueAccounts accounts;
          index = build_index Map.empty unique;
          s = (if canJudge opts then count samples index opts s0 else s0)
      in decide unique now opts s)"

fun last_by_key :: "(string \<rightharpoonup> Decision) \<Rightarrow> Decision list \<Rightarrow> (string \<rightharpoonup> Decision)" where
  "last_by_key m [] = m"
| "last_by_key m (d # rest) =
     (let key = normalizeKey (dec_ProviderKey d)
      in last_by_key (if key = [] then m else m(key \<mapsto> d)) rest)"

definition adopt_account ::
  "time \<Rightarrow> Options \<Rightarrow> (string \<rightharpoonup> Decision) \<Rightarrow> Account \<Rightarrow> AccountState \<Rightarrow> AccountState \<times> string list" where
  "adopt_account now opts lastDec acct state =
     (if as_DisabledByGuard state then (state, [])
      else case lastDec (normalizeKey (acc_ProviderKey acct)) of
        None \<Rightarrow> (state, [])
      | Some d \<Rightarrow>
          if dec_Action d \<noteq> ActionDisable then (state, [])
          else let n = (if as_DisableCount state < 1 then 1 else as_DisableCount state) in
            (state\<lparr>as_Name := acc_Name acct, as_DisabledByGuard := True, as_DisableCount := n,
                   as_NextRetryAt := backoffNext now n opts\<rparr>, [acc_Name acct]))"

fun adopt_loop ::
  "time \<Rightarrow> Options \<Rightarrow> (string \<rightharpoonup> Decision) \<Rightarrow> Account list \<Rightarrow> State \<Rightarrow> State \<times> string list" where
  "adopt_loop now opts lastDec [] s = (s, [])"
| "adopt_loop now opts lastDec (acct # rest) s =
     (let key = normalizeKey (acc_ProviderKey acct) in
      if key = [] \<or> \<not> acc_Disabled acct then adopt_loop now opts lastDec rest s
      else let (state, names) = adopt_account now opts lastDec acct (account s key);
               (s', names') = adopt_loop now opts lastDec rest (put_account s key state)
           in (s', names @ names'))"

definition AdoptOwnership ::
  "Account list \<Rightarrow> Decision list \<Rightarrow> time \<Rightarrow> Options \<Rightarrow> State \<Rightarrow> State \<times> string list" where
  "AdoptOwnership accounts audit now opts0 s =
     adopt_loop now (normalized opts0) (last_by_key Map.empty audit) (uniqueAccounts accounts) s"

end
