(* ===== verification/Guard_Laws.thy ===== *)
theory Guard_Laws
  imports Guard
begin

text \<open>
  What makes the guard correct. The theory first shows that its two small data structures
  implement the shared interfaces (\<open>keep_last\<close>, \<open>bounded_memory\<close>), then gives the branch
  equations of one step of \<open>decide\<close>, the invariant of the state and its preservation, and the
  loop rules that let a property of one account be read off a whole round.
\<close>

section \<open>Keys, options, accounts\<close>

lemma normalizeKey_idem [simp]: "normalizeKey (normalizeKey x) = normalizeKey x"
  by (simp add: normalizeKey_def TrimSpace_lower)

lemma normalizeKey_Nil [simp]: "normalizeKey [] = []"
  by (simp add: normalizeKey_def)

lemma normalized_bounds:
  "1 \<le> opt_Threshold (normalized o1)" "1 \<le> opt_MinEnabled (normalized o1)"
  "0 \<le> opt_ReenableMinutes (normalized o1)" "1 \<le> opt_MaxDisableMinutes (normalized o1)"
  by (auto simp: normalized_def Let_def defaultThreshold_def defaultMinEnabled_def
      defaultReenableMinutes_def defaultMaxDisableMinutes_def)

lemma normalized_frame [simp, frame_simps]:
  "opt_Enabled (normalized o1) = opt_Enabled o1" "opt_DryRun (normalized o1) = opt_DryRun o1"
  "opt_ScopeNames (normalized o1) = opt_ScopeNames o1" "opt_Baseline (normalized o1) = opt_Baseline o1"
  by (simp_all add: normalized_def Let_def)

lemma normalized_idem [simp]: "normalized (normalized o1) = normalized o1"
proof -
  have fixed: "normalized o2 = o2"
    if "1 \<le> opt_Threshold o2" "1 \<le> opt_MinEnabled o2" "0 \<le> opt_ReenableMinutes o2"
      "1 \<le> opt_MaxDisableMinutes o2" for o2
    using that by (simp add: normalized_def Let_def)
  show ?thesis by (rule fixed) (rule normalized_bounds)+
qed

lemma scopeSet_normalized [simp]: "scopeSet (normalized o1) = scopeSet o1"
  by (simp add: scopeSet_def)

lemma canJudge_normalized [simp]: "canJudge (normalized o1) = canJudge o1"
  by (simp add: canJudge_def)

definition akey :: "Account \<Rightarrow> string" where
  "akey a = normalizeKey (acc_ProviderKey a)"

lemma uniqueAccounts_from_keys:
  "set (map akey (uniqueAccounts_from S as)) \<inter> (S \<union> {[]}) = {} \<and>
   distinct (map akey (uniqueAccounts_from S as)) \<and> set (uniqueAccounts_from S as) \<subseteq> set as"
  by (induction S as rule: uniqueAccounts_from.induct) (force simp: Let_def akey_def)+

lemma uniqueAccounts_distinct: "distinct (map akey (uniqueAccounts as))"
  using uniqueAccounts_from_keys [of "{}" as] by (simp add: uniqueAccounts_def)

lemma uniqueAccounts_nonempty: "a \<in> set (uniqueAccounts as) \<Longrightarrow> akey a \<noteq> []"
  using uniqueAccounts_from_keys [of "{}" as] by (auto simp: uniqueAccounts_def) (metis imageI)

lemma uniqueAccounts_subset: "set (uniqueAccounts as) \<subseteq> set as"
  using uniqueAccounts_from_keys [of "{}" as] by (simp add: uniqueAccounts_def)

lemma uniqueAccounts_from_covers:
  "a \<in> set as \<Longrightarrow> akey a \<noteq> [] \<Longrightarrow> akey a \<notin> S \<Longrightarrow> akey a \<in> akey ` set (uniqueAccounts_from S as)"
proof (induction as arbitrary: S)
  case (Cons b rest)
  then show ?case
    by (cases "akey b = []"; cases "akey b \<in> S"; cases "akey a = akey b")
      (auto simp: Let_def akey_def)
qed simp

lemma uniqueAccounts_covers:
  "a \<in> set as \<Longrightarrow> akey a \<noteq> [] \<Longrightarrow> akey a \<in> akey ` set (uniqueAccounts as)"
  by (simp add: uniqueAccounts_def uniqueAccounts_from_covers)

lemma uniqueAccounts_from_distinct:
  "distinct (map akey as) \<Longrightarrow> [] \<notin> set (map akey as) \<Longrightarrow> set (map akey as) \<inter> S = {} \<Longrightarrow>
   uniqueAccounts_from S as = as"
  by (induction S as rule: uniqueAccounts_from.induct) (auto simp: Let_def akey_def)

lemma uniqueAccounts_id:
  "distinct (map akey as) \<Longrightarrow> [] \<notin> set (map akey as) \<Longrightarrow> uniqueAccounts as = as"
  by (simp add: uniqueAccounts_def uniqueAccounts_from_distinct)

lemma build_index_unique:
  "distinct (map akey as) \<Longrightarrow> a \<in> set as \<Longrightarrow> akey a \<noteq> [] \<Longrightarrow>
   build_index m as (akey a) = Some a"
proof (induction m as rule: build_index.induct)
  case (2 m b rest)
  have other: "k \<notin> akey ` set xs \<Longrightarrow> build_index m' xs k = m' k" for m' xs k
    by (induction m' xs rule: build_index.induct) (auto simp: Let_def akey_def)
  show ?case
  proof (cases "a = b")
    case True
    with 2 other [of "akey a" rest] show ?thesis by (auto simp: Let_def akey_def)
  next
    case False
    with 2 show ?thesis by (auto simp: Let_def akey_def)
  qed
qed simp

section \<open>The two data structures meet their interfaces\<close>

interpretation chan: keep_last channelMemory "\<lambda>xs x. appendBounded xs x channelMemory"
  by unfold_locales (simp add: appendBounded_def lastn_def Let_def)

definition ring_inv :: "State \<Rightarrow> bool" where
  "ring_inv s \<longleftrightarrow> distinct (st_Seen s) \<and> length (st_Seen s) \<le> seenLimit \<and>
     (st_seen s = None \<or> st_seen s = Some (set (st_Seen s)))"

lemma hydrated_frame [simp, frame_simps]:
  "st_Accounts (hydrated s) = st_Accounts s" "st_Seen (hydrated s) = st_Seen s"
  by (simp_all add: hydrated_def hydrate_def split: option.split)

lemma hydrated_idem [simp]: "hydrated (hydrated s) = hydrated s"
  by (simp add: hydrated_def hydrate_def split: option.split)

lemma seen_set_hydrated: "ring_inv s \<Longrightarrow> seen_set (hydrated s) = set (st_Seen s)"
  by (auto simp: ring_inv_def seen_set_def hydrated_def hydrate_def split: option.split)

lemma ring_inv_hydrated: "ring_inv s \<Longrightarrow> ring_inv (hydrated s)"
  by (auto simp: ring_inv_def hydrated_def hydrate_def split: option.split)

lemma markSeen_fst: "ring_inv s \<Longrightarrow> fst (markSeen s k) \<longleftrightarrow> k \<in> set (st_Seen s)"
  by (simp add: markSeen_def Let_def seen_set_hydrated)

lemma markSeen_old: "ring_inv s \<Longrightarrow> k \<in> set (st_Seen s) \<Longrightarrow> markSeen s k = (True, hydrated s)"
  by (simp add: markSeen_def Let_def seen_set_hydrated)

lemma markSeen_Accounts [simp, frame_simps]: "st_Accounts (snd (markSeen s k)) = st_Accounts s"
  by (simp add: markSeen_def Let_def)

lemma markSeen_ring:
  "ring_inv s \<Longrightarrow> k \<notin> set (st_Seen s) \<Longrightarrow>
   st_Seen (snd (markSeen s k)) = lastn seenLimit (st_Seen s @ [k])"
  by (auto simp: markSeen_def Let_def seen_set_hydrated lastn_def)

lemma markSeen_inv: "ring_inv s \<Longrightarrow> ring_inv (snd (markSeen s k))"
proof (cases "k \<in> set (st_Seen s)")
  case True
  assume "ring_inv s"
  with True show ?thesis by (simp add: markSeen_old ring_inv_hydrated)
next
  case False
  assume s: "ring_inv s"
  let ?ring = "st_Seen s @ [k]"
  have d: "distinct ?ring" using s False by (simp add: ring_inv_def)
  then have m: "insert k (set (st_Seen s)) - set (take n ?ring) = set (drop n ?ring)" for n
    using set_minus_take [of ?ring n] by simp
  show ?thesis
    using s False d m [of "length ?ring - seenLimit"]
    by (auto simp: markSeen_def Let_def seen_set_hydrated ring_inv_def simp del: drop_append take_append)
qed

interpretation ring: bounded_memory ring_inv st_Seen "\<lambda>s k. fst (markSeen s k)"
  "\<lambda>s k. snd (markSeen s k)" seenLimit
proof unfold_locales
  show "0 < seenLimit" by (simp add: seenLimit_def)
next
  fix s :: State
  assume s: "ring_inv s"
  then show "distinct (st_Seen s)" "length (st_Seen s) \<le> seenLimit" by (simp_all add: ring_inv_def)
  fix k
  show "fst (markSeen s k) \<longleftrightarrow> k \<in> set (st_Seen s)" using s by (rule markSeen_fst)
  show "ring_inv (snd (markSeen s k))" using s by (rule markSeen_inv)
  show "st_Seen (snd (markSeen s k)) = st_Seen s" if "fst (markSeen s k)"
    using s that by (simp add: markSeen_fst markSeen_old)
  show "\<exists>d. st_Seen (snd (markSeen s k)) = drop d (st_Seen s @ [k]) \<and> d \<le> length (st_Seen s) \<and>
      (length (st_Seen s) < seenLimit \<longrightarrow> d = 0)" if "\<not> fst (markSeen s k)"
  proof (intro exI conjI)
    show "st_Seen (snd (markSeen s k)) = drop (Suc (length (st_Seen s)) - seenLimit) (st_Seen s @ [k])"
      using s that markSeen_ring [of s k] by (simp add: markSeen_fst lastn_def)
  qed (auto simp: seenLimit_def)
qed

text \<open>A run of new tokens leaves the newest \<open>seenLimit\<close> of them.\<close>

lemma ring_run:
  "ring_inv s \<Longrightarrow> distinct (st_Seen s @ ks) \<Longrightarrow>
   st_Seen (foldl (\<lambda>s k. snd (markSeen s k)) s ks) = lastn seenLimit (st_Seen s @ ks)"
proof (induction ks arbitrary: s)
  case Nil
  then show ?case by (simp add: ring_inv_def)
next
  case (Cons k ks)
  let ?s = "snd (markSeen s k)"
  have seen: "st_Seen ?s = lastn seenLimit (st_Seen s @ [k])"
    using Cons.prems by (simp add: markSeen_ring)
  have "distinct (st_Seen ?s @ ks)"
    unfolding seen
    using Cons.prems(2) set_lastn [of seenLimit "st_Seen s @ [k]"] distinct_lastn [of "st_Seen s @ [k]" seenLimit]
    by auto
  then have "st_Seen (foldl (\<lambda>s k. snd (markSeen s k)) ?s ks) = lastn seenLimit (st_Seen ?s @ ks)"
    using Cons.IH [of ?s] Cons.prems(1) by (simp add: markSeen_inv)
  then show ?case by (simp add: seen lastn_append_lastn)
qed

section \<open>Slots\<close>

lemma account_put [simp]: "account (put_account s k a) j = (if j = k then a else account s j)"
  by (simp add: account_def put_account_def)

lemma put_account_frame [simp, frame_simps]:
  "st_Seen (put_account s k a) = st_Seen s" "st_seen (put_account s k a) = st_seen s"
  "hydrated (put_account s k a) = put_account (hydrated s) k a"
  by (simp_all add: put_account_def hydrated_def hydrate_def split: option.split)

lemma account_hydrated [simp]: "account (hydrated s) k = account s k"
  by (simp add: account_def)

lemma account_markSeen [simp]: "account (snd (markSeen s t)) k = account s k"
  by (simp add: account_def)

lemma ring_inv_put [simp]: "ring_inv (put_account s k a) = ring_inv s"
  by (simp add: ring_inv_def)

section \<open>The invariant\<close>

text \<open>
  The memory of one account: the streak and its channel history move together, an account the
  guard owns has been disabled at least once and only an owned account carries a retry time, a
  dry-run report belongs to a running streak, and the newest remembered channel is the last one
  seen.
\<close>

definition acct_inv :: "AccountState \<Rightarrow> bool" where
  "acct_inv a \<longleftrightarrow>
     0 \<le> as_Streak a \<and> int (length (as_Channels a)) = min (int channelMemory) (as_Streak a) \<and>
     0 \<le> as_DisableCount a \<and>
     (as_DisabledByGuard a \<longrightarrow> 1 \<le> as_DisableCount a) \<and>
     (as_NextRetryAt a \<noteq> None \<longrightarrow> as_DisabledByGuard a) \<and>
     (as_DryRunReported a \<longrightarrow> 1 \<le> as_Streak a) \<and>
     (as_Channels a \<noteq> [] \<longrightarrow> last (as_Channels a) = as_LastChannel a)"

definition state_inv :: "State \<Rightarrow> bool" where
  "state_inv s \<longleftrightarrow> ring_inv s \<and> (\<forall>k. acct_inv (account s k))"

lemma acct_inv_empty [simp, inv_intros]: "acct_inv empty_account"
  by (simp add: acct_inv_def empty_account_def channelMemory_def)

lemma state_inv_New [inv_intros]: "state_inv NewState"
  by (simp add: state_inv_def ring_inv_def NewState_def account_def)

lemma acct_inv_clear [simp]: "acct_inv a \<Longrightarrow> acct_inv (clear_streak a)"
  by (simp add: acct_inv_def clear_streak_def)

lemma acct_inv_count_channel [inv_intros]:
  assumes "acct_inv a"
  shows "acct_inv (count_channel baseline channel t a)"
proof (cases "EqualFold channel baseline")
  case True
  with assms show ?thesis by (simp add: acct_inv_def count_channel_def Let_def)
next
  case False
  have b: "length (as_Channels a) \<le> channelMemory" using assms by (auto simp: acct_inv_def)
  then have "appendBounded (as_Channels a) channel channelMemory = lastn channelMemory (as_Channels a @ [channel])"
    by (rule chan.push_law)
  moreover have "last (lastn channelMemory (as_Channels a @ [channel])) = channel"
    by (subst last_lastn) (simp_all add: channelMemory_def)
  ultimately show ?thesis
    using False assms by (auto simp: acct_inv_def count_channel_def Let_def)
qed

lemma acct_inv_name [simp]: "acct_inv (a\<lparr>as_Name := x\<rparr>) = acct_inv a"
  by (simp add: acct_inv_def)

lemma acct_inv_decide [inv_intros]:
  assumes "acct_inv a" and "1 \<le> opt_Threshold opts"
  shows "acct_inv (fst (decide_account now opts scope e n acct a))"
  using assms
  by (auto simp: decide_account_def Let_def acct_inv_def clear_streak_def split: option.split)

lemma acct_inv_adopt [inv_intros]:
  assumes "acct_inv a"
  shows "acct_inv (fst (adopt_account now opts m acct a))"
  using assms
  by (auto simp: adopt_account_def Let_def acct_inv_def split: option.split)

section \<open>count\<close>

lemma count_sample_inv [inv_intros]:
  "state_inv s \<Longrightarrow> state_inv (count_sample index baseline s x)"
  by (auto simp: count_sample_def Let_def state_inv_def ring_inv_hydrated acct_inv_count_channel
      case_prod_beta markSeen_inv split: option.split)

lemma count_inv [inv_intros]: "state_inv s \<Longrightarrow> state_inv (count xs index opts s)"
  unfolding count_def by (induction xs arbitrary: s) (auto intro: count_sample_inv)

text \<open>Counting moves streaks and evidence; it never touches who owns a disabled account.\<close>

lemma count_channel_frame [simp, frame_simps]:
  "as_DisabledByGuard (count_channel b c t a) = as_DisabledByGuard a"
  "as_DisableCount (count_channel b c t a) = as_DisableCount a"
  "as_NextRetryAt (count_channel b c t a) = as_NextRetryAt a"
  "as_Name (count_channel b c t a) = as_Name a"
  by (simp_all add: count_channel_def Let_def)

lemma count_sample_frame:
  "as_DisabledByGuard (account (count_sample index b s x) k) = as_DisabledByGuard (account s k) \<and>
   as_DisableCount (account (count_sample index b s x) k) = as_DisableCount (account s k) \<and>
   as_NextRetryAt (account (count_sample index b s x) k) = as_NextRetryAt (account s k)"
  by (simp add: count_sample_def Let_def case_prod_beta split: option.split)

lemma count_frame [simp, frame_simps]:
  "as_DisabledByGuard (account (count xs index opts s) k) = as_DisabledByGuard (account s k)"
  "as_DisableCount (account (count xs index opts s) k) = as_DisableCount (account s k)"
  "as_NextRetryAt (account (count xs index opts s) k) = as_NextRetryAt (account s k)"
  unfolding count_def
  by (induction xs arbitrary: s) (simp_all add: count_sample_frame)

text \<open>A sample is judged when it names an account of this round and carries a channel.\<close>

definition judged :: "(string \<rightharpoonup> Account) \<Rightarrow> Sample \<Rightarrow> bool" where
  "judged index x \<longleftrightarrow> normalizeKey (smp_ProviderKey x) \<noteq> [] \<and>
     index (normalizeKey (smp_ProviderKey x)) \<noteq> None \<and> TrimSpace (smp_Channel x) \<noteq> []"

definition token :: "Sample \<Rightarrow> string" where
  "token x = sampleToken x (normalizeKey (smp_ProviderKey x))"

lemma count_sample_unjudged: "\<not> judged index x \<Longrightarrow> count_sample index b s x = s"
  by (auto simp: judged_def count_sample_def Let_def split: option.split)

lemma count_sample_old:
  "ring_inv s \<Longrightarrow> token x \<in> set (st_Seen s) \<Longrightarrow> judged index x \<Longrightarrow>
   count_sample index b s x = hydrated s"
  by (auto simp: judged_def token_def count_sample_def Let_def markSeen_old split: option.split)

lemma count_sample_new:
  assumes "ring_inv s" "token x \<notin> set (st_Seen s)" "judged index x"
  shows "\<exists>nm. count_sample index b s x =
    put_account (snd (markSeen s (token x))) (normalizeKey (smp_ProviderKey x))
      (count_channel b (TrimSpace (smp_Channel x)) (smp_Time x)
        ((account s (normalizeKey (smp_ProviderKey x)))\<lparr>as_Name := nm\<rparr>))"
proof -
  obtain acct where acct: "index (normalizeKey (smp_ProviderKey x)) = Some acct"
    using assms(3) by (auto simp: judged_def)
  have nf: "\<not> fst (markSeen s (token x))" using assms by (simp add: markSeen_fst)
  let ?a = "account s (normalizeKey (smp_ProviderKey x))"
  have "count_sample index b s x =
    put_account (snd (markSeen s (token x))) (normalizeKey (smp_ProviderKey x))
      (count_channel b (TrimSpace (smp_Channel x)) (smp_Time x)
        (?a\<lparr>as_Name := (if as_Name ?a = [] then acc_Name acct else as_Name ?a)\<rparr>))"
    using assms(3) acct nf
    by (simp add: judged_def count_sample_def Let_def case_prod_beta flip: token_def)
  then show ?thesis by blast
qed

text \<open>The ring after a batch is the ring after marking the tokens of its judged samples.\<close>

definition mark :: "State \<Rightarrow> string \<Rightarrow> State" where
  "mark s k = snd (markSeen s k)"

definition ring_eq :: "State \<Rightarrow> State \<Rightarrow> bool" where
  "ring_eq s t \<longleftrightarrow> st_Seen s = st_Seen t \<and> seen_set (hydrated s) = seen_set (hydrated t)"

lemma ring_eq_refl [simp]: "ring_eq s s"
  by (simp add: ring_eq_def)

lemma ring_eq_mark: "ring_eq s t \<Longrightarrow> ring_eq (snd (markSeen s k)) (snd (markSeen t k))"
  by (auto simp: ring_eq_def markSeen_def Let_def hydrated_def hydrate_def seen_set_def split: option.splits)

lemma ring_eq_put: "ring_eq (put_account s k a) t = ring_eq s t"
  by (simp add: ring_eq_def seen_set_def)

lemma count_sample_ring:
  "ring_inv s \<Longrightarrow> ring_eq s t \<Longrightarrow> judged index x \<Longrightarrow>
   ring_eq (count_sample index b s x) (mark t (token x))"
proof (cases "token x \<in> set (st_Seen s)")
  case True
  assume "ring_inv s" "ring_eq s t" "judged index x"
  with True show ?thesis
    using ring_eq_mark [of s t "token x"] by (simp add: count_sample_old markSeen_old mark_def)
next
  case False
  assume a: "ring_inv s" "ring_eq s t" "judged index x"
  then show ?thesis
    using count_sample_new [OF a(1) False a(3), of b] ring_eq_mark [of s t "token x"]
    by (auto simp: ring_eq_put mark_def)
qed

lemma count_sample_ring_inv: "ring_inv s \<Longrightarrow> ring_inv (count_sample index b s x)"
  by (auto simp: count_sample_def Let_def ring_inv_hydrated case_prod_beta markSeen_inv split: option.split)

lemma count_run_ring:
  assumes "ring_inv s" "ring_eq s t"
  shows "ring_inv (foldl (count_sample index b) s xs) \<and>
     ring_eq (foldl (count_sample index b) s xs) (foldl mark t (map token (filter (judged index) xs)))"
  using assms
proof (induction xs arbitrary: s t)
  case (Cons x xs)
  show ?case
  proof (cases "judged index x")
    case True
    with Cons.prems have "ring_eq (count_sample index b s x) (mark t (token x))"
      by (simp add: count_sample_ring)
    with True Cons.IH [of "count_sample index b s x" "mark t (token x)"] Cons.prems(1)
    show ?thesis by (simp add: count_sample_ring_inv)
  next
    case False
    with Cons show ?thesis by (simp add: count_sample_unjudged)
  qed
qed simp

lemma count_ring:
  assumes "ring_inv s"
  shows "st_Seen (count xs index opts s) = st_Seen (foldl mark s (map token (filter (judged index) xs)))"
  using count_run_ring [OF assms ring_eq_refl] by (simp add: count_def ring_eq_def)

lemma count_ring_inv: "ring_inv s \<Longrightarrow> ring_inv (count xs index opts s)"
  using count_run_ring [of s s] by (simp add: count_def)

end
