(* ===== verification/Guard_Rounds.thy ===== *)
theory Guard_Rounds
  imports Guard_Laws
begin

text \<open>
  From one step to a whole round. \<open>decide\<close> walks accounts with distinct keys, so the memory an
  account ends the round with, and the decision it gets, are those of its own step
  (\<open>decide_loop_slot\<close>); every decision comes from an account of the list (\<open>decide_loop_from\<close>);
  and the number of disables of a round is bounded by the accounts that must stay enabled
  (\<open>decide_loop_min\<close>).
\<close>

section \<open>One step of decide\<close>

lemma decide_account_name [simp]:
  "decide_account now opts scope e n acct (a\<lparr>as_Name := x\<rparr>) = decide_account now opts scope e n acct a"
  by (simp add: decide_account_def)

lemma decide_account_key:
  "d \<in> set (snd (snd (decide_account now opts scope e n acct a))) \<Longrightarrow>
   dec_ProviderKey d = acc_ProviderKey acct \<and> dec_Name d = acc_Name acct \<and> dec_Time d = now \<and>
   dec_Streak d = as_Streak a \<and> dec_Channels d = as_Channels a"
  by (auto simp: decide_account_def decision_def Let_def split: option.splits if_splits)

lemma decide_account_one: "length (snd (snd (decide_account now opts scope e n acct a))) \<le> 1"
  by (simp add: decide_account_def Let_def split: option.split)

definition isDisable :: "Decision \<Rightarrow> bool" where
  "isDisable d \<longleftrightarrow> dec_Action d = ActionDisable"

lemma decide_account_disables:
  "fst (snd (decide_account now opts scope e n acct a)) =
   n + int (length (filter isDisable (snd (snd (decide_account now opts scope e n acct a)))))"
  by (simp add: decide_account_def Let_def isDisable_def decision_def split: option.split)

lemma decide_account_min:
  "filter isDisable (snd (snd (decide_account now opts scope e n acct a))) \<noteq> [] \<Longrightarrow>
   opt_MinEnabled opts < e - n"
  by (simp add: decide_account_def Let_def isDisable_def decision_def split: option.splits if_splits)

text \<open>The guards of a disable, read off the decision.\<close>

lemma decide_account_disable:
  assumes "d \<in> set (snd (snd (decide_account now opts scope e n acct a)))" "isDisable d"
  shows "canJudge opts \<and> \<not> opt_DryRun opts \<and> inScope scope (acc_Name acct) \<and> \<not> acc_Disabled acct \<and>
    \<not> as_DisabledByGuard a \<and> opt_Threshold opts \<le> as_Streak a"
  using assms
  by (auto simp: decide_account_def Let_def isDisable_def decision_def split: option.splits if_splits)

text \<open>A disable records who owns the account, how often it was disabled and when to try again.\<close>

lemma decide_account_owns:
  assumes "d \<in> set (snd (snd (decide_account now opts scope e n acct a)))" "isDisable d"
  shows "as_DisabledByGuard (fst (decide_account now opts scope e n acct a)) \<and>
    as_DisableCount (fst (decide_account now opts scope e n acct a)) = as_DisableCount a + 1 \<and>
    as_NextRetryAt (fst (decide_account now opts scope e n acct a)) =
      backoffNext now (as_DisableCount a + 1) opts"
  using assms
  by (auto simp: decide_account_def Let_def isDisable_def decision_def split: option.splits if_splits)

lemma decide_account_recover [guard_simps]:
  assumes "acc_Disabled acct" "as_DisabledByGuard a"
  shows "decide_account now opts scope e n acct a =
    (case as_NextRetryAt a of
       None \<Rightarrow> (a\<lparr>as_Name := acc_Name acct\<rparr>, n, [])
     | Some retry \<Rightarrow> if now < retry then (a\<lparr>as_Name := acc_Name acct\<rparr>, n, [])
         else ((clear_streak a)\<lparr>as_Name := acc_Name acct, as_DisabledByGuard := False, as_NextRetryAt := None\<rparr>, n,
               [decision now opts acct a ActionEnable (msg_recover_a @ Itoa (as_DisableCount a) @ msg_recover_b)]))"
  using assms
  by (simp add: decide_account_def Let_def Before_def clear_streak_def decision_def split: option.split)

lemma decide_account_external [guard_simps]:
  assumes "\<not> acc_Disabled acct" "as_DisabledByGuard a"
  shows "decide_account now opts scope e n acct a =
    ((clear_streak a)\<lparr>as_Name := acc_Name acct, as_DisabledByGuard := False, as_DisableCount := 0,
        as_NextRetryAt := None\<rparr>, n, [decision now opts acct a ActionEnableExternal msg_external])"
  using assms by (simp add: decide_account_def Let_def clear_streak_def decision_def)

lemma decide_account_foreign [guard_simps]:
  assumes "acc_Disabled acct" "\<not> as_DisabledByGuard a"
  shows "decide_account now opts scope e n acct a = ((clear_streak a)\<lparr>as_Name := acc_Name acct\<rparr>, n, [])"
  using assms by (simp add: decide_account_def Let_def clear_streak_def)

lemma decide_account_dry:
  assumes "opt_DryRun opts"
  shows "filter isDisable (snd (snd (decide_account now opts scope e n acct a))) = []"
    and "as_DisabledByGuard (fst (decide_account now opts scope e n acct a)) \<Longrightarrow> as_DisabledByGuard a"
  using assms
  by (auto simp: decide_account_def Let_def isDisable_def decision_def clear_streak_def split: option.splits if_splits)

section \<open>The loop\<close>

lemma decide_loop_other:
  "k \<notin> akey ` set accts \<Longrightarrow>
   account (fst (decide_loop now opts scope e accts s n)) k = account s k"
  by (induction accts arbitrary: s n) (auto simp: Let_def akey_def case_prod_beta)

lemma decide_loop_from:
  "d \<in> set (snd (decide_loop now opts scope e accts s n)) \<Longrightarrow>
   \<exists>acct \<in> set accts. akey acct \<noteq> [] \<and> acc_ProviderKey acct = dec_ProviderKey d \<and> acc_Name acct = dec_Name d"
proof (induction accts arbitrary: s n)
  case (Cons acct rest)
  show ?case
  proof (cases "akey acct = []")
    case True
    with Cons show ?thesis by (fastforce simp: akey_def Let_def)
  next
    case False
    let ?r = "decide_account now opts scope e n acct (account s (akey acct))"
    have "d \<in> set (snd (snd ?r)) \<or>
      d \<in> set (snd (decide_loop now opts scope e rest (put_account s (akey acct) (fst ?r)) (fst (snd ?r))))"
      using Cons.prems False by (auto simp: akey_def Let_def case_prod_beta)
    then show ?thesis
    proof
      assume "d \<in> set (snd (snd ?r))"
      with False decide_account_key [OF this] show ?thesis by auto
    next
      assume "d \<in> set (snd (decide_loop now opts scope e rest (put_account s (akey acct) (fst ?r)) (fst (snd ?r))))"
      then show ?thesis using Cons.IH by fastforce
    qed
  qed
qed simp

lemma decide_loop_slot:
  assumes "distinct (map akey accts)" "acct \<in> set accts" "akey acct \<noteq> []"
  shows "\<exists>m \<ge> n. account (fst (decide_loop now opts scope e accts s n)) (akey acct) =
           fst (decide_account now opts scope e m acct (account s (akey acct))) \<and>
         filter (\<lambda>d. normalizeKey (dec_ProviderKey d) = akey acct)
             (snd (decide_loop now opts scope e accts s n)) =
           snd (snd (decide_account now opts scope e m acct (account s (akey acct))))"
  using assms
proof (induction accts arbitrary: s n)
  case (Cons b rest)
  let ?r = "decide_account now opts scope e n b (account s (akey b))"
  let ?s = "put_account s (akey b) (fst ?r)"
  let ?l = "decide_loop now opts scope e rest ?s (fst (snd ?r))"
  have grow: "n \<le> fst (snd ?r)" by (simp add: decide_account_disables)
  have head: "\<forall>d \<in> set (snd (snd ?r)). normalizeKey (dec_ProviderKey d) = akey b"
    using decide_account_key by (fastforce simp: akey_def)
  show ?case
  proof (cases "akey b = []")
    case True
    then have "acct \<in> set rest" using Cons.prems by auto
    with True Cons.IH [of n s] Cons.prems show ?thesis by (simp add: akey_def Let_def)
  next
    case False
    have loop: "decide_loop now opts scope e (b # rest) s n = (fst ?l, snd (snd ?r) @ snd ?l)"
      using False by (simp add: akey_def Let_def case_prod_beta)
    show ?thesis
    proof (cases "acct = b")
      case True
      then have out: "akey acct \<notin> akey ` set rest" using Cons.prems by auto
      have "filter (\<lambda>d. normalizeKey (dec_ProviderKey d) = akey acct) (snd ?l) = []"
      proof (rule filter_False, rule ballI, rule notI)
        fix d assume "d \<in> set (snd ?l)" "normalizeKey (dec_ProviderKey d) = akey acct"
        with out show False using decide_loop_from [of d] by (force simp: akey_def image_iff)
      qed
      moreover have "filter (\<lambda>d. normalizeKey (dec_ProviderKey d) = akey acct) (snd (snd ?r)) = snd (snd ?r)"
        using head True by (simp add: filter_id_conv)
      ultimately show ?thesis
        using True out by (auto simp: loop decide_loop_other intro!: exI [of _ n] simp del: decide_loop.simps)
    next
      case other: False
      then have "acct \<in> set rest" and ne: "akey b \<noteq> akey acct" using Cons.prems by auto
      then obtain m where m: "fst (snd ?r) \<le> m"
        "account (fst ?l) (akey acct) = fst (decide_account now opts scope e m acct (account ?s (akey acct)))"
        "filter (\<lambda>d. normalizeKey (dec_ProviderKey d) = akey acct) (snd ?l) =
           snd (snd (decide_account now opts scope e m acct (account ?s (akey acct))))"
        using Cons.IH [of "fst (snd ?r)" ?s] Cons.prems by auto
      have "filter (\<lambda>d. normalizeKey (dec_ProviderKey d) = akey acct) (snd (snd ?r)) = []"
        using head ne by (auto simp: filter_empty_conv)
      with m grow ne show ?thesis
        by (intro exI [of _ m]) (simp add: loop del: decide_loop.simps)
    qed
  qed
qed simp

lemma decide_loop_min:
  "0 < length (filter isDisable (snd (decide_loop now opts scope e accts s n))) \<Longrightarrow>
   opt_MinEnabled opts \<le>
     e - (n + int (length (filter isDisable (snd (decide_loop now opts scope e accts s n)))))"
proof (induction accts arbitrary: s n)
  case (Cons acct rest)
  let ?r = "decide_account now opts scope e n acct (account s (akey acct))"
  let ?l = "decide_loop now opts scope e rest (put_account s (akey acct) (fst ?r)) (fst (snd ?r))"
  show ?case
  proof (cases "akey acct = []")
    case True
    with Cons show ?thesis by (simp add: akey_def Let_def)
  next
    case False
    have loop: "decide_loop now opts scope e (acct # rest) s n = (fst ?l, snd (snd ?r) @ snd ?l)"
      using False by (simp add: akey_def Let_def case_prod_beta)
    have n: "fst (snd ?r) = n + int (length (filter isDisable (snd (snd ?r))))"
      by (rule decide_account_disables)
    have one: "length (filter isDisable (snd (snd ?r))) \<le> 1"
      using decide_account_one [of now opts scope e n acct] length_filter_le order_trans by blast
    show ?thesis
    proof (cases "filter isDisable (snd ?l) = []")
      case True
      with Cons.prems have "filter isDisable (snd (snd ?r)) \<noteq> []" by (simp add: loop del: decide_loop.simps)
      with decide_account_min [OF this] one True show ?thesis
        by (simp add: loop del: decide_loop.simps)
    next
      case False
      then have "opt_MinEnabled opts \<le> e - (fst (snd ?r) + int (length (filter isDisable (snd ?l))))"
        using Cons.IH [of "put_account s (akey acct) (fst ?r)" "fst (snd ?r)"] by simp
      with n show ?thesis by (simp add: loop del: decide_loop.simps)
    qed
  qed
qed simp

lemma decide_loop_inv:
  "state_inv s \<Longrightarrow> 1 \<le> opt_Threshold opts \<Longrightarrow>
   state_inv (fst (decide_loop now opts scope e accts s n))"
  by (induction accts arbitrary: s n)
    (auto simp: Let_def case_prod_beta state_inv_def acct_inv_decide)

section \<open>A round\<close>

text \<open>The state a round decides on: the samples counted, when the guard may judge at all.\<close>

definition counted :: "Sample list \<Rightarrow> Account list \<Rightarrow> Options \<Rightarrow> State \<Rightarrow> State" where
  "counted samples accounts opts s =
     (if canJudge opts
      then count samples (build_index Map.empty (uniqueAccounts accounts)) (normalized opts) s else s)"

lemma Advance_decide:
  "Advance samples accounts now opts s =
     decide (uniqueAccounts accounts) now (normalized opts) (counted samples accounts opts s)"
  by (simp add: Advance_def counted_def Let_def)

lemma counted_frame [simp]:
  "as_DisabledByGuard (account (counted samples accounts opts s) k) = as_DisabledByGuard (account s k)"
  "as_DisableCount (account (counted samples accounts opts s) k) = as_DisableCount (account s k)"
  "as_NextRetryAt (account (counted samples accounts opts s) k) = as_NextRetryAt (account s k)"
  by (simp_all add: counted_def)

lemma counted_inv [inv_intros]: "state_inv s \<Longrightarrow> state_inv (counted samples accounts opts s)"
  by (simp add: counted_def count_inv)

lemma Advance_slot:
  assumes "acct \<in> set (uniqueAccounts accounts)"
  obtains m where "0 \<le> m"
    "account (fst (Advance samples accounts now opts s)) (akey acct) =
       fst (decide_account now (normalized opts) (scopeSet opts)
         (enabledInScope (scopeSet opts) (uniqueAccounts accounts)) m acct
         (account (counted samples accounts opts s) (akey acct)))"
    "filter (\<lambda>d. normalizeKey (dec_ProviderKey d) = akey acct) (snd (Advance samples accounts now opts s)) =
       snd (snd (decide_account now (normalized opts) (scopeSet opts)
         (enabledInScope (scopeSet opts) (uniqueAccounts accounts)) m acct
         (account (counted samples accounts opts s) (akey acct))))"
proof -
  have "akey acct \<noteq> []" using assms by (rule uniqueAccounts_nonempty)
  from decide_loop_slot [OF uniqueAccounts_distinct assms this, of 0]
  show ?thesis using that by (fastforce simp: Advance_decide decide_def Let_def)
qed

lemma Advance_from:
  assumes "d \<in> set (snd (Advance samples accounts now opts s))"
  obtains acct where "acct \<in> set (uniqueAccounts accounts)" "akey acct = normalizeKey (dec_ProviderKey d)"
    "acc_ProviderKey acct = dec_ProviderKey d" "acc_Name acct = dec_Name d"
  using assms decide_loop_from that
  by (fastforce simp: Advance_decide decide_def Let_def akey_def)

text \<open>A decision of a round is the decision of its account's own step.\<close>

lemma Advance_decision:
  assumes "d \<in> set (snd (Advance samples accounts now opts s))"
  obtains acct m where "acct \<in> set (uniqueAccounts accounts)" "akey acct = normalizeKey (dec_ProviderKey d)"
    "0 \<le> m"
    "d \<in> set (snd (snd (decide_account now (normalized opts) (scopeSet opts)
        (enabledInScope (scopeSet opts) (uniqueAccounts accounts)) m acct
        (account (counted samples accounts opts s) (akey acct)))))"
    "account (fst (Advance samples accounts now opts s)) (akey acct) =
       fst (decide_account now (normalized opts) (scopeSet opts)
         (enabledInScope (scopeSet opts) (uniqueAccounts accounts)) m acct
         (account (counted samples accounts opts s) (akey acct)))"
proof -
  obtain acct where a: "acct \<in> set (uniqueAccounts accounts)" "akey acct = normalizeKey (dec_ProviderKey d)"
    using assms by (rule Advance_from)
  from a(1) show ?thesis
  proof (rule Advance_slot [of acct accounts samples now opts s])
    fix m
    assume m: "0 \<le> m"
      "account (fst (Advance samples accounts now opts s)) (akey acct) =
         fst (decide_account now (normalized opts) (scopeSet opts)
           (enabledInScope (scopeSet opts) (uniqueAccounts accounts)) m acct
           (account (counted samples accounts opts s) (akey acct)))"
      "filter (\<lambda>d. normalizeKey (dec_ProviderKey d) = akey acct) (snd (Advance samples accounts now opts s)) =
         snd (snd (decide_account now (normalized opts) (scopeSet opts)
           (enabledInScope (scopeSet opts) (uniqueAccounts accounts)) m acct
           (account (counted samples accounts opts s) (akey acct))))"
    have "d \<in> set (filter (\<lambda>d. normalizeKey (dec_ProviderKey d) = akey acct)
        (snd (Advance samples accounts now opts s)))"
      using assms a(2) by simp
    then show ?thesis using a m that by (metis m(3))
  qed
qed

section \<open>Adoption\<close>

lemma adopt_loop_other:
  "k \<notin> akey ` set accts \<Longrightarrow> account (fst (adopt_loop now opts m accts s)) k = account s k"
  by (induction accts arbitrary: s) (auto simp: Let_def akey_def case_prod_beta)

lemma adopt_loop_slot:
  assumes "distinct (map akey accts)" "acct \<in> set accts" "akey acct \<noteq> []" "acc_Disabled acct"
  shows "account (fst (adopt_loop now opts m accts s)) (akey acct) =
         fst (adopt_account now opts m acct (account s (akey acct)))"
  using assms
proof (induction accts arbitrary: s)
  case (Cons b rest)
  show ?case
  proof (cases "acct = b")
    case True
    with Cons.prems have "akey acct \<notin> akey ` set rest" by auto
    with True Cons.prems show ?thesis
      by (simp add: akey_def Let_def case_prod_beta adopt_loop_other [unfolded akey_def])
  next
    case False
    with Cons.prems have "acct \<in> set rest" "akey b \<noteq> akey acct" by auto
    with Cons show ?thesis by (auto simp: akey_def Let_def case_prod_beta)
  qed
qed simp

lemma adopt_loop_untouched:
  assumes "distinct (map akey accts)" "acct \<in> set accts" "\<not> acc_Disabled acct"
  shows "account (fst (adopt_loop now opts m accts s)) (akey acct) = account s (akey acct)"
  using assms
proof (induction accts arbitrary: s)
  case (Cons b rest)
  show ?case
  proof (cases "acct = b")
    case True
    with Cons.prems have "akey acct \<notin> akey ` set rest" by auto
    with True Cons.prems show ?thesis
      by (simp add: akey_def Let_def adopt_loop_other [unfolded akey_def])
  next
    case False
    with Cons.prems have "acct \<in> set rest" "akey b \<noteq> akey acct" by auto
    with Cons show ?thesis by (auto simp: akey_def Let_def case_prod_beta)
  qed
qed simp

lemma adopt_loop_inv: "state_inv s \<Longrightarrow> state_inv (fst (adopt_loop now opts m accts s))"
  by (induction accts arbitrary: s) (auto simp: Let_def case_prod_beta state_inv_def acct_inv_adopt)

end
