(* ===== verification/Guard_Props.thy ===== *)
theory Guard_Props
  imports Guard_Rounds
begin

text \<open>
  The guard's contract, as properties of whole rounds (\<open>Advance\<close>), of the reconciliation
  (\<open>AdoptOwnership\<close>) and of every history that rounds and reconciliations can produce. Each
  property rests on the branch equations and the loop rules of \<open>Guard_Rounds\<close>; each witness
  runs it on a small configuration with concrete accounts and samples.
\<close>

section \<open>Carrying a round out\<close>

text \<open>
  What carrying out the decisions of a round does to the configuration: the runner writes the
  \<open>disabled\<close> key of the entry for a disable and an enable, and nothing for the other two.
\<close>

definition for_key :: "Decision list \<Rightarrow> string \<Rightarrow> Decision list" where
  "for_key ds k = filter (\<lambda>d. normalizeKey (dec_ProviderKey d) = k) ds"

definition carry_out :: "Decision list \<Rightarrow> Account list \<Rightarrow> Account list" where
  "carry_out ds accounts = map (\<lambda>a.
     if list_ex isDisable (for_key ds (akey a)) then a\<lparr>acc_Disabled := True\<rparr>
     else if list_ex (\<lambda>d. dec_Action d = ActionEnable) (for_key ds (akey a)) then a\<lparr>acc_Disabled := False\<rparr>
     else a) accounts"

lemma akey_disabled [simp]: "akey (a\<lparr>acc_Disabled := b\<rparr>) = akey a"
  by (simp add: akey_def)

lemma uniqueAccounts_from_map:
  assumes "\<And>a. acc_ProviderKey (f a) = acc_ProviderKey a"
  shows "uniqueAccounts_from S (map f as) = map f (uniqueAccounts_from S as)"
  by (induction S as rule: uniqueAccounts_from.induct) (simp_all add: assms Let_def)

lemma uniqueAccounts_carry_out:
  "uniqueAccounts (carry_out ds as) = carry_out ds (uniqueAccounts as)"
  unfolding uniqueAccounts_def carry_out_def by (rule uniqueAccounts_from_map) simp

lemma length_filter_keys:
  assumes "distinct (map f xs)" and "f ` {x \<in> set xs. P x} \<subseteq> K" and "finite K"
  shows "length (filter P xs) \<le> card K"
proof -
  have "inj_on f (set xs)" using assms(1) by (simp add: distinct_map)
  then have "card (f ` set (filter P xs)) = card (set (filter P xs))"
    by (intro card_image) (auto simp: inj_on_def)
  also have "\<dots> = length (filter P xs)"
    using assms(1) by (intro distinct_card) (simp add: distinct_map)
  finally show ?thesis using card_mono [OF assms(3,2)] by simp
qed

lemma carry_out_enabled:
  fixes ds accounts
  assumes "distinct (map akey accounts)"
  shows "enabledInScope scope accounts - int (length (filter isDisable ds)) \<le>
     enabledInScope scope (carry_out ds accounts)"
proof -
  let ?hit = "\<lambda>a. list_ex isDisable (for_key ds (akey a))"
  let ?P = "\<lambda>a. inScope scope (acc_Name a) \<and> \<not> acc_Disabled a"
  have "length (filter ?P xs) \<le> length (filter ?P (carry_out ds xs)) + length (filter ?hit xs)" for xs
    by (induction xs) (auto simp: carry_out_def)
  moreover have "length (filter ?hit accounts) \<le> length (filter isDisable ds)"
  proof -
    let ?K = "(\<lambda>d. normalizeKey (dec_ProviderKey d)) ` set (filter isDisable ds)"
    have "length (filter ?hit accounts) \<le> card ?K"
      by (rule length_filter_keys [OF assms], force simp: for_key_def list_ex_iff image_iff, simp)
    also have "\<dots> \<le> length (filter isDisable ds)"
      using card_image_le card_length le_trans by blast
    finally show ?thesis .
  qed
  ultimately show ?thesis
    unfolding enabledInScope_def by (smt (verit) of_nat_add of_nat_mono)
qed

lemma Advance_min:
  assumes "filter isDisable (snd (Advance samples accounts now opts s)) \<noteq> []"
  shows "opt_MinEnabled (normalized opts) \<le>
    enabledInScope (scopeSet opts) (uniqueAccounts accounts) -
    int (length (filter isDisable (snd (Advance samples accounts now opts s))))"
  using assms decide_loop_min [where n = 0]
  by (fastforce simp: Advance_decide decide_def Let_def)

section \<open>Safety of a round\<close>

text \<open>
  A small configuration for the witnesses: two accounts in scope, the first of which has been
  answered by a channel that is not the baseline, which a threshold of one takes as enough.
\<close>

definition ex_opts :: Options where
  "ex_opts = \<lparr>opt_Enabled = True, opt_DryRun = False, opt_Threshold = 1, opt_MinEnabled = 1,
     opt_ScopeNames = [], opt_ReenableMinutes = 5, opt_MaxDisableMinutes = 360, opt_Baseline = ''n''\<rparr>"

definition ex_accounts :: "Account list" where
  "ex_accounts = [\<lparr>acc_Name = ''a'', acc_ProviderKey = ''a'', acc_Disabled = False\<rparr>,
                  \<lparr>acc_Name = ''b'', acc_ProviderKey = ''b'', acc_Disabled = False\<rparr>]"

definition ex_sample :: "string \<Rightarrow> string \<Rightarrow> Sample" where
  "ex_sample rid chan = \<lparr>smp_Time = 0, smp_RequestID = rid, smp_ProviderKey = ''a'', smp_Channel = chan\<rparr>"

definition ex_samples :: "Sample list" where
  "ex_samples = [ex_sample ''1'' ''x'']"

lemmas ex_defs = ex_opts_def ex_accounts_def ex_sample_def ex_samples_def

text \<open>The disable of the example round, computed once.\<close>

lemma ex_round:
  "filter isDisable (snd (Advance ex_samples ex_accounts 0 ex_opts NewState)) \<noteq> []"
  by code_simp

text \<open>C1: A round never takes the configuration below its floor. If a round of the guard decides
  any disable, then after its decisions have been carried out at least MinEnabled accounts of
  the scope are still enabled, and MinEnabled is at least one after normalisation.\<close>

theorem round_keeps_min_enabled:
  assumes "filter isDisable (snd (Advance samples accounts now opts s)) \<noteq> []"
  shows "1 \<le> opt_MinEnabled (normalized opts) \<and>
    opt_MinEnabled (normalized opts) \<le>
      enabledInScope (scopeSet opts)
        (carry_out (snd (Advance samples accounts now opts s)) (uniqueAccounts accounts))"
  using Advance_min [OF assms] normalized_bounds(2) [of opts]
    carry_out_enabled [OF uniqueAccounts_distinct, of "scopeSet opts" accounts
      "snd (Advance samples accounts now opts s)"]
  by linarith

theorem round_keeps_min_enabled_witness:
  "1 \<le> enabledInScope (scopeSet ex_opts)
     (carry_out (snd (Advance ex_samples ex_accounts 0 ex_opts NewState)) (uniqueAccounts ex_accounts))"
  using round_keeps_min_enabled [OF ex_round] by simp

text \<open>
  The facts of a round that the properties of one account read: the step of the account, with
  the state it had before the round.
\<close>

definition step_of ::
  "Sample list \<Rightarrow> Account list \<Rightarrow> time \<Rightarrow> Options \<Rightarrow> State \<Rightarrow> int \<Rightarrow> Account \<Rightarrow>
   AccountState \<times> int \<times> Decision list" where
  "step_of samples accounts now opts s m acct =
     decide_account now (normalized opts) (scopeSet opts)
       (enabledInScope (scopeSet opts) (uniqueAccounts accounts)) m acct
       (account (counted samples accounts opts s) (akey acct))"

lemma round_slot:
  assumes "acct \<in> set (uniqueAccounts accounts)"
  obtains m where
    "account (fst (Advance samples accounts now opts s)) (akey acct) = fst (step_of samples accounts now opts s m acct)"
    "for_key (snd (Advance samples accounts now opts s)) (akey acct) = snd (snd (step_of samples accounts now opts s m acct))"
  using Advance_slot [OF assms, of samples now opts s] unfolding step_of_def for_key_def by metis

lemma round_decision:
  assumes "d \<in> set (snd (Advance samples accounts now opts s))"
  obtains acct m where "acct \<in> set (uniqueAccounts accounts)" "akey acct = normalizeKey (dec_ProviderKey d)"
    "d \<in> set (snd (snd (step_of samples accounts now opts s m acct)))"
    "account (fst (Advance samples accounts now opts s)) (akey acct) = fst (step_of samples accounts now opts s m acct)"
  using Advance_decision [OF assms] unfolding step_of_def by metis

lemma distinct_if_filters_short:
  "(\<And>k. length (filter (\<lambda>d. f d = k) ds) \<le> 1) \<Longrightarrow> distinct (map f ds)"
proof (induction ds)
  case (Cons d ds)
  have "length (filter (\<lambda>x. f x = k) ds) \<le> 1" for k
    using Cons.prems [of k] by (cases "f d = k") auto
  moreover have "f d \<notin> f ` set ds"
    using Cons.prems [of "f d"] by (auto simp: filter_empty_conv)
  ultimately show ?case using Cons.IH by simp
qed simp

text \<open>A round speaks at most once about an account: the provider keys of its decisions are
  pairwise distinct after normalisation, and each decision carries the key and the name of an
  entry of the configuration it was given.\<close>

theorem one_decision_per_account:
  "distinct (map (\<lambda>d. normalizeKey (dec_ProviderKey d)) (snd (Advance samples accounts now opts s))) \<and>
   (\<lambda>d. (dec_ProviderKey d, dec_Name d)) ` set (snd (Advance samples accounts now opts s)) \<subseteq>
     (\<lambda>a. (acc_ProviderKey a, acc_Name a)) ` set accounts"
proof (intro conjI distinct_if_filters_short)
  fix k
  show "length (filter (\<lambda>d. normalizeKey (dec_ProviderKey d) = k) (snd (Advance samples accounts now opts s))) \<le> 1"
  proof (cases "k \<in> akey ` set (uniqueAccounts accounts)")
    case True
    then obtain acct where a: "acct \<in> set (uniqueAccounts accounts)" "k = akey acct" by blast
    from a(1) obtain m where
      "for_key (snd (Advance samples accounts now opts s)) (akey acct) =
         snd (snd (step_of samples accounts now opts s m acct))"
      by (rule round_slot)
    then show ?thesis using a(2) decide_account_one by (simp add: for_key_def step_of_def)
  next
    case False
    then have "filter (\<lambda>d. normalizeKey (dec_ProviderKey d) = k) (snd (Advance samples accounts now opts s)) = []"
      by (fastforce simp: filter_empty_conv image_iff elim!: Advance_from)
    then show ?thesis by simp
  qed
next
  show "(\<lambda>d. (dec_ProviderKey d, dec_Name d)) ` set (snd (Advance samples accounts now opts s)) \<subseteq>
     (\<lambda>a. (acc_ProviderKey a, acc_Name a)) ` set accounts"
  proof (rule image_subsetI)
    fix d assume "d \<in> set (snd (Advance samples accounts now opts s))"
    then obtain a where "a \<in> set (uniqueAccounts accounts)" "acc_ProviderKey a = dec_ProviderKey d"
      "acc_Name a = dec_Name d" by (rule Advance_from)
    then show "(dec_ProviderKey d, dec_Name d) \<in> (\<lambda>a. (acc_ProviderKey a, acc_Name a)) ` set accounts"
      using uniqueAccounts_subset [of accounts] by (metis (mono_tags, lifting) image_iff in_mono)
  qed
qed

text \<open>C4: Every disable is justified. A disable decision is only made while the guard is enabled
  with a baseline and not in dry run, for an entry in scope that is enabled and that the guard
  does not already own, on a counted streak of at least Threshold; and the round leaves the
  account owned by the guard, with its disable counter raised by one and the retry time of
  backoffNext for that count.\<close>

theorem disable_is_justified:
  assumes "d \<in> set (snd (Advance samples accounts now opts s))" and "isDisable d"
  shows "canJudge opts \<and> \<not> opt_DryRun opts \<and> opt_Threshold (normalized opts) \<le> dec_Streak d \<and>
    (\<exists>acct \<in> set accounts. akey acct = normalizeKey (dec_ProviderKey d) \<and> acc_Name acct = dec_Name d \<and>
       inScope (scopeSet opts) (acc_Name acct) \<and> \<not> acc_Disabled acct \<and>
       \<not> as_DisabledByGuard (account s (akey acct)) \<and>
       dec_Streak d = as_Streak (account (counted samples accounts opts s) (akey acct)) \<and>
       as_DisabledByGuard (account (fst (Advance samples accounts now opts s)) (akey acct)) \<and>
       as_DisableCount (account (fst (Advance samples accounts now opts s)) (akey acct)) =
         as_DisableCount (account s (akey acct)) + 1 \<and>
       as_NextRetryAt (account (fst (Advance samples accounts now opts s)) (akey acct)) =
         backoffNext now (as_DisableCount (account s (akey acct)) + 1) (normalized opts))"
proof -
  from assms(1) obtain acct m where a: "acct \<in> set (uniqueAccounts accounts)"
    "akey acct = normalizeKey (dec_ProviderKey d)"
    "d \<in> set (snd (snd (step_of samples accounts now opts s m acct)))"
    "account (fst (Advance samples accounts now opts s)) (akey acct) = fst (step_of samples accounts now opts s m acct)"
    by (rule round_decision)
  let ?c = "account (counted samples accounts opts s) (akey acct)"
  note step = a(3) [unfolded step_of_def]
  note key = decide_account_key [OF step] and guards = decide_account_disable [OF step assms(2)]
  have own: "as_DisabledByGuard (fst (step_of samples accounts now opts s m acct)) \<and>
     as_DisableCount (fst (step_of samples accounts now opts s m acct)) = as_DisableCount ?c + 1 \<and>
     as_NextRetryAt (fst (step_of samples accounts now opts s m acct)) =
       backoffNext now (as_DisableCount ?c + 1) (normalized opts)"
    unfolding step_of_def by (rule decide_account_owns [OF step assms(2)])
  have "acct \<in> set accounts" using a(1) uniqueAccounts_subset by blast
  then show ?thesis using a guards key own by auto
qed

lemma ex_round_disable: "\<exists>d \<in> set (snd (Advance ex_samples ex_accounts 0 ex_opts NewState)). isDisable d"
  using ex_round by (auto simp: filter_empty_conv)

theorem disable_is_justified_witness:
  "\<exists>d \<in> set (snd (Advance ex_samples ex_accounts 0 ex_opts NewState)). isDisable d \<and>
     opt_Threshold (normalized ex_opts) \<le> dec_Streak d"
  using ex_round_disable disable_is_justified [where opts = ex_opts and s = NewState] by blast

section \<open>Ownership: recovery, the operator, foreign disables\<close>

text \<open>
  The account of the example, disabled: by the guard, with a retry due at 10, and by somebody
  else. Its neighbour stays enabled.
\<close>

definition ex_off :: "Account list" where
  "ex_off = [\<lparr>acc_Name = ''a'', acc_ProviderKey = ''a'', acc_Disabled = True\<rparr>,
             \<lparr>acc_Name = ''b'', acc_ProviderKey = ''b'', acc_Disabled = False\<rparr>]"

definition ex_owned :: State where
  "ex_owned = put_account NewState ''a''
     (empty_account\<lparr>as_Streak := 2, as_DisabledByGuard := True, as_DisableCount := 1, as_NextRetryAt := Some 10\<rparr>)"

definition ex_streak :: State where
  "ex_streak = put_account NewState ''a'' (empty_account\<lparr>as_Streak := 2\<rparr>)"

lemma ex_key: "hd ex_off \<in> set (uniqueAccounts ex_off) \<and> acc_Disabled (hd ex_off)"
  "hd ex_accounts \<in> set (uniqueAccounts ex_accounts) \<and> \<not> acc_Disabled (hd ex_accounts)"
  "as_DisabledByGuard (account ex_owned (akey (hd ex_off))) \<and>
   as_NextRetryAt (account ex_owned (akey (hd ex_off))) = Some 10"
  "as_DisabledByGuard (account ex_owned (akey (hd ex_accounts)))"
  "\<not> as_DisabledByGuard (account ex_streak (akey (hd ex_off)))"
  by code_simp+

text \<open>Recovery is guaranteed and never early. For an account the guard disabled, with a retry
  time, the first round at or after that time decides to enable it and gives up ownership with
  the streak cleared, whatever the samples and the options are (dry run and a disabled guard
  included); a round before that time says nothing about the account and keeps the ownership,
  the counter and the retry time. Without a retry time (automatic recovery switched off) no
  round ever touches the account.\<close>

theorem recovery_when_due:
  assumes "acct \<in> set (uniqueAccounts accounts)" and "acc_Disabled acct"
    and "as_DisabledByGuard (account s (akey acct))"
  shows "(case as_NextRetryAt (account s (akey acct)) of
       Some retry \<Rightarrow>
         if retry \<le> now
         then map dec_Action (for_key (snd (Advance samples accounts now opts s)) (akey acct)) = [ActionEnable] \<and>
           \<not> as_DisabledByGuard (account (fst (Advance samples accounts now opts s)) (akey acct)) \<and>
           as_NextRetryAt (account (fst (Advance samples accounts now opts s)) (akey acct)) = None \<and>
           as_Streak (account (fst (Advance samples accounts now opts s)) (akey acct)) = 0 \<and>
           as_DisableCount (account (fst (Advance samples accounts now opts s)) (akey acct)) =
             as_DisableCount (account s (akey acct))
         else for_key (snd (Advance samples accounts now opts s)) (akey acct) = [] \<and>
           as_DisabledByGuard (account (fst (Advance samples accounts now opts s)) (akey acct)) \<and>
           as_NextRetryAt (account (fst (Advance samples accounts now opts s)) (akey acct)) = Some retry
     | None \<Rightarrow> for_key (snd (Advance samples accounts now opts s)) (akey acct) = [] \<and>
         as_DisabledByGuard (account (fst (Advance samples accounts now opts s)) (akey acct)))"
proof -
  obtain m where m:
    "account (fst (Advance samples accounts now opts s)) (akey acct) = fst (step_of samples accounts now opts s m acct)"
    "for_key (snd (Advance samples accounts now opts s)) (akey acct) = snd (snd (step_of samples accounts now opts s m acct))"
    using assms(1) by (rule round_slot)
  show ?thesis
    unfolding m step_of_def using assms(2,3)
    by (simp add: decide_account_recover decision_def clear_streak_def split: option.split)
qed

theorem recovery_when_due_witness:
  "map dec_Action (for_key (snd (Advance [] ex_off 10 ex_opts ex_owned)) (akey (hd ex_off))) = [ActionEnable] \<and>
   for_key (snd (Advance [] ex_off 9 ex_opts ex_owned)) (akey (hd ex_off)) = []"
  using recovery_when_due [where acct = "hd ex_off" and accounts = ex_off and s = ex_owned and now = 10
      and samples = "[]" and opts = ex_opts]
    recovery_when_due [where acct = "hd ex_off" and accounts = ex_off and s = ex_owned and now = 9
      and samples = "[]" and opts = ex_opts] ex_key by simp

text \<open>The operator wins. If an account the guard disabled is found enabled again, the round
  records that somebody put it back, decides nothing else about it, and forgets the ownership,
  the disable counter, the retry time and the streak, so that the account starts afresh.\<close>

theorem operator_wins:
  assumes "acct \<in> set (uniqueAccounts accounts)" and "\<not> acc_Disabled acct"
    and "as_DisabledByGuard (account s (akey acct))"
  shows "map dec_Action (for_key (snd (Advance samples accounts now opts s)) (akey acct)) = [ActionEnableExternal] \<and>
    (let a = account (fst (Advance samples accounts now opts s)) (akey acct) in
       \<not> as_DisabledByGuard a \<and> as_DisableCount a = 0 \<and> as_NextRetryAt a = None \<and>
       as_Streak a = 0 \<and> as_Channels a = [])"
proof -
  obtain m where m:
    "account (fst (Advance samples accounts now opts s)) (akey acct) = fst (step_of samples accounts now opts s m acct)"
    "for_key (snd (Advance samples accounts now opts s)) (akey acct) = snd (snd (step_of samples accounts now opts s m acct))"
    using assms(1) by (rule round_slot)
  show ?thesis
    unfolding m step_of_def using assms(2,3)
    by (simp add: decide_account_external decision_def clear_streak_def)
qed

theorem operator_wins_witness:
  "map dec_Action (for_key (snd (Advance ex_samples ex_accounts 5 ex_opts ex_owned)) (akey (hd ex_accounts))) =
     [ActionEnableExternal]"
  using operator_wins [where acct = "hd ex_accounts" and accounts = ex_accounts and s = ex_owned] ex_key by simp

text \<open>The guard keeps its hands off what it does not own. An account that somebody else
  disabled is never enabled and never taken over by a round: no decision is made about it, it
  stays unowned, and its streak is cleared so that a later enable starts from zero.\<close>

theorem foreign_disable_untouched:
  assumes "acct \<in> set (uniqueAccounts accounts)" and "acc_Disabled acct"
    and "\<not> as_DisabledByGuard (account s (akey acct))"
  shows "for_key (snd (Advance samples accounts now opts s)) (akey acct) = [] \<and>
    \<not> as_DisabledByGuard (account (fst (Advance samples accounts now opts s)) (akey acct)) \<and>
    as_Streak (account (fst (Advance samples accounts now opts s)) (akey acct)) = 0"
proof -
  obtain m where m:
    "account (fst (Advance samples accounts now opts s)) (akey acct) = fst (step_of samples accounts now opts s m acct)"
    "for_key (snd (Advance samples accounts now opts s)) (akey acct) = snd (snd (step_of samples accounts now opts s m acct))"
    using assms(1) by (rule round_slot)
  show ?thesis
    unfolding m step_of_def using assms(2,3)
    by (simp add: decide_account_foreign clear_streak_def)
qed

theorem foreign_disable_untouched_witness:
  "for_key (snd (Advance ex_samples ex_off 5 ex_opts ex_streak)) (akey (hd ex_off)) = []"
  using foreign_disable_untouched [where acct = "hd ex_off" and accounts = ex_off and s = ex_streak] ex_key by simp

section \<open>Dry run\<close>

text \<open>Dry run disables nothing. With DryRun set no round decides a disable, and no account
  that the guard did not own becomes owned by it.\<close>

theorem dry_run_disables_nothing:
  assumes "opt_DryRun opts"
  shows "filter isDisable (snd (Advance samples accounts now opts s)) = [] \<and>
    (as_DisabledByGuard (account (fst (Advance samples accounts now opts s)) k) \<longrightarrow>
     as_DisabledByGuard (account s k))"
proof (intro conjI impI)
  have dry: "opt_DryRun (normalized opts)" using assms by simp
  show "filter isDisable (snd (Advance samples accounts now opts s)) = []"
    unfolding filter_empty_conv
  proof
    fix d assume d: "d \<in> set (snd (Advance samples accounts now opts s))"
    from d show "\<not> isDisable d"
    proof (rule round_decision)
      fix acct m
      assume "d \<in> set (snd (snd (step_of samples accounts now opts s m acct)))"
      then show "\<not> isDisable d"
        using decide_account_dry(1) [OF dry] unfolding step_of_def filter_empty_conv by blast
    qed
  qed
  assume after: "as_DisabledByGuard (account (fst (Advance samples accounts now opts s)) k)"
  show "as_DisabledByGuard (account s k)"
  proof (cases "k \<in> akey ` set (uniqueAccounts accounts)")
    case True
    then obtain acct where a: "acct \<in> set (uniqueAccounts accounts)" "k = akey acct" by blast
    from a(1) obtain m where
      "account (fst (Advance samples accounts now opts s)) (akey acct) = fst (step_of samples accounts now opts s m acct)"
      by (rule round_slot)
    with after a(2) have "as_DisabledByGuard (fst (step_of samples accounts now opts s m acct))" by simp
    from decide_account_dry(2) [OF dry this [unfolded step_of_def]] a(2) show ?thesis by simp
  next
    case False
    with after show ?thesis
      by (simp add: Advance_decide decide_def Let_def decide_loop_other)
  qed
qed

theorem dry_run_disables_nothing_witness:
  "filter isDisable (snd (Advance ex_samples ex_accounts 0 (ex_opts\<lparr>opt_DryRun := True\<rparr>) NewState)) = []"
  using dry_run_disables_nothing [of "ex_opts\<lparr>opt_DryRun := True\<rparr>"] by simp

lemma count_keeps_report:
  assumes "\<forall>x \<in> set xs. normalizeKey (smp_ProviderKey x) = k \<longrightarrow> \<not> EqualFold (TrimSpace (smp_Channel x)) (TrimSpace (opt_Baseline opts))"
    and "as_DryRunReported (account s k)"
  shows "as_DryRunReported (account (count xs index opts s) k)"
  using assms unfolding count_def
proof (induction xs arbitrary: s)
  case (Cons x xs)
  have "as_DryRunReported (account (count_sample index (TrimSpace (opt_Baseline opts)) s x) k)"
    using Cons.prems
    by (auto simp: count_sample_def Let_def case_prod_beta count_channel_def split: option.split)
  with Cons show ?case by simp
qed simp

lemma decide_account_report:
  "d \<in> set (snd (snd (decide_account now opts scope e n acct a))) \<Longrightarrow> dec_Action d = ActionDisableDry \<Longrightarrow>
   \<not> as_DryRunReported a \<and> as_DryRunReported (fst (decide_account now opts scope e n acct a))"
  by (auto simp: decide_account_def Let_def decision_def split: option.splits if_splits)

text \<open>A dry-run finding is reported once per streak. After a round has reported that an
  account would be disabled, no later round repeats the report as long as none of the samples
  it reads shows that account back on the baseline.\<close>

theorem dry_run_reported_once:
  assumes "d \<in> set (snd (Advance xs accounts now opts s))" and "dec_Action d = ActionDisableDry"
    and "\<forall>y \<in> set ys. normalizeKey (smp_ProviderKey y) = normalizeKey (dec_ProviderKey d) \<longrightarrow>
      \<not> EqualFold (TrimSpace (smp_Channel y)) (TrimSpace (opt_Baseline opts'))"
    and "e \<in> set (snd (Advance ys accounts' now' opts' (fst (Advance xs accounts now opts s))))"
    and "normalizeKey (dec_ProviderKey e) = normalizeKey (dec_ProviderKey d)"
  shows "dec_Action e \<noteq> ActionDisableDry"
proof
  assume dry: "dec_Action e = ActionDisableDry"
  let ?s = "fst (Advance xs accounts now opts s)"
  from assms(1) have report: "as_DryRunReported (account ?s (normalizeKey (dec_ProviderKey d)))"
  proof (rule round_decision)
    fix acct m
    assume "akey acct = normalizeKey (dec_ProviderKey d)"
      "d \<in> set (snd (snd (step_of xs accounts now opts s m acct)))"
      "account ?s (akey acct) = fst (step_of xs accounts now opts s m acct)"
    then show ?thesis
      using decide_account_report assms(2) unfolding step_of_def by metis
  qed
  from assms(4) show False
  proof (rule round_decision)
    fix acct m
    assume a: "akey acct = normalizeKey (dec_ProviderKey e)"
      "e \<in> set (snd (snd (step_of ys accounts' now' opts' ?s m acct)))"
    have "as_DryRunReported (account (counted ys accounts' opts' ?s) (akey acct))"
      using report a(1) assms(3,5) by (auto simp: counted_def intro!: count_keeps_report)
    with decide_account_report [OF a(2) [unfolded step_of_def] dry] show False by simp
  qed
qed

definition ex_dry :: Options where "ex_dry = ex_opts\<lparr>opt_DryRun := True\<rparr>"

lemma ex_dry_report:
  "map dec_Action (snd (Advance ex_samples ex_accounts 0 ex_dry NewState)) = [ActionDisableDry]"
  "map dec_ProviderKey (snd (Advance ex_samples ex_accounts 0 ex_dry NewState)) = [''a'']"
  "\<not> EqualFold (TrimSpace ''x'') (TrimSpace (opt_Baseline ex_dry))"
  by code_simp+

theorem dry_run_reported_once_witness:
  "let s1 = fst (Advance ex_samples ex_accounts 0 ex_dry NewState) in
     dec_ProviderKey (hd (snd (Advance ex_samples ex_accounts 0 ex_dry NewState))) = ''a'' \<and>
     \<not> (\<exists>e \<in> set (snd (Advance ex_samples ex_accounts 1 ex_dry s1)).
         normalizeKey (dec_ProviderKey e) = normalizeKey ''a'' \<and> dec_Action e = ActionDisableDry)"
proof -
  obtain d where d: "snd (Advance ex_samples ex_accounts 0 ex_dry NewState) = [d]"
    using ex_dry_report(1) by (auto simp: map_eq_Cons_conv)
  with ex_dry_report have "dec_Action d = ActionDisableDry" "dec_ProviderKey d = ''a''" by auto
  with d ex_dry_report(3) show ?thesis
    using dry_run_reported_once [where d = d and xs = ex_samples and accounts = ex_accounts and now = 0
        and opts = ex_dry and s = NewState and ys = ex_samples and opts' = ex_dry and accounts' = ex_accounts]
    by (auto simp: Let_def ex_samples_def ex_sample_def)
qed

section \<open>Backoff\<close>

text \<open>The backoff is the documented doubling with a cap. For the n-th disable in a row, with a
  positive base of R minutes, the retry is due exactly min (R * 2 ^ (n - 1)) Max minutes from
  now; a base of zero switches automatic recovery off.\<close>

theorem backoff_doubles_capped:
  assumes "1 \<le> n"
  shows "backoffNext now n opts =
    (if opt_ReenableMinutes opts = 0 then None
     else Some (now + min (opt_ReenableMinutes opts * 2 ^ nat (n - 1)) (opt_MaxDisableMinutes opts) * Minute))"
proof -
  have p: "(2::real) powi (n - 1) = of_int (2 ^ nat (n - 1))" using assms by (simp add: power_int_def)
  have t: "trunc (real_of_int i * real_of_int Minute) = i * Minute" for i
    by (simp add: trunc_def flip: of_int_mult)
  have m: "real_of_int (opt_ReenableMinutes opts) * 2 powi (n - 1) =
      real_of_int (opt_ReenableMinutes opts * 2 ^ nat (n - 1))" by (simp add: p)
  show ?thesis
    unfolding backoffNext_def m Let_def of_int_less_iff
    by (simp only: t if_distrib [of "\<lambda>x. trunc (x * _)"] min_def) (auto simp: t)
qed

theorem backoff_doubles_capped_witness:
  "backoffNext 0 3 ex_opts = Some (20 * Minute) \<and> backoffNext 0 9 ex_opts = Some (360 * Minute)"
  using backoff_doubles_capped [of 3 0 ex_opts] backoff_doubles_capped [of 9 0 ex_opts]
  by (simp add: ex_opts_def)

section \<open>The streak\<close>

text \<open>
  The specification of a streak: \<open>channels_for\<close> are the channels that answered an account, in
  the order of the samples, and \<open>off_tail\<close> the ones after its last answer from the baseline.
\<close>

definition channels_for :: "(string \<rightharpoonup> Account) \<Rightarrow> string \<Rightarrow> Sample list \<Rightarrow> string list" where
  "channels_for index k xs =
     map (\<lambda>x. TrimSpace (smp_Channel x)) (filter (\<lambda>x. judged index x \<and> normalizeKey (smp_ProviderKey x) = k) xs)"

definition off_tail :: "string \<Rightarrow> string list \<Rightarrow> string list" where
  "off_tail baseline cs = rev (takeWhile (\<lambda>c. \<not> EqualFold c baseline) (rev cs))"

definition back_on :: "string \<Rightarrow> string list \<Rightarrow> bool" where
  "back_on baseline cs = list_ex (\<lambda>c. EqualFold c baseline) cs"

lemma off_tail_snoc: "off_tail b (cs @ [c]) = (if EqualFold c b then [] else off_tail b cs @ [c])"
  by (simp add: off_tail_def)

lemma off_tail_Nil [simp]: "off_tail b [] = []" by (simp add: off_tail_def)

lemma ring_after_count:
  assumes "ring_inv s"
  shows "set (st_Seen (count xs index opts s)) \<subseteq> set (st_Seen s) \<union> set (map token (filter (judged index) xs))"
proof -
  have run: "foldl (\<lambda>s k. snd (markSeen s k)) s ks = foldl mark s ks" for ks
    by (induction ks rule: rev_induct) (simp_all add: mark_def)
  show ?thesis
    using ring.run_only_adds [OF assms, of "map token (filter (judged index) xs)"]
      ring.run_inv [OF assms, of "map token (filter (judged index) xs)"]
      count_ring [OF assms, of xs index opts]
    by (auto simp: run ring.has_keys assms)
qed

text \<open>What one sample does to the evidence of an account: nothing unless it is judged and names it.\<close>

lemma count_sample_elsewhere:
  assumes "\<not> (judged index x \<and> normalizeKey (smp_ProviderKey x) = k)"
  shows "as_Streak (account (count_sample index b s x) k) = as_Streak (account s k)"
    and "as_Channels (account (count_sample index b s x) k) = as_Channels (account s k)"
  using assms count_sample_unjudged [of index x b s]
  by (cases "judged index x"; auto simp: count_sample_def Let_def case_prod_beta split: option.split)+

lemma count_sample_here:
  fixes b :: string
  assumes "ring_inv s" "token x \<notin> set (st_Seen s)" "judged index x" "normalizeKey (smp_ProviderKey x) = k"
  defines "on \<equiv> EqualFold (TrimSpace (smp_Channel x)) b"
  shows "as_Streak (account (count_sample index b s x) k) = (if on then 0 else as_Streak (account s k) + 1)"
    and "as_Channels (account (count_sample index b s x) k) =
      (if on then [] else appendBounded (as_Channels (account s k)) (TrimSpace (smp_Channel x)) channelMemory)"
proof -
  from count_sample_new [OF assms(1-3), of b] assms(4) obtain nm where
    "account (count_sample index b s x) k =
      count_channel b (TrimSpace (smp_Channel x)) (smp_Time x) ((account s k)\<lparr>as_Name := nm\<rparr>)"
    by auto
  then show "as_Streak (account (count_sample index b s x) k) = (if on then 0 else as_Streak (account s k) + 1)"
    and "as_Channels (account (count_sample index b s x) k) =
      (if on then [] else appendBounded (as_Channels (account s k)) (TrimSpace (smp_Channel x)) channelMemory)"
    by (simp_all add: count_channel_def Let_def on_def)
qed

text \<open>C7: The streak counts the consecutive answers that did not come from the baseline. After a
  batch of samples whose request tokens are new, an account's streak is the number of its
  answers since its last baseline answer (on top of the earlier streak when the batch has no
  baseline answer for it), and its channel history is the newest five of those answers.\<close>

theorem streak_is_off_baseline_tail:
  assumes "state_inv s" and "distinct (map token (filter (judged index) xs))"
    and "set (map token (filter (judged index) xs)) \<inter> set (st_Seen s) = {}"
  shows "let base = TrimSpace (opt_Baseline opts); cs = channels_for index k xs;
      old = account s k; new = account (count xs index opts s) k in
    as_Streak new = (if back_on base cs then 0 else as_Streak old) + int (length (off_tail base cs)) \<and>
    as_Channels new = lastn channelMemory ((if back_on base cs then [] else as_Channels old) @ off_tail base cs)"
  using assms
proof (induction xs rule: rev_induct)
  case Nil
  have "acct_inv (account s k)" using Nil.prems by (simp add: state_inv_def)
  then have "length (as_Channels (account s k)) \<le> channelMemory" by (auto simp: acct_inv_def)
  then show ?case by (simp add: count_def channels_for_def back_on_def)
next
  case (snoc x xs)
  let ?s = "count xs index opts s" and ?b = "TrimSpace (opt_Baseline opts)"
  have inv: "state_inv ?s" using snoc.prems(1) by (rule count_inv)
  then have ring: "ring_inv ?s" and ai: "acct_inv (account ?s k)" by (simp_all add: state_inv_def)
  have IH: "as_Streak (account ?s k) = (if back_on ?b (channels_for index k xs) then 0 else as_Streak (account s k)) +
      int (length (off_tail ?b (channels_for index k xs)))"
    "as_Channels (account ?s k) = lastn channelMemory
      ((if back_on ?b (channels_for index k xs) then [] else as_Channels (account s k)) @
       off_tail ?b (channels_for index k xs))"
    using snoc.IH [OF snoc.prems(1)] snoc.prems(2,3) by (simp_all add: Let_def Int_Un_distrib2)
  have step: "count (xs @ [x]) index opts s = count_sample index ?b ?s x" by (simp add: count_def)
  show ?case
  proof (cases "judged index x \<and> normalizeKey (smp_ProviderKey x) = k")
    case False
    then have "channels_for index k (xs @ [x]) = channels_for index k xs" by (auto simp: channels_for_def)
    with IH show ?thesis by (simp add: step Let_def count_sample_elsewhere [OF False])
  next
    case True
    then have j: "judged index x" and key: "normalizeKey (smp_ProviderKey x) = k" by auto
    have "set (st_Seen s) \<inter> {token x} = {}" "token x \<notin> set (map token (filter (judged index) xs))"
      using snoc.prems j by auto
    then have "token x \<notin> set (st_Seen ?s)"
      using ring_after_count [of s xs index opts] snoc.prems(1) by (auto simp: state_inv_def)
    note new = count_sample_here [OF ring this j key]
    have cs: "channels_for index k (xs @ [x]) = channels_for index k xs @ [TrimSpace (smp_Channel x)]"
      using True by (simp add: channels_for_def)
    have len: "length (as_Channels (account ?s k)) \<le> channelMemory" using ai by (auto simp: acct_inv_def)
    show ?thesis
      using IH len by (cases "EqualFold (TrimSpace (smp_Channel x)) ?b")
        (simp_all add: step new cs Let_def back_on_def off_tail_snoc chan.push_law lastn_append_lastn)
  qed
qed

lemma NewState_fields: "st_Seen NewState = []" "account NewState k = empty_account"
  by (simp_all add: NewState_def account_def)

definition ex_index :: "string \<rightharpoonup> Account" where
  "ex_index = build_index Map.empty (uniqueAccounts ex_accounts)"

definition ex_mixed :: "Sample list" where
  "ex_mixed = [ex_sample ''1'' ''x'', ex_sample ''2'' ''n'', ex_sample ''3'' ''y'']"

lemma ex_mixed_tokens:
  "distinct (map token (filter (judged ex_index) ex_mixed))"
  "channels_for ex_index ''a'' ex_mixed = [''x'', ''n'', ''y'']"
  "back_on (TrimSpace (opt_Baseline ex_opts)) [''x'', ''n'', ''y'']"
  "off_tail (TrimSpace (opt_Baseline ex_opts)) [''x'', ''n'', ''y''] = [''y'']"
  by code_simp+

theorem streak_is_off_baseline_tail_witness:
  "as_Streak (account (count ex_mixed ex_index ex_opts NewState) ''a'') = 1 \<and>
   as_Channels (account (count ex_mixed ex_index ex_opts NewState) ''a'') = [''y'']"
  using streak_is_off_baseline_tail [OF state_inv_New ex_mixed_tokens(1), of ex_opts "''a''"]
  by (simp add: ex_mixed_tokens NewState_fields channelMemory_def Let_def empty_account_def)

section \<open>Reading the same samples again\<close>

lemma decide_loop_ring [simp]:
  "st_Seen (fst (decide_loop now opts scope e accts s n)) = st_Seen s"
  "st_seen (fst (decide_loop now opts scope e accts s n)) = st_seen s"
  by (induction accts arbitrary: s n) (simp_all add: Let_def case_prod_beta)

lemma count_replay:
  assumes "ring_inv s" and "\<forall>x \<in> set xs. judged index x \<longrightarrow> token x \<in> set (st_Seen s)"
    and "st_seen s \<noteq> None \<or> filter (judged index) xs = []"
  shows "count xs index opts s = s"
  using assms unfolding count_def
proof (induction xs)
  case (Cons x xs)
  have "count_sample index (TrimSpace (opt_Baseline opts)) s x = s"
    using Cons.prems by (cases "judged index x")
      (auto simp: count_sample_unjudged count_sample_old hydrated_def split: option.split)
  with Cons show ?case by (auto split: if_splits)
qed simp

lemma count_seen_some:
  "filter (judged index) xs \<noteq> [] \<or> st_seen s \<noteq> None \<Longrightarrow> st_seen (count xs index opts s) \<noteq> None"
  unfolding count_def
proof (induction xs arbitrary: s)
  case (Cons x xs)
  have some: "st_seen (snd (markSeen s t)) \<noteq> None" for t
    by (simp add: markSeen_def Let_def hydrated_def hydrate_def split: option.split)
  have "st_seen (count_sample index (TrimSpace (opt_Baseline opts)) s x) \<noteq> None"
    if "judged index x \<or> st_seen s \<noteq> None"
    using that some by (auto simp: judged_def count_sample_def Let_def case_prod_beta split: option.split)
  with Cons show ?case by (auto split: if_splits)
qed simp

lemma build_index_dom:
  "dom (build_index m as) = dom m \<union> {k \<in> akey ` set as. k \<noteq> []}"
  by (induction m as rule: build_index.induct) (auto simp: Let_def akey_def)

lemma unique_keys: "akey ` set (uniqueAccounts as) = akey ` set as - {[]}"
proof (intro equalityI subsetI)
  fix k assume "k \<in> akey ` set (uniqueAccounts as)"
  then show "k \<in> akey ` set as - {[]}"
    using uniqueAccounts_subset [of as] uniqueAccounts_nonempty [of _ as] by auto
next
  fix k assume "k \<in> akey ` set as - {[]}"
  then obtain a where "a \<in> set as" "k = akey a" "k \<noteq> []" by auto
  then show "k \<in> akey ` set (uniqueAccounts as)" using uniqueAccounts_covers by simp
qed

lemma index_dom: "build_index Map.empty (uniqueAccounts as) k \<noteq> None \<longleftrightarrow> k \<in> akey ` set as - {[]}"
  using build_index_dom [of Map.empty "uniqueAccounts as"] unique_keys [of as] by (auto simp: domIff)

text \<open>C6: Re-reading is free. Once a round has counted a batch of at most 4096 new requests, a
  later round over the same accounts may read any of those samples again, in any order and any
  number of times, before its new ones: the outcome, state and decisions, is exactly that of
  the new samples alone.\<close>

theorem rereading_is_free:
  assumes "state_inv s" and "canJudge opts" and "akey ` set accounts' = akey ` set accounts"
    and "distinct (map token (filter (judged (build_index Map.empty (uniqueAccounts accounts))) old))"
    and "set (map token (filter (judged (build_index Map.empty (uniqueAccounts accounts))) old)) \<inter> set (st_Seen s) = {}"
    and "length (filter (judged (build_index Map.empty (uniqueAccounts accounts))) old) \<le> seenLimit"
    and "set again \<subseteq> set old"
  shows "Advance (again @ new) accounts' now' opts' (fst (Advance old accounts now opts s)) =
         Advance new accounts' now' opts' (fst (Advance old accounts now opts s))"
proof -
  let ?i = "build_index Map.empty (uniqueAccounts accounts)"
  let ?i' = "build_index Map.empty (uniqueAccounts accounts')"
  let ?ks = "map token (filter (judged ?i) old)"
  let ?c = "count old ?i (normalized opts) s"
  let ?s = "fst (Advance old accounts now opts s)"
  have same: "judged ?i' x = judged ?i x" for x
    using index_dom [of accounts] index_dom [of accounts'] assms(3) unfolding judged_def by metis
  have ring: "ring_inv s" using assms(1) by (simp add: state_inv_def)
  have s: "st_Seen ?s = st_Seen ?c" "st_seen ?s = st_seen ?c"
    using assms(2) by (simp_all add: Advance_decide decide_def Let_def counted_def)
  have "mark = (\<lambda>s k. snd (markSeen s k))" by (simp add: mark_def fun_eq_iff)
  then have "st_Seen ?c = lastn seenLimit (st_Seen s @ ?ks)"
    using ring_run [OF ring, of ?ks] count_ring [OF ring, of old ?i "normalized opts"] assms(4,5) ring
    by (auto simp: ring_inv_def)
  then have all: "set ?ks \<subseteq> set (st_Seen ?s)"
    using assms(6) by (auto simp: s lastn_def)
  have "ring_inv ?c" using ring by (rule count_ring_inv)
  then have inv: "ring_inv ?s" using s by (simp add: ring_inv_def)
  have "count again ?i' (normalized opts') ?s = ?s"
  proof (rule count_replay [OF inv])
    show "\<forall>x \<in> set again. judged ?i' x \<longrightarrow> token x \<in> set (st_Seen ?s)"
      using all assms(7) same by auto
    show "st_seen ?s \<noteq> None \<or> filter (judged ?i') again = []"
      using count_seen_some [of ?i old s "normalized opts"] assms(7) same
      by (auto simp: s filter_empty_conv)
  qed
  then have "count (again @ new) ?i' (normalized opts') ?s = count new ?i' (normalized opts') ?s"
    by (simp add: count_def)
  then show ?thesis by (simp add: Advance_decide counted_def)
qed

lemma ex_index_tokens:
  "distinct (map token (filter (judged (build_index Map.empty (uniqueAccounts ex_accounts))) ex_mixed))"
  "length (filter (judged (build_index Map.empty (uniqueAccounts ex_accounts))) ex_mixed) = 3"
  "canJudge ex_opts"
  by code_simp+

theorem rereading_is_free_witness:
  "Advance (ex_mixed @ rev ex_mixed @ [ex_sample ''4'' ''x'']) ex_accounts 2 ex_opts
     (fst (Advance ex_mixed ex_accounts 1 ex_opts NewState)) =
   Advance [ex_sample ''4'' ''x''] ex_accounts 2 ex_opts (fst (Advance ex_mixed ex_accounts 1 ex_opts NewState))"
proof -
  have none: "set (map token (filter (judged (build_index Map.empty (uniqueAccounts ex_accounts))) ex_mixed)) \<inter>
      set (st_Seen NewState) = {}" by (simp add: NewState_def)
  have small: "length (filter (judged (build_index Map.empty (uniqueAccounts ex_accounts))) ex_mixed) \<le> seenLimit"
    by (simp add: ex_index_tokens seenLimit_def)
  show ?thesis
    using rereading_is_free [OF state_inv_New ex_index_tokens(3) refl ex_index_tokens(1) none small,
        of "ex_mixed @ rev ex_mixed" "[ex_sample ''4'' ''x'']"] by simp
qed

end
