(* ===== verification/Guard_Histories.thy ===== *)
theory Guard_Histories
  imports Guard_Props
begin

text \<open>
  The guard over time. \<open>guard_run\<close> are the states that rounds and reconciliations produce from
  the empty state, \<open>closed_loop\<close> the histories in which every decision is carried out on the
  configuration before the next round; \<open>AdoptOwnership\<close> is characterised exactly, and shown to
  recover what a lost state file forgot.
\<close>

section \<open>The state invariant over any history\<close>


lemma Advance_inv [inv_intros]: "state_inv s \<Longrightarrow> state_inv (fst (Advance samples accounts now opts s))"
  using decide_loop_inv [OF counted_inv normalized_bounds(1)]
  by (simp add: Advance_decide decide_def Let_def)

lemma Adopt_inv [inv_intros]: "state_inv s \<Longrightarrow> state_inv (fst (AdoptOwnership accounts audit now opts s))"
  by (simp add: AdoptOwnership_def adopt_loop_inv)



section \<open>The closed loop\<close>

text \<open>
  Rounds under fixed options whose decisions are carried out: the account list of a round is the
  one its predecessor left.
\<close>

inductive closed_loop :: "Options \<Rightarrow> Account list \<Rightarrow> State \<Rightarrow> Account list \<Rightarrow> bool"
  for opts :: Options and start :: "Account list" where
  closed_loop_start: "closed_loop opts start NewState start"
| closed_loop_round: "closed_loop opts start s accounts \<Longrightarrow>
    closed_loop opts start (fst (Advance samples accounts now opts s))
      (carry_out (snd (Advance samples accounts now opts s)) accounts)"

lemma carry_out_scope_mono:
  assumes "filter isDisable ds = []"
  shows "enabledInScope scope accounts \<le> enabledInScope scope (carry_out ds accounts)"
proof -
  have no: "\<not> list_ex isDisable (for_key ds k)" for k
    using assms by (auto simp: filter_empty_conv for_key_def list_ex_iff)
  have "length (filter (\<lambda>a. inScope scope (acc_Name a) \<and> \<not> acc_Disabled a) xs) \<le>
    length (filter (\<lambda>a. inScope scope (acc_Name a) \<and> \<not> acc_Disabled a) (carry_out ds xs))" for xs
    by (induction xs) (auto simp: carry_out_def no)
  then show ?thesis by (simp add: enabledInScope_def)
qed

text \<open>C2: Left to itself the guard never empties the pool. In every closed loop of rounds, the number
  of enabled accounts in scope never falls below the smaller of MinEnabled and the number
  that were enabled at the start.\<close>

theorem closed_loop_keeps_floor:
  assumes "closed_loop opts start s accounts"
  shows "min (opt_MinEnabled (normalized opts)) (enabledInScope (scopeSet opts) (uniqueAccounts start)) \<le>
    enabledInScope (scopeSet opts) (uniqueAccounts accounts)"
  using assms
proof induction
  case (closed_loop_round s accounts samples now)
  let ?ds = "snd (Advance samples accounts now opts s)"
  show ?case
  proof (cases "filter isDisable ?ds = []")
    case True
    with closed_loop_round.IH carry_out_scope_mono [OF True, of "scopeSet opts" "uniqueAccounts accounts"]
    show ?thesis by (simp add: uniqueAccounts_carry_out)
  next
    case False
    then show ?thesis
      using Advance_min [OF False] carry_out_enabled [OF uniqueAccounts_distinct, of "scopeSet opts" accounts ?ds]
      by (simp add: uniqueAccounts_carry_out)
  qed
qed simp

lemma ex_loop:
  "closed_loop ex_opts ex_accounts (fst (Advance ex_samples ex_accounts 0 ex_opts NewState))
     (carry_out (snd (Advance ex_samples ex_accounts 0 ex_opts NewState)) ex_accounts)"
  by (rule closed_loop_round [OF closed_loop_start])

lemma ex_floor: "enabledInScope (scopeSet ex_opts) (uniqueAccounts ex_accounts) = 2"
  "opt_MinEnabled (normalized ex_opts) = 1"
  by code_simp+

theorem closed_loop_keeps_floor_witness:
  "1 \<le> enabledInScope (scopeSet ex_opts) (uniqueAccounts
     (carry_out (snd (Advance ex_samples ex_accounts 0 ex_opts NewState)) ex_accounts))"
  using closed_loop_keeps_floor [OF ex_loop]
  by (simp add: ex_floor)





definition ex_after :: "Account list" where
  "ex_after = carry_out (snd (Advance ex_samples ex_accounts 0 ex_opts NewState)) ex_accounts"



section \<open>Reconciling ownership with the audit trail\<close>

text \<open>The last decision the audit trail holds about a key.\<close>

definition last_audit :: "Decision list \<Rightarrow> string \<Rightarrow> Decision option" where
  "last_audit audit k = (if for_key audit k = [] then None else Some (last (for_key audit k)))"

lemma last_by_key_eq:
  "k \<noteq> [] \<Longrightarrow> last_by_key m audit k = (if for_key audit k = [] then m k else last_audit audit k)"
  by (induction m audit rule: last_by_key.induct) (auto simp: Let_def for_key_def last_audit_def)

lemma last_by_key_spec: "k \<noteq> [] \<Longrightarrow> last_by_key Map.empty audit k = last_audit audit k"
  by (simp add: last_by_key_eq last_audit_def)

text \<open>Reconciliation adopts exactly the accounts the guard switched off. For every entry of the
  configuration, the state after AdoptOwnership is the state before it, except that an entry
  which is disabled, not owned and whose last audited decision is a disable becomes owned, with
  a disable counter of at least one and a fresh retry time.\<close>

theorem adoption_is_exact:
  assumes "acct \<in> set (uniqueAccounts accounts)"
  shows "account (fst (AdoptOwnership accounts audit now opts s)) (akey acct) =
    (let a = account s (akey acct); n = max 1 (as_DisableCount a) in
     if acc_Disabled acct \<and> \<not> as_DisabledByGuard a \<and>
        map_option dec_Action (last_audit audit (akey acct)) = Some ActionDisable
     then a\<lparr>as_Name := acc_Name acct, as_DisabledByGuard := True, as_DisableCount := n,
            as_NextRetryAt := backoffNext now n (normalized opts)\<rparr>
     else a)"
proof (cases "acc_Disabled acct")
  case True
  have k: "akey acct \<noteq> []" using assms by (rule uniqueAccounts_nonempty)
  then have "last_by_key Map.empty audit (normalizeKey (acc_ProviderKey acct)) = last_audit audit (akey acct)"
    by (simp add: akey_def last_by_key_spec)
  then show ?thesis
    using True
    by (auto simp: AdoptOwnership_def adopt_loop_slot [OF uniqueAccounts_distinct assms k True]
        adopt_account_def Let_def max_def split: option.split)
next
  case False
  then show ?thesis
    by (simp add: AdoptOwnership_def adopt_loop_untouched [OF uniqueAccounts_distinct assms] Let_def)
qed

definition ex_audit :: "Decision list" where
  "ex_audit = [\<lparr>dec_Time = 0, dec_Name = ''a'', dec_ProviderKey = ''a'', dec_Action = ActionDisable,
     dec_Streak = 3, dec_Baseline = ''n'', dec_Channels = [], dec_Reason = []\<rparr>]"

lemma ex_audit_last: "map_option dec_Action (last_audit ex_audit (akey (hd ex_off))) = Some ActionDisable"
  "as_DisableCount (account NewState (akey (hd ex_off))) = 0"
  "\<not> as_DisabledByGuard (account NewState (akey (hd ex_off)))"
  by code_simp+

theorem adoption_is_exact_witness:
  "as_DisabledByGuard (account (fst (AdoptOwnership ex_off ex_audit 7 ex_opts NewState)) (akey (hd ex_off)))"
  using adoption_is_exact [of "hd ex_off" ex_off ex_audit 7 ex_opts NewState] ex_key(1)
  by (simp add: ex_audit_last Let_def)

text \<open>C5: A lost state file cannot strand an account. If a round disabled an account, its decisions
  were carried out and appended to the audit trail, then reconciling any state that has
  forgotten it, the empty one included, with the configuration and that trail makes the guard
  the owner of the account again.\<close>

theorem ownership_survives_state_loss:
  assumes "d \<in> set (snd (Advance samples accounts now opts s))" and "isDisable d"
  shows "as_DisabledByGuard (account
    (fst (AdoptOwnership (carry_out (snd (Advance samples accounts now opts s)) accounts)
       (audit @ snd (Advance samples accounts now opts s)) now' opts' lost))
    (normalizeKey (dec_ProviderKey d)))"
proof -
  let ?ds = "snd (Advance samples accounts now opts s)"
  from assms(1) obtain acct where a: "acct \<in> set (uniqueAccounts accounts)"
    "akey acct = normalizeKey (dec_ProviderKey d)" by (rule Advance_from)
  from a(1) obtain m where
    "for_key ?ds (akey acct) = snd (snd (step_of samples accounts now opts s m acct))" by (rule round_slot)
  moreover have mem: "d \<in> set (for_key ?ds (akey acct))" using assms(1) a(2) by (simp add: for_key_def)
  moreover have "length (snd (snd (step_of samples accounts now opts s m acct))) \<le> 1"
    unfolding step_of_def by (rule decide_account_one)
  ultimately have "length (for_key ?ds (akey acct)) \<le> 1" by simp
  with mem have one: "for_key ?ds (akey acct) = [d]"
    by (cases "for_key ?ds (akey acct)") auto
  then have last: "map_option dec_Action (last_audit (audit @ ?ds) (akey acct)) = Some ActionDisable"
    using assms(2) by (simp add: last_audit_def for_key_def isDisable_def)
  have "acct\<lparr>acc_Disabled := True\<rparr> \<in> set (uniqueAccounts (carry_out ?ds accounts))"
    using a(1) one assms(2) unfolding uniqueAccounts_carry_out by (auto simp: carry_out_def intro!: image_eqI)
  from adoption_is_exact [OF this, of "audit @ ?ds" now' opts' lost] last
  show ?thesis by (auto simp: Let_def a(2) split: if_splits)
qed

theorem ownership_survives_state_loss_witness:
  "\<exists>d \<in> set (snd (Advance ex_samples ex_accounts 0 ex_opts NewState)).
     as_DisabledByGuard (account (fst (AdoptOwnership ex_after (snd (Advance ex_samples ex_accounts 0 ex_opts NewState))
       9 ex_opts NewState)) (normalizeKey (dec_ProviderKey d)))"
proof -
  obtain d where d: "d \<in> set (snd (Advance ex_samples ex_accounts 0 ex_opts NewState))" "isDisable d"
    using ex_round_disable by blast
  from ownership_survives_state_loss [OF this, of "[]" 9 ex_opts NewState] d(1)
  show ?thesis by (auto simp: ex_after_def)
qed

end
