(* ===== verification/Go_Json.thy ===== *)
theory Go_Json
  imports Go_Time
begin

text \<open>
  The part of Go's \<open>encoding/json\<close> (and \<open>unicode/utf8\<close>) the program uses. A document is a \<open>json\<close>
  value whose numbers keep their text; \<open>Marshal\<close> and \<open>MarshalIndent\<close> are one printer with a
  layout argument, \<open>parse_json\<close> is the scanner of \<open>Unmarshal\<close>, and \<open>json_field\<close> is how a struct
  field is filled from an object: members are matched without regard to case, a later member
  overrides an earlier one, \<open>null\<close> leaves the field alone, and a member of the wrong type makes the
  whole decoding fail. The scanner runs on fuel, two units per byte and two more, which no
  document exhausts: each nested call consumes a byte or ends the recursion. Go's limit of ten thousand nested
  values is not modelled.
\<close>

section \<open>Runes\<close>

definition cont_byte :: "nat \<Rightarrow> nat \<Rightarrow> char \<Rightarrow> bool" where
  "cont_byte lo hi c \<longleftrightarrow> lo \<le> byte_of c \<and> byte_of c \<le> hi"

text \<open>The size \<open>utf8.DecodeRune\<close> reports: 1 for an invalid encoding, 0 only at the end.\<close>

definition rune_size :: "string \<Rightarrow> nat" where
  "rune_size s =
     (case s of
        [] \<Rightarrow> 0
      | a # r \<Rightarrow>
          let b = byte_of a;
              c1 = (\<lambda>lo hi. r \<noteq> [] \<and> cont_byte lo hi (hd r));
              c2 = (1 < length r \<and> cont_byte 128 191 (r ! 1));
              c3 = (2 < length r \<and> cont_byte 128 191 (r ! 2))
          in if 194 \<le> b \<and> b \<le> 223 then (if c1 128 191 then 2 else 1)
             else if 224 \<le> b \<and> b \<le> 239
             then (if c1 (if b = 224 then 160 else 128) (if b = 237 then 159 else 191) \<and> c2 then 3 else 1)
             else if 240 \<le> b \<and> b \<le> 244
             then (if c1 (if b = 240 then 144 else 128) (if b = 244 then 143 else 191) \<and> c2 \<and> c3 then 4 else 1)
             else 1)"

lemma rune_size_bounds: "s \<noteq> [] \<Longrightarrow> 1 \<le> rune_size s" "rune_size s \<le> length s"
  by (cases s; auto simp: rune_size_def Let_def Suc_le_eq simp flip: length_greater_0_conv)+

lemma rune_size_pos [simp]: "0 < rune_size (c # r)"
  using rune_size_bounds(1) [of "c # r"] by simp

definition utf8_encode :: "nat \<Rightarrow> string" where
  "utf8_encode n =
     (if n < 128 then [char_of n]
      else if n < 2048 then [char_of (192 + n div 64), char_of (128 + n mod 64)]
      else if n < 65536
      then [char_of (224 + n div 4096), char_of (128 + n div 64 mod 64), char_of (128 + n mod 64)]
      else [char_of (240 + n div 262144), char_of (128 + n div 4096 mod 64),
            char_of (128 + n div 64 mod 64), char_of (128 + n mod 64)])"

definition rune_error :: string where "rune_error = [CHR 0xEF, CHR 0xBF, CHR 0xBD]"

section \<open>Values and their printing\<close>

datatype json = JNull | JBool bool | JNum string | JStr string | JArr "json list" | JObj "(string \<times> json) list"

definition dquote :: char where "dquote = CHR 0x22"
definition bslash :: char where "bslash = CHR 0x5C"

definition hex_char :: "nat \<Rightarrow> char" where
  "hex_char n = (if n < 10 then char_of (48 + n) else char_of (87 + n))"

text \<open>The escapes of the encoder, the HTML-sensitive bytes included.\<close>

definition escape_ascii :: "char \<Rightarrow> string" where
  "escape_ascii c =
     (if c = dquote \<or> c = bslash then [bslash, c]
      else if byte_of c = 8 then [bslash, CHR ''b'']
      else if byte_of c = 12 then [bslash, CHR ''f'']
      else if byte_of c = 10 then [bslash, CHR ''n'']
      else if byte_of c = 13 then [bslash, CHR ''r'']
      else if byte_of c = 9 then [bslash, CHR ''t'']
      else if byte_of c < 32 \<or> c = CHR ''<'' \<or> c = CHR ''>'' \<or> c = CHR ''&''
      then [bslash, CHR ''u'', CHR ''0'', CHR ''0'', hex_char (byte_of c div 16), hex_char (byte_of c mod 16)]
      else [c])"

function escape :: "string \<Rightarrow> string" where
  "escape s =
     (case s of
        [] \<Rightarrow> []
      | c # r \<Rightarrow>
          if byte_of c < 128 then escape_ascii c @ escape r
          else if rune_size s = 1 then bslash # ''ufffd'' @ escape r
          else if take 3 s = [CHR 0xE2, CHR 0x80, CHR 0xA8] then bslash # ''u2028'' @ escape (drop 3 s)
          else if take 3 s = [CHR 0xE2, CHR 0x80, CHR 0xA9] then bslash # ''u2029'' @ escape (drop 3 s)
          else take (rune_size s) s @ escape (drop (rune_size s) s))"
  by pat_completeness auto
termination
  by (relation "measure length") auto

declare escape.simps [simp del]

definition json_string :: "string \<Rightarrow> string" where
  "json_string s = dquote # escape s @ [dquote]"

text \<open>
  A layout says what stands between two elements at a nesting depth, and between a key and its
  value. \<open>Marshal\<close> writes nothing; \<open>MarshalIndent\<close> with two spaces breaks the line.
\<close>

definition separated :: "string \<Rightarrow> string list \<Rightarrow> string" where
  "separated sep ps = (case ps of [] \<Rightarrow> [] | p # rest \<Rightarrow> p @ concat (map (\<lambda>q. sep @ q) rest))"

fun render :: "(nat \<Rightarrow> string) \<Rightarrow> string \<Rightarrow> nat \<Rightarrow> json \<Rightarrow> string" where
  "render br colon d JNull = ''null''"
| "render br colon d (JBool b) = (if b then ''true'' else ''false'')"
| "render br colon d (JNum n) = n"
| "render br colon d (JStr s) = json_string s"
| "render br colon d (JArr js) =
     (if js = [] then ''[]''
      else ''['' @ br (Suc d) @ separated ('','' @ br (Suc d)) (map (render br colon (Suc d)) js) @ br d @ '']'')"
| "render br colon d (JObj ms) =
     (if ms = [] then [CHR 0x7B, CHR 0x7D]
      else [CHR 0x7B] @ br (Suc d) @
        separated ('','' @ br (Suc d)) (map (\<lambda>(k, v). json_string k @ colon @ render br colon (Suc d) v) ms) @
        br d @ [CHR 0x7D])"

definition Marshal :: "json \<Rightarrow> string" where
  "Marshal = render (\<lambda>_. []) '':'' 0"

definition MarshalIndent :: "json \<Rightarrow> string" where
  "MarshalIndent = render (\<lambda>d. CHR 0x0A # replicate (2 * d) (CHR '' '')) '': '' 0"

section \<open>Parsing\<close>

definition json_space :: "char \<Rightarrow> bool" where
  "json_space c \<longleftrightarrow> c = CHR '' '' \<or> c = CHR 0x09 \<or> c = CHR 0x0A \<or> c = CHR 0x0D"

definition skip_space :: "string \<Rightarrow> string" where
  "skip_space s = dropWhile json_space s"

definition hex_value :: "char \<Rightarrow> nat option" where
  "hex_value c = (let b = byte_of c in
     if 48 \<le> b \<and> b \<le> 57 then Some (b - 48)
     else if 97 \<le> b \<and> b \<le> 102 then Some (b - 87)
     else if 65 \<le> b \<and> b \<le> 70 then Some (b - 55) else None)"

fun hex4 :: "string \<Rightarrow> nat option" where
  "hex4 (a # b # c # d # _) =
     (case (hex_value a, hex_value b, hex_value c, hex_value d) of
        (Some w, Some x, Some y, Some z) \<Rightarrow> Some (((w * 16 + x) * 16 + y) * 16 + z)
      | _ \<Rightarrow> None)"
| "hex4 _ = None"

text \<open>The rune of an escape, with the bytes it takes after the \<open>u\<close>; a lone surrogate is an error rune.\<close>

definition unicode_escape :: "string \<Rightarrow> (string \<times> nat) option" where
  "unicode_escape r =
     (case hex4 r of
        None \<Rightarrow> None
      | Some n \<Rightarrow>
          if n < 55296 \<or> 57344 \<le> n then Some (utf8_encode n, 4)
          else (case (n < 56320 \<and> take 2 (drop 4 r) = [bslash, CHR ''u''], hex4 (drop 6 r)) of
              (True, Some m) \<Rightarrow>
                if 56320 \<le> m \<and> m < 57344
                then Some (utf8_encode (65536 + (n - 55296) * 1024 + (m - 56320)), 10)
                else Some (rune_error, 4)
            | _ \<Rightarrow> Some (rune_error, 4)))"

definition simple_escape :: "char \<Rightarrow> char option" where
  "simple_escape e =
     (if e = dquote \<or> e = bslash \<or> e = CHR ''/'' then Some e
      else if e = CHR ''b'' then Some (CHR 0x08) else if e = CHR ''f'' then Some (CHR 0x0C)
      else if e = CHR ''n'' then Some (CHR 0x0A) else if e = CHR ''r'' then Some (CHR 0x0D)
      else if e = CHR ''t'' then Some (CHR 0x09) else None)"

text \<open>The content of a string literal after its opening quote, and the rest after the closing one.\<close>

fun unquote :: "nat \<Rightarrow> string \<Rightarrow> (string \<times> string) option" where
  "unquote 0 s = None"
| "unquote (Suc n) [] = None"
| "unquote (Suc n) (c # s) =
     (if c = dquote then Some ([], s)
      else if c = bslash
      then (case s of
          [] \<Rightarrow> None
        | e # r \<Rightarrow>
            if e = CHR ''u''
            then (case unicode_escape r of None \<Rightarrow> None
                  | Some (out, k) \<Rightarrow> map_option (\<lambda>(t, rest). (out @ t, rest)) (unquote n (drop k r)))
            else (case simple_escape e of None \<Rightarrow> None
                  | Some out \<Rightarrow> map_option (\<lambda>(t, rest). (out # t, rest)) (unquote n r)))
      else if byte_of c < 32 then None
      else if byte_of c < 128 then map_option (\<lambda>(t, rest). (c # t, rest)) (unquote n s)
      else let k = rune_size (c # s) in
        map_option (\<lambda>(t, rest). ((if k = 1 then rune_error else take k (c # s)) @ t, rest))
          (unquote n (drop k (c # s))))"

definition is_dig :: "char \<Rightarrow> bool" where
  "is_dig c \<longleftrightarrow> 48 \<le> byte_of c \<and> byte_of c \<le> 57"

definition take_digits :: "string \<Rightarrow> string \<times> string" where
  "take_digits s = (takeWhile is_dig s, dropWhile is_dig s)"

definition scan_exp :: "string \<Rightarrow> (string \<times> string) option" where
  "scan_exp s =
     (case s of
        e # r \<Rightarrow>
          if e = CHR ''e'' \<or> e = CHR ''E''
          then (let (sign, r1) = (case r of c # r1 \<Rightarrow> if c = CHR ''+'' \<or> c = CHR ''-'' then ([c], r1) else ([], r)
                      | [] \<Rightarrow> ([], []));
                    (ds, r2) = take_digits r1
                in if ds = [] then None else Some (e # sign @ ds, r2))
          else Some ([], s)
      | [] \<Rightarrow> Some ([], []))"

definition scan_frac :: "string \<Rightarrow> (string \<times> string) option" where
  "scan_frac s =
     (case s of
        c # r \<Rightarrow> if c = CHR ''.'' then (let (ds, r1) = take_digits r in if ds = [] then None else Some (c # ds, r1))
                 else Some ([], s)
      | [] \<Rightarrow> Some ([], []))"

definition scan_int :: "string \<Rightarrow> (string \<times> string) option" where
  "scan_int s =
     (case s of
        c # r \<Rightarrow> if c = CHR ''0'' then Some ([c], r)
                 else if is_dig c then Some (take_digits s) else None
      | [] \<Rightarrow> None)"

definition scan_number :: "string \<Rightarrow> (string \<times> string) option" where
  "scan_number s =
     (let (sign, s1) = (case s of c # r \<Rightarrow> if c = CHR ''-'' then ([c], r) else ([], s) | [] \<Rightarrow> ([], [])) in
      case scan_int s1 of None \<Rightarrow> None
      | Some (i, s2) \<Rightarrow>
          (case scan_frac s2 of None \<Rightarrow> None
           | Some (f, s3) \<Rightarrow>
               (case scan_exp s3 of None \<Rightarrow> None
                | Some (e, s4) \<Rightarrow> Some (sign @ i @ f @ e, s4))))"

fun parse_value :: "nat \<Rightarrow> string \<Rightarrow> (json \<times> string) option"
  and parse_elems :: "nat \<Rightarrow> string \<Rightarrow> (json list \<times> string) option"
  and parse_members :: "nat \<Rightarrow> string \<Rightarrow> ((string \<times> json) list \<times> string) option" where
  "parse_value 0 s = None"
| "parse_value (Suc n) s0 =
     (case skip_space s0 of
        [] \<Rightarrow> None
      | c # r \<Rightarrow>
          if c = dquote then map_option (\<lambda>(t, rest). (JStr t, rest)) (unquote (Suc (length r)) r)
          else if c = CHR ''[''
          then (case skip_space r of
              d # r' \<Rightarrow> if d = CHR '']'' then Some (JArr [], r')
                        else map_option (\<lambda>(js, rest). (JArr js, rest)) (parse_elems n r)
            | [] \<Rightarrow> None)
          else if c = CHR 0x7B
          then (case skip_space r of
              d # r' \<Rightarrow> if d = CHR 0x7D then Some (JObj [], r')
                        else map_option (\<lambda>(ms, rest). (JObj ms, rest)) (parse_members n r)
            | [] \<Rightarrow> None)
          else if HasPrefix (c # r) ''null'' then Some (JNull, drop 4 (c # r))
          else if HasPrefix (c # r) ''true'' then Some (JBool True, drop 4 (c # r))
          else if HasPrefix (c # r) ''false'' then Some (JBool False, drop 5 (c # r))
          else map_option (\<lambda>(t, rest). (JNum t, rest)) (scan_number (c # r)))"
| "parse_elems 0 s = None"
| "parse_elems (Suc n) s =
     (case parse_value n s of
        None \<Rightarrow> None
      | Some (j, r) \<Rightarrow>
          (case skip_space r of
             d # r' \<Rightarrow> if d = CHR '','' then map_option (\<lambda>(js, rest). (j # js, rest)) (parse_elems n r')
                       else if d = CHR '']'' then Some ([j], r') else None
           | [] \<Rightarrow> None))"
| "parse_members 0 s = None"
| "parse_members (Suc n) s =
     (case skip_space s of
        [] \<Rightarrow> None
      | q # r \<Rightarrow>
          if q \<noteq> dquote then None
          else (case unquote (Suc (length r)) r of
              None \<Rightarrow> None
            | Some (k, r1) \<Rightarrow>
                (case skip_space r1 of
                   [] \<Rightarrow> None
                 | c # r2 \<Rightarrow>
                     if c \<noteq> CHR '':'' then None
                     else (case parse_value n r2 of
                         None \<Rightarrow> None
                       | Some (v, r3) \<Rightarrow>
                           (case skip_space r3 of
                              [] \<Rightarrow> None
                            | d # r4 \<Rightarrow>
                                if d = CHR '','' then map_option (\<lambda>(ms, rest). ((k, v) # ms, rest)) (parse_members n r4)
                                else if d = CHR 0x7D then Some ([(k, v)], r4) else None)))))"

definition parse_json :: "string \<Rightarrow> json option" where
  "parse_json s =
     (case parse_value (2 * length s + 2) s of
        None \<Rightarrow> None
      | Some (j, rest) \<Rightarrow> if skip_space rest = [] then Some j else None)"

section \<open>Filling a struct\<close>

fun json_field :: "(json \<Rightarrow> 'a option) \<Rightarrow> string \<Rightarrow> (string \<times> json) list \<Rightarrow> 'a \<Rightarrow> 'a option" where
  "json_field dec name [] a = Some a"
| "json_field dec name ((k, v) # ms) a =
     (if EqualFold k name \<and> v \<noteq> JNull
      then (case dec v of None \<Rightarrow> None | Some b \<Rightarrow> json_field dec name ms b)
      else json_field dec name ms a)"

text \<open>A pointer, map or slice field: \<open>null\<close> resets it.\<close>

fun json_pointer :: "(json \<Rightarrow> 'a option) \<Rightarrow> string \<Rightarrow> (string \<times> json) list \<Rightarrow> 'a option \<Rightarrow> 'a option option" where
  "json_pointer dec name [] a = Some a"
| "json_pointer dec name ((k, v) # ms) a =
     (if EqualFold k name
      then (if v = JNull then json_pointer dec name ms None
            else (case dec v of None \<Rightarrow> None | Some b \<Rightarrow> json_pointer dec name ms (Some b)))
      else json_pointer dec name ms a)"

definition dec_string :: "json \<Rightarrow> string option" where
  "dec_string j = (case j of JStr s \<Rightarrow> Some s | _ \<Rightarrow> None)"

definition dec_bool :: "json \<Rightarrow> bool option" where
  "dec_bool j = (case j of JBool b \<Rightarrow> Some b | _ \<Rightarrow> None)"

definition dec_int :: "json \<Rightarrow> int option" where
  "dec_int j = (case j of JNum n \<Rightarrow> Atoi n | _ \<Rightarrow> None)"

definition dec_object :: "json \<Rightarrow> (string \<times> json) list option" where
  "dec_object j = (case j of JObj ms \<Rightarrow> Some ms | _ \<Rightarrow> None)"

fun dec_all :: "(json \<Rightarrow> 'a option) \<Rightarrow> json list \<Rightarrow> 'a list option" where
  "dec_all dec [] = Some []"
| "dec_all dec (j # js) =
     (case (dec j, dec_all dec js) of (Some a, Some as) \<Rightarrow> Some (a # as) | _ \<Rightarrow> None)"

definition dec_strings :: "json \<Rightarrow> string list option" where
  "dec_strings j = (case j of JArr js \<Rightarrow> dec_all (\<lambda>e. if e = JNull then Some [] else dec_string e) js | _ \<Rightarrow> None)"

text \<open>\<open>time.Time\<close> as RFC 3339 text.\<close>

definition all_digits :: "string \<Rightarrow> bool" where "all_digits s \<longleftrightarrow> s \<noteq> [] \<and> list_all is_dig s"

definition two_digits :: "string \<Rightarrow> nat \<Rightarrow> int \<Rightarrow> int option" where
  "two_digits s i limit =
     (let t = take 2 (drop i s) in
      case parse_digits 0 t of
        None \<Rightarrow> None
      | Some n \<Rightarrow> if length t = 2 \<and> int n < limit then Some (int n) else None)"

definition parse_zone :: "string \<Rightarrow> duration option" where
  "parse_zone z =
     (if z = ''Z'' then Some 0
      else if length z = 6 \<and> (z ! 0 = CHR ''+'' \<or> z ! 0 = CHR ''-'') \<and> z ! 3 = CHR '':''
      then (case (two_digits z 1 24, two_digits z 4 60) of
          (Some h, Some m) \<Rightarrow> Some ((if z ! 0 = CHR ''-'' then -1 else 1) * (h * Hour + m * Minute))
        | _ \<Rightarrow> None)
      else None)"

definition parse_fraction :: "string \<Rightarrow> (int \<times> string) option" where
  "parse_fraction s =
     (case s of
        c # r \<Rightarrow>
          if c = CHR ''.''
          then (let ds = takeWhile is_dig r; rest = dropWhile is_dig r in
                if ds = [] then None
                else (case parse_digits 0 (take 9 (ds @ replicate 9 (CHR ''0''))) of
                    None \<Rightarrow> None | Some n \<Rightarrow> Some (int n, rest)))
          else Some (0, s)
      | [] \<Rightarrow> Some (0, []))"

definition ParseRFC3339 :: "string \<Rightarrow> time option" where
  "ParseRFC3339 s =
     (if length s < 20 \<or> s ! 10 \<noteq> CHR ''T'' \<or> s ! 13 \<noteq> CHR '':'' \<or> s ! 16 \<noteq> CHR '':'' then None
      else case (ParseDate (take 10 s), two_digits s 11 24, two_digits s 14 60, two_digits s 17 60,
                 parse_fraction (drop 19 s)) of
          (Some day, Some h, Some m, Some sec, Some (ns, zone)) \<Rightarrow>
            (case parse_zone zone of None \<Rightarrow> None
             | Some offset \<Rightarrow> Some (day + h * Hour + m * Minute + sec * Second + ns - offset))
        | _ \<Rightarrow> None)"

definition dec_time :: "json \<Rightarrow> time option" where
  "dec_time j = (case j of JStr s \<Rightarrow> ParseRFC3339 s | _ \<Rightarrow> None)"

definition enc_int :: "int \<Rightarrow> json" where "enc_int i = JNum (Itoa i)"
definition enc_time :: "time \<Rightarrow> json" where "enc_time t = JStr (FormatRFC3339Nano t)"

text \<open>\<open>omitempty\<close>: the member is left out.\<close>

definition omit :: "bool \<Rightarrow> string \<Rightarrow> json \<Rightarrow> (string \<times> json) list" where
  "omit blank name v = (if blank then [] else [(name, v)])"

definition omit_time :: "string \<Rightarrow> time option \<Rightarrow> (string \<times> json) list" where
  "omit_time name t = (case t of None \<Rightarrow> [] | Some x \<Rightarrow> [(name, enc_time x)])"

end
