(* ===== verification/Guard_Store.thy ===== *)
theory Guard_Store
  imports Guard_Histories Go_Json "HOL-Library.Monad_Syntax" "HOL-Library.List_Lexorder" "HOL-Library.Char_ord"
begin

text \<open>
  The guard's files, \<open>internal/guard/store.go\<close> and \<open>instance.go\<close>. A directory is a map from file
  names to contents. A system call of a sequence may fail: \<open>fails\<close> says which ones do, and a
  failing write leaves \<open>torn\<close> behind, so that \<open>Save\<close> is the list of directory states it passes
  through (what a crash can leave) with its error. The JSON documents are those of the struct
  tags.
\<close>

section \<open>Documents\<close>

definition enc_account :: "AccountState \<Rightarrow> json" where
  "enc_account a = JObj (omit (as_Name a = []) ''name'' (JStr (as_Name a)) @
     [(''streak'', enc_int (as_Streak a))] @
     omit (as_Channels a = []) ''channels'' (JArr (map JStr (as_Channels a))) @
     [(''disabled_by_guard'', JBool (as_DisabledByGuard a)), (''disable_count'', enc_int (as_DisableCount a))] @
     omit_time ''next_retry_at'' (as_NextRetryAt a) @
     omit (as_LastChannel a = []) ''last_channel'' (JStr (as_LastChannel a)) @
     omit_time ''last_sample_at'' (as_LastSampleAt a) @
     omit (\<not> as_DryRunReported a) ''dry_run_reported'' (JBool True))"

definition list_of :: "'a list option \<Rightarrow> 'a list" where
  "list_of xs = (case xs of None \<Rightarrow> [] | Some ys \<Rightarrow> ys)"

definition dec_account :: "json \<Rightarrow> AccountState option" where
  "dec_account j = do {
     ms \<leftarrow> dec_object j;
     name \<leftarrow> json_field dec_string ''name'' ms [];
     streak \<leftarrow> json_field dec_int ''streak'' ms 0;
     channels \<leftarrow> json_pointer dec_strings ''channels'' ms None;
     owned \<leftarrow> json_field dec_bool ''disabled_by_guard'' ms False;
     n \<leftarrow> json_field dec_int ''disable_count'' ms 0;
     retry \<leftarrow> json_pointer dec_time ''next_retry_at'' ms None;
     lastc \<leftarrow> json_field dec_string ''last_channel'' ms [];
     stamp \<leftarrow> json_pointer dec_time ''last_sample_at'' ms None;
     dry \<leftarrow> json_field dec_bool ''dry_run_reported'' ms False;
     Some \<lparr>as_Name = name, as_Streak = streak, as_Channels = list_of channels,
       as_DisabledByGuard = owned, as_DisableCount = n, as_NextRetryAt = retry,
       as_LastChannel = lastc, as_LastSampleAt = stamp, as_DryRunReported = dry\<rparr> }"

text \<open>A map is written with its keys in byte order.\<close>

definition account_keys :: "State \<Rightarrow> string list" where
  "account_keys s = sorted_list_of_set (dom (st_Accounts s))"

definition enc_state :: "State \<Rightarrow> json" where
  "enc_state s = JObj ([(''version'', enc_int (st_Version s)),
     (''accounts'', JObj (map (\<lambda>k. (k, enc_account (account s k))) (account_keys s)))] @
     omit (st_Seen s = []) ''seen'' (JArr (map JStr (st_Seen s))))"

fun dec_accounts :: "(string \<times> json) list \<Rightarrow> (string \<rightharpoonup> AccountState) \<Rightarrow> (string \<rightharpoonup> AccountState) option" where
  "dec_accounts [] m = Some m"
| "dec_accounts ((k, v) # ms) m =
     (if v = JNull then dec_accounts ms (m(k := None))
      else case dec_account v of None \<Rightarrow> None | Some a \<Rightarrow> dec_accounts ms (m(k \<mapsto> a)))"

fun dec_accounts_field ::
  "(string \<times> json) list \<Rightarrow> (string \<rightharpoonup> AccountState) \<Rightarrow> (string \<rightharpoonup> AccountState) option" where
  "dec_accounts_field [] m = Some m"
| "dec_accounts_field ((k, v) # ms) m =
     (if EqualFold k ''accounts''
      then (case v of
          JNull \<Rightarrow> dec_accounts_field ms Map.empty
        | JObj as \<Rightarrow> (case dec_accounts as m of None \<Rightarrow> None | Some m' \<Rightarrow> dec_accounts_field ms m')
        | _ \<Rightarrow> None)
      else dec_accounts_field ms m)"

definition dec_state :: "json \<Rightarrow> State option" where
  "dec_state j =
     (if j = JNull then Some NewState
      else do {
        ms \<leftarrow> dec_object j;
        version \<leftarrow> json_field dec_int ''version'' ms stateVersion;
        accounts \<leftarrow> dec_accounts_field ms Map.empty;
        seen \<leftarrow> json_pointer dec_strings ''seen'' ms None;
        Some \<lparr>st_Version = version, st_Accounts = accounts, st_Seen = list_of seen, st_seen = Some {}\<rparr> })"

definition enc_decision :: "Decision \<Rightarrow> json" where
  "enc_decision d = JObj ([(''time'', enc_time (dec_Time d)), (''name'', JStr (dec_Name d)),
     (''provider_key'', JStr (dec_ProviderKey d)), (''action'', JStr (dec_Action d)),
     (''streak'', enc_int (dec_Streak d))] @
     omit (dec_Baseline d = []) ''baseline'' (JStr (dec_Baseline d)) @
     omit (dec_Channels d = []) ''channels'' (JArr (map JStr (dec_Channels d))) @
     [(''reason'', JStr (dec_Reason d))])"

definition zero_decision :: Decision where
  "zero_decision = \<lparr>dec_Time = zero_time, dec_Name = [], dec_ProviderKey = [], dec_Action = [],
     dec_Streak = 0, dec_Baseline = [], dec_Channels = [], dec_Reason = []\<rparr>"

definition dec_decision :: "json \<Rightarrow> Decision option" where
  "dec_decision j =
     (if j = JNull then Some zero_decision
      else do {
        ms \<leftarrow> dec_object j;
        t \<leftarrow> json_field dec_time ''time'' ms zero_time;
        name \<leftarrow> json_field dec_string ''name'' ms [];
        key \<leftarrow> json_field dec_string ''provider_key'' ms [];
        action \<leftarrow> json_field dec_string ''action'' ms [];
        streak \<leftarrow> json_field dec_int ''streak'' ms 0;
        baseline \<leftarrow> json_field dec_string ''baseline'' ms [];
        channels \<leftarrow> json_pointer dec_strings ''channels'' ms None;
        reason \<leftarrow> json_field dec_string ''reason'' ms [];
        Some \<lparr>dec_Time = t, dec_Name = name, dec_ProviderKey = key, dec_Action = action,
          dec_Streak = streak, dec_Baseline = baseline, dec_Channels = list_of channels, dec_Reason = reason\<rparr> })"

section \<open>Load and Save\<close>

type_synonym dir = "string \<rightharpoonup> string"

datatype syscall = Sys_Mkdir | Sys_CreateTemp | Sys_Chmod | Sys_Write | Sys_Sync | Sys_Close | Sys_Rename
  | Sys_Read | Sys_Open

definition StateFileName :: string where "StateFileName = ''account-guard.json''"
definition AuditFileName :: string where "AuditFileName = ''account-guard.jsonl''"

datatype store_error = Store_Failed syscall | Store_Corrupt | Store_LineTooLong

text \<open>\<open>fails Sys_Read\<close> is a read error other than "no such file".\<close>

definition Load :: "(syscall \<Rightarrow> bool) \<Rightarrow> dir \<Rightarrow> store_error + State" where
  "Load fails d =
     (if fails Sys_Read then Inl (Store_Failed Sys_Read)
      else case d StateFileName of
        None \<Rightarrow> Inr NewState
      | Some data \<Rightarrow>
          if TrimSpace data = [] then Inr (hydrate NewState)
          else (case parse_json data of
              None \<Rightarrow> Inl Store_Corrupt
            | Some j \<Rightarrow> (case dec_state j of None \<Rightarrow> Inl Store_Corrupt | Some s \<Rightarrow> Inr (hydrate s))))"

text \<open>
  A step is a system call with its effect and what it leaves behind when it fails. The run is the
  list of the directories after each step that was attempted, and the call that failed.
\<close>

type_synonym step = "syscall \<times> (dir \<Rightarrow> dir) \<times> (dir \<Rightarrow> dir)"

fun run_steps :: "(syscall \<Rightarrow> bool) \<Rightarrow> step list \<Rightarrow> dir \<Rightarrow> dir list \<times> syscall option" where
  "run_steps fails [] d = ([], None)"
| "run_steps fails ((call, effect, broken) # rest) d =
     (if fails call then ([broken d], Some call)
      else let (ds, err) = run_steps fails rest (effect d) in (effect d # ds, err))"

definition temp_name :: "string \<Rightarrow> string" where
  "temp_name r = StateFileName @ ''.'' @ r @ ''.tmp''"

definition save_steps :: "string \<Rightarrow> string \<Rightarrow> string \<Rightarrow> step list" where
  "save_steps tmp torn data =
     [(Sys_Mkdir, \<lambda>d. d, \<lambda>d. d),
      (Sys_CreateTemp, \<lambda>d. d(tmp \<mapsto> []), \<lambda>d. d),
      (Sys_Chmod, \<lambda>d. d, \<lambda>d. d),
      (Sys_Write, \<lambda>d. d(tmp \<mapsto> data), \<lambda>d. d(tmp \<mapsto> torn)),
      (Sys_Sync, \<lambda>d. d, \<lambda>d. d),
      (Sys_Close, \<lambda>d. d, \<lambda>d. d),
      (Sys_Rename, \<lambda>d. d(StateFileName \<mapsto> data, tmp := None), \<lambda>d. d)]"

text \<open>
  The deferred removal of the temporary file runs on every error after its creation; the last
  state of the run is the directory the call leaves.
\<close>

definition Save :: "(syscall \<Rightarrow> bool) \<Rightarrow> string \<Rightarrow> string \<Rightarrow> State \<Rightarrow> dir \<Rightarrow> dir list \<times> syscall option" where
  "Save fails r torn s d =
     (let tmp = temp_name r;
          (ds, err) = run_steps fails (save_steps tmp torn (MarshalIndent (enc_state s) @ [CHR 0x0A])) d
      in if err = None \<or> err = Some Sys_Mkdir \<or> err = Some Sys_CreateTemp then (ds, err)
         else (ds @ [(last ds)(tmp := None)], err))"

definition saved_dir :: "dir \<Rightarrow> dir list \<times> syscall option \<Rightarrow> dir" where
  "saved_dir d r = last (d # fst r)"

section \<open>The audit trail\<close>

text \<open>\<open>bufio.Scanner\<close> with \<open>ScanLines\<close>: the lines without their newline, no empty last line.\<close>

fun scan_lines :: "string \<Rightarrow> string list" where
  "scan_lines [] = []"
| "scan_lines (c # s) =
     (if c = CHR 0x0A then [] # scan_lines s
      else case scan_lines s of [] \<Rightarrow> [[c]] | l # ls \<Rightarrow> (c # l) # ls)"

definition audit_line_max :: nat where "audit_line_max = 1024 * 1024"

definition push_recent :: "nat \<Rightarrow> 'a list \<Rightarrow> 'a \<Rightarrow> 'a list" where
  "push_recent limit ring x = (if length ring = limit then tl ring @ [x] else ring @ [x])"

definition decode_line :: "string \<Rightarrow> Decision option" where
  "decode_line line0 =
     (let line = TrimSpace line0 in
      if line = [] then None else case parse_json line of None \<Rightarrow> None | Some j \<Rightarrow> dec_decision j)"

fun ring_lines :: "nat \<Rightarrow> Decision list \<Rightarrow> string list \<Rightarrow> Decision list" where
  "ring_lines limit ring [] = ring"
| "ring_lines limit ring (line # rest) =
     (case decode_line line of
        None \<Rightarrow> ring_lines limit ring rest
      | Some dcn \<Rightarrow> ring_lines limit (push_recent limit ring dcn) rest)"

definition RecentAudit :: "(syscall \<Rightarrow> bool) \<Rightarrow> int \<Rightarrow> dir \<Rightarrow> store_error + Decision list" where
  "RecentAudit fails limit d =
     (if limit \<le> 0 then Inr []
      else if fails Sys_Open then Inl (Store_Failed Sys_Open)
      else case d AuditFileName of
        None \<Rightarrow> Inr []
      | Some content \<Rightarrow>
          if list_ex (\<lambda>l. audit_line_max \<le> length l) (scan_lines content) then Inl Store_LineTooLong
          else Inr (ring_lines (nat limit) [] (scan_lines content)))"

definition audit_steps :: "string \<Rightarrow> string \<Rightarrow> step list" where
  "audit_steps torn line =
     (let grow = (\<lambda>t d. d(AuditFileName \<mapsto> (case d AuditFileName of None \<Rightarrow> [] | Some c \<Rightarrow> c) @ t)) in
     [(Sys_Mkdir, \<lambda>d. d, \<lambda>d. d), (Sys_Open, grow [], \<lambda>d. d), (Sys_Write, grow line, grow torn),
      (Sys_Sync, \<lambda>d. d, \<lambda>d. d)])"

definition AppendAudit :: "(syscall \<Rightarrow> bool) \<Rightarrow> string \<Rightarrow> Decision \<Rightarrow> dir \<Rightarrow> dir list \<times> syscall option" where
  "AppendAudit fails torn dcn d =
     run_steps fails (audit_steps torn (Marshal (enc_decision dcn) @ [CHR 0x0A])) d"

section \<open>Heartbeats\<close>

record InstanceInfo =
  ii_ID :: string
  ii_Version :: string
  ii_StartedAt :: time
  ii_LastSeen :: time
  ii_PID :: int

definition InstanceFilePrefix :: string where "InstanceFilePrefix = ''account-guard.instance-''"
definition instanceFileSuffix :: string where "instanceFileSuffix = ''.json''"
definition instanceStaleAfter :: duration where "instanceStaleAfter = 5 * Minute"

definition instance_file :: "string \<Rightarrow> string" where
  "instance_file iid = InstanceFilePrefix @ iid @ instanceFileSuffix"

definition enc_instance :: "InstanceInfo \<Rightarrow> json" where
  "enc_instance i = JObj ([(''id'', JStr (ii_ID i))] @
     omit (ii_Version i = []) ''version'' (JStr (ii_Version i)) @
     [(''started_at'', enc_time (ii_StartedAt i)), (''last_seen'', enc_time (ii_LastSeen i))] @
     omit (ii_PID i = 0) ''pid'' (enc_int (ii_PID i)))"

definition dec_instance :: "json \<Rightarrow> InstanceInfo option" where
  "dec_instance j =
     (if j = JNull then Some \<lparr>ii_ID = [], ii_Version = [], ii_StartedAt = zero_time, ii_LastSeen = zero_time, ii_PID = 0\<rparr>
      else do {
        ms \<leftarrow> dec_object j;
        iid \<leftarrow> json_field dec_string ''id'' ms [];
        version \<leftarrow> json_field dec_string ''version'' ms [];
        started \<leftarrow> json_field dec_time ''started_at'' ms zero_time;
        seen \<leftarrow> json_field dec_time ''last_seen'' ms zero_time;
        pid \<leftarrow> json_field dec_int ''pid'' ms 0;
        Some \<lparr>ii_ID = iid, ii_Version = version, ii_StartedAt = started, ii_LastSeen = seen, ii_PID = pid\<rparr> })"

definition TouchInstance :: "(syscall \<Rightarrow> bool) \<Rightarrow> InstanceInfo \<Rightarrow> dir \<Rightarrow> dir \<times> syscall option" where
  "TouchInstance fails info d =
     (if TrimSpace (ii_ID info) = [] then (d, None)
      else if fails Sys_Mkdir then (d, Some Sys_Mkdir)
      else if fails Sys_Write then (d, Some Sys_Write)
      else (d(instance_file (ii_ID info) \<mapsto> Marshal (enc_instance info) @ [CHR 0x0A]), None))"

definition ForgetInstance :: "(syscall \<Rightarrow> bool) \<Rightarrow> string \<Rightarrow> dir \<Rightarrow> dir \<times> syscall option" where
  "ForgetInstance fails iid d =
     (if TrimSpace iid = [] then (d, None)
      else if fails Sys_Write then (d, Some Sys_Write)
      else (d(instance_file iid := None), None))"

text \<open>
  The fate of one directory entry: not a heartbeat (or unreadable), stale and removed, too quiet
  or from a previous process and skipped, or live.
\<close>

datatype beat = Ignored | Stale | Skipped | Live InstanceInfo

definition judge_beat :: "time \<Rightarrow> duration \<Rightarrow> time \<Rightarrow> dir \<Rightarrow> string \<Rightarrow> beat" where
  "judge_beat now win startedAfter d name =
     (if \<not> HasPrefix name InstanceFilePrefix \<or> \<not> HasSuffix name instanceFileSuffix then Ignored
      else case d name of
        None \<Rightarrow> Ignored
      | Some data \<Rightarrow>
          (case Option.bind (parse_json data) dec_instance of
             None \<Rightarrow> Ignored
           | Some info \<Rightarrow>
               let age = Sub now (ii_LastSeen info) in
               if age > instanceStaleAfter then Stale
               else if win > 0 \<and> age > win then Skipped
               else if \<not> IsZero startedAfter \<and> Before (ii_LastSeen info) startedAfter then Skipped
               else Live info))"

text \<open>
  \<open>names\<close> is the listing of the directory. \<open>sort.Slice\<close> is not stable; the model keeps the order
  of the listing among equal start times, which is one of the orders the library may return.
\<close>

definition LiveInstances ::
  "time \<Rightarrow> duration \<Rightarrow> time \<Rightarrow> string list \<Rightarrow> dir \<Rightarrow> dir \<times> InstanceInfo list" where
  "LiveInstances now win startedAfter names d =
     (let stale = filter (\<lambda>n. judge_beat now win startedAfter d n = Stale) names;
          live = concat (map (\<lambda>n. case judge_beat now win startedAfter d n of Live i \<Rightarrow> [i] | _ \<Rightarrow> []) names)
      in ((\<lambda>n. if n \<in> set stale then None else d n), sort_key ii_StartedAt live))"

end
