(* ===== verification/Go_Url.thy ===== *)
theory Go_Url
  imports Go_Strings
begin

text \<open>
  The part of Go's \<open>net/url\<close> the program uses: \<open>url.Parse\<close> followed by \<open>Hostname\<close>. The fragment
  and the query are cut off, the scheme is split at its colon, the authority sits between \<open>//\<close>
  and the next slash, user information ends at the last \<open>@\<close>, and a port is stripped. Whatever
  makes \<open>Parse\<close> fail is \<open>None\<close>: control bytes, an empty scheme, a colon in the first segment of a
  relative path, a malformed percent escape, a byte that may not stand in a host, a port that is
  not decimal, more than one colon in a host without brackets. Of a bracketed IPv6 literal only
  the alphabet is checked, not the grouping of its digits.
\<close>

section \<open>Cutting\<close>

fun cut_at :: "char \<Rightarrow> string \<Rightarrow> string \<times> string" where
  "cut_at c [] = ([], [])"
| "cut_at c (x # s) = (if x = c then ([], s) else let (a, b) = cut_at c s in (x # a, b))"

definition before_char :: "char \<Rightarrow> string \<Rightarrow> string" where
  "before_char c s = takeWhile (\<lambda>x. x \<noteq> c) s"

definition after_last :: "char \<Rightarrow> string \<Rightarrow> string" where
  "after_last c s = rev (takeWhile (\<lambda>x. x \<noteq> c) (rev s))"

definition before_last :: "char \<Rightarrow> string \<Rightarrow> string" where
  "before_last c s = rev (drop 1 (dropWhile (\<lambda>x. x \<noteq> c) (rev s)))"

definition is_alpha :: "char \<Rightarrow> bool" where
  "is_alpha c \<longleftrightarrow> (65 \<le> byte_of c \<and> byte_of c \<le> 90) \<or> (97 \<le> byte_of c \<and> byte_of c \<le> 122)"

definition is_digit :: "char \<Rightarrow> bool" where
  "is_digit c \<longleftrightarrow> 48 \<le> byte_of c \<and> byte_of c \<le> 57"

definition is_hex :: "char \<Rightarrow> bool" where
  "is_hex c \<longleftrightarrow> is_digit c \<or> (65 \<le> byte_of c \<and> byte_of c \<le> 70) \<or> (97 \<le> byte_of c \<and> byte_of c \<le> 102)"

definition hex_val :: "char \<Rightarrow> nat" where
  "hex_val c = (if is_digit c then byte_of c - 48 else if byte_of c < 97 then byte_of c - 55 else byte_of c - 87)"

section \<open>Escapes\<close>

text \<open>Every percent sign starts a two-digit escape; used for the path, the user and the fragment.\<close>

fun escapes_ok :: "string \<Rightarrow> bool" where
  "escapes_ok [] = True"
| "escapes_ok (c # s) =
     (if c = CHR ''%''
      then (case s of a # b # r \<Rightarrow> is_hex a \<and> is_hex b \<and> escapes_ok r | _ \<Rightarrow> False)
      else escapes_ok s)"

definition host_byte :: "char \<Rightarrow> bool" where
  "host_byte c \<longleftrightarrow> is_alpha c \<or> is_digit c \<or> 128 \<le> byte_of c \<or> c \<in> set ''-_.~!$&()*+,;=:[]<>'' \<or>
     c = CHR 0x27 \<or> c = CHR 0x22"

text \<open>A host may only escape bytes above 127, or the percent sign itself.\<close>

fun unescape_host :: "string \<Rightarrow> string option" where
  "unescape_host [] = Some []"
| "unescape_host (c # s) =
     (if c = CHR ''%''
      then (case s of
          a # b # r \<Rightarrow>
            if is_hex a \<and> is_hex b \<and> (8 \<le> hex_val a \<or> (a = CHR ''2'' \<and> b = CHR ''5''))
            then map_option ((#) (char_of (16 * hex_val a + hex_val b))) (unescape_host r)
            else None
        | _ \<Rightarrow> None)
      else if host_byte c then map_option ((#) c) (unescape_host s) else None)"

section \<open>Parse and Hostname\<close>

text \<open>\<open>validOptionalPort\<close>: nothing, or a colon and decimal digits.\<close>

definition validOptionalPort :: "string \<Rightarrow> bool" where
  "validOptionalPort p = (case p of [] \<Rightarrow> True | c # ds \<Rightarrow> c = CHR '':'' \<and> list_all is_digit ds)"

definition user_ok :: "string \<Rightarrow> bool" where
  "user_ok s \<longleftrightarrow> list_all (\<lambda>c. is_alpha c \<or> is_digit c \<or> c \<in> set ''-._:~!$&()*+,;=%@'' \<or> c = CHR 0x27) s \<and>
     escapes_ok s"

text \<open>The host without its port, of \<open>parseHost\<close> followed by \<open>Hostname\<close>.\<close>

definition host_name :: "string \<Rightarrow> string option" where
  "host_name h =
     (case h of
        c # _ \<Rightarrow>
          if c = CHR ''[''
          then (if CHR '']'' \<notin> set h then None
                else let inner = drop 1 (before_last (CHR '']'') h); port = after_last (CHR '']'') h in
                  if validOptionalPort port \<and> list_all (\<lambda>x. is_hex x \<or> x \<in> set '':.'') inner \<and> inner \<noteq> []
                  then Some inner else None)
          else (let (name, _) = cut_at (CHR '':'') h; port = drop (length name) h in
                if validOptionalPort port then unescape_host name else None)
      | [] \<Rightarrow> Some [])"

definition authority_host :: "string \<Rightarrow> string option" where
  "authority_host auth =
     (if CHR ''@'' \<in> set auth
      then (if user_ok (before_last (CHR ''@'') auth) then host_name (after_last (CHR ''@'') auth) else None)
      else host_name auth)"

text \<open>
  The scheme ends at the first colon, if only scheme characters stand before it;
  \<open>Some None\<close> is "no scheme".
\<close>

fun scheme_len :: "nat \<Rightarrow> string \<Rightarrow> nat option option" where
  "scheme_len i [] = Some None"
| "scheme_len i (c # s) =
     (if is_alpha c then scheme_len (Suc i) s
      else if is_digit c \<or> c \<in> set ''+-.'' then (if i = 0 then Some None else scheme_len (Suc i) s)
      else if c = CHR '':'' then (if i = 0 then None else Some (Some i))
      else Some None)"

definition parse_rest :: "bool \<Rightarrow> string \<Rightarrow> string option" where
  "parse_rest scheme rest0 =
     (let rest = before_char (CHR ''?'') rest0 in
      if \<not> HasPrefix rest ''/''
      then (if scheme then Some []
            else if CHR '':'' \<in> set (before_char (CHR ''/'') rest) then None
            else if escapes_ok rest then Some [] else None)
      else if (scheme \<or> \<not> HasPrefix rest ''///'') \<and> HasPrefix rest ''//''
      then (let auth = before_char (CHR ''/'') (drop 2 rest); path = drop (2 + length auth) rest in
            if escapes_ok path then authority_host auth else None)
      else if escapes_ok rest then Some [] else None)"

definition url_hostname :: "string \<Rightarrow> string option" where
  "url_hostname raw =
     (let (url, frag) = cut_at (CHR ''#'') raw in
      if list_ex (\<lambda>c. byte_of c < 32 \<or> byte_of c = 127) url \<or> \<not> escapes_ok frag then None
      else if url = ''*'' then Some []
      else case scheme_len 0 url of
        None \<Rightarrow> None
      | Some None \<Rightarrow> parse_rest False url
      | Some (Some n) \<Rightarrow> parse_rest True (drop (Suc n) url))"

section \<open>Hosts of ordinary URLs\<close>

text \<open>
  The shape every configured base URL has: a scheme, a plain host name, then nothing or a slash
  and a path. Its hostname is the host, and nothing after the host can change it.
\<close>

definition plain_host :: "string \<Rightarrow> bool" where
  "plain_host h \<longleftrightarrow> h \<noteq> [] \<and> list_all (\<lambda>c. is_alpha c \<or> is_digit c \<or> c = CHR ''-'' \<or> c = CHR ''.'') h"

lemma cut_at_absent: "c \<notin> set s \<Longrightarrow> cut_at c s = (s, [])"
  by (induction s) auto

lemma cut_at_append: "c \<notin> set s \<Longrightarrow> cut_at c (s @ c # t) = (s, t)"
  by (induction s) auto

lemma plain_host_bytes:
  assumes "plain_host h" and "x \<in> set h"
  shows "host_byte x" and "x \<noteq> CHR ''%''" and "x \<notin> set ''/:?#@[]''" and "32 \<le> byte_of x" and "byte_of x \<noteq> 127"
  using assms
  by (auto simp: plain_host_def list_all_iff host_byte_def is_alpha_def is_digit_def)

lemma unescape_plain:
  "(\<And>x. x \<in> set h \<Longrightarrow> host_byte x \<and> x \<noteq> CHR ''%'') \<Longrightarrow> unescape_host h = Some h"
  by (induction h) (auto split: list.splits)

lemma host_name_plain: "plain_host h \<Longrightarrow> host_name h = Some h"
proof -
  assume p: "plain_host h"
  note b = plain_host_bytes [OF p]
  from p obtain c t where h: "h = c # t" by (cases h) (auto simp: plain_host_def)
  have "CHR '':'' \<notin> set h" using b(3) by auto
  moreover have "c \<noteq> CHR ''[''" using b(3) [of c] h by auto
  ultimately show ?thesis
    using unescape_plain [of h] b(1,2) by (auto simp: host_name_def h cut_at_absent validOptionalPort_def)
qed

lemma before_char_absent: "c \<notin> set s \<Longrightarrow> before_char c s = s"
  by (induction s) (auto simp: before_char_def)

lemma before_char_append: "c \<notin> set s \<Longrightarrow> before_char c (s @ c # t) = s"
  by (induction s) (auto simp: before_char_def)

definition plain_path :: "string \<Rightarrow> bool" where
  "plain_path r \<longleftrightarrow> (r = [] \<or> hd r = CHR ''/'') \<and>
     list_all (\<lambda>c. is_alpha c \<or> is_digit c \<or> c \<in> set ''-._/'') r"

lemma plain_path_bytes:
  assumes "plain_path r" and "x \<in> set r"
  shows "x \<noteq> CHR ''%''" and "x \<noteq> CHR ''#''" and "x \<noteq> CHR ''?''" and "32 \<le> byte_of x" and "byte_of x \<noteq> 127"
  using assms by (auto simp: plain_path_def list_all_iff is_alpha_def is_digit_def)

lemma escapes_plain: "CHR ''%'' \<notin> set s \<Longrightarrow> escapes_ok s"
  by (induction s) auto

lemma authority_plain: "plain_host h \<Longrightarrow> authority_host h = Some h"
proof -
  assume p: "plain_host h"
  then have "CHR ''@'' \<notin> set h" using plain_host_bytes(3) [OF p] by auto
  then show ?thesis using host_name_plain [OF p] by (simp add: authority_host_def)
qed

lemma parse_rest_plain:
  assumes "plain_host h" and "plain_path r"
  shows "parse_rest True (''//'' @ h @ r) = Some h"
proof -
  note hb = plain_host_bytes [OF assms(1)] and rb = plain_path_bytes [OF assms(2)]
  have q: "CHR ''?'' \<notin> set (''//'' @ h @ r)" using hb(3) rb(3) by auto
  have slash: "CHR ''/'' \<notin> set h" using hb(3) by auto
  have auth: "before_char (CHR ''/'') (h @ r) = h"
  proof (cases r)
    case Nil
    with slash show ?thesis by (simp add: before_char_absent)
  next
    case (Cons c t)
    then have "c = CHR ''/''" using assms(2) by (simp add: plain_path_def)
    with Cons slash show ?thesis by (simp add: before_char_append)
  qed
  have "CHR ''%'' \<notin> set r" using rb(1) by auto
  then show ?thesis
    using auth q authority_plain [OF assms(1)]
    by (simp add: parse_rest_def Let_def before_char_absent HasPrefix_def escapes_plain)
qed

lemma url_hostname_https:
  assumes "plain_host h" and "plain_path r"
  shows "url_hostname (''https://'' @ h @ r) = Some h"
proof -
  note hb = plain_host_bytes [OF assms(1)] and rb = plain_path_bytes [OF assms(2)]
  have "CHR ''#'' \<notin> set (''https://'' @ h @ r)" using hb(3) rb(2) by auto
  moreover have "\<not> list_ex (\<lambda>c. byte_of c < 32 \<or> byte_of c = 127) (''https://'' @ h @ r)"
    using hb(4,5) rb(4,5) by (fastforce simp: list_ex_iff)
  moreover have "scheme_len 0 (''https://'' @ h @ r) = Some (Some 5)"
    by (simp add: is_alpha_def is_digit_def)
  ultimately show ?thesis
    using parse_rest_plain [OF assms] by (simp add: url_hostname_def cut_at_absent)
qed

end
