(* ===== verification/Config.thy ===== *)
theory Config
  imports Guard_Laws Go_Url
begin

text \<open>
  The plugin's configuration, \<open>internal/config/config.go\<close>: the block's record with the defaults,
  the normalisation every loaded block goes through, and the two rules that decide which entry of
  the host's own configuration is a Cline account. The YAML decoder is third-party code and is the
  argument \<open>decode\<close> of \<open>Parse\<close>: it fills the fields present in the document into the given
  configuration. A YAML duration reaches the model as the record \<open>Duration\<close> it decodes to.
\<close>

section \<open>Constants\<close>

definition DefaultPlanBaseURL :: string where "DefaultPlanBaseURL = ''https://api.cline.bot/api/v1''"
definition DefaultChannelStoreDir :: string where "DefaultChannelStoreDir = ''/CLIProxyAPI/logs/channel-observation''"
definition DefaultChannelBaselineProvider :: string where "DefaultChannelBaselineProvider = ''deepseek''"
definition DefaultChannelLogDir :: string where "DefaultChannelLogDir = ''/CLIProxyAPI/logs''"
definition DefaultChannelLogMinAgeSeconds :: int where "DefaultChannelLogMinAgeSeconds = 5"
definition DefaultAccountGuardThreshold :: int where "DefaultAccountGuardThreshold = 3"
definition DefaultAccountGuardMinEnabled :: int where "DefaultAccountGuardMinEnabled = 1"
definition DefaultAccountGuardReenableMinutes :: int where "DefaultAccountGuardReenableMinutes = 5"
definition DefaultAccountGuardMaxDisableMinutes :: int where "DefaultAccountGuardMaxDisableMinutes = 360"
definition DefaultChannelRetentionDays :: int where "DefaultChannelRetentionDays = 3"
definition DefaultChannelMaxSizeMB :: int where "DefaultChannelMaxSizeMB = 512"
definition maxChannelRetentionDays :: int where "maxChannelRetentionDays = 30"
definition minChannelMaxSizeMB :: int where "minChannelMaxSizeMB = 16"
definition DefaultPlanRefresh :: duration where "DefaultPlanRefresh = 5 * Minute"
definition DefaultPlanUsageRefresh :: duration where "DefaultPlanUsageRefresh = 10 * Minute"
definition defaultTimezone :: string where "defaultTimezone = ''Asia/Shanghai''"
definition defaultHosts :: "string list" where "defaultHosts = [''api.cline.bot'']"

section \<open>The configuration record\<close>

record Duration =
  dur_Value :: duration
  dur_Set :: bool

definition Or :: "Duration \<Rightarrow> duration \<Rightarrow> duration" where
  "Or d def = (if dur_Set d \<and> dur_Value d > 0 then dur_Value d else def)"

record Config =
  cfg_Enabled :: bool
  cfg_Priority :: int
  cfg_Hosts :: "string list"
  cfg_Timezone :: string
  cfg_PlanEnabled :: bool
  cfg_PlanAPIKey :: string
  cfg_PlanBaseURL :: string
  cfg_PlanConfigPath :: string
  cfg_PlanRefresh :: Duration
  cfg_PlanDailyEnabled :: bool
  cfg_PlanUsageEnabled :: bool
  cfg_PlanUsageRefresh :: Duration
  cfg_ChannelObserveEnabled :: bool
  cfg_ChannelStoreDir :: string
  cfg_ChannelRetentionDays :: int
  cfg_ChannelMaxSizeMB :: int
  cfg_ChannelBaselineProvider :: string
  cfg_ChannelLogEnabled :: bool
  cfg_ChannelLogDir :: string
  cfg_ChannelLogDeleteAfterRead :: bool
  cfg_ChannelLogMinAgeSeconds :: int
  cfg_AccountGuardEnabled :: bool
  cfg_AccountGuardDryRun :: bool
  cfg_AccountGuardThreshold :: int
  cfg_AccountGuardMinEnabled :: int
  cfg_AccountGuardScopeNames :: "string list"
  cfg_AccountGuardReenableMinutes :: int
  cfg_AccountGuardMaxDisableMinutes :: int

definition Default :: Config where
  "Default = \<lparr>cfg_Enabled = True, cfg_Priority = 1, cfg_Hosts = defaultHosts,
     cfg_Timezone = defaultTimezone,
     cfg_PlanEnabled = True, cfg_PlanAPIKey = [], cfg_PlanBaseURL = DefaultPlanBaseURL,
     cfg_PlanConfigPath = [], cfg_PlanRefresh = \<lparr>dur_Value = DefaultPlanRefresh, dur_Set = True\<rparr>,
     cfg_PlanDailyEnabled = True, cfg_PlanUsageEnabled = False,
     cfg_PlanUsageRefresh = \<lparr>dur_Value = DefaultPlanUsageRefresh, dur_Set = True\<rparr>,
     cfg_ChannelObserveEnabled = True, cfg_ChannelStoreDir = DefaultChannelStoreDir,
     cfg_ChannelRetentionDays = DefaultChannelRetentionDays,
     cfg_ChannelMaxSizeMB = DefaultChannelMaxSizeMB,
     cfg_ChannelBaselineProvider = DefaultChannelBaselineProvider,
     cfg_ChannelLogEnabled = False, cfg_ChannelLogDir = DefaultChannelLogDir,
     cfg_ChannelLogDeleteAfterRead = True,
     cfg_ChannelLogMinAgeSeconds = DefaultChannelLogMinAgeSeconds,
     cfg_AccountGuardEnabled = False, cfg_AccountGuardDryRun = True,
     cfg_AccountGuardThreshold = DefaultAccountGuardThreshold,
     cfg_AccountGuardMinEnabled = DefaultAccountGuardMinEnabled,
     cfg_AccountGuardScopeNames = [],
     cfg_AccountGuardReenableMinutes = DefaultAccountGuardReenableMinutes,
     cfg_AccountGuardMaxDisableMinutes = DefaultAccountGuardMaxDisableMinutes\<rparr>"

section \<open>normalize\<close>

text \<open>
  \<open>or_default\<close> is the repeated "a blank string becomes the default" of the function; the integer
  clamps are written out one by one, in the order of the source.
\<close>

definition or_default :: "string \<Rightarrow> string \<Rightarrow> string" where
  "or_default value def = (if TrimSpace value = [] then def else value)"

definition clamp_retention :: "int \<Rightarrow> int" where
  "clamp_retention d0 = (let d = (if d0 \<le> 0 then DefaultChannelRetentionDays else d0)
     in if d > maxChannelRetentionDays then maxChannelRetentionDays else d)"

definition clamp_size :: "int \<Rightarrow> int" where
  "clamp_size m0 = (let m = (if m0 \<le> 0 then DefaultChannelMaxSizeMB else m0)
     in if m < minChannelMaxSizeMB then minChannelMaxSizeMB else m)"

definition clamp_usage_refresh :: "Duration \<Rightarrow> Duration" where
  "clamp_usage_refresh d = (if dur_Set d \<and> dur_Value d < Minute then d\<lparr>dur_Value := Minute\<rparr> else d)"

definition scope_names :: "string list \<Rightarrow> string list" where
  "scope_names names = filter (\<lambda>n. n \<noteq> []) (map TrimSpace names)"

definition normalize_guard :: "Config \<Rightarrow> Config" where
  "normalize_guard c0 =
     (let c1 = (if cfg_AccountGuardThreshold c0 \<le> 0
                then c0\<lparr>cfg_AccountGuardThreshold := DefaultAccountGuardThreshold\<rparr> else c0);
          c2 = (if cfg_AccountGuardMinEnabled c1 < 0
                then c1\<lparr>cfg_AccountGuardMinEnabled := DefaultAccountGuardMinEnabled\<rparr> else c1);
          c3 = (if cfg_AccountGuardReenableMinutes c2 < 0
                then c2\<lparr>cfg_AccountGuardReenableMinutes := 0\<rparr> else c2);
          c4 = (if cfg_AccountGuardMaxDisableMinutes c3 \<le> 0
                then c3\<lparr>cfg_AccountGuardMaxDisableMinutes := DefaultAccountGuardMaxDisableMinutes\<rparr> else c3);
          c5 = (if cfg_AccountGuardReenableMinutes c4 > cfg_AccountGuardMaxDisableMinutes c4
                then c4\<lparr>cfg_AccountGuardMaxDisableMinutes := cfg_AccountGuardReenableMinutes c4\<rparr> else c4)
      in c5\<lparr>cfg_AccountGuardScopeNames := scope_names (cfg_AccountGuardScopeNames c5)\<rparr>)"

definition normalize_channel :: "Config \<Rightarrow> Config" where
  "normalize_channel c = c\<lparr>
     cfg_ChannelStoreDir := or_default (cfg_ChannelStoreDir c) DefaultChannelStoreDir,
     cfg_ChannelRetentionDays := clamp_retention (cfg_ChannelRetentionDays c),
     cfg_ChannelMaxSizeMB := clamp_size (cfg_ChannelMaxSizeMB c),
     cfg_ChannelBaselineProvider :=
       ToLower (TrimSpace (or_default (cfg_ChannelBaselineProvider c) DefaultChannelBaselineProvider)),
     cfg_ChannelLogDir := or_default (cfg_ChannelLogDir c) DefaultChannelLogDir,
     cfg_ChannelLogMinAgeSeconds := (if cfg_ChannelLogMinAgeSeconds c < 0
        then DefaultChannelLogMinAgeSeconds else cfg_ChannelLogMinAgeSeconds c)\<rparr>"

definition normalize_config :: "Config \<Rightarrow> Config" where
  "normalize_config c = normalize_guard (normalize_channel (c\<lparr>
     cfg_Hosts := map (\<lambda>h. ToLower (TrimSpace h)) (cfg_Hosts c),
     cfg_Timezone := or_default (cfg_Timezone c) defaultTimezone,
     cfg_PlanBaseURL := or_default (cfg_PlanBaseURL c) DefaultPlanBaseURL,
     cfg_PlanUsageRefresh := clamp_usage_refresh (cfg_PlanUsageRefresh c)\<rparr>))"

section \<open>Parse\<close>

text \<open>
  \<open>probe\<close> is the decoder's answer to the hosts probe: the list, when the document has a
  \<open>hosts\<close> key. \<open>decode\<close> is the decoder filling a configuration, \<open>None\<close> on an error; \<open>text\<close>
  tells the YAML decoder from the JSON one.
\<close>

definition Parse ::
  "(bool \<Rightarrow> string \<Rightarrow> string list option) \<Rightarrow> (bool \<Rightarrow> string \<Rightarrow> Config \<Rightarrow> Config option) \<Rightarrow> string \<Rightarrow> Config option" where
  "Parse probe decode raw =
     (let trimmed = TrimSpace raw in
      if trimmed = [] then Some Default
      else let text = (CHR 0x0A \<in> set trimmed \<or> CHR '':'' \<in> set trimmed);
               cfg = (case probe text trimmed of None \<Rightarrow> Default
                      | Some hosts \<Rightarrow> Default\<lparr>cfg_Hosts := hosts\<rparr>)
           in map_option normalize_config (decode text trimmed cfg))"

section \<open>Which entry is a Cline account\<close>

definition HostFromBaseURL :: "string \<Rightarrow> string" where
  "HostFromBaseURL raw =
     (let trimmed = TrimSpace raw in
      if trimmed = [] then [] else case url_hostname trimmed of None \<Rightarrow> [] | Some h \<Rightarrow> ToLower h)"

fun host_in :: "string \<Rightarrow> string list \<Rightarrow> bool" where
  "host_in host [] = False"
| "host_in host (candidate # rest) =
     (if candidate = [] then host_in host rest
      else if HasPrefix candidate ''.''
      then (if HasSuffix host candidate \<and> length host > length candidate then True else host_in host rest)
      else if host = candidate then True else host_in host rest)"

definition HostMatched :: "Config \<Rightarrow> string \<Rightarrow> string \<times> bool" where
  "HostMatched c baseURL =
     (let host = HostFromBaseURL baseURL in
      if host = [] then ([], False) else (host, host_in host (cfg_Hosts c)))"

definition IsClineEntry :: "Config \<Rightarrow> string \<Rightarrow> string \<Rightarrow> bool" where
  "IsClineEntry c name baseURL \<longleftrightarrow>
     cfg_Hosts c \<noteq> [] \<and> snd (HostMatched c baseURL) \<or> EqualFold (TrimSpace name) ''cline''"

section \<open>What normalisation promises\<close>

lemma or_default_blank: "TrimSpace def \<noteq> [] \<Longrightarrow> TrimSpace (or_default v def) \<noteq> []"
  by (simp add: or_default_def)

lemma or_default_idem: "TrimSpace def \<noteq> [] \<Longrightarrow> or_default (or_default v def) def = or_default v def"
  by (simp add: or_default_def)

lemma defaults_visible:
  "TrimSpace defaultTimezone = defaultTimezone" "TrimSpace DefaultPlanBaseURL = DefaultPlanBaseURL"
  "TrimSpace DefaultChannelStoreDir = DefaultChannelStoreDir"
  "TrimSpace DefaultChannelBaselineProvider = DefaultChannelBaselineProvider"
  "TrimSpace DefaultChannelLogDir = DefaultChannelLogDir"
  by (rule TrimSpace_visible, simp add: visible_def defaultTimezone_def DefaultPlanBaseURL_def
      DefaultChannelStoreDir_def DefaultChannelBaselineProvider_def DefaultChannelLogDir_def)+

lemma defaults_nonempty:
  "defaultTimezone \<noteq> []" "DefaultPlanBaseURL \<noteq> []" "DefaultChannelStoreDir \<noteq> []"
  "DefaultChannelBaselineProvider \<noteq> []" "DefaultChannelLogDir \<noteq> []"
  by (simp_all add: defaultTimezone_def DefaultPlanBaseURL_def
      DefaultChannelStoreDir_def DefaultChannelBaselineProvider_def DefaultChannelLogDir_def)

lemmas config_ints = DefaultChannelRetentionDays_def DefaultChannelMaxSizeMB_def maxChannelRetentionDays_def
  minChannelMaxSizeMB_def DefaultChannelLogMinAgeSeconds_def DefaultAccountGuardThreshold_def
  DefaultAccountGuardMinEnabled_def DefaultAccountGuardReenableMinutes_def DefaultAccountGuardMaxDisableMinutes_def

lemma clamp_bounds:
  "1 \<le> clamp_retention d" "clamp_retention d \<le> 30" "16 \<le> clamp_size m"
  by (auto simp: clamp_retention_def clamp_size_def Let_def config_ints)

lemma clamp_idem:
  "clamp_retention (clamp_retention d) = clamp_retention d" "clamp_size (clamp_size m) = clamp_size m"
  "clamp_usage_refresh (clamp_usage_refresh u) = clamp_usage_refresh u"
  by (auto simp: clamp_retention_def clamp_size_def clamp_usage_refresh_def Let_def config_ints)

lemma scope_names_idem: "scope_names (scope_names ns) = scope_names ns"
  by (induction ns) (auto simp: scope_names_def)

lemma baseline_idem:
  "ToLower (TrimSpace (or_default (ToLower (TrimSpace (or_default v DefaultChannelBaselineProvider)))
     DefaultChannelBaselineProvider)) = ToLower (TrimSpace (or_default v DefaultChannelBaselineProvider))"
proof -
  let ?b = "TrimSpace (or_default v DefaultChannelBaselineProvider)"
  have ne: "?b \<noteq> []" by (rule or_default_blank) (simp add: defaults_visible defaults_nonempty)
  have t: "TrimSpace (ToLower ?b) = ToLower ?b" by (simp add: TrimSpace_lower)
  with ne have "or_default (ToLower ?b) DefaultChannelBaselineProvider = ToLower ?b"
    by (simp add: or_default_def ToLower_def)
  with t show ?thesis by simp
qed

lemma normalize_guard_fixed:
  "1 \<le> cfg_AccountGuardThreshold c \<Longrightarrow> 0 \<le> cfg_AccountGuardMinEnabled c \<Longrightarrow>
   0 \<le> cfg_AccountGuardReenableMinutes c \<Longrightarrow> 1 \<le> cfg_AccountGuardMaxDisableMinutes c \<Longrightarrow>
   cfg_AccountGuardReenableMinutes c \<le> cfg_AccountGuardMaxDisableMinutes c \<Longrightarrow>
   scope_names (cfg_AccountGuardScopeNames c) = cfg_AccountGuardScopeNames c \<Longrightarrow> normalize_guard c = c"
  by (simp add: normalize_guard_def Let_def)

lemma normalize_guard_bounds:
  "1 \<le> cfg_AccountGuardThreshold (normalize_guard c)" "0 \<le> cfg_AccountGuardMinEnabled (normalize_guard c)"
  "0 \<le> cfg_AccountGuardReenableMinutes (normalize_guard c)"
  "1 \<le> cfg_AccountGuardMaxDisableMinutes (normalize_guard c)"
  "cfg_AccountGuardReenableMinutes (normalize_guard c) \<le> cfg_AccountGuardMaxDisableMinutes (normalize_guard c)"
  "scope_names (cfg_AccountGuardScopeNames (normalize_guard c)) = cfg_AccountGuardScopeNames (normalize_guard c)"
  by (auto simp: normalize_guard_def Let_def config_ints scope_names_idem)

lemma normalize_guard_frame [simp]:
  "cfg_Hosts (normalize_guard c) = cfg_Hosts c" "cfg_Timezone (normalize_guard c) = cfg_Timezone c"
  "cfg_PlanBaseURL (normalize_guard c) = cfg_PlanBaseURL c"
  "cfg_PlanUsageRefresh (normalize_guard c) = cfg_PlanUsageRefresh c"
  "cfg_ChannelStoreDir (normalize_guard c) = cfg_ChannelStoreDir c"
  "cfg_ChannelRetentionDays (normalize_guard c) = cfg_ChannelRetentionDays c"
  "cfg_ChannelMaxSizeMB (normalize_guard c) = cfg_ChannelMaxSizeMB c"
  "cfg_ChannelBaselineProvider (normalize_guard c) = cfg_ChannelBaselineProvider c"
  "cfg_ChannelLogDir (normalize_guard c) = cfg_ChannelLogDir c"
  "cfg_ChannelLogMinAgeSeconds (normalize_guard c) = cfg_ChannelLogMinAgeSeconds c"
  by (simp_all add: normalize_guard_def Let_def)

lemma normalize_frame:
  "cfg_Hosts (normalize_config c) = map (\<lambda>h. ToLower (TrimSpace h)) (cfg_Hosts c)"
  "cfg_Timezone (normalize_config c) = or_default (cfg_Timezone c) defaultTimezone"
  "cfg_PlanBaseURL (normalize_config c) = or_default (cfg_PlanBaseURL c) DefaultPlanBaseURL"
  "cfg_PlanUsageRefresh (normalize_config c) = clamp_usage_refresh (cfg_PlanUsageRefresh c)"
  "cfg_ChannelStoreDir (normalize_config c) = or_default (cfg_ChannelStoreDir c) DefaultChannelStoreDir"
  "cfg_ChannelRetentionDays (normalize_config c) = clamp_retention (cfg_ChannelRetentionDays c)"
  "cfg_ChannelMaxSizeMB (normalize_config c) = clamp_size (cfg_ChannelMaxSizeMB c)"
  "cfg_ChannelBaselineProvider (normalize_config c) =
     ToLower (TrimSpace (or_default (cfg_ChannelBaselineProvider c) DefaultChannelBaselineProvider))"
  "cfg_ChannelLogDir (normalize_config c) = or_default (cfg_ChannelLogDir c) DefaultChannelLogDir"
  "0 \<le> cfg_ChannelLogMinAgeSeconds (normalize_config c)"
  by (simp_all add: normalize_config_def normalize_channel_def config_ints)

lemma host_idem: "ToLower (TrimSpace (ToLower (TrimSpace h))) = ToLower (TrimSpace h)"
  by (simp add: TrimSpace_lower)

lemma normalize_idem: "normalize_config (normalize_config c) = normalize_config c"
proof -
  let ?n = "normalize_config c"
  have first: "?n\<lparr>cfg_Hosts := map (\<lambda>h. ToLower (TrimSpace h)) (cfg_Hosts ?n),
     cfg_Timezone := or_default (cfg_Timezone ?n) defaultTimezone,
     cfg_PlanBaseURL := or_default (cfg_PlanBaseURL ?n) DefaultPlanBaseURL,
     cfg_PlanUsageRefresh := clamp_usage_refresh (cfg_PlanUsageRefresh ?n)\<rparr> = ?n"
    by (intro Config.equality)
      (simp_all add: normalize_frame host_idem or_default_idem defaults_visible defaults_nonempty clamp_idem)
  have age: "\<not> cfg_ChannelLogMinAgeSeconds ?n < 0" using normalize_frame(10) [of c] by simp
  have channel: "normalize_channel ?n = ?n"
    by (intro Config.equality)
      (simp_all add: normalize_channel_def normalize_frame or_default_idem defaults_visible
        defaults_nonempty clamp_idem baseline_idem age)
  have guard: "normalize_guard ?n = ?n"
    unfolding normalize_config_def [of c] by (intro normalize_guard_fixed normalize_guard_bounds)
  show ?thesis
    unfolding normalize_config_def [of ?n] first channel guard ..
qed

text \<open>C12: Every loaded configuration block is usable. Whatever the document held, the configuration
  Parse returns keeps the history between 1 and 30 days and its size at 16 MB or more, names a
  baseline provider in lower case, gives the guard a threshold of at least one, a floor and a
  retry delay that are not negative and a cap that is positive and not below the retry delay,
  has no blank scope name, and is a fixed point of the normalisation, so that reloading it
  changes nothing.\<close>

theorem parsed_config_usable:
  assumes "Parse probe decode raw = Some c"
  shows "1 \<le> cfg_ChannelRetentionDays c \<and> cfg_ChannelRetentionDays c \<le> 30 \<and> 16 \<le> cfg_ChannelMaxSizeMB c \<and>
    cfg_ChannelBaselineProvider c \<noteq> [] \<and> ToLower (cfg_ChannelBaselineProvider c) = cfg_ChannelBaselineProvider c \<and>
    0 \<le> cfg_ChannelLogMinAgeSeconds c \<and>
    1 \<le> cfg_AccountGuardThreshold c \<and> 0 \<le> cfg_AccountGuardMinEnabled c \<and>
    0 \<le> cfg_AccountGuardReenableMinutes c \<and> 1 \<le> cfg_AccountGuardMaxDisableMinutes c \<and>
    cfg_AccountGuardReenableMinutes c \<le> cfg_AccountGuardMaxDisableMinutes c \<and>
    [] \<notin> set (cfg_AccountGuardScopeNames c) \<and> normalize_config c = c"
proof -
  have default: "normalize_config Default = Default"
    by (intro Config.equality)
      (simp_all add: normalize_config_def normalize_channel_def normalize_guard_def Let_def Default_def or_default_def
        defaults_visible defaults_nonempty clamp_retention_def clamp_size_def clamp_usage_refresh_def config_ints
        DefaultPlanUsageRefresh_def scope_names_def defaultHosts_def TrimSpace_visible visible_def
        ToLower_def lower_char_def DefaultChannelBaselineProvider_def duration_defs)
  from assms obtain d where c: "c = normalize_config d"
  proof (cases "TrimSpace raw = []")
    case True
    with assms default that [of Default] show thesis by (simp add: Parse_def)
  next
    case False
    with assms that show thesis by (auto simp: Parse_def Let_def)
  qed
  have ne: "TrimSpace (or_default (cfg_ChannelBaselineProvider d) DefaultChannelBaselineProvider) \<noteq> []"
    by (rule or_default_blank) (simp add: defaults_visible defaults_nonempty)
  have guard: "normalize_config d = normalize_guard (normalize_channel (d\<lparr>
     cfg_Hosts := map (\<lambda>h. ToLower (TrimSpace h)) (cfg_Hosts d),
     cfg_Timezone := or_default (cfg_Timezone d) defaultTimezone,
     cfg_PlanBaseURL := or_default (cfg_PlanBaseURL d) DefaultPlanBaseURL,
     cfg_PlanUsageRefresh := clamp_usage_refresh (cfg_PlanUsageRefresh d)\<rparr>))"
    by (simp add: normalize_config_def)
  have scope: "[] \<notin> set (cfg_AccountGuardScopeNames (normalize_config d))"
    by (simp add: guard normalize_guard_def Let_def scope_names_def)
  show ?thesis
    unfolding c
    using clamp_bounds normalize_guard_bounds(1-5) ne scope normalize_frame(10) [of d]
    by (simp add: normalize_idem normalize_frame ToLower_def flip: guard) (simp add: guard)
qed

theorem parsed_config_usable_witness:
  "cfg_AccountGuardThreshold Default = 3 \<and> normalize_config Default = Default"
  using parsed_config_usable [of "\<lambda>_ _. None" "\<lambda>_ _ c. Some c" "[]" Default]
  by (simp add: Parse_def Default_def config_ints)

text \<open>Cline accounts are told apart by host, never by text. For an entry whose base URL is a
  plain https URL, the entry is a Cline account exactly when its whole host equals one of the
  configured hosts, or is a proper subdomain of one written with a leading dot, or the entry is
  named Cline: a host that merely starts with or contains a configured one does not match.\<close>

theorem cline_entry_by_host:
  assumes "plain_host h" and "plain_path r"
  shows "IsClineEntry c name (''https://'' @ h @ r) \<longleftrightarrow>
    (\<exists>candidate \<in> set (cfg_Hosts c). candidate \<noteq> [] \<and>
       (if HasPrefix candidate ''.'' then \<exists>sub. sub \<noteq> [] \<and> ToLower h = sub @ candidate
        else ToLower h = candidate)) \<or>
    EqualFold (TrimSpace name) ''cline''"
proof -
  have "visible (''https://'' @ h @ r)"
    using assms by (auto simp: visible_def plain_host_def plain_path_def is_alpha_def is_digit_def list_all_iff)
  then have host: "HostFromBaseURL (''https://'' @ h @ r) = ToLower h"
    using url_hostname_https [OF assms] by (simp add: HostFromBaseURL_def TrimSpace_visible Let_def)
  have ne: "ToLower h \<noteq> []" using assms(1) by (simp add: plain_host_def ToLower_def)
  have sub: "HasSuffix x k \<and> length k < length x \<longleftrightarrow> (\<exists>s. s \<noteq> [] \<and> x = s @ k)" for x k :: string
    by (auto simp: HasSuffix_suffix suffix_def)
  have "host_in x ks \<longleftrightarrow> (\<exists>k \<in> set ks. k \<noteq> [] \<and>
      (if HasPrefix k ''.'' then HasSuffix x k \<and> length k < length x else x = k))" for x ks
    by (induction ks) auto
  then have "host_in x ks \<longleftrightarrow> (\<exists>k \<in> set ks. k \<noteq> [] \<and>
      (if HasPrefix k ''.'' then \<exists>s. s \<noteq> [] \<and> x = s @ k else x = k))" for x ks
    unfolding sub .
  note match = this
  have "snd (HostMatched c (''https://'' @ h @ r)) = host_in (ToLower h) (cfg_Hosts c)"
    using ne unfolding HostMatched_def host by (simp add: Let_def)
  then show ?thesis unfolding IsClineEntry_def match by auto
qed

lemma ex_hosts:
  "plain_host ''api.cline.bot.example.com''" "plain_host ''API.cline.bot''" "plain_path ''/v1''"
  "ToLower ''api.cline.bot.example.com'' = ''api.cline.bot.example.com''"
  "ToLower ''API.cline.bot'' = ''api.cline.bot''" "\<not> HasPrefix ''api.cline.bot'' ''.''"
  "\<not> EqualFold (TrimSpace ''x'') ''cline''"
  by code_simp+

theorem cline_entry_by_host_witness:
  "IsClineEntry Default ''x'' ''https://API.cline.bot/v1'' \<and>
   \<not> IsClineEntry Default ''x'' ''https://api.cline.bot.example.com/v1''"
  using cline_entry_by_host [OF ex_hosts(2,3), of Default "''x''"]
    cline_entry_by_host [OF ex_hosts(1,3), of Default "''x''"]
  by (simp add: ex_hosts Default_def defaultHosts_def)

end
