(* ===== verification/Hostconf.thy ===== *)
theory Hostconf
  imports Config Go_Json
begin

text \<open>
  The host's own configuration file, \<open>internal/hostconf\<close>: the reader of the account list and of
  the self-check snapshot (\<open>accounts.go\<close>, \<open>hostconf.go\<close>) and the two writers that change one
  token or add one key (\<open>accounts.go\<close>, \<open>pluginconfig.go\<close>). The YAML library is third-party code:
  \<open>parse\<close> (its \<open>Unmarshal\<close> into a node tree, \<open>None\<close> on an error) and \<open>decb\<close>, \<open>deci\<close> (its
  \<open>Decode\<close> of one scalar node) are arguments of the definitions. A \<open>Node\<close> carries the fields of
  \<open>yaml.Node\<close> the code reads; everything the writers do to the bytes is defined here.
\<close>

section \<open>Lines\<close>

definition newline :: char where "newline = CHR 0x0A"

text \<open>\<open>bytes.SplitAfter (raw, newline)\<close>: every line keeps its newline, the last piece has none.\<close>

fun split_after :: "string \<Rightarrow> string list" where
  "split_after [] = [[]]"
| "split_after (c # s) =
     (if c = newline then [c] # split_after s
      else case split_after s of [] \<Rightarrow> [[c]] | l # ls \<Rightarrow> (c # l) # ls)"

lemma split_after_nonempty [simp]: "split_after s \<noteq> []"
  by (cases s) (auto split: list.splits)

lemma concat_split_after [simp]: "concat (split_after s) = s"
proof (induction s)
  case (Cons c s)
  then show ?case by (cases "split_after s") auto
qed simp

section \<open>YAML nodes\<close>

datatype Kind = DocumentNode | SequenceNode | MappingNode | ScalarNode | AliasNode

datatype Node = Node (n_Kind: Kind) (n_Tag: string) (n_Value: string) (n_Flow: bool)
  (n_Content: "Node list") (n_Line: int) (n_Column: int)

definition documentRoot :: "Node \<Rightarrow> Node option" where
  "documentRoot document =
     (if n_Kind document \<noteq> DocumentNode \<or> n_Content document = [] then None
      else Some (hd (n_Content document)))"

fun pair_value :: "Node list \<Rightarrow> string \<Rightarrow> Node option" where
  "pair_value (k # v # rest) key = (if n_Value k = key then Some v else pair_value rest key)"
| "pair_value _ key = None"

definition mapValue :: "Node option \<Rightarrow> string \<Rightarrow> Node option" where
  "mapValue node key =
     (case node of None \<Rightarrow> None
      | Some n \<Rightarrow> if n_Kind n \<noteq> MappingNode then None else pair_value (n_Content n) key)"

fun pair_keys :: "Node list \<Rightarrow> string list" where
  "pair_keys (k # v # rest) = n_Value k # pair_keys rest"
| "pair_keys _ = []"

definition mappingKeys :: "Node option \<Rightarrow> string list" where
  "mappingKeys node =
     (case node of None \<Rightarrow> []
      | Some n \<Rightarrow> if n_Kind n \<noteq> MappingNode then [] else pair_keys (n_Content n))"

definition is_null_scalar :: "Node \<Rightarrow> bool" where
  "is_null_scalar n \<longleftrightarrow> n_Kind n \<noteq> ScalarNode \<or> n_Tag n = ''!!null''"

definition scalarString :: "Node option \<Rightarrow> string" where
  "scalarString node = (case node of None \<Rightarrow> [] | Some n \<Rightarrow> if is_null_scalar n then [] else n_Value n)"

definition boolPointer :: "(Node \<Rightarrow> bool option) \<Rightarrow> Node option \<Rightarrow> bool option" where
  "boolPointer decb node =
     (case node of None \<Rightarrow> None | Some n \<Rightarrow> if is_null_scalar n then None else decb n)"

definition intPointer :: "(Node \<Rightarrow> int option) \<Rightarrow> Node option \<Rightarrow> int option" where
  "intPointer deci node =
     (case node of None \<Rightarrow> None | Some n \<Rightarrow> if is_null_scalar n then None else deci n)"

definition boolValue :: "(Node \<Rightarrow> bool option) \<Rightarrow> Node option \<Rightarrow> bool" where
  "boolValue decb node = (case boolPointer decb node of None \<Rightarrow> False | Some b \<Rightarrow> b)"

primrec maxLine :: "Node \<Rightarrow> int" where
  "maxLine (Node k t v f content line col) =
     foldl (\<lambda>greatest l. if l > greatest then l else greatest) line (map maxLine content)"

section \<open>Paths and the snapshot\<close>

definition candidatePaths :: "string list" where
  "candidatePaths = [''/CLIProxyAPI/config.yaml'', ''/app/config.yaml'']"

definition Paths :: "string \<Rightarrow> string list" where
  "Paths override = (let trimmed = TrimSpace override in if trimmed \<noteq> [] then [trimmed] else candidatePaths)"

text \<open>
  \<open>read\<close> is \<open>os.ReadFile\<close>: the content of a path or the error. \<open>ReadRaw\<close> returns the first file
  that can be read, or the last path with the last error.
\<close>

fun read_first :: "(string \<Rightarrow> 'e + string) \<Rightarrow> 'e \<Rightarrow> string list \<Rightarrow> 'e + (string \<times> string)" where
  "read_first read lastErr [] = Inl lastErr"
| "read_first read lastErr (path # rest) =
     (case read path of Inl err \<Rightarrow> read_first read err rest | Inr raw \<Rightarrow> Inr (path, raw))"

definition ReadRaw :: "(string \<Rightarrow> 'e + string) \<Rightarrow> 'e \<Rightarrow> Config \<Rightarrow> 'e + (string \<times> string)" where
  "ReadRaw read notExist cfg = read_first read notExist (Paths (cfg_PlanConfigPath cfg))"

record Snapshot =
  sn_Path :: string
  sn_Readable :: bool
  sn_Error :: bool
  sn_PluginsEnabled :: "bool option"
  sn_PluginsDir :: string
  sn_RequestLog :: "bool option"
  sn_LogsMaxTotalSizeMB :: "int option"
  sn_CommercialMode :: "bool option"
  sn_PluginBlockKeys :: "string list"
  sn_StoreVersion :: string
  sn_StoreSource :: string

definition empty_snapshot :: "string \<Rightarrow> bool \<Rightarrow> bool \<Rightarrow> Snapshot" where
  "empty_snapshot path readable err = \<lparr>sn_Path = path, sn_Readable = readable, sn_Error = err,
     sn_PluginsEnabled = None, sn_PluginsDir = [], sn_RequestLog = None, sn_LogsMaxTotalSizeMB = None,
     sn_CommercialMode = None, sn_PluginBlockKeys = [], sn_StoreVersion = [], sn_StoreSource = []\<rparr>"

definition buildinfo_ID :: string where "buildinfo_ID = ''clinepass-channel-monitor''"

definition snapshotFromBytes ::
  "(string \<Rightarrow> Node option) \<Rightarrow> (Node \<Rightarrow> bool option) \<Rightarrow> (Node \<Rightarrow> int option) \<Rightarrow> string \<Rightarrow> string \<Rightarrow> Snapshot" where
  "snapshotFromBytes parse decb deci path raw =
     (case parse raw of
        None \<Rightarrow> empty_snapshot path True True
      | Some document \<Rightarrow>
          (case documentRoot document of
             None \<Rightarrow> empty_snapshot path True False
           | Some rnode \<Rightarrow>
               let plugins = mapValue (Some rnode) ''plugins'';
                   logs = mapValue (mapValue (Some rnode) ''observability'') ''logs'';
                   block = mapValue (mapValue plugins ''configs'') buildinfo_ID;
                   store = mapValue block ''store''
               in \<lparr>sn_Path = path, sn_Readable = True, sn_Error = False,
                   sn_PluginsEnabled = boolPointer decb (mapValue plugins ''enabled''),
                   sn_PluginsDir = scalarString (mapValue plugins ''dir''),
                   sn_RequestLog = boolPointer decb (mapValue logs ''request-log''),
                   sn_LogsMaxTotalSizeMB = intPointer deci (mapValue logs ''logs-max-total-size-mb''),
                   sn_CommercialMode = boolPointer decb (mapValue (mapValue (Some rnode) ''server'') ''commercial-mode''),
                   sn_PluginBlockKeys = mappingKeys block,
                   sn_StoreVersion = scalarString (mapValue store ''version''),
                   sn_StoreSource = scalarString (mapValue store ''source-id'')\<rparr>))"

definition Read ::
  "(string \<Rightarrow> Node option) \<Rightarrow> (Node \<Rightarrow> bool option) \<Rightarrow> (Node \<Rightarrow> int option) \<Rightarrow> (string \<Rightarrow> 'e + string) \<Rightarrow> 'e \<Rightarrow>
   Config \<Rightarrow> Snapshot" where
  "Read parse decb deci read notExist cfg =
     (case read_first read notExist (Paths (cfg_PlanConfigPath cfg)) of
        Inr (path, raw) \<Rightarrow> snapshotFromBytes parse decb deci path raw
      | Inl err \<Rightarrow> empty_snapshot (last (Paths (cfg_PlanConfigPath cfg))) False True)"

section \<open>The account list\<close>

record Entry =
  ent_Index :: nat
  ent_Name :: string
  ent_BaseURL :: string
  ent_Disabled :: bool
  ent_ProviderKey :: string
  ent_Aliases :: "string list"

definition providerPrefix :: string where "providerPrefix = ''openai-compatible-''"

definition ProviderKey :: "string \<Rightarrow> string" where
  "ProviderKey name =
     (let trimmed = ToLower (TrimSpace name) in
      if trimmed = [] then ''openai-compatibility''
      else if trimmed = ''openai-compatibility'' \<or> HasPrefix trimmed providerPrefix then trimmed
      else providerPrefix @ trimmed)"

definition is_list :: "Node option \<Rightarrow> bool" where
  "is_list node = (case node of None \<Rightarrow> False | Some n \<Rightarrow> n_Kind n = SequenceNode)"

definition openAICompatList :: "Node option \<Rightarrow> Node option" where
  "openAICompatList rt =
     (case rt of None \<Rightarrow> None
      | Some r \<Rightarrow>
          if n_Kind r \<noteq> MappingNode then None
          else let inner = mapValue (mapValue rt ''api-keys'') ''openai-compatibility'';
                   outer = mapValue rt ''openai-compatibility''
               in if is_list inner then inner else if is_list outer then outer else None)"

definition entryAliases :: "Node \<Rightarrow> string list" where
  "entryAliases entry =
     (case mapValue (Some entry) ''models'' of
        None \<Rightarrow> []
      | Some models \<Rightarrow>
          if n_Kind models \<noteq> SequenceNode then []
          else filter (\<lambda>a. a \<noteq> [])
            (map (\<lambda>m. TrimSpace (scalarString (mapValue (Some m) ''alias'')))
              (filter (\<lambda>m. n_Kind m = MappingNode) (n_Content models))))"

definition entry_of :: "(Node \<Rightarrow> bool option) \<Rightarrow> nat \<Rightarrow> Node \<Rightarrow> Entry" where
  "entry_of decb index node =
     (let name = scalarString (mapValue (Some node) ''name'') in
      \<lparr>ent_Index = index, ent_Name = name,
       ent_BaseURL = scalarString (mapValue (Some node) ''base-url''),
       ent_Disabled = boolValue decb (mapValue (Some node) ''disabled''),
       ent_ProviderKey = ProviderKey name, ent_Aliases = entryAliases node\<rparr>)"

definition list_node :: "(string \<Rightarrow> Node option) \<Rightarrow> string \<Rightarrow> Node option" where
  "list_node parse raw =
     (case parse raw of None \<Rightarrow> None | Some document \<Rightarrow> openAICompatList (documentRoot document))"

definition Entries :: "(string \<Rightarrow> Node option) \<Rightarrow> (Node \<Rightarrow> bool option) \<Rightarrow> string \<Rightarrow> Entry list" where
  "Entries parse decb raw =
     (case list_node parse raw of
        None \<Rightarrow> []
      | Some ls \<Rightarrow> map (\<lambda>(i, n). entry_of decb i n)
          (filter (\<lambda>(i, n). n_Kind n = MappingNode) (zip [0..<length (n_Content ls)] (n_Content ls))))"

definition findEntry :: "Node \<Rightarrow> string \<Rightarrow> Node option" where
  "findEntry ls name =
     find (\<lambda>n. n_Kind n = MappingNode \<and> TrimSpace (scalarString (mapValue (Some n) ''name'')) = name) (n_Content ls)"

end
