(* ===== verification/Hostconf_Edit.thy ===== *)
theory Hostconf_Edit
  imports Hostconf
begin

text \<open>
  The two writers of the host's configuration file. Each edit is a function from the bytes and a
  node's source position to the new bytes; the interface \<open>insertion\<close> says what both inserters
  promise (the output is the input with one piece of text put in), and its client lemmas give
  what a run of insertions keeps. \<open>SetEntryDisabled\<close> and \<open>PluginConfigDefaults\<close> return the triple
  of the code: the bytes, whether they changed, and the error.
\<close>

datatype host_error = ErrEntryNotFound | ErrFlowStyle | ErrPluginConfigMissing
  | ErrPluginConfigNotEditable | ErrParse | ErrPosition

section \<open>Replacing one token\<close>

fun column_offset :: "nat \<Rightarrow> string \<Rightarrow> nat option" where
  "column_offset 0 line = Some 0"
| "column_offset (Suc n) line =
     (if line = [] then None
      else map_option (\<lambda>k. rune_size line + k) (column_offset n (drop (rune_size line) line)))"

definition columnOffset :: "string \<Rightarrow> int \<Rightarrow> nat option" where
  "columnOffset line column = column_offset (nat (column - 1)) line"

definition double_quote :: char where "double_quote = CHR 0x22"
definition single_quote :: char where "single_quote = CHR 0x27"
definition backslash :: char where "backslash = CHR 0x5C"

lemmas quote_defs = double_quote_def single_quote_def backslash_def

text \<open>The bytes of a quoted scalar after its opening quote, the closing quote included.\<close>

fun quoted_end :: "char \<Rightarrow> string \<Rightarrow> nat" where
  "quoted_end q [] = 0"
| "quoted_end q [c] = 1"
| "quoted_end q (c # d # s) =
     (if c = q
      then (if q = single_quote \<and> d = single_quote then 2 + quoted_end q s else 1)
      else if q = double_quote \<and> c = backslash then 2 + quoted_end q s
      else 1 + quoted_end q (d # s))"

definition plain_stop :: "char \<Rightarrow> bool" where
  "plain_stop c \<longleftrightarrow> c = CHR '' '' \<or> c = CHR 0x09 \<or> c = CHR 0x0D \<or> c = newline \<or>
     c = CHR '','' \<or> c = CHR 0x7D \<or> c = CHR '']'' \<or> c = CHR ''#''"

definition tokenEnd :: "string \<Rightarrow> nat \<Rightarrow> nat" where
  "tokenEnd line start =
     (if start \<ge> length line then length line
      else if line ! start = double_quote \<or> line ! start = single_quote
      then start + 1 + quoted_end (line ! start) (drop (start + 1) line)
      else start + length (takeWhile (\<lambda>c. \<not> plain_stop c) (drop start line)))"

definition replaceScalar :: "string \<Rightarrow> Node \<Rightarrow> string \<Rightarrow> host_error + string" where
  "replaceScalar raw node literal =
     (if n_Line node \<le> 0 \<or> n_Column node \<le> 0 then Inl ErrPosition
      else let ls = split_after raw; i = nat (n_Line node - 1) in
        if n_Line node > int (length ls) then Inl ErrPosition
        else case columnOffset (ls ! i) (n_Column node) of
          None \<Rightarrow> Inl ErrPosition
        | Some start \<Rightarrow>
            if start > length (ls ! i) then Inl ErrPosition
            else Inr (concat (ls[i := take start (ls ! i) @ literal @ drop (tokenEnd (ls ! i) start) (ls ! i)])))"

section \<open>Inserting one key\<close>

definition insertMappingKey :: "string \<Rightarrow> Node \<Rightarrow> string \<Rightarrow> string \<Rightarrow> host_error + string" where
  "insertMappingKey raw mapping key literal =
     (if length (n_Content mapping) < 2 \<or> n_Line (hd (n_Content mapping)) \<le> 0 then Inl ErrPosition
      else let anchor = hd (n_Content mapping); lst = maxLine mapping in
        if lst \<le> 0 then Inl ErrPosition
        else let ls = split_after raw in
          if lst > int (length ls) then Inl ErrPosition
          else let i = nat (lst - 1);
                   inserted = replicate (nat (n_Column anchor - 1)) (CHR '' '') @ key @ '': '' @ literal @ [newline];
                   sep = (if ls ! i = [] \<or> last (ls ! i) \<noteq> newline then [newline] else [])
               in Inr (concat (take (Suc i) ls) @ sep @ inserted @ concat (drop (Suc i) ls)))"

text \<open>
  \<open>skipQuotedScalar\<close> returns the index of the closing quote; on the text from the opening quote
  that is one less than the length of the scalar. \<open>flow_end\<close> walks the text with the nesting depth
  and returns how many bytes precede the brace that closes the first one.
\<close>

fun flow_end :: "nat \<Rightarrow> int \<Rightarrow> string \<Rightarrow> nat option" where
  "flow_end 0 depth s = None"
| "flow_end (Suc fuel) depth [] = None"
| "flow_end (Suc fuel) depth (c # s) =
     (if c = double_quote \<or> c = single_quote
      then (let n = quoted_end c s in map_option (\<lambda>k. Suc n + k) (flow_end fuel depth (drop n s)))
      else if c = CHR 0x7B \<or> c = CHR ''['' then map_option Suc (flow_end fuel (depth + 1) s)
      else if c = CHR 0x7D
      then (if depth - 1 \<le> 0 then Some 0 else map_option Suc (flow_end fuel (depth - 1) s))
      else if c = CHR '']'' then map_option Suc (flow_end fuel (depth - 1) s)
      else map_option Suc (flow_end fuel depth s))"

definition flowMappingEnd :: "string \<Rightarrow> nat \<Rightarrow> nat option" where
  "flowMappingEnd raw start = map_option (\<lambda>k. start + k) (flow_end (Suc (length raw)) 0 (drop start raw))"

definition isFlowSpace :: "char \<Rightarrow> bool" where
  "isFlowSpace c \<longleftrightarrow> c = CHR '' '' \<or> c = CHR 0x09 \<or> c = CHR 0x0D \<or> c = newline"

text \<open>
  The text between the braces decides the separator: nothing for an empty mapping, a space after
  a trailing comma, a comma otherwise. \<open>flow_last\<close> is the byte the backward scan stops at, the
  opening brace at the latest.
\<close>

definition flow_last :: "string \<Rightarrow> char" where
  "flow_last body = (let b = dropWhile isFlowSpace (rev body) in if b = [] then CHR 0x7B else hd b)"

text \<open>\<open>strconv.Quote\<close>: the escapes of the ASCII control characters; other bytes are kept.\<close>

definition hex_digit :: "nat \<Rightarrow> char" where
  "hex_digit n = (if n < 10 then char_of (48 + n) else char_of (87 + n))"

definition quote_byte :: "char \<Rightarrow> string" where
  "quote_byte c =
     (if c = double_quote \<or> c = backslash then [backslash, c]
      else if byte_of c = 7 then [backslash, CHR ''a'']
      else if byte_of c = 8 then [backslash, CHR ''b'']
      else if byte_of c = 9 then [backslash, CHR ''t'']
      else if byte_of c = 10 then [backslash, CHR ''n'']
      else if byte_of c = 11 then [backslash, CHR ''v'']
      else if byte_of c = 12 then [backslash, CHR ''f'']
      else if byte_of c = 13 then [backslash, CHR ''r'']
      else if byte_of c < 32 \<or> byte_of c = 127
      then [backslash, CHR ''x'', hex_digit (byte_of c div 16), hex_digit (byte_of c mod 16)]
      else [c])"

definition Quote :: "string \<Rightarrow> string" where
  "Quote s = double_quote # concat (map quote_byte s) @ [double_quote]"

definition insertFlowMappingKey ::
  "string \<Rightarrow> Node \<Rightarrow> string \<Rightarrow> string \<Rightarrow> host_error + string" where
  "insertFlowMappingKey raw mapping key literal =
     (if n_Line mapping \<le> 0 \<or> n_Column mapping \<le> 0 then Inl ErrPosition
      else let ls = split_after raw in
        if n_Line mapping > int (length ls) then Inl ErrPosition
        else let i = nat (n_Line mapping - 1) in
          case columnOffset (ls ! i) (n_Column mapping) of
            None \<Rightarrow> Inl ErrPosition
          | Some column \<Rightarrow>
              let start = length (concat (take i ls)) + column in
              if start \<ge> length raw \<or> raw ! start \<noteq> CHR 0x7B then Inl ErrPosition
              else case flowMappingEnd raw start of
                None \<Rightarrow> Inl ErrPosition
              | Some fin \<Rightarrow>
                  let body = take (fin - Suc start) (drop (Suc start) raw);
                      entry = Quote key @ '': '' @ literal;
                      inserted = (if list_all isFlowSpace body then entry
                                  else if flow_last body = CHR '','' then '' '' @ entry
                                  else '', '' @ entry)
                  in Inr (take fin raw @ inserted @ drop fin raw))"

section \<open>SetEntryDisabled\<close>

definition SetEntryDisabled ::
  "(string \<Rightarrow> Node option) \<Rightarrow> (Node \<Rightarrow> bool option) \<Rightarrow> string \<Rightarrow> string \<Rightarrow> bool \<Rightarrow> string \<times> bool \<times> host_error option" where
  "SetEntryDisabled parse decb raw name disabled =
     (let trimmed = TrimSpace name in
      if trimmed = [] then (raw, False, Some ErrEntryNotFound)
      else if parse raw = None then (raw, False, Some ErrParse)
      else case list_node parse raw of
        None \<Rightarrow> (raw, False, Some ErrEntryNotFound)
      | Some ls \<Rightarrow>
          (case findEntry ls trimmed of
             None \<Rightarrow> (raw, False, Some ErrEntryNotFound)
           | Some target \<Rightarrow>
               let literal = (if disabled then ''true'' else ''false'') in
               (case mapValue (Some target) ''disabled'' of
                  Some value \<Rightarrow>
                    if boolValue decb (Some value) = disabled then (raw, False, None)
                    else (case replaceScalar raw value literal of
                        Inl err \<Rightarrow> (raw, False, Some err)
                      | Inr out \<Rightarrow> (out, True, None))
                | None \<Rightarrow>
                    if n_Flow target then (raw, False, Some ErrFlowStyle)
                    else (case insertMappingKey raw target ''disabled'' literal of
                        Inl err \<Rightarrow> (raw, False, Some err)
                      | Inr out \<Rightarrow> (out, True, None)))))"

section \<open>PluginConfigDefaults\<close>

record PluginDefault =
  pd_Key :: string
  pd_Literal :: string

definition mapping_at :: "Node option \<Rightarrow> string \<Rightarrow> Node option" where
  "mapping_at node key =
     (case mapValue node key of None \<Rightarrow> None | Some n \<Rightarrow> if n_Kind n = MappingNode then Some n else None)"

definition pluginConfigBlock :: "(string \<Rightarrow> Node option) \<Rightarrow> string \<Rightarrow> string \<Rightarrow> host_error + Node" where
  "pluginConfigBlock parse raw id' =
     (case parse raw of
        None \<Rightarrow> Inl ErrParse
      | Some document \<Rightarrow>
          (case mapping_at (mapping_at (mapping_at (documentRoot document) ''plugins'') ''configs'') id' of
             None \<Rightarrow> Inl ErrPluginConfigMissing
           | Some block \<Rightarrow> Inr block))"

fun fill_defaults ::
  "(string \<Rightarrow> Node option) \<Rightarrow> string \<Rightarrow> PluginDefault list \<Rightarrow> string \<Rightarrow> bool \<Rightarrow>
   host_error + (string \<times> bool)" where
  "fill_defaults parse id' [] out changed = Inr (out, changed)"
| "fill_defaults parse id' (item # rest) out changed =
     (let key = TrimSpace (pd_Key item) in
      if key = [] \<or> TrimSpace (pd_Literal item) = [] then fill_defaults parse id' rest out changed
      else case pluginConfigBlock parse out id' of
        Inl err \<Rightarrow> Inl err
      | Inr current \<Rightarrow>
          if mapValue (Some current) key \<noteq> None then fill_defaults parse id' rest out changed
          else (case (if n_Flow current then insertFlowMappingKey else insertMappingKey)
                  out current key (pd_Literal item) of
              Inl err \<Rightarrow> Inl ErrPluginConfigNotEditable
            | Inr updated \<Rightarrow> fill_defaults parse id' rest updated True))"

definition PluginConfigDefaults ::
  "(string \<Rightarrow> Node option) \<Rightarrow> string \<Rightarrow> string \<Rightarrow> PluginDefault list \<Rightarrow>
   string \<times> bool \<times> host_error option" where
  "PluginConfigDefaults parse raw pluginID defaults =
     (let id' = TrimSpace pluginID in
      if id' = [] \<or> defaults = [] then (raw, False, Some ErrPluginConfigMissing)
      else case pluginConfigBlock parse raw id' of
        Inl err \<Rightarrow> (raw, False, Some err)
      | Inr _ \<Rightarrow>
          (case fill_defaults parse id' defaults raw False of
             Inl err \<Rightarrow> (raw, False, Some err)
           | Inr (out, changed) \<Rightarrow> if changed then (out, True, None) else (raw, False, None)))"

section \<open>What an edit keeps\<close>

text \<open>
  The interface of the inserters: a successful insertion puts one non-empty piece into the text,
  which carries the literal after a colon, and leaves every byte before and after it alone.
\<close>

locale insertion =
  fixes ins :: "string \<Rightarrow> Node \<Rightarrow> string \<Rightarrow> string \<Rightarrow> host_error + string"
  assumes ins_law: "ins raw n key literal = Inr out \<Longrightarrow>
    \<exists>pre new suf. raw = pre @ suf \<and> out = pre @ new @ suf \<and> new \<noteq> [] \<and> sublist ('': '' @ literal) new"
begin

lemma ins_subseq: "ins raw n key literal = Inr out \<Longrightarrow> subseq raw out"
  by (auto dest!: ins_law intro: list_emb_append_mono)

lemma ins_longer: "ins raw n key literal = Inr out \<Longrightarrow> length raw < length out"
  by (auto dest!: ins_law)

end

lemma sublist_mid: "sublist y (x @ y @ z)"
  by (auto simp: sublist_def)

lemma take_Suc_concat:
  "concat ls = raw \<Longrightarrow> raw = concat (take i ls) @ concat (drop i ls)"
  by (metis append_take_drop_id concat_append)

interpretation block_insert: insertion insertMappingKey
proof unfold_locales
  fix raw n key literal out
  assume "insertMappingKey raw n key literal = Inr out"
  then obtain i sep sp where out: "out = concat (take (Suc i) (split_after raw)) @ sep @
      (sp @ key @ '': '' @ literal @ [newline]) @ concat (drop (Suc i) (split_after raw))"
    by (fastforce simp: insertMappingKey_def Let_def split: if_splits)
  have "raw = concat (take (Suc i) (split_after raw)) @ concat (drop (Suc i) (split_after raw))"
    by (rule take_Suc_concat) simp
  moreover have "sublist ('': '' @ literal) (sep @ (sp @ key @ '': '' @ literal @ [newline]))"
    using sublist_mid [of "'': '' @ literal" "sep @ sp @ key" "[newline]"] by simp
  ultimately show "\<exists>pre new suf. raw = pre @ suf \<and> out = pre @ new @ suf \<and> new \<noteq> [] \<and>
      sublist ('': '' @ literal) new"
    using out by (intro exI [of _ "concat (take (Suc i) (split_after raw))"]
        exI [of _ "sep @ (sp @ key @ '': '' @ literal @ [newline])"]
        exI [of _ "concat (drop (Suc i) (split_after raw))"]) simp
qed

interpretation flow_insert: insertion insertFlowMappingKey
proof unfold_locales
  fix raw n key literal out
  assume "insertFlowMappingKey raw n key literal = Inr out"
  then obtain fin new where "out = take fin raw @ new @ drop fin raw"
    "new = Quote key @ '': '' @ literal \<or> new = '' '' @ Quote key @ '': '' @ literal \<or>
     new = '', '' @ Quote key @ '': '' @ literal"
    by (fastforce simp: insertFlowMappingKey_def Let_def split: if_splits option.splits)
  moreover from this(2) have "new \<noteq> []" "sublist ('': '' @ literal) new"
    by (auto simp: sublist_def) (metis append_Cons append_Nil2 append_assoc)+
  ultimately show "\<exists>pre new suf. raw = pre @ suf \<and> out = pre @ new @ suf \<and> new \<noteq> [] \<and>
      sublist ('': '' @ literal) new"
    by (intro exI [of _ "take fin raw"] exI [of _ new] exI [of _ "drop fin raw"]) simp
qed

lemma fill_defaults_keeps:
  "fill_defaults parse id' items out changed = Inr (out', changed') \<Longrightarrow>
   subseq out out' \<and> (changed' \<longrightarrow> changed \<or> length out < length out') \<and> (\<not> changed' \<longrightarrow> out' = out) \<and>
     (changed \<longrightarrow> changed')"
proof (induction items arbitrary: out changed)
  case (Cons item rest)
  let ?key = "TrimSpace (pd_Key item)"
  show ?case
  proof (cases "?key = [] \<or> TrimSpace (pd_Literal item) = []")
    case True
    then show ?thesis using Cons.IH [of out changed] Cons.prems by simp
  next
    case False
    with Cons.prems obtain current where c: "pluginConfigBlock parse out id' = Inr current"
      by (auto simp: Let_def split: sum.splits)
    show ?thesis
    proof (cases "mapValue (Some current) ?key = None")
      case False
      with \<open>\<not> (?key = [] \<or> TrimSpace (pd_Literal item) = [])\<close> c Cons.prems Cons.IH [of out changed]
      show ?thesis by (auto simp: Let_def)
    next
      case True
      with \<open>\<not> (?key = [] \<or> TrimSpace (pd_Literal item) = [])\<close> c Cons.prems obtain mid where
        mid: "(if n_Flow current then insertFlowMappingKey else insertMappingKey) out current ?key (pd_Literal item) = Inr mid"
        "fill_defaults parse id' rest mid True = Inr (out', changed')"
        by (auto simp: Let_def split: sum.splits)
      from mid(1) have "subseq out mid \<and> length out < length mid"
        by (cases "n_Flow current")
          (auto dest: block_insert.ins_subseq block_insert.ins_longer flow_insert.ins_subseq flow_insert.ins_longer)
      moreover have "subseq mid out'" "changed'" using Cons.IH [OF mid(2)] by auto
      moreover from this(1) have "length mid \<le> length out'" by (rule list_emb_length)
      ultimately show ?thesis by (auto intro: subseq_order.trans)
    qed
  qed
qed simp

end
