(* ===== verification/Channel_Parse.thy ===== *)
theory Channel_Parse
  imports Go_Json Guard "HOL-Library.Monad_Syntax"
begin

text \<open>
  The parser of CPA's request logs, \<open>internal/channellog/parse.go\<close>: the line reader with its
  fixed buffer, the section state machine, the decoder of one response frame, and \<open>finish\<close>,
  which builds the fact of a file.

  A slice expression out of range and a nil dereference are values here (\<open>go_panic\<close>): nothing on
  the scanner's goroutine recovers from a panic. Numbers decoded by \<open>flexInt\<close> and \<open>flexFloat\<close> are
  real numbers; \<open>ParseFloat\<close> covers the decimal spellings, and a quoted number written with JSON
  escapes reads as the number. A fallback entry that is an array or an object is printed
  compactly. \<open>time.Parse\<close> is the strict RFC 3339 reader: a one-digit hour and a comma before the
  fraction are not covered. An instant has no location.
\<close>

datatype go_panic = Slice_out_of_range | Nil_dereference

section \<open>The fact\<close>

record Fact =
  fc_Time :: time
  fc_Path :: string
  fc_Method :: string
  fc_SessionID :: string
  fc_SessionUUID :: string
  fc_HasSession :: bool
  fc_FinalProvider :: string
  fc_ResolvedProvider :: string
  fc_CanonicalSlug :: string
  fc_OriginalModelID :: string
  fc_PinnedProvider :: string
  fc_AffinityOutcome :: string
  fc_ModelAttemptCount :: int
  fc_TotalProviderAttemptCount :: int
  fc_FallbacksAvailable :: "string list"
  fc_GatewayCost :: real
  fc_PromptTokens :: int
  fc_CompletionTokens :: int
  fc_Frames :: int
  fc_AttemptsSeen :: int
  fc_HadErrorResponse :: bool
  fc_SourceFile :: string
  fc_ParsedAt :: time

definition HasChannel :: "Fact \<Rightarrow> bool" where
  "HasChannel f \<longleftrightarrow> fc_FinalProvider f \<noteq> [] \<or> fc_ResolvedProvider f \<noteq> [] \<or> fc_CanonicalSlug f \<noteq> [] \<or>
     fc_OriginalModelID f \<noteq> [] \<or> fc_PinnedProvider f \<noteq> []"

definition empty_fact :: "string \<Rightarrow> time \<Rightarrow> Fact" where
  "empty_fact name parsedAt = \<lparr>fc_Time = zero_time, fc_Path = [], fc_Method = [], fc_SessionID = [],
     fc_SessionUUID = [], fc_HasSession = False, fc_FinalProvider = [], fc_ResolvedProvider = [],
     fc_CanonicalSlug = [], fc_OriginalModelID = [], fc_PinnedProvider = [], fc_AffinityOutcome = [],
     fc_ModelAttemptCount = 0, fc_TotalProviderAttemptCount = 0, fc_FallbacksAvailable = [],
     fc_GatewayCost = 0, fc_PromptTokens = 0, fc_CompletionTokens = 0, fc_Frames = 0,
     fc_AttemptsSeen = 0, fc_HadErrorResponse = False, fc_SourceFile = name, fc_ParsedAt = parsedAt\<rparr>"

section \<open>Numbers and lists that decode leniently\<close>

definition ten_power :: "string \<Rightarrow> real option" where
  "ten_power e = (if e = [] then Some 1 else map_option (\<lambda>k. 10 powi k) (Atoi e))"

text \<open>\<open>strconv.ParseFloat\<close> on a sign, digits with at most one point, and an exponent.\<close>

definition ParseFloat :: "string \<Rightarrow> real option" where
  "ParseFloat s =
     (let (neg, body) = (case s of [] \<Rightarrow> (False, [])
            | c # r \<Rightarrow> if c = CHR ''-'' then (True, r) else if c = CHR ''+'' then (False, r) else (False, s));
          mant = takeWhile (\<lambda>c. c \<noteq> CHR ''e'' \<and> c \<noteq> CHR ''E'') body;
          rest = drop (length mant) body;
          whole = takeWhile (\<lambda>c. c \<noteq> CHR ''.'') mant;
          frac = drop (Suc (length whole)) mant
      in if whole @ frac = [] \<or> rest \<noteq> [] \<and> tl rest = [] then None
         else case (parse_digits 0 (whole @ frac), ten_power (tl rest)) of
             (Some n, Some p) \<Rightarrow>
               let v = real n / 10 ^ length frac * p
               in if 2 ^ 1024 - 2 ^ 970 \<le> v then None else Some (if neg then - v else v)
           | _ \<Rightarrow> None)"

definition numberFrom :: "json \<Rightarrow> real option" where
  "numberFrom j = (case j of
       JNum n \<Rightarrow> ParseFloat n
     | JStr s \<Rightarrow> if s = [] \<or> s = ''null'' then None else ParseFloat s
     | _ \<Rightarrow> None)"

text \<open>
  A decoder takes the value and what the field holds: \<open>null\<close> leaves a plain field alone, and the
  lenient types never fail.
\<close>

definition upd_string :: "json \<Rightarrow> string \<Rightarrow> string option" where
  "upd_string j a = (case j of JNull \<Rightarrow> Some a | JStr s \<Rightarrow> Some s | _ \<Rightarrow> None)"

definition upd_flexInt :: "json \<Rightarrow> int \<Rightarrow> int option" where
  "upd_flexInt j a = Some (case numberFrom j of None \<Rightarrow> a | Some v \<Rightarrow> trunc v)"

definition upd_flexFloat :: "json \<Rightarrow> real \<Rightarrow> real option" where
  "upd_flexFloat j a = Some (case numberFrom j of None \<Rightarrow> a | Some v \<Rightarrow> v)"

definition element_text :: "json \<Rightarrow> string" where
  "element_text j = (case j of JNull \<Rightarrow> [] | JStr s \<Rightarrow> s | _ \<Rightarrow> Marshal j)"

definition upd_stringList :: "json \<Rightarrow> string list \<Rightarrow> string list option" where
  "upd_stringList j a = Some (case j of JArr js \<Rightarrow> map element_text js | JNull \<Rightarrow> [] | _ \<Rightarrow> a)"

text \<open>A pointer: \<open>null\<close> resets it, anything else decodes into what it points at.\<close>

definition upd_pointer :: "(json \<Rightarrow> 'a \<Rightarrow> 'a option) \<Rightarrow> 'a \<Rightarrow> json \<Rightarrow> 'a option \<Rightarrow> 'a option option" where
  "upd_pointer upd zero j p =
     (if j = JNull then Some None
      else map_option Some (upd j (case p of None \<Rightarrow> zero | Some a \<Rightarrow> a)))"

text \<open>The members of an object that name a field, in the order of the document.\<close>

fun json_update :: "(json \<Rightarrow> 'a \<Rightarrow> 'a option) \<Rightarrow> string \<Rightarrow> (string \<times> json) list \<Rightarrow> 'a \<Rightarrow> 'a option" where
  "json_update upd name [] a = Some a"
| "json_update upd name ((k, v) # ms) a =
     (if EqualFold k name then Option.bind (upd v a) (json_update upd name ms)
      else json_update upd name ms a)"

definition upd_object :: "((string \<times> json) list \<Rightarrow> 'a \<Rightarrow> 'a option) \<Rightarrow> json \<Rightarrow> 'a \<Rightarrow> 'a option" where
  "upd_object f j a = (case j of JNull \<Rightarrow> Some a | JObj ms \<Rightarrow> f ms a | _ \<Rightarrow> None)"

section \<open>One response frame\<close>

record routingWire =
  rw_FinalProvider :: string
  rw_ResolvedProvider :: string
  rw_CanonicalSlug :: string
  rw_OriginalModelID :: string
  rw_ModelAttemptCount :: int
  rw_TotalProviderAttemptCount :: int
  rw_FallbacksAvailable :: "string list"
  rw_Outcome :: string
  rw_PinnedProvider :: string

record providerMetadata =
  pm_Cost :: real
  pm_Routing :: routingWire

definition zero_metadata :: providerMetadata where
  "zero_metadata = \<lparr>pm_Cost = 0, pm_Routing = \<lparr>rw_FinalProvider = [], rw_ResolvedProvider = [],
     rw_CanonicalSlug = [], rw_OriginalModelID = [], rw_ModelAttemptCount = 0,
     rw_TotalProviderAttemptCount = 0, rw_FallbacksAvailable = [], rw_Outcome = [], rw_PinnedProvider = []\<rparr>\<rparr>"

definition upd_affinity :: "json \<Rightarrow> string \<times> string \<Rightarrow> (string \<times> string) option" where
  "upd_affinity = upd_object (\<lambda>ms (outcome, pinned). do {
     out \<leftarrow> json_update upd_string ''outcome'' ms outcome;
     pin \<leftarrow> json_update upd_string ''pinnedProvider'' ms pinned;
     Some (out, pin) })"

definition upd_routing :: "json \<Rightarrow> routingWire \<Rightarrow> routingWire option" where
  "upd_routing = upd_object (\<lambda>ms w. do {
     final \<leftarrow> json_update upd_string ''finalProvider'' ms (rw_FinalProvider w);
     resolved \<leftarrow> json_update upd_string ''resolvedProvider'' ms (rw_ResolvedProvider w);
     slug \<leftarrow> json_update upd_string ''canonicalSlug'' ms (rw_CanonicalSlug w);
     original \<leftarrow> json_update upd_string ''originalModelId'' ms (rw_OriginalModelID w);
     attempts \<leftarrow> json_update upd_flexInt ''modelAttemptCount'' ms (rw_ModelAttemptCount w);
     total \<leftarrow> json_update upd_flexInt ''totalProviderAttemptCount'' ms (rw_TotalProviderAttemptCount w);
     fallbacks \<leftarrow> json_update upd_stringList ''fallbacksAvailable'' ms (rw_FallbacksAvailable w);
     (outcome, pinned) \<leftarrow> json_update upd_affinity ''affinity'' ms (rw_Outcome w, rw_PinnedProvider w);
     Some \<lparr>rw_FinalProvider = final, rw_ResolvedProvider = resolved, rw_CanonicalSlug = slug,
       rw_OriginalModelID = original, rw_ModelAttemptCount = attempts, rw_TotalProviderAttemptCount = total,
       rw_FallbacksAvailable = fallbacks, rw_Outcome = outcome, rw_PinnedProvider = pinned\<rparr> })"

definition upd_gateway :: "json \<Rightarrow> providerMetadata \<Rightarrow> providerMetadata option" where
  "upd_gateway = upd_object (\<lambda>ms m. do {
     cost \<leftarrow> json_update upd_flexFloat ''cost'' ms (pm_Cost m);
     routing \<leftarrow> json_update upd_routing ''routing'' ms (pm_Routing m);
     Some \<lparr>pm_Cost = cost, pm_Routing = routing\<rparr> })"

definition upd_metadata :: "json \<Rightarrow> providerMetadata \<Rightarrow> providerMetadata option" where
  "upd_metadata = upd_object (json_update upd_gateway ''gateway'')"

definition upd_holder :: "json \<Rightarrow> providerMetadata option \<Rightarrow> providerMetadata option option" where
  "upd_holder = upd_object (json_update (upd_pointer upd_metadata zero_metadata) ''provider_metadata'')"

record choice =
  ch_Delta :: "providerMetadata option"
  ch_Message :: "providerMetadata option"

definition dec_choice :: "json \<Rightarrow> choice option" where
  "dec_choice j = upd_object (\<lambda>ms c. do {
     delta \<leftarrow> json_update upd_holder ''delta'' ms (ch_Delta c);
     message \<leftarrow> json_update upd_holder ''message'' ms (ch_Message c);
     Some \<lparr>ch_Delta = delta, ch_Message = message\<rparr> }) j \<lparr>ch_Delta = None, ch_Message = None\<rparr>"

definition upd_choices :: "json \<Rightarrow> choice list \<Rightarrow> choice list option" where
  "upd_choices j a = (case j of JNull \<Rightarrow> Some [] | JArr js \<Rightarrow> dec_all dec_choice js | _ \<Rightarrow> None)"

record usageBlock =
  ub_PromptTokens :: "int option"
  ub_CompletionTokens :: "int option"

definition upd_usage :: "json \<Rightarrow> usageBlock \<Rightarrow> usageBlock option" where
  "upd_usage = upd_object (\<lambda>ms u. do {
     p \<leftarrow> json_update (upd_pointer upd_flexInt 0) ''prompt_tokens'' ms (ub_PromptTokens u);
     c \<leftarrow> json_update (upd_pointer upd_flexInt 0) ''completion_tokens'' ms (ub_CompletionTokens u);
     Some \<lparr>ub_PromptTokens = p, ub_CompletionTokens = c\<rparr> })"

record responseFrame =
  fr_Choices :: "choice list"
  fr_Usage :: "usageBlock option"

definition dec_frame :: "json \<Rightarrow> responseFrame option" where
  "dec_frame j = upd_object (\<lambda>ms f. do {
     choices \<leftarrow> json_update upd_choices ''choices'' ms (fr_Choices f);
     usage \<leftarrow> json_update (upd_pointer upd_usage \<lparr>ub_PromptTokens = None, ub_CompletionTokens = None\<rparr>)
        ''usage'' ms (fr_Usage f);
     Some \<lparr>fr_Choices = choices, fr_Usage = usage\<rparr> }) j \<lparr>fr_Choices = [], fr_Usage = None\<rparr>"

section \<open>The lines of a file\<close>

definition readBuffer :: int where "readBuffer = 1048576"
definition sectionOpen :: string where "sectionOpen = ''=== ''"
definition sectionClose :: string where "sectionClose = '' ===''"
definition ssePrefix :: string where "ssePrefix = ''data:''"
definition sessionHeader :: string where "sessionHeader = ''session_id''"
definition sessionPrefix :: string where "sessionPrefix = ''session-''"

definition line_break :: char where "line_break = CHR 0x0A"

fun file_lines :: "string \<Rightarrow> string list" where
  "file_lines [] = []"
| "file_lines (c # s) =
     (if c = line_break then [c] # file_lines s
      else case file_lines s of [] \<Rightarrow> [[c]] | l # ls \<Rightarrow> (c # l) # ls)"

text \<open>
  \<open>ReadSlice\<close> returns a line with its newline when the two fit the buffer, and the last line when
  it is shorter than the buffer; any other line is drained and reported truncated.
\<close>

definition truncated :: "string \<Rightarrow> bool" where
  "truncated l \<longleftrightarrow> readBuffer < int (length l) \<or> int (length l) = readBuffer \<and> last l \<noteq> line_break"

definition trim_break :: "string \<Rightarrow> string" where
  "trim_break l = rev (dropWhile (\<lambda>c. c = CHR 0x0D \<or> c = line_break) (rev l))"

definition parsed_lines :: "string \<Rightarrow> string list" where
  "parsed_lines content = map trim_break (filter (\<lambda>l. \<not> truncated l) (file_lines content))"

text \<open>
  \<open>line[len(sectionOpen) : len(line)-len(sectionClose)]\<close> panics when the two markers overlap.
\<close>

definition section_name :: "string \<Rightarrow> go_panic + string option" where
  "section_name line =
     (if \<not> HasPrefix line sectionOpen \<or> \<not> HasSuffix line sectionClose then Inr None
      else if length line < length sectionOpen + length sectionClose then Inl Slice_out_of_range
      else let name = TrimSpace (take (length line - length sectionClose - length sectionOpen)
                 (drop (length sectionOpen) line))
           in Inr (if name = [] then None else Some name))"

datatype sectionKind = sectionOther | sectionRequestInfo | sectionHeaders | sectionResponse
  | sectionErrorResponse

definition classify :: "string \<Rightarrow> sectionKind" where
  "classify name =
     (if name = ''REQUEST INFO'' then sectionRequestInfo
      else if name = ''HEADERS'' then sectionHeaders
      else if name = ''API ERROR RESPONSE'' then sectionErrorResponse
      else if HasPrefix name ''API RESPONSE '' then sectionResponse
      else sectionOther)"

definition dataPayload :: "string \<Rightarrow> string option" where
  "dataPayload line =
     (if \<not> HasPrefix line ssePrefix then None
      else let payload = TrimSpace (drop (length ssePrefix) line)
           in if payload = [] then None else Some payload)"

definition keyValue :: "string \<Rightarrow> (string \<times> string) option" where
  "keyValue line =
     (case IndexByte line (CHR '':'') of
        None \<Rightarrow> None
      | Some index \<Rightarrow>
          if index = 0 then None
          else let key = TrimSpace (take index line)
               in if key = [] then None else Some (key, TrimSpace (drop (Suc index) line)))"

definition normaliseHeader :: "string \<Rightarrow> string" where
  "normaliseHeader key = map (\<lambda>c. if c = CHR ''-'' then CHR ''_'' else c) (ToLower (TrimSpace key))"

section \<open>The section state machine\<close>

record routing =
  rt_finalProvider :: string
  rt_resolvedProvider :: string
  rt_canonicalSlug :: string
  rt_originalModelID :: string
  rt_pinnedProvider :: string
  rt_affinityOutcome :: string
  rt_modelAttemptCount :: int
  rt_totalProviderAttemptCount :: int
  rt_fallbacksAvailable :: "string list"
  rt_cost :: real

definition metadata_routing :: "providerMetadata \<Rightarrow> routing" where
  "metadata_routing m =
     (let wire = pm_Routing m in
      \<lparr>rt_finalProvider = rw_FinalProvider wire, rt_resolvedProvider = rw_ResolvedProvider wire,
       rt_canonicalSlug = rw_CanonicalSlug wire, rt_originalModelID = rw_OriginalModelID wire,
       rt_pinnedProvider = rw_PinnedProvider wire, rt_affinityOutcome = rw_Outcome wire,
       rt_modelAttemptCount = rw_ModelAttemptCount wire,
       rt_totalProviderAttemptCount = rw_TotalProviderAttemptCount wire,
       rt_fallbacksAvailable = rw_FallbacksAvailable wire, rt_cost = pm_Cost m\<rparr>)"

record responseSection =
  rs_frames :: int
  rs_routing :: routing
  rs_promptTokens :: int
  rs_completionTokens :: int
  rs_found :: bool

definition new_response :: responseSection where
  "new_response = \<lparr>rs_frames = 0, rs_routing = metadata_routing zero_metadata, rs_promptTokens = 0,
     rs_completionTokens = 0, rs_found = False\<rparr>"

record parser =
  ps_fact :: Fact
  ps_section :: sectionKind
  ps_response :: "responseSection option"
  ps_best :: "responseSection option"
  ps_lastFrames :: int
  ps_attempts :: int
  ps_hadError :: bool

definition new_parser :: "string \<Rightarrow> time \<Rightarrow> parser" where
  "new_parser name parsedAt = \<lparr>ps_fact = empty_fact name parsedAt, ps_section = sectionOther,
     ps_response = None, ps_best = None, ps_lastFrames = 0, ps_attempts = 0, ps_hadError = False\<rparr>"

definition closeResponse :: "parser \<Rightarrow> parser" where
  "closeResponse p =
     (case ps_response p of
        None \<Rightarrow> p
      | Some r \<Rightarrow> p\<lparr>ps_lastFrames := rs_frames r,
            ps_best := (if rs_found r then Some r else ps_best p), ps_response := None\<rparr>)"

definition open_section :: "sectionKind \<Rightarrow> parser \<Rightarrow> parser" where
  "open_section kind p =
     (let q = (case kind of
          sectionResponse \<Rightarrow>
            (closeResponse p)\<lparr>ps_response := Some new_response, ps_attempts := ps_attempts p + 1\<rparr>
        | sectionErrorResponse \<Rightarrow>
            (closeResponse p)\<lparr>ps_attempts := ps_attempts p + 1, ps_hadError := True\<rparr>
        | _ \<Rightarrow> closeResponse p)
      in q\<lparr>ps_section := kind\<rparr>)"

definition infoLine :: "string \<Rightarrow> parser \<Rightarrow> parser" where
  "infoLine line p =
     (case keyValue line of
        None \<Rightarrow> p
      | Some (key, value) \<Rightarrow>
          if EqualFold key ''URL'' then p\<lparr>ps_fact := (ps_fact p)\<lparr>fc_Path := value\<rparr>\<rparr>
          else if EqualFold key ''Method'' then p\<lparr>ps_fact := (ps_fact p)\<lparr>fc_Method := value\<rparr>\<rparr>
          else if EqualFold key ''Timestamp''
          then (case ParseRFC3339 value of None \<Rightarrow> p | Some t \<Rightarrow> p\<lparr>ps_fact := (ps_fact p)\<lparr>fc_Time := t\<rparr>\<rparr>)
          else p)"

definition headerLine :: "string \<Rightarrow> parser \<Rightarrow> parser" where
  "headerLine line p =
     (case keyValue line of
        None \<Rightarrow> p
      | Some (key, value) \<Rightarrow>
          if normaliseHeader key \<noteq> sessionHeader then p
          else p\<lparr>ps_fact := (ps_fact p)\<lparr>fc_HasSession := True, fc_SessionID := value,
                 fc_SessionUUID := TrimPrefix value sessionPrefix\<rparr>\<rparr>)"

text \<open>What one decoded frame does to its section.\<close>

definition take_usage :: "usageBlock option \<Rightarrow> responseSection \<Rightarrow> responseSection" where
  "take_usage usage r =
     (case usage of None \<Rightarrow> r
      | Some u \<Rightarrow>
          let r1 = (case ub_PromptTokens u of None \<Rightarrow> r | Some n \<Rightarrow> r\<lparr>rs_promptTokens := n\<rparr>)
          in (case ub_CompletionTokens u of None \<Rightarrow> r1 | Some n \<Rightarrow> r1\<lparr>rs_completionTokens := n\<rparr>))"

definition take_choice :: "responseSection \<Rightarrow> choice \<Rightarrow> responseSection" where
  "take_choice r c =
     (case (case ch_Delta c of None \<Rightarrow> ch_Message c | Some m \<Rightarrow> Some m) of
        None \<Rightarrow> r
      | Some m \<Rightarrow> r\<lparr>rs_routing := metadata_routing m, rs_found := True\<rparr>)"

definition take_frame :: "responseFrame \<Rightarrow> responseSection \<Rightarrow> responseSection" where
  "take_frame f r = foldl take_choice (take_usage (fr_Usage f) (r\<lparr>rs_frames := rs_frames r + 1\<rparr>)) (fr_Choices f)"

definition decode_payload :: "string \<Rightarrow> responseFrame option" where
  "decode_payload line = Option.bind (dataPayload line) (\<lambda>payload. Option.bind (parse_json payload) dec_frame)"

definition frameLine :: "string \<Rightarrow> parser \<Rightarrow> go_panic + parser" where
  "frameLine line p =
     (case decode_payload line of
        None \<Rightarrow> Inr p
      | Some f \<Rightarrow>
          (case ps_response p of
             None \<Rightarrow> Inl Nil_dereference
           | Some r \<Rightarrow> Inr (p\<lparr>ps_response := Some (take_frame f r)\<rparr>)))"

definition parse_line :: "string \<Rightarrow> parser \<Rightarrow> go_panic + parser" where
  "parse_line line p =
     (case section_name line of
        Inl e \<Rightarrow> Inl e
      | Inr (Some name) \<Rightarrow> Inr (open_section (classify name) p)
      | Inr None \<Rightarrow>
          (case ps_section p of
             sectionRequestInfo \<Rightarrow> Inr (infoLine line p)
           | sectionHeaders \<Rightarrow> Inr (headerLine line p)
           | sectionResponse \<Rightarrow> frameLine line p
           | _ \<Rightarrow> Inr p))"

fun parse_lines :: "string list \<Rightarrow> parser \<Rightarrow> go_panic + parser" where
  "parse_lines [] p = Inr p"
| "parse_lines (l # ls) p = (case parse_line l p of Inl e \<Rightarrow> Inl e | Inr q \<Rightarrow> parse_lines ls q)"

definition finish :: "parser \<Rightarrow> Fact" where
  "finish p0 =
     (let p = closeResponse p0;
          fact = (ps_fact p)\<lparr>fc_AttemptsSeen := ps_attempts p, fc_HadErrorResponse := ps_hadError p,
                   fc_Frames := ps_lastFrames p\<rparr>
      in case ps_best p of
           None \<Rightarrow> fact
         | Some b \<Rightarrow> let r = rs_routing b in
             fact\<lparr>fc_FinalProvider := rt_finalProvider r, fc_ResolvedProvider := rt_resolvedProvider r,
               fc_CanonicalSlug := rt_canonicalSlug r, fc_OriginalModelID := rt_originalModelID r,
               fc_PinnedProvider := rt_pinnedProvider r, fc_AffinityOutcome := rt_affinityOutcome r,
               fc_ModelAttemptCount := rt_modelAttemptCount r,
               fc_TotalProviderAttemptCount := rt_totalProviderAttemptCount r,
               fc_FallbacksAvailable := rt_fallbacksAvailable r, fc_GatewayCost := rt_cost r,
               fc_PromptTokens := rs_promptTokens b, fc_CompletionTokens := rs_completionTokens b,
               fc_Frames := rs_frames b\<rparr>)"

text \<open>A panic of the parser is the left of the sum.\<close>

definition parseLog :: "string \<Rightarrow> string \<Rightarrow> time \<Rightarrow> go_panic + Fact" where
  "parseLog content name parsedAt =
     (case parse_lines (parsed_lines content) (new_parser name parsedAt) of
        Inl e \<Rightarrow> Inl e | Inr p \<Rightarrow> Inr (finish p))"

end
