(* ===== verification/Channel_Scan.thy ===== *)
theory Channel_Scan
  imports Channel_Parse Guard_Store
begin

text \<open>
  The request-log scanner, \<open>internal/channellog/channellog.go\<close>, and the writer of its facts,
  \<open>internal/channellog/store.go\<close>.

  A pass lists the log directory and takes the files one by one. What the file system answers
  about a file while the pass runs (CPA may be writing it) is the file's \<open>FileView\<close>; what the pass
  changes is a \<open>World\<close>: the log files that are left, and the fact files of the store directory.
  Errors are values naming the call that failed; the text of \<open>LastError\<close> is that value. The
  polling goroutine is not modelled beyond running passes one after the other, and \<open>showf\<close> is the
  shortest spelling of a float, which the encoder writes.
\<close>

section \<open>Options\<close>

definition DefaultDir :: string where "DefaultDir = ''/CLIProxyAPI/logs''"
definition DefaultMinAge :: duration where "DefaultMinAge = 5 * Second"
definition DefaultPollInterval :: duration where "DefaultPollInterval = 2 * Second"
definition DefaultMaxFacts :: int where "DefaultMaxFacts = 200"
definition DefaultStoreDir :: string where "DefaultStoreDir = ''/CLIProxyAPI/logs/channel-observation''"
definition DefaultRetentionDays :: int where "DefaultRetentionDays = 3"

record ScanOptions =
  so_Enabled :: bool
  so_Dir :: string
  so_StoreDir :: string
  so_MinAge :: duration
  so_DeleteAfterRead :: bool
  so_PollInterval :: duration
  so_MaxFacts :: int
  so_RetentionDays :: int

definition withDefaults :: "ScanOptions \<Rightarrow> ScanOptions" where
  "withDefaults o1 = o1\<lparr>
     so_Dir := (if TrimSpace (so_Dir o1) = [] then DefaultDir else so_Dir o1),
     so_StoreDir := (if TrimSpace (so_StoreDir o1) = [] then DefaultStoreDir else so_StoreDir o1),
     so_MinAge := (if so_MinAge o1 < 0 then DefaultMinAge else so_MinAge o1),
     so_PollInterval := (if so_PollInterval o1 \<le> 0 then DefaultPollInterval else so_PollInterval o1),
     so_MaxFacts := (if so_MaxFacts o1 \<le> 0 then DefaultMaxFacts else so_MaxFacts o1),
     so_RetentionDays := (if so_RetentionDays o1 \<le> 0 then DefaultRetentionDays else so_RetentionDays o1)\<rparr>"

section \<open>The fact file\<close>

definition enc_fact :: "(real \<Rightarrow> string) \<Rightarrow> Fact \<Rightarrow> json" where
  "enc_fact showf f = JObj
     [(''time'', enc_time (fc_Time f)), (''path'', JStr (fc_Path f)), (''method'', JStr (fc_Method f)),
      (''session_id'', JStr (fc_SessionID f)), (''session_uuid'', JStr (fc_SessionUUID f)),
      (''has_session'', JBool (fc_HasSession f)), (''final_provider'', JStr (fc_FinalProvider f)),
      (''resolved_provider'', JStr (fc_ResolvedProvider f)), (''canonical_slug'', JStr (fc_CanonicalSlug f)),
      (''original_model_id'', JStr (fc_OriginalModelID f)), (''pinned_provider'', JStr (fc_PinnedProvider f)),
      (''affinity_outcome'', JStr (fc_AffinityOutcome f)), (''model_attempt_count'', enc_int (fc_ModelAttemptCount f)),
      (''total_provider_attempt_count'', enc_int (fc_TotalProviderAttemptCount f)),
      (''fallbacks_available'', JArr (map JStr (fc_FallbacksAvailable f))),
      (''gateway_cost'', JNum (showf (fc_GatewayCost f))), (''prompt_tokens'', enc_int (fc_PromptTokens f)),
      (''completion_tokens'', enc_int (fc_CompletionTokens f)), (''frames'', enc_int (fc_Frames f)),
      (''attempts_seen'', enc_int (fc_AttemptsSeen f)), (''had_error_response'', JBool (fc_HadErrorResponse f)),
      (''source_file'', JStr (fc_SourceFile f)), (''parsed_at'', enc_time (fc_ParsedAt f))]"

definition fact_line :: "(real \<Rightarrow> string) \<Rightarrow> Fact \<Rightarrow> string" where
  "fact_line showf f = Marshal (enc_fact showf f) @ [CHR 0x0A]"

definition factPrefix :: string where "factPrefix = ''channel-log-''"
definition factSuffix :: string where "factSuffix = ''.jsonl''"

text \<open>\<open>clock\<close> is \<open>time.Now()\<close>, for a fact that names no time at all.\<close>

definition fact_file :: "time \<Rightarrow> Fact \<Rightarrow> string" where
  "fact_file clock f =
     (let day0 = fc_Time f;
          day1 = (if IsZero day0 then fc_ParsedAt f else day0);
          day = (if IsZero day1 then clock else day1)
      in factPrefix @ FormatDate day @ factSuffix)"

definition fact_steps :: "string \<Rightarrow> string \<Rightarrow> string \<Rightarrow> step list" where
  "fact_steps name torn line =
     (let grow = (\<lambda>t d. d(name \<mapsto> (case d name of None \<Rightarrow> [] | Some c \<Rightarrow> c) @ t)) in
     [(Sys_Mkdir, \<lambda>d. d, \<lambda>d. d), (Sys_Open, grow [], \<lambda>d. d), (Sys_Write, grow line, grow torn),
      (Sys_Close, \<lambda>d. d, \<lambda>d. d)])"

definition append_fact ::
  "(real \<Rightarrow> string) \<Rightarrow> (syscall \<Rightarrow> bool) \<Rightarrow> string \<Rightarrow> time \<Rightarrow> Fact \<Rightarrow> dir \<Rightarrow> dir \<times> syscall option" where
  "append_fact showf fails torn clock f d =
     (let (ds, err) = run_steps fails (fact_steps (fact_file clock f) torn (fact_line showf f)) d
      in (last (d # ds), err))"

section \<open>The scanner's state\<close>

datatype scan_error = Read_Dir | Entry_Info string | Entry_Stat string | Open_Log string | Read_Log string
  | Close_Log string | Store_Fact syscall | Unlink_Log string

record ScanHealth =
  sh_Scanned :: int
  sh_Parsed :: int
  sh_WithChannel :: int
  sh_WithoutChannel :: int
  sh_ParseFailures :: int
  sh_Deleted :: int
  sh_DeletedBytes :: int
  sh_SkippedYoung :: int
  sh_SkippedGrowing :: int
  sh_SkippedSeen :: int
  sh_Pruned :: int
  sh_PrunedBytes :: int
  sh_SkipMainLog :: int
  sh_LastFactAt :: "time option"
  sh_LastError :: "scan_error option"
  sh_LastErrorAt :: "time option"
  sh_PendingFiles :: int

record Scanner =
  sc_options :: ScanOptions
  sc_facts :: "Fact list"
  sc_stats :: ScanHealth
  sc_seen :: "string set"
  sc_seenKeys :: "string list"

definition new_scanner :: "ScanOptions \<Rightarrow> Scanner" where
  "new_scanner opts = \<lparr>sc_options = withDefaults opts, sc_facts = [], sc_stats = \<lparr>sh_Scanned = 0, sh_Parsed = 0,
     sh_WithChannel = 0, sh_WithoutChannel = 0, sh_ParseFailures = 0, sh_Deleted = 0, sh_DeletedBytes = 0,
     sh_SkippedYoung = 0, sh_SkippedGrowing = 0, sh_SkippedSeen = 0, sh_Pruned = 0, sh_PrunedBytes = 0,
     sh_SkipMainLog = 0, sh_LastFactAt = None, sh_LastError = None, sh_LastErrorAt = None, sh_PendingFiles = 0\<rparr>,
     sc_seen = {}, sc_seenKeys = []\<rparr>"

definition count_health :: "(ScanHealth \<Rightarrow> ScanHealth) \<Rightarrow> Scanner \<Rightarrow> Scanner" where
  "count_health update s = s\<lparr>sc_stats := update (sc_stats s)\<rparr>"

definition noteError :: "time \<Rightarrow> scan_error \<Rightarrow> Scanner \<Rightarrow> Scanner" where
  "noteError clock err = count_health (\<lambda>h. h\<lparr>sh_LastError := Some err, sh_LastErrorAt := Some clock\<rparr>)"

definition recordFailure :: "time \<Rightarrow> scan_error \<Rightarrow> Scanner \<Rightarrow> Scanner" where
  "recordFailure clock err s =
     noteError clock err (count_health (\<lambda>h. h\<lparr>sh_ParseFailures := sh_ParseFailures h + 1\<rparr>) s)"

definition recordFact :: "time \<Rightarrow> Fact \<Rightarrow> Scanner \<Rightarrow> Scanner" where
  "recordFact clock f s0 =
     (let s = count_health (\<lambda>h. h\<lparr>sh_Parsed := sh_Parsed h + 1, sh_LastFactAt := Some clock\<rparr>) s0;
          facts = f # sc_facts s;
          cap = so_MaxFacts (sc_options s)
      in s\<lparr>sc_facts := (if int (length facts) > cap then take (nat cap) facts else facts)\<rparr>)"

definition setPending :: "int \<Rightarrow> Scanner \<Rightarrow> Scanner" where
  "setPending pending = count_health (\<lambda>h. h\<lparr>sh_PendingFiles := (if pending < 0 then 0 else pending)\<rparr>)"

definition firstError :: "scan_error option \<Rightarrow> scan_error \<Rightarrow> scan_error option" where
  "firstError current candidate = (case current of None \<Rightarrow> Some candidate | Some e \<Rightarrow> Some e)"

definition Facts :: "Scanner \<Rightarrow> Fact list" where
  "Facts s = sort_key (\<lambda>f. - fc_Time f) (sc_facts s)"

section \<open>The memory of parsed files\<close>

definition seenCap :: nat where "seenCap = 20000"
definition seenTrim :: nat where "seenTrim = 5000"

definition seenKey :: "string \<Rightarrow> int \<Rightarrow> time \<Rightarrow> string" where
  "seenKey name bytes modTime = name @ ''|'' @ Itoa bytes @ ''|'' @ Itoa modTime"

definition alreadySeen :: "Scanner \<Rightarrow> string \<Rightarrow> bool" where
  "alreadySeen s key \<longleftrightarrow> key \<in> sc_seen s"

definition mark_parsed :: "Scanner \<Rightarrow> string \<Rightarrow> Scanner" where
  "mark_parsed s key =
     (if key \<in> sc_seen s then s
      else let seen = insert key (sc_seen s); keys = sc_seenKeys s @ [key] in
        if length keys > seenCap
        then s\<lparr>sc_seen := seen - set (take seenTrim keys), sc_seenKeys := drop seenTrim keys\<rparr>
        else s\<lparr>sc_seen := seen, sc_seenKeys := keys\<rparr>)"

section \<open>One file\<close>

datatype entry_kind = Regular | Directory | Symlink | Special

record DirEntry =
  de_Name :: string
  de_Kind :: entry_kind
  de_Info :: "(int \<times> time) option"

text \<open>
  The answers the pass gets: the size \<open>os.Stat\<close> reports, whether the file opens, what is read from
  it before the end or the read error, and whether closing, storing and unlinking work.
\<close>

record FileView =
  fv_Stat :: "int option"
  fv_Open :: bool
  fv_Data :: string
  fv_ReadError :: bool
  fv_CloseError :: bool
  fv_StoreFails :: "syscall \<Rightarrow> bool"
  fv_Torn :: string
  fv_Unlink :: bool
  fv_Clock :: time

record World =
  wo_logs :: "string set"
  wo_store :: dir

text \<open>The three ends of a read: the file is unlinked, the fact is counted, the fact is stored.\<close>

definition unlink_file ::
  "FileView \<Rightarrow> string \<Rightarrow> int \<Rightarrow> Scanner \<Rightarrow> World \<Rightarrow> Scanner \<times> World \<times> (scan_error + bool)" where
  "unlink_file v name bytes s w =
     (if \<not> so_DeleteAfterRead (sc_options s) then (s, w, Inr True)
      else if \<not> fv_Unlink v then (noteError (fv_Clock v) (Unlink_Log name) s, w, Inr True)
      else (count_health (\<lambda>h. h\<lparr>sh_Deleted := sh_Deleted h + 1, sh_DeletedBytes := sh_DeletedBytes h + bytes\<rparr>) s,
            w\<lparr>wo_logs := wo_logs w - {name}\<rparr>, Inr True))"

definition count_fact :: "time \<Rightarrow> Fact \<Rightarrow> Scanner \<Rightarrow> Scanner" where
  "count_fact clock fct s =
     recordFact clock fct
       (if HasChannel fct then count_health (\<lambda>h. h\<lparr>sh_WithChannel := sh_WithChannel h + 1\<rparr>) s
        else count_health (\<lambda>h. h\<lparr>sh_WithoutChannel := sh_WithoutChannel h + 1\<rparr>) s)"

definition store_read ::
  "(real \<Rightarrow> string) \<Rightarrow> FileView \<Rightarrow> string \<Rightarrow> int \<Rightarrow> Fact \<Rightarrow> Scanner \<Rightarrow> World \<Rightarrow>
   Scanner \<times> World \<times> (scan_error + bool)" where
  "store_read showf v name bytes fct s w =
     (let (store, err) = append_fact showf (fv_StoreFails v) (fv_Torn v) (fv_Clock v) fct (wo_store w);
          w1 = w\<lparr>wo_store := store\<rparr>
      in case err of
           Some call \<Rightarrow> (s, w1, Inl (Store_Fact call))
         | None \<Rightarrow> unlink_file v name bytes (count_fact (fv_Clock v) fct s) w1)"

definition dated :: "time \<Rightarrow> Fact \<Rightarrow> Fact" where
  "dated modTime fct = (if IsZero (fc_Time fct) then fct\<lparr>fc_Time := modTime\<rparr> else fct)"

definition scanFile ::
  "(real \<Rightarrow> string) \<Rightarrow> FileView \<Rightarrow> string \<Rightarrow> int \<Rightarrow> time \<Rightarrow> time \<Rightarrow> Scanner \<Rightarrow> World \<Rightarrow>
   go_panic + (Scanner \<times> World \<times> (scan_error + bool))" where
  "scanFile showf v name bytes modTime now s0 w =
     (if \<not> fv_Open v then Inr (s0, w, Inl (Open_Log name))
      else let s1 = count_health (\<lambda>h. h\<lparr>sh_Scanned := sh_Scanned h + 1\<rparr>) s0 in
      case parseLog (fv_Data v) name now of
        Inl e \<Rightarrow> Inl e
      | Inr fct \<Rightarrow>
          if fv_ReadError v then Inr (s1, w, Inl (Read_Log name))
          else if fv_CloseError v then Inr (s1, w, Inl (Close_Log name))
          else if int (length (fv_Data v)) \<noteq> bytes
          then Inr (count_health (\<lambda>h. h\<lparr>sh_SkippedGrowing := sh_SkippedGrowing h + 1\<rparr>) s1, w, Inr False)
          else Inr (store_read showf v name bytes (dated modTime fct) s1 w))"

section \<open>One pass\<close>

record Pass =
  pa_scanner :: Scanner
  pa_world :: World
  pa_firstErr :: "scan_error option"
  pa_stored :: int
  pa_deferred :: int

definition pass_count :: "(ScanHealth \<Rightarrow> ScanHealth) \<Rightarrow> Pass \<Rightarrow> Pass" where
  "pass_count update p = p\<lparr>pa_scanner := count_health update (pa_scanner p)\<rparr>"

definition pass_failed :: "time \<Rightarrow> scan_error \<Rightarrow> Pass \<Rightarrow> Pass" where
  "pass_failed clock err p =
     p\<lparr>pa_scanner := recordFailure clock err (pa_scanner p), pa_firstErr := firstError (pa_firstErr p) err\<rparr>"

definition pass_deferred :: "Pass \<Rightarrow> Pass" where
  "pass_deferred p = p\<lparr>pa_deferred := pa_deferred p + 1\<rparr>"

text \<open>The last part of an iteration: the file is old, quiet and not parsed yet.\<close>

definition read_entry ::
  "(real \<Rightarrow> string) \<Rightarrow> time \<Rightarrow> FileView \<Rightarrow> string \<Rightarrow> int \<Rightarrow> time \<Rightarrow> Pass \<Rightarrow> go_panic + Pass" where
  "read_entry showf now v name bytes modTime p =
     (case scanFile showf v name bytes modTime now (pa_scanner p) (pa_world p) of
        Inl e \<Rightarrow> Inl e
      | Inr (s, w, res) \<Rightarrow>
          let q = p\<lparr>pa_scanner := s, pa_world := w\<rparr> in
          (case res of
             Inl err \<Rightarrow> Inr (pass_failed (fv_Clock v) err q)
           | Inr storedFact \<Rightarrow>
               Inr (q\<lparr>pa_scanner := mark_parsed (pa_scanner q) (seenKey name bytes modTime),
                      pa_stored := pa_stored q + (if storedFact then 1 else 0)\<rparr>)))"

definition scan_entry :: "(real \<Rightarrow> string) \<Rightarrow> time \<Rightarrow> DirEntry \<times> FileView \<Rightarrow> Pass \<Rightarrow> go_panic + Pass" where
  "scan_entry showf now ev p =
     (let (entry, v) = ev; name = de_Name entry in
      if de_Kind entry = Directory \<or> de_Kind entry = Symlink then Inr p
      else if \<not> HasSuffix name ''.log'' then Inr p
      else if name = ''main.log'' then Inr (pass_count (\<lambda>h. h\<lparr>sh_SkipMainLog := sh_SkipMainLog h + 1\<rparr>) p)
      else case de_Info entry of
        None \<Rightarrow> Inr (pass_failed (fv_Clock v) (Entry_Info name) p)
      | Some (bytes, modTime) \<Rightarrow>
          if de_Kind entry \<noteq> Regular then Inr p
          else if Sub now modTime < so_MinAge (sc_options (pa_scanner p))
          then Inr (pass_deferred (pass_count (\<lambda>h. h\<lparr>sh_SkippedYoung := sh_SkippedYoung h + 1\<rparr>) p))
          else (case fv_Stat v of
              None \<Rightarrow> Inr (pass_failed (fv_Clock v) (Entry_Stat name) p)
            | Some fresh \<Rightarrow>
                if fresh \<noteq> bytes
                then Inr (pass_deferred (pass_count (\<lambda>h. h\<lparr>sh_SkippedGrowing := sh_SkippedGrowing h + 1\<rparr>) p))
                else if alreadySeen (pa_scanner p) (seenKey name bytes modTime)
                then Inr (pass_count (\<lambda>h. h\<lparr>sh_SkippedSeen := sh_SkippedSeen h + 1\<rparr>) p)
                else read_entry showf now v name bytes modTime p))"

fun scan_entries ::
  "(real \<Rightarrow> string) \<Rightarrow> time \<Rightarrow> (DirEntry \<times> FileView) list \<Rightarrow> Pass \<Rightarrow> go_panic + Pass" where
  "scan_entries showf now [] p = Inr p"
| "scan_entries showf now (ev # rest) p =
     (case scan_entry showf now ev p of Inl e \<Rightarrow> Inl e | Inr q \<Rightarrow> scan_entries showf now rest q)"

text \<open>
  The retention of the fact files: \<open>names\<close> is the listing of the store directory, \<open>removable\<close>
  tells the files whose size can be read and that can be removed.
\<close>

definition expired :: "string \<Rightarrow> string \<Rightarrow> bool" where
  "expired oldest name \<longleftrightarrow> HasPrefix name factPrefix \<and> HasSuffix name factSuffix \<and>
     (let day = TrimSuffix (TrimPrefix name factPrefix) factSuffix in length day = 10 \<and> day < oldest)"

fun prune_names :: "(string \<Rightarrow> bool) \<Rightarrow> string \<Rightarrow> string list \<Rightarrow> Scanner \<Rightarrow> dir \<Rightarrow> Scanner \<times> dir" where
  "prune_names removable oldest [] s d = (s, d)"
| "prune_names removable oldest (name # rest) s d =
     (if expired oldest name \<and> removable name
      then prune_names removable oldest rest
        (count_health (\<lambda>h. h\<lparr>sh_Pruned := sh_Pruned h + 1,
           sh_PrunedBytes := sh_PrunedBytes h + (case d name of None \<Rightarrow> 0 | Some c \<Rightarrow> int (length c))\<rparr>) s)
        (d(name := None))
      else prune_names removable oldest rest s d)"

definition oldest_day :: "time \<Rightarrow> int \<Rightarrow> string" where
  "oldest_day now days = FormatDate (now - (days - 1) * Day)"

definition pruneStore ::
  "time \<Rightarrow> string list option \<Rightarrow> (string \<Rightarrow> bool) \<Rightarrow> Scanner \<Rightarrow> dir \<Rightarrow> Scanner \<times> dir" where
  "pruneStore now listing removable s d =
     (if \<not> so_Enabled (sc_options s) \<or> so_RetentionDays (sc_options s) \<le> 0 then (s, d)
      else case listing of None \<Rightarrow> (s, d)
        | Some names \<Rightarrow> prune_names removable (oldest_day now (so_RetentionDays (sc_options s))) names s d)"

record PassEnv =
  pe_Now :: time
  pe_Entries :: "(DirEntry \<times> FileView) list option"
  pe_Clock :: time
  pe_StoreListing :: "string list option"
  pe_Removable :: "string \<Rightarrow> bool"

definition ScanOnce ::
  "(real \<Rightarrow> string) \<Rightarrow> PassEnv \<Rightarrow> Scanner \<Rightarrow> World \<Rightarrow> go_panic + (Scanner \<times> World \<times> int \<times> scan_error option)" where
  "ScanOnce showf env s w =
     (if \<not> so_Enabled (sc_options s) then Inr (s, w, 0, None)
      else case pe_Entries env of
        None \<Rightarrow> Inr (noteError (pe_Clock env) Read_Dir s, w, 0, Some Read_Dir)
      | Some entries \<Rightarrow>
          (case scan_entries showf (pe_Now env) entries
                  \<lparr>pa_scanner = s, pa_world = w, pa_firstErr = None, pa_stored = 0, pa_deferred = 0\<rparr> of
             Inl e \<Rightarrow> Inl e
           | Inr p \<Rightarrow>
               let (s', store) = pruneStore (pe_Now env) (pe_StoreListing env) (pe_Removable env)
                      (setPending (pa_deferred p) (pa_scanner p)) (wo_store (pa_world p))
               in Inr (s', (pa_world p)\<lparr>wo_store := store\<rparr>, pa_stored p, pa_firstErr p)))"

end
