(* ===== verification/Observation.thy ===== *)
theory Observation
  imports Channel_Scan
begin

text \<open>
  The per-request record, \<open>internal/observation/observation.go\<close>: the payload of the usage hook, the
  record built from it, its stored form with the reading of older lines, and the recorder's
  counters and queue.

  Floats are real numbers and \<open>showf\<close> is their shortest spelling; \<open>math.Round\<close> of a duration in
  milliseconds is exact while the duration is below \<open>2 ^ 53\<close> nanoseconds (104 days). The token
  counters are 64-bit and their sums wrap.
\<close>

section \<open>The record and its stored form\<close>

record Record =
  rec_Schema :: int
  rec_Time :: time
  rec_RequestID :: string
  rec_SessionID :: string
  rec_GenerationID :: string
  rec_Model :: string
  rec_Alias :: string
  rec_UpstreamModel :: string
  rec_CanonicalSlug :: string
  rec_OriginalModel :: string
  rec_CPProvider :: string
  rec_GatewayProvider :: string
  rec_GatewayResolvedProvider :: string
  rec_GatewaySlug :: string
  rec_GatewayAttempts :: int
  rec_GatewayCost :: real
  rec_ChannelSource :: string
  rec_FinalProvider :: string
  rec_ResolvedProvider :: string
  rec_AuthID :: string
  rec_AuthIndex :: string
  rec_AuthType :: string
  rec_ExecutorType :: string
  rec_ReasoningEffort :: string
  rec_ServiceTier :: string
  rec_PinnedProvider :: string
  rec_AffinityOutcome :: string
  rec_UpstreamRequestID :: string
  rec_Fallbacks :: "string list"
  rec_ModelAttempts :: int
  rec_Attempts :: int
  rec_Protocol :: string
  rec_Stream :: bool
  rec_Failed :: bool
  rec_StatusCode :: int
  rec_TTFTMs :: int
  rec_DurationMs :: int
  rec_DecodeMs :: int
  rec_TPS :: real
  rec_Frames :: int
  rec_InputTokens :: int
  rec_OutputTokens :: int
  rec_ReasoningTokens :: int
  rec_CachedTokens :: int
  rec_CacheReadTokens :: int
  rec_CacheCreationTokens :: int
  rec_TotalTokens :: int
  rec_CostUSD :: real
  rec_BYOK :: bool
  rec_UserAgent :: string
  rec_ClaudeCodeVersion :: string
  rec_ClientApp :: string
  rec_SourceFormat :: string

definition zero_record :: Record where
  "zero_record = \<lparr>rec_Schema = 0, rec_Time = zero_time, rec_RequestID = [], rec_SessionID = [], rec_GenerationID = [],
     rec_Model = [], rec_Alias = [], rec_UpstreamModel = [], rec_CanonicalSlug = [], rec_OriginalModel = [],
     rec_CPProvider = [], rec_GatewayProvider = [], rec_GatewayResolvedProvider = [], rec_GatewaySlug = [],
     rec_GatewayAttempts = 0, rec_GatewayCost = 0, rec_ChannelSource = [], rec_FinalProvider = [],
     rec_ResolvedProvider = [], rec_AuthID = [], rec_AuthIndex = [], rec_AuthType = [],
     rec_ExecutorType = [], rec_ReasoningEffort = [], rec_ServiceTier = [], rec_PinnedProvider = [],
     rec_AffinityOutcome = [], rec_UpstreamRequestID = [], rec_Fallbacks = [], rec_ModelAttempts = 0,
     rec_Attempts = 0, rec_Protocol = [], rec_Stream = False, rec_Failed = False, rec_StatusCode = 0,
     rec_TTFTMs = 0, rec_DurationMs = 0, rec_DecodeMs = 0, rec_TPS = 0, rec_Frames = 0, rec_InputTokens = 0,
     rec_OutputTokens = 0, rec_ReasoningTokens = 0, rec_CachedTokens = 0, rec_CacheReadTokens = 0,
     rec_CacheCreationTokens = 0, rec_TotalTokens = 0, rec_CostUSD = 0, rec_BYOK = False,
     rec_UserAgent = [], rec_ClaudeCodeVersion = [], rec_ClientApp = [], rec_SourceFormat = []\<rparr>"

definition schemaVersion :: int where "schemaVersion = 3"

definition dec_float :: "json \<Rightarrow> real option" where
  "dec_float j = (case j of JNum n \<Rightarrow> ParseFloat n | _ \<Rightarrow> None)"

definition enc_record :: "(real \<Rightarrow> string) \<Rightarrow> Record \<Rightarrow> json" where
  "enc_record showf r = JObj (
     [(''v'', enc_int (rec_Schema r))] @
     [(''time'', enc_time (rec_Time r))] @
     omit (rec_RequestID r = []) ''request_id'' (JStr (rec_RequestID r)) @
     omit (rec_SessionID r = []) ''session_id'' (JStr (rec_SessionID r)) @
     omit (rec_GenerationID r = []) ''generation_id'' (JStr (rec_GenerationID r)) @
     omit (rec_Model r = []) ''model'' (JStr (rec_Model r)) @
     omit (rec_Alias r = []) ''alias'' (JStr (rec_Alias r)) @
     omit (rec_UpstreamModel r = []) ''upstream_model'' (JStr (rec_UpstreamModel r)) @
     omit (rec_CanonicalSlug r = []) ''canonical_slug'' (JStr (rec_CanonicalSlug r)) @
     omit (rec_OriginalModel r = []) ''original_model_id'' (JStr (rec_OriginalModel r)) @
     omit (rec_CPProvider r = []) ''cpa_provider'' (JStr (rec_CPProvider r)) @
     omit (rec_GatewayProvider r = []) ''gateway_provider'' (JStr (rec_GatewayProvider r)) @
     omit (rec_GatewayResolvedProvider r = []) ''gateway_resolved_provider'' (JStr (rec_GatewayResolvedProvider r)) @
     omit (rec_GatewaySlug r = []) ''gateway_slug'' (JStr (rec_GatewaySlug r)) @
     omit (rec_GatewayAttempts r = 0) ''gateway_attempts'' (enc_int (rec_GatewayAttempts r)) @
     omit (rec_GatewayCost r = 0) ''gateway_cost'' (JNum (showf (rec_GatewayCost r))) @
     omit (rec_ChannelSource r = []) ''channel_source'' (JStr (rec_ChannelSource r)) @
     omit (rec_FinalProvider r = []) ''final_provider'' (JStr (rec_FinalProvider r)) @
     omit (rec_ResolvedProvider r = []) ''resolved_provider'' (JStr (rec_ResolvedProvider r)) @
     omit (rec_AuthID r = []) ''auth_id'' (JStr (rec_AuthID r)) @
     omit (rec_AuthIndex r = []) ''auth_index'' (JStr (rec_AuthIndex r)) @
     omit (rec_AuthType r = []) ''auth_type'' (JStr (rec_AuthType r)) @
     omit (rec_ExecutorType r = []) ''executor_type'' (JStr (rec_ExecutorType r)) @
     omit (rec_ReasoningEffort r = []) ''reasoning_effort'' (JStr (rec_ReasoningEffort r)) @
     omit (rec_ServiceTier r = []) ''service_tier'' (JStr (rec_ServiceTier r)) @
     omit (rec_PinnedProvider r = []) ''pinned_provider'' (JStr (rec_PinnedProvider r)) @
     omit (rec_AffinityOutcome r = []) ''affinity'' (JStr (rec_AffinityOutcome r)) @
     omit (rec_UpstreamRequestID r = []) ''upstream_request_id'' (JStr (rec_UpstreamRequestID r)) @
     omit (rec_Fallbacks r = []) ''fallbacks_available'' (JArr (map JStr (rec_Fallbacks r))) @
     omit (rec_ModelAttempts r = 0) ''model_attempt_count'' (enc_int (rec_ModelAttempts r)) @
     omit (rec_Attempts r = 0) ''total_provider_attempt_count'' (enc_int (rec_Attempts r)) @
     omit (rec_Protocol r = []) ''protocol'' (JStr (rec_Protocol r)) @
     [(''stream'', JBool (rec_Stream r))] @
     [(''failed'', JBool (rec_Failed r))] @
     omit (rec_StatusCode r = 0) ''status_code'' (enc_int (rec_StatusCode r)) @
     [(''ttft_ms'', enc_int (rec_TTFTMs r))] @
     [(''duration_ms'', enc_int (rec_DurationMs r))] @
     omit (rec_DecodeMs r = 0) ''decode_ms'' (enc_int (rec_DecodeMs r)) @
     omit (rec_TPS r = 0) ''tokens_per_second'' (JNum (showf (rec_TPS r))) @
     omit (rec_Frames r = 0) ''frames'' (enc_int (rec_Frames r)) @
     omit (rec_InputTokens r = 0) ''input_tokens'' (enc_int (rec_InputTokens r)) @
     omit (rec_OutputTokens r = 0) ''output_tokens'' (enc_int (rec_OutputTokens r)) @
     omit (rec_ReasoningTokens r = 0) ''reasoning_tokens'' (enc_int (rec_ReasoningTokens r)) @
     omit (rec_CachedTokens r = 0) ''cached_tokens'' (enc_int (rec_CachedTokens r)) @
     omit (rec_CacheReadTokens r = 0) ''cache_read_tokens'' (enc_int (rec_CacheReadTokens r)) @
     omit (rec_CacheCreationTokens r = 0) ''cache_creation_tokens'' (enc_int (rec_CacheCreationTokens r)) @
     omit (rec_TotalTokens r = 0) ''total_tokens'' (enc_int (rec_TotalTokens r)) @
     omit (rec_CostUSD r = 0) ''cost_usd'' (JNum (showf (rec_CostUSD r))) @
     omit (\<not> rec_BYOK r) ''is_byok'' (JBool (rec_BYOK r)) @
     omit (rec_UserAgent r = []) ''user_agent'' (JStr (rec_UserAgent r)) @
     omit (rec_ClaudeCodeVersion r = []) ''claude_code_version'' (JStr (rec_ClaudeCodeVersion r)) @
     omit (rec_ClientApp r = []) ''client_app'' (JStr (rec_ClientApp r)) @
     omit (rec_SourceFormat r = []) ''source_format'' (JStr (rec_SourceFormat r)))"

definition dec_stored :: "json \<Rightarrow> Record option" where
  "dec_stored j = (if j = JNull then Some zero_record else do {
     ms \<leftarrow> dec_object j;
     x0 \<leftarrow> json_field dec_int ''v'' ms 0;
     x1 \<leftarrow> json_field dec_time ''time'' ms zero_time;
     x2 \<leftarrow> json_field dec_string ''request_id'' ms [];
     x3 \<leftarrow> json_field dec_string ''session_id'' ms [];
     x4 \<leftarrow> json_field dec_string ''generation_id'' ms [];
     x5 \<leftarrow> json_field dec_string ''model'' ms [];
     x6 \<leftarrow> json_field dec_string ''alias'' ms [];
     x7 \<leftarrow> json_field dec_string ''upstream_model'' ms [];
     x8 \<leftarrow> json_field dec_string ''canonical_slug'' ms [];
     x9 \<leftarrow> json_field dec_string ''original_model_id'' ms [];
     x10 \<leftarrow> json_field dec_string ''cpa_provider'' ms [];
     x11 \<leftarrow> json_field dec_string ''gateway_provider'' ms [];
     x12 \<leftarrow> json_field dec_string ''gateway_resolved_provider'' ms [];
     x13 \<leftarrow> json_field dec_string ''gateway_slug'' ms [];
     x14 \<leftarrow> json_field dec_int ''gateway_attempts'' ms 0;
     x15 \<leftarrow> json_field dec_float ''gateway_cost'' ms 0;
     x16 \<leftarrow> json_field dec_string ''channel_source'' ms [];
     x17 \<leftarrow> json_field dec_string ''final_provider'' ms [];
     x18 \<leftarrow> json_field dec_string ''resolved_provider'' ms [];
     x19 \<leftarrow> json_field dec_string ''auth_id'' ms [];
     x20 \<leftarrow> json_field dec_string ''auth_index'' ms [];
     x21 \<leftarrow> json_field dec_string ''auth_type'' ms [];
     x22 \<leftarrow> json_field dec_string ''executor_type'' ms [];
     x23 \<leftarrow> json_field dec_string ''reasoning_effort'' ms [];
     x24 \<leftarrow> json_field dec_string ''service_tier'' ms [];
     x25 \<leftarrow> json_field dec_string ''pinned_provider'' ms [];
     x26 \<leftarrow> json_field dec_string ''affinity'' ms [];
     x27 \<leftarrow> json_field dec_string ''upstream_request_id'' ms [];
     x28 \<leftarrow> json_pointer dec_strings ''fallbacks_available'' ms None;
     x29 \<leftarrow> json_field dec_int ''model_attempt_count'' ms 0;
     x30 \<leftarrow> json_field dec_int ''total_provider_attempt_count'' ms 0;
     x31 \<leftarrow> json_field dec_string ''protocol'' ms [];
     x32 \<leftarrow> json_field dec_bool ''stream'' ms False;
     x33 \<leftarrow> json_field dec_bool ''failed'' ms False;
     x34 \<leftarrow> json_field dec_int ''status_code'' ms 0;
     x35 \<leftarrow> json_field dec_int ''ttft_ms'' ms 0;
     x36 \<leftarrow> json_field dec_int ''duration_ms'' ms 0;
     x37 \<leftarrow> json_field dec_int ''decode_ms'' ms 0;
     x38 \<leftarrow> json_field dec_float ''tokens_per_second'' ms 0;
     x39 \<leftarrow> json_field dec_int ''frames'' ms 0;
     x40 \<leftarrow> json_field dec_int ''input_tokens'' ms 0;
     x41 \<leftarrow> json_field dec_int ''output_tokens'' ms 0;
     x42 \<leftarrow> json_field dec_int ''reasoning_tokens'' ms 0;
     x43 \<leftarrow> json_field dec_int ''cached_tokens'' ms 0;
     x44 \<leftarrow> json_field dec_int ''cache_read_tokens'' ms 0;
     x45 \<leftarrow> json_field dec_int ''cache_creation_tokens'' ms 0;
     x46 \<leftarrow> json_field dec_int ''total_tokens'' ms 0;
     x47 \<leftarrow> json_field dec_float ''cost_usd'' ms 0;
     x48 \<leftarrow> json_field dec_bool ''is_byok'' ms False;
     x49 \<leftarrow> json_field dec_string ''user_agent'' ms [];
     x50 \<leftarrow> json_field dec_string ''claude_code_version'' ms [];
     x51 \<leftarrow> json_field dec_string ''client_app'' ms [];
     x52 \<leftarrow> json_field dec_string ''source_format'' ms [];
     Some \<lparr>rec_Schema = x0, rec_Time = x1, rec_RequestID = x2, rec_SessionID = x3, rec_GenerationID = x4,
       rec_Model = x5, rec_Alias = x6, rec_UpstreamModel = x7, rec_CanonicalSlug = x8, rec_OriginalModel = x9,
       rec_CPProvider = x10, rec_GatewayProvider = x11, rec_GatewayResolvedProvider = x12,
       rec_GatewaySlug = x13, rec_GatewayAttempts = x14, rec_GatewayCost = x15, rec_ChannelSource = x16,
       rec_FinalProvider = x17, rec_ResolvedProvider = x18, rec_AuthID = x19, rec_AuthIndex = x20,
       rec_AuthType = x21, rec_ExecutorType = x22, rec_ReasoningEffort = x23, rec_ServiceTier = x24,
       rec_PinnedProvider = x25, rec_AffinityOutcome = x26, rec_UpstreamRequestID = x27,
       rec_Fallbacks = list_of x28, rec_ModelAttempts = x29, rec_Attempts = x30, rec_Protocol = x31,
       rec_Stream = x32, rec_Failed = x33, rec_StatusCode = x34, rec_TTFTMs = x35, rec_DurationMs = x36,
       rec_DecodeMs = x37, rec_TPS = x38, rec_Frames = x39, rec_InputTokens = x40, rec_OutputTokens = x41,
       rec_ReasoningTokens = x42, rec_CachedTokens = x43, rec_CacheReadTokens = x44,
       rec_CacheCreationTokens = x45, rec_TotalTokens = x46, rec_CostUSD = x47, rec_BYOK = x48,
       rec_UserAgent = x49, rec_ClaudeCodeVersion = x50, rec_ClientApp = x51, rec_SourceFormat = x52\<rparr> })"

definition firstNonEmpty :: "string list \<Rightarrow> string" where
  "firstNonEmpty values = (case filter (\<lambda>v. v \<noteq> []) values of [] \<Rightarrow> [] | v # _ \<Rightarrow> v)"

text \<open>A line written before the join existed: its old channel names held the credential.\<close>

definition migrate :: "Record \<Rightarrow> Record" where
  "migrate r =
     (if rec_Schema r \<ge> schemaVersion then r
      else (if rec_CPProvider r = []
            then r\<lparr>rec_CPProvider := firstNonEmpty [rec_FinalProvider r, rec_ResolvedProvider r]\<rparr> else r)
        \<lparr>rec_FinalProvider := [], rec_ResolvedProvider := [], rec_GatewayProvider := [],
         rec_GatewayResolvedProvider := [], rec_GatewaySlug := [], rec_GatewayAttempts := 0,
         rec_GatewayCost := 0, rec_ChannelSource := []\<rparr>)"

definition dec_record :: "json \<Rightarrow> Record option" where
  "dec_record j = map_option migrate (dec_stored j)"

section \<open>The payload of the usage hook\<close>

record usageFailure =
  uf_StatusCode :: int
  uf_Body :: string

record usageDetail =
  ud_InputTokens :: int
  ud_OutputTokens :: int
  ud_ReasoningTokens :: int
  ud_CachedTokens :: int
  ud_CacheReadTokens :: int
  ud_CacheCreationTokens :: int
  ud_TotalTokens :: int

record usageWire =
  uw_Provider :: string
  uw_BaseURL :: string
  uw_ExecutorType :: string
  uw_Model :: string
  uw_Alias :: string
  uw_APIKey :: string
  uw_RequestID :: string
  uw_TraceID :: string
  uw_SessionID :: string
  uw_ParentSessionID :: string
  uw_AuthID :: string
  uw_AuthIndex :: string
  uw_AuthType :: string
  uw_Source :: string
  uw_ReasoningEffort :: string
  uw_ServiceTier :: string
  uw_ResponseServiceTier :: string
  uw_ResponseModel :: string
  uw_Generate :: bool
  uw_Stream :: bool
  uw_Failed :: bool
  uw_Failure :: usageFailure
  uw_Detail :: usageDetail
  uw_RequestedAt :: string
  uw_Latency :: duration
  uw_TTFT :: duration

definition zero_failure :: usageFailure where "zero_failure = \<lparr>uf_StatusCode = 0, uf_Body = []\<rparr>"

definition zero_detail :: usageDetail where
  "zero_detail = \<lparr>ud_InputTokens = 0, ud_OutputTokens = 0, ud_ReasoningTokens = 0, ud_CachedTokens = 0,
     ud_CacheReadTokens = 0, ud_CacheCreationTokens = 0, ud_TotalTokens = 0\<rparr>"

definition zero_wire :: usageWire where
  "zero_wire = \<lparr>uw_Provider = [], uw_BaseURL = [], uw_ExecutorType = [], uw_Model = [], uw_Alias = [], uw_APIKey = [],
     uw_RequestID = [], uw_TraceID = [], uw_SessionID = [], uw_ParentSessionID = [], uw_AuthID = [],
     uw_AuthIndex = [], uw_AuthType = [], uw_Source = [], uw_ReasoningEffort = [], uw_ServiceTier = [],
     uw_ResponseServiceTier = [], uw_ResponseModel = [], uw_Generate = False, uw_Stream = False,
     uw_Failed = False, uw_Failure = zero_failure, uw_Detail = zero_detail, uw_RequestedAt = [],
     uw_Latency = 0, uw_TTFT = 0\<rparr>"

definition upd_failure :: "json \<Rightarrow> usageFailure \<Rightarrow> usageFailure option" where
  "upd_failure = upd_object (\<lambda>ms f. do {
     code \<leftarrow> json_field dec_int ''StatusCode'' ms (uf_StatusCode f);
     body \<leftarrow> json_field dec_string ''Body'' ms (uf_Body f);
     Some \<lparr>uf_StatusCode = code, uf_Body = body\<rparr> })"

definition upd_detail :: "json \<Rightarrow> usageDetail \<Rightarrow> usageDetail option" where
  "upd_detail = upd_object (\<lambda>ms d. do {
     x0 \<leftarrow> json_field dec_int ''InputTokens'' ms (ud_InputTokens d);
     x1 \<leftarrow> json_field dec_int ''OutputTokens'' ms (ud_OutputTokens d);
     x2 \<leftarrow> json_field dec_int ''ReasoningTokens'' ms (ud_ReasoningTokens d);
     x3 \<leftarrow> json_field dec_int ''CachedTokens'' ms (ud_CachedTokens d);
     x4 \<leftarrow> json_field dec_int ''CacheReadTokens'' ms (ud_CacheReadTokens d);
     x5 \<leftarrow> json_field dec_int ''CacheCreationTokens'' ms (ud_CacheCreationTokens d);
     x6 \<leftarrow> json_field dec_int ''TotalTokens'' ms (ud_TotalTokens d);
     Some \<lparr>ud_InputTokens = x0, ud_OutputTokens = x1, ud_ReasoningTokens = x2, ud_CachedTokens = x3,
       ud_CacheReadTokens = x4, ud_CacheCreationTokens = x5, ud_TotalTokens = x6\<rparr> })"

definition dec_wire :: "json \<Rightarrow> usageWire option" where
  "dec_wire j = (if j = JNull then Some zero_wire else do {
     ms \<leftarrow> dec_object j;
     x0 \<leftarrow> json_field dec_string ''Provider'' ms [];
     x1 \<leftarrow> json_field dec_string ''BaseURL'' ms [];
     x2 \<leftarrow> json_field dec_string ''ExecutorType'' ms [];
     x3 \<leftarrow> json_field dec_string ''Model'' ms [];
     x4 \<leftarrow> json_field dec_string ''Alias'' ms [];
     x5 \<leftarrow> json_field dec_string ''APIKey'' ms [];
     x6 \<leftarrow> json_field dec_string ''RequestID'' ms [];
     x7 \<leftarrow> json_field dec_string ''TraceID'' ms [];
     x8 \<leftarrow> json_field dec_string ''SessionID'' ms [];
     x9 \<leftarrow> json_field dec_string ''ParentSessionID'' ms [];
     x10 \<leftarrow> json_field dec_string ''AuthID'' ms [];
     x11 \<leftarrow> json_field dec_string ''AuthIndex'' ms [];
     x12 \<leftarrow> json_field dec_string ''AuthType'' ms [];
     x13 \<leftarrow> json_field dec_string ''Source'' ms [];
     x14 \<leftarrow> json_field dec_string ''ReasoningEffort'' ms [];
     x15 \<leftarrow> json_field dec_string ''ServiceTier'' ms [];
     x16 \<leftarrow> json_field dec_string ''ResponseServiceTier'' ms [];
     x17 \<leftarrow> json_field dec_string ''ResponseModel'' ms [];
     x18 \<leftarrow> json_field dec_bool ''Generate'' ms False;
     x19 \<leftarrow> json_field dec_bool ''Stream'' ms False;
     x20 \<leftarrow> json_field dec_bool ''Failed'' ms False;
     x21 \<leftarrow> json_update upd_failure ''Failure'' ms zero_failure;
     x22 \<leftarrow> json_update upd_detail ''Detail'' ms zero_detail;
     x23 \<leftarrow> json_field dec_string ''RequestedAt'' ms [];
     x24 \<leftarrow> json_field dec_int ''Latency'' ms 0;
     x25 \<leftarrow> json_field dec_int ''TTFT'' ms 0;
     Some \<lparr>uw_Provider = x0, uw_BaseURL = x1, uw_ExecutorType = x2, uw_Model = x3, uw_Alias = x4, uw_APIKey = x5,
       uw_RequestID = x6, uw_TraceID = x7, uw_SessionID = x8, uw_ParentSessionID = x9, uw_AuthID = x10,
       uw_AuthIndex = x11, uw_AuthType = x12, uw_Source = x13, uw_ReasoningEffort = x14, uw_ServiceTier = x15,
       uw_ResponseServiceTier = x16, uw_ResponseModel = x17, uw_Generate = x18, uw_Stream = x19,
       uw_Failed = x20, uw_Failure = x21, uw_Detail = x22, uw_RequestedAt = x23, uw_Latency = x24,
       uw_TTFT = x25\<rparr> })"

section \<open>Building a record\<close>

definition minDecodeWindowMs :: int where "minDecodeWindowMs = 50"

definition statusCodeOf :: "usageWire \<Rightarrow> int" where
  "statusCodeOf wire = (if uw_Failed wire then uf_StatusCode (uw_Failure wire) else 200)"

definition stampOf :: "string \<Rightarrow> time \<Rightarrow> time" where
  "stampOf raw fallback = (case ParseRFC3339 raw of None \<Rightarrow> fallback | Some t \<Rightarrow> t)"

text \<open>\<open>math.Round\<close>: halves away from zero.\<close>

definition millis :: "duration \<Rightarrow> int" where
  "millis value = (if value < 0 then - ((- value + 500000) div Millisecond) else (value + 500000) div Millisecond)"

definition buildRecord :: "usageWire \<Rightarrow> time \<Rightarrow> Record" where
  "buildRecord wire now =
     (let d = uw_Detail wire;
          r0 = zero_record\<lparr>rec_Schema := schemaVersion, rec_Time := stampOf (uw_RequestedAt wire) now,
            rec_RequestID := firstNonEmpty [uw_RequestID wire, uw_TraceID wire], rec_SessionID := uw_SessionID wire,
            rec_Model := uw_Model wire, rec_Alias := uw_Alias wire, rec_UpstreamModel := uw_ResponseModel wire,
            rec_CanonicalSlug := uw_ResponseModel wire, rec_CPProvider := uw_Provider wire,
            rec_AuthID := uw_AuthID wire, rec_AuthIndex := uw_AuthIndex wire, rec_AuthType := uw_AuthType wire,
            rec_ExecutorType := uw_ExecutorType wire, rec_ReasoningEffort := uw_ReasoningEffort wire,
            rec_ServiceTier := uw_ServiceTier wire, rec_Stream := uw_Stream wire, rec_Failed := uw_Failed wire,
            rec_StatusCode := statusCodeOf wire, rec_InputTokens := ud_InputTokens d,
            rec_OutputTokens := ud_OutputTokens d, rec_ReasoningTokens := ud_ReasoningTokens d,
            rec_CachedTokens := ud_CachedTokens d, rec_CacheReadTokens := ud_CacheReadTokens d,
            rec_CacheCreationTokens := ud_CacheCreationTokens d, rec_TotalTokens := ud_TotalTokens d,
            rec_TTFTMs := millis (uw_TTFT wire), rec_DurationMs := millis (uw_Latency wire)\<rparr>;
          r1 = (if rec_TotalTokens r0 = 0
                then r0\<lparr>rec_TotalTokens := wrap64 (rec_InputTokens r0 + rec_OutputTokens r0)\<rparr> else r0);
          r2 = r1\<lparr>rec_DecodeMs := rec_DurationMs r1 - rec_TTFTMs r1\<rparr>;
          r3 = (if rec_DecodeMs r2 < 0 then r2\<lparr>rec_DecodeMs := 0\<rparr> else r2)
      in if rec_DecodeMs r3 \<ge> minDecodeWindowMs \<and> rec_OutputTokens r3 > 0
         then r3\<lparr>rec_TPS := real_of_int (rec_OutputTokens r3) / (real_of_int (rec_DecodeMs r3) / 1000)\<rparr> else r3)"

section \<open>The join with the facts of the channel log\<close>

definition ChannelSourceLog :: string where "ChannelSourceLog = ''log''"
definition joinWindow :: duration where "joinWindow = 2 * Second"
definition joinUsageWindow :: duration where "joinUsageWindow = 5 * Second"

definition session_candidate :: "Record \<Rightarrow> Fact \<Rightarrow> bool" where
  "session_candidate r f \<longleftrightarrow> \<not> (\<not> HasChannel f \<or> \<not> fc_HasSession f \<or> fc_SessionUUID f = []) \<and>
     \<not> (rec_SessionID r = [] \<or> \<not> Contains (rec_SessionID r) (fc_SessionUUID f)) \<and>
     \<not> abs_delta (rec_Time r) (fc_Time f) \<ge> joinWindow"

fun session_loop :: "Record \<Rightarrow> Fact list \<Rightarrow> (Fact \<times> duration) option \<Rightarrow> (Fact \<times> duration) option" where
  "session_loop r [] best = best"
| "session_loop r (f # fs) best =
     (if \<not> session_candidate r f then session_loop r fs best
      else let delta = abs_delta (rec_Time r) (fc_Time f) in
        session_loop r fs
          (case best of None \<Rightarrow> Some (f, delta)
           | Some (b, bestDelta) \<Rightarrow> if delta < bestDelta then Some (f, delta) else Some (b, bestDelta)))"

definition matchBySession :: "Fact list \<Rightarrow> Record \<Rightarrow> Fact option" where
  "matchBySession facts r = map_option fst (session_loop r facts None)"

definition usage_candidate :: "Record \<Rightarrow> Fact \<Rightarrow> bool" where
  "usage_candidate r f \<longleftrightarrow> HasChannel f \<and> \<not> (fc_PromptTokens f = 0 \<and> fc_CompletionTokens f = 0) \<and>
     \<not> (fc_PromptTokens f \<noteq> rec_InputTokens r \<or> fc_CompletionTokens f \<noteq> rec_OutputTokens r) \<and>
     \<not> abs_delta (rec_Time r) (fc_Time f) > joinUsageWindow"

fun usage_loop :: "Record \<Rightarrow> Fact list \<Rightarrow> Fact option \<Rightarrow> nat \<Rightarrow> Fact option \<times> nat" where
  "usage_loop r [] candidate candidates = (candidate, candidates)"
| "usage_loop r (f # fs) candidate candidates =
     (if usage_candidate r f then usage_loop r fs (Some f) (candidates + 1)
      else usage_loop r fs candidate candidates)"

definition matchByUsage :: "Fact list \<Rightarrow> Record \<Rightarrow> Fact option" where
  "matchByUsage facts r =
     (if rec_InputTokens r = 0 \<and> rec_OutputTokens r = 0 then None
      else let (candidate, candidates) = usage_loop r facts None 0
           in if candidates \<noteq> 1 then None else candidate)"

definition join_match :: "Fact list \<Rightarrow> Record \<Rightarrow> Fact option" where
  "join_match facts r = (case matchBySession facts r of Some f \<Rightarrow> Some f | None \<Rightarrow> matchByUsage facts r)"

definition withChannel :: "Record \<Rightarrow> Fact \<Rightarrow> Record" where
  "withChannel r f = r\<lparr>rec_FinalProvider := fc_FinalProvider f, rec_ResolvedProvider := fc_ResolvedProvider f,
     rec_GatewayProvider := fc_FinalProvider f, rec_GatewayResolvedProvider := fc_ResolvedProvider f,
     rec_GatewaySlug := fc_CanonicalSlug f, rec_GatewayAttempts := fc_TotalProviderAttemptCount f,
     rec_GatewayCost := fc_GatewayCost f, rec_ChannelSource := ChannelSourceLog\<rparr>"

definition GatewayChannel :: "Record \<Rightarrow> string" where
  "GatewayChannel r = firstNonEmpty [rec_GatewayProvider r, rec_FinalProvider r, rec_GatewayResolvedProvider r,
     rec_ResolvedProvider r]"

definition joined :: "Fact list \<Rightarrow> Record \<Rightarrow> Record" where
  "joined facts r = (case join_match facts r of None \<Rightarrow> r | Some f \<Rightarrow> withChannel r f)"

end
