(* ===== verification/Observation_Store.thy ===== *)
theory Observation_Store
  imports Observation
begin

text \<open>
  The append-only record files, \<open>internal/observation/store.go\<close>: one JSONL file per UTC day behind a
  buffered writer, the retention, and the scan a window query makes. The rows of the CSV export
  (\<open>export.go\<close>) are at the end.

  The directory is a map from file names to contents. The buffered writer is \<open>bufio.Writer\<close>: what
  does not fit its buffer is written through, and an error sticks. Each underlying write either
  succeeds (\<open>None\<close>) or stops after some bytes (\<open>Some k\<close>). The quoting of \<open>encoding/csv\<close> is left to
  the library; \<open>showf\<close> and \<open>fixed\<close> are its float spellings.
\<close>

section \<open>The buffered writer\<close>

definition flushBytes :: nat where "flushBytes = 65536"

record Writer =
  wr_buffer :: string
  wr_failed :: bool

definition new_writer :: Writer where "new_writer = \<lparr>wr_buffer = [], wr_failed = False\<rparr>"

text \<open>An open file has a name while it is linked; what is written after it was removed is not in the directory.\<close>

definition grow_file :: "string option \<Rightarrow> string \<Rightarrow> dir \<Rightarrow> dir" where
  "grow_file target t d =
     (case target of None \<Rightarrow> d | Some name \<Rightarrow> d(name \<mapsto> (case d name of None \<Rightarrow> [] | Some c \<Rightarrow> c) @ t))"

definition wr_flush :: "nat option \<Rightarrow> string option \<Rightarrow> Writer \<Rightarrow> dir \<Rightarrow> Writer \<times> dir \<times> bool" where
  "wr_flush fail name w d =
     (if wr_failed w then (w, d, False)
      else if wr_buffer w = [] then (w, d, True)
      else case fail of
        None \<Rightarrow> (w\<lparr>wr_buffer := []\<rparr>, grow_file name (wr_buffer w) d, True)
      | Some k \<Rightarrow> (w\<lparr>wr_buffer := drop k (wr_buffer w), wr_failed := True\<rparr>,
                   grow_file name (take k (wr_buffer w)) d, False))"

definition wr_direct :: "nat option \<Rightarrow> string option \<Rightarrow> string \<Rightarrow> Writer \<Rightarrow> dir \<Rightarrow> Writer \<times> dir \<times> bool" where
  "wr_direct fail name p w d =
     (case fail of None \<Rightarrow> (w, grow_file name p d, True)
      | Some k \<Rightarrow> (w\<lparr>wr_failed := True\<rparr>, grow_file name (take k p) d, False))"

definition wr_write ::
  "nat option \<Rightarrow> nat option \<Rightarrow> string option \<Rightarrow> string \<Rightarrow> Writer \<Rightarrow> dir \<Rightarrow> Writer \<times> dir \<times> bool" where
  "wr_write fail1 fail2 name p w d =
     (let room = flushBytes - length (wr_buffer w) in
      if wr_failed w then (w, d, False)
      else if length p \<le> room then (w\<lparr>wr_buffer := wr_buffer w @ p\<rparr>, d, True)
      else if wr_buffer w = [] then wr_direct fail2 name p w d
      else case wr_flush fail1 name (w\<lparr>wr_buffer := wr_buffer w @ take room p\<rparr>) d of
          (w1, d1, ok) \<Rightarrow>
            if \<not> ok then (w1, d1, False)
            else let rest = drop room p in
              if length rest \<le> flushBytes then (w1\<lparr>wr_buffer := rest\<rparr>, d1, True)
              else wr_direct fail2 name rest w1 d1)"

section \<open>Appending records\<close>

definition filePrefix :: string where "filePrefix = ''channel-''"
definition fileSuffix :: string where "fileSuffix = ''.jsonl''"

datatype obs_error = Obs_Mkdir | Obs_Open | Obs_Append | Obs_Flush | Obs_Remove | Obs_ReadDir | Obs_Old string

record ObsStore =
  os_date :: "string option"
  os_linked :: bool
  os_writer :: Writer
  os_pending :: int
  os_error :: "obs_error option"
  os_disk :: dir

definition record_file :: "string \<Rightarrow> string" where
  "record_file date = filePrefix @ date @ fileSuffix"

definition record_line :: "(real \<Rightarrow> string) \<Rightarrow> Record \<Rightarrow> string" where
  "record_line showf r = Marshal (enc_record showf r) @ [CHR 0x0A]"

text \<open>The file a writer writes to: one is open while there is a date, and it is in the directory while it is linked.\<close>

definition open_name :: "ObsStore \<Rightarrow> string option" where
  "open_name s = (if os_linked s then map_option record_file (os_date s) else None)"

definition close_file :: "nat option \<Rightarrow> ObsStore \<Rightarrow> ObsStore" where
  "close_file fail s =
     (case os_date s of None \<Rightarrow> s
      | Some d \<Rightarrow> case wr_flush fail (open_name s) (os_writer s) (os_disk s) of
          (w, disk, ok) \<Rightarrow> s\<lparr>os_date := None, os_writer := new_writer, os_disk := disk\<rparr>)"

definition rotate :: "nat option \<Rightarrow> bool \<Rightarrow> string \<Rightarrow> ObsStore \<Rightarrow> ObsStore \<times> bool" where
  "rotate fail opens date s0 =
     (let s = close_file fail s0 in
      if \<not> opens then (s\<lparr>os_error := Some Obs_Open\<rparr>, False)
      else (s\<lparr>os_date := Some date, os_linked := True, os_writer := new_writer, os_pending := 0,
              os_disk := grow_file (Some (record_file date)) [] (os_disk s),
              os_error := (if os_error s = Some Obs_Open then None else os_error s)\<rparr>, True))"

record AppendEnv =
  ae_DirUsable :: bool
  ae_OldFlush :: "nat option"
  ae_Opens :: bool
  ae_Write1 :: "nat option"
  ae_Write2 :: "nat option"
  ae_Flush :: "nat option"

definition write_line :: "AppendEnv \<Rightarrow> string \<Rightarrow> ObsStore \<Rightarrow> ObsStore \<times> bool" where
  "write_line env line s =
     (case wr_write (ae_Write1 env) (ae_Write2 env) (open_name s) line (os_writer s) (os_disk s) of
        (w, disk, ok) \<Rightarrow>
          let s1 = s\<lparr>os_writer := w, os_disk := disk\<rparr> in
          if \<not> ok then (s1\<lparr>os_error := Some Obs_Append\<rparr>, False)
          else let s2 = s1\<lparr>os_pending := os_pending s1 + int (length line)\<rparr> in
            if os_pending s2 < int flushBytes then (s2, True)
            else (case wr_flush (ae_Flush env) (open_name s2) (os_writer s2) (os_disk s2) of
                (w', disk', ok') \<Rightarrow>
                  if \<not> ok' then (s2\<lparr>os_writer := w', os_disk := disk', os_error := Some Obs_Flush\<rparr>, False)
                  else (s2\<lparr>os_writer := w', os_disk := disk', os_pending := 0\<rparr>, True)))"

definition append_record :: "(real \<Rightarrow> string) \<Rightarrow> AppendEnv \<Rightarrow> Record \<Rightarrow> ObsStore \<Rightarrow> ObsStore \<times> bool" where
  "append_record showf env r s =
     (let date = FormatDate (rec_Time r) in
      if os_error s \<noteq> None \<and> os_date s = None \<and> \<not> ae_DirUsable env then (s, False)
      else if os_date s = Some date then write_line env (record_line showf r) s
      else case rotate (ae_OldFlush env) (ae_Opens env) date s of
          (s1, ok) \<Rightarrow> if \<not> ok then (s1, False) else write_line env (record_line showf r) s1)"

definition flush_store :: "nat option \<Rightarrow> ObsStore \<Rightarrow> ObsStore \<times> bool" where
  "flush_store fail s =
     (if os_date s = None then (s, True)
      else case wr_flush fail (open_name s) (os_writer s) (os_disk s) of
          (w, disk, ok) \<Rightarrow>
            if \<not> ok then (s\<lparr>os_writer := w, os_disk := disk, os_error := Some Obs_Flush\<rparr>, False)
            else (s\<lparr>os_writer := w, os_disk := disk, os_pending := 0\<rparr>, True))"

definition close_store :: "nat option \<Rightarrow> ObsStore \<Rightarrow> ObsStore" where
  "close_store fail s = close_file fail s"

section \<open>Listing, retention\<close>

record StoredFile =
  sf_name :: string
  sf_date :: time
  sf_size :: int

definition file_date :: "string \<Rightarrow> time option" where
  "file_date name =
     (if \<not> HasPrefix name filePrefix \<or> \<not> HasSuffix name fileSuffix then None
      else ParseDate (TrimSuffix (TrimPrefix name filePrefix) fileSuffix))"

text \<open>\<open>names\<close> is the directory listing; a name without a file is one whose \<open>Info\<close> failed.\<close>

definition stored_file :: "dir \<Rightarrow> string \<Rightarrow> StoredFile option" where
  "stored_file d name =
     (case (file_date name, d name) of
        (Some date, Some c) \<Rightarrow> Some \<lparr>sf_name = name, sf_date = date, sf_size = int (length c)\<rparr>
      | _ \<Rightarrow> None)"

definition list_store :: "string list \<Rightarrow> dir \<Rightarrow> StoredFile list" where
  "list_store names d = sort_key sf_date (List.map_filter (stored_file d) names)"

text \<open>The size pass: oldest first, while the total is over the limit; a file that cannot be removed is kept.\<close>

fun trim_files :: "(string \<Rightarrow> bool) \<Rightarrow> int \<Rightarrow> int \<Rightarrow> StoredFile list \<Rightarrow> StoredFile list \<times> int" where
  "trim_files removable limit bytes [] = ([], bytes)"
| "trim_files removable limit bytes (f # fs) =
     (if bytes \<le> limit then (f # fs, bytes)
      else if removable (sf_name f) then trim_files removable limit (bytes - sf_size f) fs
      else (case trim_files removable limit bytes fs of (kept, t) \<Rightarrow> (f # kept, t)))"

text \<open>The files a size pass could not remove.\<close>

fun trim_fails :: "(string \<Rightarrow> bool) \<Rightarrow> int \<Rightarrow> int \<Rightarrow> StoredFile list \<Rightarrow> bool" where
  "trim_fails removable limit bytes [] = False"
| "trim_fails removable limit bytes (f # fs) =
     (if bytes \<le> limit then False
      else if removable (sf_name f) then trim_fails removable limit (bytes - sf_size f) fs else True)"

definition retained :: "(string \<Rightarrow> bool) \<Rightarrow> int \<Rightarrow> time \<Rightarrow> StoredFile list \<Rightarrow> StoredFile list" where
  "retained removable retentionDays now files =
     filter (\<lambda>f. \<not> (Before (sf_date f) (now - retentionDays * Day) \<and> removable (sf_name f))) files"

definition retention_fails :: "(string \<Rightarrow> bool) \<Rightarrow> int \<Rightarrow> time \<Rightarrow> StoredFile list \<Rightarrow> bool" where
  "retention_fails removable retentionDays now files \<longleftrightarrow>
     list_ex (\<lambda>f. Before (sf_date f) (now - retentionDays * Day) \<and> \<not> removable (sf_name f)) files"

text \<open>
  The removals are those of the listed files that are not kept. Removing the file of the open writer
  unlinks it. The result is the store with the two numbers of the health: the files kept, their bytes.
\<close>

definition clean_store ::
  "(string \<Rightarrow> bool) \<Rightarrow> int \<Rightarrow> int \<Rightarrow> time \<Rightarrow> string list \<Rightarrow> ObsStore \<Rightarrow> ObsStore \<times> StoredFile list \<times> int" where
  "clean_store removable retentionDays maxSizeMB now names s =
     (let files = list_store names (os_disk s);
          young = retained removable retentionDays now files;
          bytes = (\<Sum>f\<leftarrow>young. sf_size f);
          limit = maxSizeMB * 1048576;
          kept = fst (trim_files removable limit bytes young);
          gone = sf_name ` set files - sf_name ` set kept
      in (s\<lparr>os_disk := (\<lambda>n. if n \<in> gone then None else os_disk s n),
            os_linked := os_linked s \<and> (case open_name s of None \<Rightarrow> True | Some n \<Rightarrow> n \<notin> gone),
            os_error := (if retention_fails removable retentionDays now files \<or> trim_fails removable limit bytes young
                         then Some Obs_Remove else os_error s)\<rparr>,
          kept, snd (trim_files removable limit bytes young)))"

section \<open>Reading a window\<close>

definition scanLineCap :: int where "scanLineCap = 4194304"

text \<open>\<open>bufio.Scanner\<close> stops at the first line that does not fit its buffer.\<close>

definition scanned_lines :: "string \<Rightarrow> string list" where
  "scanned_lines content = takeWhile (\<lambda>l. int (length l) < scanLineCap) (scan_lines content)"

definition line_record :: "string \<Rightarrow> Record option" where
  "line_record line = (if line = [] then None else Option.bind (parse_json line) dec_record)"

definition file_records :: "time \<Rightarrow> string \<Rightarrow> (Record \<times> int) list" where
  "file_records start content = List.map_filter (\<lambda>l. case line_record l of None \<Rightarrow> None
     | Some r \<Rightarrow> if Before (rec_Time r) start then None else Some (r, int (length l))) (scanned_lines content)"

text \<open>The byte budget is checked before a record is handed on; \<open>0\<close> is no budget.\<close>

fun take_budget :: "int \<Rightarrow> int \<Rightarrow> (Record \<times> int) list \<Rightarrow> Record list \<times> bool" where
  "take_budget maxBytes used [] = ([], False)"
| "take_budget maxBytes used ((r, n) # rest) =
     (if maxBytes > 0 \<and> used \<ge> maxBytes then ([], True)
      else case take_budget maxBytes (used + n) rest of (rs, t) \<Rightarrow> (r # rs, t))"

definition scan_store :: "time \<Rightarrow> int \<Rightarrow> string list \<Rightarrow> dir \<Rightarrow> Record list \<times> bool" where
  "scan_store start maxBytes names d =
     take_budget maxBytes 0 (concat (map (\<lambda>f. case d (sf_name f) of None \<Rightarrow> [] | Some c \<Rightarrow> file_records start c)
       (filter (\<lambda>f. \<not> Before (sf_date f + Day) start) (list_store names d))))"

section \<open>The rows of the export\<close>

definition csvHeader :: "string list" where
  "csvHeader = [''time_utc'', ''request_id'', ''session_id'', ''generation_id'', ''model'', ''alias'',
     ''upstream_model'', ''canonical_slug'', ''original_model_id'', ''cpa_provider'', ''gateway_provider'',
     ''gateway_resolved_provider'', ''gateway_slug'', ''gateway_attempts'', ''gateway_cost'',
     ''channel_source'', ''pinned_provider'', ''auth_id'', ''auth_index'', ''auth_type'', ''executor_type'',
     ''reasoning_effort'', ''service_tier'', ''upstream_request_id'', ''off_baseline'', ''status_code'',
     ''failed'', ''protocol'', ''ttft_ms'', ''duration_ms'', ''decode_ms'', ''tokens_per_second'',
     ''input_tokens'', ''output_tokens'', ''reasoning_tokens'', ''cached_tokens'', ''cache_read_tokens'',
     ''cache_creation_tokens'', ''total_tokens'']"

definition FormatBool :: "bool \<Rightarrow> string" where
  "FormatBool b = (if b then ''true'' else ''false'')"

definition csvRecord :: "(nat \<Rightarrow> real \<Rightarrow> string) \<Rightarrow> Record \<Rightarrow> string \<Rightarrow> string list" where
  "csvRecord fixed r baseline =
     (let channel = GatewayChannel r;
          off = (if channel \<noteq> [] \<and> baseline \<noteq> [] \<and> \<not> EqualFold channel baseline then ''yes'' else [])
      in [FormatRFC3339 (rec_Time r), rec_RequestID r, rec_SessionID r, rec_GenerationID r, rec_Model r, rec_Alias r,
          rec_UpstreamModel r, rec_CanonicalSlug r, rec_OriginalModel r, rec_CPProvider r, rec_GatewayProvider r,
          rec_GatewayResolvedProvider r, rec_GatewaySlug r, Itoa (rec_GatewayAttempts r), fixed 8 (rec_GatewayCost r),
          rec_ChannelSource r, rec_PinnedProvider r, rec_AuthID r, rec_AuthIndex r, rec_AuthType r, rec_ExecutorType r,
          rec_ReasoningEffort r, rec_ServiceTier r, rec_UpstreamRequestID r, off, Itoa (rec_StatusCode r),
          FormatBool (rec_Failed r), rec_Protocol r, Itoa (rec_TTFTMs r), Itoa (rec_DurationMs r), Itoa (rec_DecodeMs r),
          fixed 2 (rec_TPS r), Itoa (rec_InputTokens r), Itoa (rec_OutputTokens r), Itoa (rec_ReasoningTokens r),
          Itoa (rec_CachedTokens r), Itoa (rec_CacheReadTokens r), Itoa (rec_CacheCreationTokens r),
          Itoa (rec_TotalTokens r)])"

definition WriteCSV ::
  "(nat \<Rightarrow> real \<Rightarrow> string) \<Rightarrow> Fact list \<Rightarrow> string \<Rightarrow> time \<Rightarrow> string list \<Rightarrow> dir \<Rightarrow> string list list" where
  "WriteCSV fixed facts baseline since names d =
     csvHeader # map (\<lambda>r. csvRecord fixed (joined facts r) baseline) (fst (scan_store since 0 names d))"

end
