(* ===== verification/Observation_Recorder.thy ===== *)
theory Observation_Recorder
  imports Observation_Store
begin

text \<open>
  The recorder, \<open>internal/observation/observation.go\<close>: the usage entry point, the bounded queue with
  its writer, the counters of health, and the two window queries.

  The hot path counts a record under the lock and sends it after releasing it, so another call may
  fill the queue in between. The model is a step relation: a record that is counted and not sent
  yet is in flight. The writer takes from the queue in order.
\<close>

section \<open>Health and state\<close>

record ObsHealth =
  oh_Enabled :: bool
  oh_Events :: int
  oh_FailedEvents :: int
  oh_DecodeFailures :: int
  oh_Dropped :: int
  oh_Written :: int
  oh_Queued :: int
  oh_WriteFailures :: int
  oh_LastRecordAt :: "time option"
  oh_LastWriteAt :: "time option"
  oh_LastError :: "obs_error option"
  oh_LastErrorAt :: "time option"
  oh_LastDecodeErrorAt :: "time option"
  oh_Files :: int
  oh_Bytes :: int
  oh_WarmupRecords :: int
  oh_WarmupTruncated :: bool

definition queueCapacity :: nat where "queueCapacity = 4096"

record Recorder =
  rr_started :: bool
  rr_stats :: ObsHealth
  rr_queue :: "Record list"
  rr_inflight :: "Record list"
  rr_store :: ObsStore

definition new_health :: "bool \<Rightarrow> ObsHealth" where
  "new_health enabled = \<lparr>oh_Enabled = enabled, oh_Events = 0, oh_FailedEvents = 0, oh_DecodeFailures = 0, oh_Dropped = 0,
     oh_Written = 0, oh_Queued = 0, oh_WriteFailures = 0, oh_LastRecordAt = None, oh_LastWriteAt = None,
     oh_LastError = None, oh_LastErrorAt = None, oh_LastDecodeErrorAt = None, oh_Files = 0, oh_Bytes = 0,
     oh_WarmupRecords = 0, oh_WarmupTruncated = False\<rparr>"

text \<open>\<open>New\<close> leaves the recorder stopped, over the directory as it is.\<close>

definition new_recorder :: "bool \<Rightarrow> dir \<Rightarrow> Recorder" where
  "new_recorder enabled disk = \<lparr>rr_started = False, rr_stats = new_health enabled, rr_queue = [], rr_inflight = [],
     rr_store = \<lparr>os_date = None, os_linked = True, os_writer = new_writer, os_pending = 0, os_error = None,
       os_disk = disk\<rparr>\<rparr>"

text \<open>
  \<open>Start\<close>: the store with its first file count, the warm-up read of the last day, then the loops.
  \<open>names\<close> is the listing of the directory, \<open>mkdirs\<close> whether it could be created.
\<close>

definition warmupByteCap :: int where "warmupByteCap = 100663296"

definition open_store :: "bool \<Rightarrow> time \<Rightarrow> string list \<Rightarrow> Recorder \<Rightarrow> Recorder" where
  "open_store mkdirs now names r =
     (let files = list_store names (os_disk (rr_store r)); h = rr_stats r in
      if \<not> mkdirs
      then r\<lparr>rr_store := (rr_store r)\<lparr>os_error := Some Obs_Mkdir\<rparr>,
             rr_stats := h\<lparr>oh_Files := 0, oh_Bytes := 0, oh_LastError := Some Obs_Mkdir, oh_LastErrorAt := Some now\<rparr>\<rparr>
      else r\<lparr>rr_stats := h\<lparr>oh_Files := int (length files), oh_Bytes := (\<Sum>f\<leftarrow>files. sf_size f)\<rparr>\<rparr>)"

definition warm_up :: "time \<Rightarrow> string list \<Rightarrow> Recorder \<Rightarrow> Recorder" where
  "warm_up now names r =
     (let (records, truncated) = scan_store (now - Day) warmupByteCap names (os_disk (rr_store r))
      in r\<lparr>rr_stats := (rr_stats r)\<lparr>oh_WarmupRecords := int (length records), oh_WarmupTruncated := truncated\<rparr>\<rparr>)"

definition start_recorder :: "bool \<Rightarrow> time \<Rightarrow> string list \<Rightarrow> Recorder \<Rightarrow> Recorder" where
  "start_recorder mkdirs now names r = (warm_up now names (open_store mkdirs now names r))\<lparr>rr_started := True\<rparr>"

section \<open>Ingestion\<close>

definition noteDecodeFailure :: "time \<Rightarrow> Recorder \<Rightarrow> Recorder" where
  "noteDecodeFailure now r = r\<lparr>rr_stats := (rr_stats r)\<lparr>oh_DecodeFailures := oh_DecodeFailures (rr_stats r) + 1,
     oh_LastDecodeErrorAt := Some now\<rparr>\<rparr>"

text \<open>The part of \<open>ObserveUsage\<close> under the lock; \<open>None\<close> is "nothing left to send".\<close>

definition count_event :: "Record \<Rightarrow> ObsHealth \<Rightarrow> ObsHealth" where
  "count_event rc h = h\<lparr>oh_Events := oh_Events h + 1,
     oh_FailedEvents := oh_FailedEvents h + (if rec_Failed rc then 1 else 0),
     oh_LastRecordAt := Some (rec_Time rc)\<rparr>"

definition observe_count :: "usageWire \<Rightarrow> time \<Rightarrow> Recorder \<Rightarrow> Recorder" where
  "observe_count wire now r =
     (if \<not> rr_started r then r
      else let rc = buildRecord wire now; h = count_event rc (rr_stats r) in
        if length (rr_queue r) = queueCapacity then r\<lparr>rr_stats := h\<lparr>oh_Dropped := oh_Dropped h + 1\<rparr>\<rparr>
        else r\<lparr>rr_stats := h\<lparr>oh_Queued := oh_Queued h + 1\<rparr>, rr_inflight := rr_inflight r @ [rc]\<rparr>)"

text \<open>The send: the queue takes the record, or the record is dropped after all.\<close>

definition observe_send :: "Record list \<Rightarrow> Record \<Rightarrow> Record list \<Rightarrow> Recorder \<Rightarrow> Recorder" where
  "observe_send before rc after r =
     (if length (rr_queue r) < queueCapacity
      then r\<lparr>rr_queue := rr_queue r @ [rc], rr_inflight := before @ after\<rparr>
      else r\<lparr>rr_stats := (rr_stats r)\<lparr>oh_Dropped := oh_Dropped (rr_stats r) + 1,
               oh_Queued := oh_Queued (rr_stats r) - 1\<rparr>, rr_inflight := before @ after\<rparr>)"

text \<open>The answer is the same whatever happens: the host is told to change nothing.\<close>

definition keepAnswer :: string where
  "keepAnswer = [CHR 0x7B, dquote] @ ''ok'' @ [dquote] @ '':true,'' @ [dquote] @ ''result'' @ [dquote, CHR '':'', CHR 0x7B, CHR 0x7D, CHR 0x7D]"

definition HandleUsage :: "string \<Rightarrow> time \<Rightarrow> Recorder \<Rightarrow> string \<times> Recorder" where
  "HandleUsage raw now r =
     (keepAnswer,
      case Option.bind (parse_json raw) dec_wire of
        None \<Rightarrow> noteDecodeFailure now r
      | Some wire \<Rightarrow> observe_count wire now r)"

section \<open>The writer\<close>

definition write_record :: "(real \<Rightarrow> string) \<Rightarrow> AppendEnv \<Rightarrow> time \<Rightarrow> Record \<Rightarrow> Recorder \<Rightarrow> Recorder" where
  "write_record showf env now rc r =
     (case append_record showf env rc (rr_store r) of
        (store, ok) \<Rightarrow>
          let h = rr_stats r in
          if \<not> ok
          then r\<lparr>rr_store := store, rr_stats := h\<lparr>oh_WriteFailures := oh_WriteFailures h + 1,
                  oh_LastError := os_error store, oh_LastErrorAt := Some now\<rparr>\<rparr>
          else r\<lparr>rr_store := store, rr_stats := h\<lparr>oh_Written := oh_Written h + 1, oh_LastWriteAt := Some (rec_Time rc)\<rparr>\<rparr>)"

text \<open>\<open>drainQueue\<close>: everything queued, in order, one environment per write.\<close>

fun drain_queue :: "(real \<Rightarrow> string) \<Rightarrow> (nat \<Rightarrow> AppendEnv) \<Rightarrow> time \<Rightarrow> Record list \<Rightarrow> Recorder \<Rightarrow> Recorder" where
  "drain_queue showf env now [] r = r"
| "drain_queue showf env now (rc # rest) r =
     drain_queue showf (\<lambda>n. env (Suc n)) now rest (write_record showf (env 0) now rc (r\<lparr>rr_queue := rest\<rparr>))"

text \<open>\<open>Stop\<close>: the writer drains the queue and flushes before the store is closed.\<close>

definition stop_recorder ::
  "(real \<Rightarrow> string) \<Rightarrow> nat option \<Rightarrow> nat option \<Rightarrow> (nat \<Rightarrow> AppendEnv) \<Rightarrow> time \<Rightarrow> Recorder \<Rightarrow> Recorder" where
  "stop_recorder showf fail1 fail2 envs now r =
     (let r1 = drain_queue showf envs now (rr_queue r) r
      in r1\<lparr>rr_store := close_store fail2 (fst (flush_store fail1 (rr_store r1))), rr_started := False\<rparr>)"

text \<open>The branches of \<open>writeLoop\<close>, the calls of the host, the cleaner, and the stop.\<close>

inductive recorder_step :: "(real \<Rightarrow> string) \<Rightarrow> Recorder \<Rightarrow> Recorder \<Rightarrow> bool" for showf where
  Usage: "HandleUsage raw now r = (answer, r') \<Longrightarrow> recorder_step showf r r'"
| Send: "rr_inflight r = before @ rc # after \<Longrightarrow> recorder_step showf r (observe_send before rc after r)"
| Take: "rr_queue r = rc # rest \<Longrightarrow>
    recorder_step showf r (write_record showf env now rc (r\<lparr>rr_queue := rest\<rparr>))"
| Sync: "flush_store fail (rr_store (drain_queue showf envs now (rr_queue r) r)) = (store, ok) \<Longrightarrow>
    recorder_step showf r ((drain_queue showf envs now (rr_queue r) r)\<lparr>rr_store := store\<rparr>)"
| Tick: "flush_store fail (rr_store r) = (store, ok) \<Longrightarrow> recorder_step showf r (r\<lparr>rr_store := store\<rparr>)"
| Clean: "clean_store removable retentionDays maxSizeMB now names (rr_store r) = (store, kept, bytes) \<Longrightarrow>
    recorder_step showf r (r\<lparr>rr_store := store,
      rr_stats := (rr_stats r)\<lparr>oh_Files := int (length kept), oh_Bytes := bytes,
        oh_LastError := (if os_error store = None then oh_LastError (rr_stats r) else os_error store)\<rparr>\<rparr>)"
| Stop: "recorder_step showf r (stop_recorder showf fail1 fail2 envs now r)"

inductive recorder_reaches :: "(real \<Rightarrow> string) \<Rightarrow> Recorder \<Rightarrow> Recorder \<Rightarrow> bool" for showf where
  start: "recorder_reaches showf r r"
| step: "recorder_reaches showf r s \<Longrightarrow> recorder_step showf s t \<Longrightarrow> recorder_reaches showf r t"

section \<open>Window queries\<close>

definition Window1h :: string where "Window1h = ''1h''"
definition Window24h :: string where "Window24h = ''24h''"
definition Window7d :: string where "Window7d = ''7d''"

definition ParseWindow :: "string \<Rightarrow> string \<times> bool" where
  "ParseWindow raw =
     (let w = TrimSpace (ToLower raw) in
      if w = [] then (Window24h, True)
      else if w = Window1h then (Window1h, True)
      else if w = Window24h then (Window24h, True)
      else if w = Window7d then (Window7d, True)
      else (Window24h, False))"

definition window_duration :: "string \<Rightarrow> duration" where
  "window_duration w = (if w = Window1h then Hour else if w = Window7d then 7 * Day else Day)"

text \<open>\<open>sort.Slice\<close> promises no order among records of one instant; here they stay in file order.\<close>

definition newest_first :: "Record list \<Rightarrow> Record list" where
  "newest_first rs = sort_key (\<lambda>r. - rec_Time r) rs"

text \<open>The flush before the scan makes the buffered records part of the answer.\<close>

definition RecordsSince :: "string \<Rightarrow> time \<Rightarrow> string list \<Rightarrow> ObsStore \<Rightarrow> Record list" where
  "RecordsSince w now names s =
     newest_first (fst (scan_store (now - window_duration w) 0 names (os_disk (fst (flush_store None s)))))"

definition ChannelRecordsSince :: "Fact list \<Rightarrow> string \<Rightarrow> time \<Rightarrow> string list \<Rightarrow> ObsStore \<Rightarrow> Record list" where
  "ChannelRecordsSince facts w now names s = map (joined facts) (RecordsSince w now names s)"

end
