(* ===== verification/Guard_Runner.thy ===== *)
theory Guard_Runner
  imports Guard_Store Hostconf_Edit Observation_Recorder
begin

text \<open>
  The runner of the account guard, \<open>internal/plugin/accountguard.go\<close> with the snapshot of
  \<open>internal/guard/status.go\<close> and the defaults seeder of \<open>internal/plugin/plugindefaults.go\<close>: the code
  that joins the decision logic, its files and the host's configuration.

  A \<open>World\<close> is what outlives a call: the configuration files by path, the guard's directory, and the
  published snapshot. What a tick reads from outside (clocks, listings, random names, which system
  calls fail) is its environment. \<open>parse\<close> and \<open>decb\<close> are the YAML library. Log lines are not
  modelled.
\<close>

section \<open>The snapshot\<close>

record StatusAccount =
  sa_Name :: string
  sa_ProviderKey :: string
  sa_Disabled :: bool
  sa_ByGuard :: bool
  sa_Streak :: int
  sa_LastChannel :: string
  sa_LastSampleAt :: "time option"
  sa_NextRetryAt :: "time option"
  sa_DisableCount :: int
  sa_Pending :: bool

datatype read_error = Read_NotExist | Read_Failed

record Status =
  gs_Enabled :: bool
  gs_DryRun :: bool
  gs_Version :: string
  gs_ReconfiguredAt :: "time option"
  gs_Instances :: int
  gs_Judging :: bool
  gs_Path :: string
  gs_Entries :: int
  gs_Threshold :: int
  gs_Baseline :: string
  gs_LastTickAt :: "time option"
  gs_LastActionAt :: "time option"
  gs_Error :: "read_error option"
  gs_Accounts :: "StatusAccount list"
  gs_Recent :: "Decision list"

definition zero_status :: Status where
  "zero_status = \<lparr>gs_Enabled = False, gs_DryRun = False, gs_Version = [], gs_ReconfiguredAt = None, gs_Instances = 0,
     gs_Judging = False, gs_Path = [], gs_Entries = 0, gs_Threshold = 0, gs_Baseline = [], gs_LastTickAt = None,
     gs_LastActionAt = None, gs_Error = None, gs_Accounts = [], gs_Recent = []\<rparr>"

section \<open>The runner and its world\<close>

definition accountGuardSaveEvery :: duration where "accountGuardSaveEvery = 15 * Second"
definition accountGuardRecent :: nat where "accountGuardRecent = 10"
definition accountGuardInstanceWindow :: duration where "accountGuardInstanceWindow = 60 * Second"
definition accountGuardAuditScan :: int where "accountGuardAuditScan = 500"

record Runner =
  ru_cfg :: Config
  ru_instanceID :: string
  ru_startedAt :: time
  ru_state :: State
  ru_status :: Status
  ru_recent :: "Decision list"
  ru_pending :: "string \<rightharpoonup> bool"
  ru_lastSave :: time
  ru_adopted :: bool
  ru_instances :: int
  ru_instanceWarned :: bool

record World =
  wo_files :: dir
  wo_store :: dir
  wo_published :: "Status option"

definition read_file :: "(string \<Rightarrow> bool) \<Rightarrow> dir \<Rightarrow> string \<Rightarrow> read_error + string" where
  "read_file fails d path =
     (if fails path then Inl Read_Failed
      else case d path of None \<Rightarrow> Inl Read_NotExist | Some c \<Rightarrow> Inr c)"

definition read_config :: "(string \<Rightarrow> bool) \<Rightarrow> Runner \<Rightarrow> World \<Rightarrow> read_error + (string \<times> string)" where
  "read_config fails r w = ReadRaw (read_file fails (wo_files w)) Read_NotExist (ru_cfg r)"

section \<open>Replacing the configuration file\<close>

text \<open>
  \<open>Sys_Open\<close> and the calls after it belong to the in-place write. The temporary file is removed at the
  end whatever happened, once it was created.
\<close>

definition config_steps :: "string \<Rightarrow> string \<Rightarrow> string \<Rightarrow> string \<Rightarrow> step list" where
  "config_steps path tmp torn data =
     [(Sys_CreateTemp, \<lambda>d. d(tmp \<mapsto> []), \<lambda>d. d),
      (Sys_Write, \<lambda>d. d(tmp \<mapsto> data), \<lambda>d. d(tmp \<mapsto> torn)),
      (Sys_Sync, \<lambda>d. d, \<lambda>d. d),
      (Sys_Close, \<lambda>d. d, \<lambda>d. d),
      (Sys_Chmod, \<lambda>d. d, \<lambda>d. d),
      (Sys_Rename, \<lambda>d. d(path \<mapsto> data, tmp := None), \<lambda>d. d)]"

definition writeFileInPlace :: "string \<Rightarrow> string \<Rightarrow> string \<Rightarrow> step list" where
  "writeFileInPlace path torn data =
     [(Sys_Open, \<lambda>d. d(path \<mapsto> []), \<lambda>d. d),
      (Sys_Write, \<lambda>d. d(path \<mapsto> data), \<lambda>d. d(path \<mapsto> torn)),
      (Sys_Sync, \<lambda>d. d, \<lambda>d. d),
      (Sys_Close, \<lambda>d. d, \<lambda>d. d)]"

record WriteEnv =
  we_Fails :: "syscall \<Rightarrow> bool"
  we_Torn :: string
  we_Tmp :: string
  we_InPlaceFails :: "syscall \<Rightarrow> bool"
  we_InPlaceTorn :: string

text \<open>The states of the directory that the call passes through, and the call that failed for good.\<close>

definition writeConfigAtomic :: "WriteEnv \<Rightarrow> string \<Rightarrow> string \<Rightarrow> dir \<Rightarrow> dir list \<times> syscall option" where
  "writeConfigAtomic e path data d =
     (let tmp = we_Tmp e;
          (ds, err) = run_steps (we_Fails e) (config_steps path tmp (we_Torn e) data) d
      in if err = Some Sys_CreateTemp then (ds, err)
         else if err = Some Sys_Rename then
           (let (ds', err') = run_steps (we_InPlaceFails e) (writeFileInPlace path (we_InPlaceTorn e) data) (last ds)
            in (ds @ ds' @ [(last ds')(tmp := None)], err'))
         else (ds @ [(last ds)(tmp := None)], err))"

section \<open>What a tick reads\<close>

definition guard_accounts ::
  "(string \<Rightarrow> Node option) \<Rightarrow> (Node \<Rightarrow> bool option) \<Rightarrow> Runner \<Rightarrow> string \<Rightarrow> Account list" where
  "guard_accounts parse decb r raw =
     map (\<lambda>e. \<lparr>acc_Name = ent_Name e, acc_ProviderKey = ent_ProviderKey e,
             acc_Disabled = (case ru_pending r (ent_ProviderKey e) of Some wanted \<Rightarrow> wanted | None \<Rightarrow> ent_Disabled e)\<rparr>)
       (filter (\<lambda>e. IsClineEntry (ru_cfg r) (ent_Name e) (ent_BaseURL e)) (Entries parse decb raw))"

definition guard_options :: "Config \<Rightarrow> Options" where
  "guard_options c = \<lparr>opt_Enabled = cfg_AccountGuardEnabled c, opt_DryRun = cfg_AccountGuardDryRun c,
     opt_Threshold = cfg_AccountGuardThreshold c, opt_MinEnabled = cfg_AccountGuardMinEnabled c,
     opt_ScopeNames = cfg_AccountGuardScopeNames c, opt_ReenableMinutes = cfg_AccountGuardReenableMinutes c,
     opt_MaxDisableMinutes = cfg_AccountGuardMaxDisableMinutes c, opt_Baseline = cfg_ChannelBaselineProvider c\<rparr>"

definition guardSamples :: "Record list \<Rightarrow> Sample list" where
  "guardSamples records = sort_key smp_Time
     (map (\<lambda>r. \<lparr>smp_Time = rec_Time r, smp_RequestID = rec_RequestID r, smp_ProviderKey = rec_CPProvider r,
             smp_Channel = rec_FinalProvider r\<rparr>)
       (filter (\<lambda>r. rec_CPProvider r \<noteq> []) records))"

text \<open>\<open>records\<close> is the joined last hour; it is empty when there is no recorder.\<close>

definition guard_samples :: "Runner \<Rightarrow> Record list \<Rightarrow> Sample list" where
  "guard_samples r records = (if \<not> cfg_AccountGuardEnabled (ru_cfg r) then [] else guardSamples records)"

definition judging :: "Runner \<Rightarrow> Sample list \<Rightarrow> bool" where
  "judging r samples \<longleftrightarrow> cfg_AccountGuardEnabled (ru_cfg r) \<and> samples \<noteq> []"

definition owned :: "State \<Rightarrow> string \<Rightarrow> bool" where
  "owned s key = (case st_Accounts s key of None \<Rightarrow> False | Some a \<Rightarrow> as_DisabledByGuard a)"

definition reconcileOwnership ::
  "(syscall \<Rightarrow> bool) \<Rightarrow> Account list \<Rightarrow> time \<Rightarrow> World \<Rightarrow> Runner \<Rightarrow> Runner" where
  "reconcileOwnership fails accounts now w r0 =
     (let r = r0\<lparr>ru_adopted := True\<rparr>;
          unclaimed = filter (\<lambda>a. acc_Disabled a \<and> \<not> owned (ru_state r) (acc_ProviderKey a)) accounts
      in if ru_adopted r0 then r
         else if unclaimed = [] then r
         else case RecentAudit fails accountGuardAuditScan (wo_store w) of
           Inl err \<Rightarrow> r
         | Inr audit \<Rightarrow> r\<lparr>ru_state := fst (AdoptOwnership unclaimed audit now (guard_options (ru_cfg r)) (ru_state r))\<rparr>)"

section \<open>Carrying a decision out\<close>

record ApplyEnv =
  ap_Audit :: "syscall \<Rightarrow> bool"
  ap_AuditTorn :: string
  ap_Read :: "string \<Rightarrow> bool"
  ap_Save :: "syscall \<Rightarrow> bool"
  ap_SaveName :: string
  ap_SaveTorn :: string
  ap_Write :: WriteEnv
  ap_Verify :: "string \<Rightarrow> bool"
  ap_Now :: time

definition fail_decision :: "Decision \<Rightarrow> bool \<Rightarrow> Runner \<Rightarrow> Runner" where
  "fail_decision d want r = r\<lparr>ru_pending := (ru_pending r)(dec_ProviderKey d \<mapsto> want)\<rparr>"

definition clearPending :: "string \<Rightarrow> Runner \<Rightarrow> Runner" where
  "clearPending key r = r\<lparr>ru_pending := (ru_pending r)(key := None)\<rparr>"

definition push_decision :: "Decision list \<Rightarrow> Decision \<Rightarrow> Decision list" where
  "push_decision recent d =
     (let xs = recent @ [d] in if length xs > accountGuardRecent then drop (length xs - accountGuardRecent) xs else xs)"

text \<open>The audit line first, then the short history; a line that cannot be written is only logged.\<close>

definition record_decision :: "ApplyEnv \<Rightarrow> Decision \<Rightarrow> Runner \<times> World \<Rightarrow> Runner \<times> World" where
  "record_decision e d rw = (case rw of (r, w) \<Rightarrow>
     (r\<lparr>ru_recent := push_decision (ru_recent r) d\<rparr>,
      w\<lparr>wo_store := last (wo_store w # fst (AppendAudit (ap_Audit e) (ap_AuditTorn e) d (wo_store w)))\<rparr>))"

definition entryDisabled ::
  "(string \<Rightarrow> Node option) \<Rightarrow> (Node \<Rightarrow> bool option) \<Rightarrow> string \<Rightarrow> string \<Rightarrow> bool \<Rightarrow> bool" where
  "entryDisabled parse decb raw name want =
     (case find (\<lambda>e. ent_Name e = name) (Entries parse decb raw) of
        None \<Rightarrow> False | Some e \<Rightarrow> ent_Disabled e = want)"

text \<open>
  The two writes of an applied decision: the state, then the configuration. \<open>write_worlds\<close> are the
  worlds they pass through, one per system call.
\<close>

definition write_worlds :: "ApplyEnv \<Rightarrow> string \<Rightarrow> string \<Rightarrow> Runner \<Rightarrow> World \<Rightarrow> World list \<times> syscall option" where
  "write_worlds e path updated r w =
     (let saves = fst (Save (ap_Save e) (ap_SaveName e) (ap_SaveTorn e) (ru_state r) (wo_store w));
          w1 = w\<lparr>wo_store := last (wo_store w # saves)\<rparr>;
          (ds, err) = writeConfigAtomic (ap_Write e) path updated (wo_files w1)
      in (map (\<lambda>d. w\<lparr>wo_store := d\<rparr>) saves @ map (\<lambda>d. w1\<lparr>wo_files := d\<rparr>) ds, err))"

definition verify_decision ::
  "(string \<Rightarrow> Node option) \<Rightarrow> (Node \<Rightarrow> bool option) \<Rightarrow> ApplyEnv \<Rightarrow> Decision \<Rightarrow> bool \<Rightarrow> World \<Rightarrow> Runner \<Rightarrow> Runner" where
  "verify_decision parse decb e d want w r =
     (case read_config (ap_Verify e) r w of
        Inl err \<Rightarrow> fail_decision d want r
      | Inr (path, verified) \<Rightarrow>
          if \<not> entryDisabled parse decb verified (dec_Name d) want then fail_decision d want r
          else let r1 = clearPending (dec_ProviderKey d) r
               in r1\<lparr>ru_status := (ru_status r1)\<lparr>gs_LastActionAt := Some (ap_Now e)\<rparr>\<rparr>)"

definition write_decision ::
  "(string \<Rightarrow> Node option) \<Rightarrow> (Node \<Rightarrow> bool option) \<Rightarrow> ApplyEnv \<Rightarrow> Decision \<Rightarrow> bool \<Rightarrow> string \<Rightarrow> string \<Rightarrow>
   Runner \<times> World \<Rightarrow> Runner \<times> World" where
  "write_decision parse decb e d want path updated rw = (case rw of (r, w) \<Rightarrow>
     let (ws, err) = write_worlds e path updated r w; w' = last (w # ws)
     in if err \<noteq> None then (fail_decision d want r, w')
        else (verify_decision parse decb e d want w' r, w'))"

definition apply_decision ::
  "(string \<Rightarrow> Node option) \<Rightarrow> (Node \<Rightarrow> bool option) \<Rightarrow> ApplyEnv \<Rightarrow> Decision \<Rightarrow> Runner \<times> World \<Rightarrow> Runner \<times> World" where
  "apply_decision parse decb e d rw = (case rw of (r, w) \<Rightarrow>
     if dec_Action d = ActionDisableDry \<or> dec_Action d = ActionEnableExternal then (r, w)
     else let want = (dec_Action d = ''disable'') in
       (case read_config (ap_Read e) r w of
          Inl err \<Rightarrow> (fail_decision d want r, w)
        | Inr (path, raw) \<Rightarrow>
            (case SetEntryDisabled parse decb raw (dec_Name d) want of
               (updated, changed, err) \<Rightarrow>
                 if err \<noteq> None then (fail_decision d want r, w)
                 else if \<not> changed then (clearPending (dec_ProviderKey d) r, w)
                 else write_decision parse decb e d want path updated (r, w))))"

fun carry_decisions ::
  "(string \<Rightarrow> Node option) \<Rightarrow> (Node \<Rightarrow> bool option) \<Rightarrow> (nat \<Rightarrow> ApplyEnv) \<Rightarrow> Decision list \<Rightarrow>
   Runner \<times> World \<Rightarrow> Runner \<times> World" where
  "carry_decisions parse decb env [] rw = rw"
| "carry_decisions parse decb env (d # ds) rw =
     carry_decisions parse decb (\<lambda>n. env (Suc n)) ds
       (apply_decision parse decb (env 0) d (record_decision (env 0) d rw))"

section \<open>Publishing and checkpoints\<close>

definition status_line :: "Runner \<Rightarrow> Account \<Rightarrow> StatusAccount" where
  "status_line r a =
     (let key = acc_ProviderKey a;
          line = \<lparr>sa_Name = acc_Name a, sa_ProviderKey = key, sa_Disabled = acc_Disabled a, sa_ByGuard = False,
            sa_Streak = 0, sa_LastChannel = [], sa_LastSampleAt = None, sa_NextRetryAt = None, sa_DisableCount = 0,
            sa_Pending = (case ru_pending r key of None \<Rightarrow> False | Some wanted \<Rightarrow> wanted)\<rparr>
      in case st_Accounts (ru_state r) key of
           None \<Rightarrow> line
         | Some m \<Rightarrow> line\<lparr>sa_ByGuard := as_DisabledByGuard m, sa_Streak := as_Streak m,
             sa_LastChannel := as_LastChannel m, sa_LastSampleAt := as_LastSampleAt m,
             sa_NextRetryAt := as_NextRetryAt m, sa_DisableCount := as_DisableCount m\<rparr>)"

definition publish ::
  "string \<Rightarrow> string \<Rightarrow> Account list \<Rightarrow> bool \<Rightarrow> read_error option \<Rightarrow> time \<Rightarrow> Runner \<times> World \<Rightarrow> Runner \<times> World" where
  "publish version path accounts judges err now rw = (case rw of (r, w) \<Rightarrow>
     let c = ru_cfg r;
         status = \<lparr>gs_Enabled = cfg_AccountGuardEnabled c, gs_DryRun = cfg_AccountGuardDryRun c, gs_Version = version,
           gs_ReconfiguredAt = (if IsZero (ru_startedAt r) then None else Some (ru_startedAt r)),
           gs_Instances = ru_instances r, gs_Judging = judges, gs_Path = path, gs_Entries = int (length accounts),
           gs_Threshold = cfg_AccountGuardThreshold c, gs_Baseline = cfg_ChannelBaselineProvider c,
           gs_LastTickAt = Some now, gs_LastActionAt = gs_LastActionAt (ru_status r), gs_Error = err,
           gs_Accounts = map (status_line r) accounts, gs_Recent = ru_recent r\<rparr>
     in (r\<lparr>ru_status := status\<rparr>, w\<lparr>wo_published := Some status\<rparr>))"

record BeatEnv =
  be_Version :: string
  be_PID :: int
  be_Touch :: "syscall \<Rightarrow> bool"
  be_Listing :: "string list option"
  be_Now :: time
  be_ProcessStart :: time

definition heartbeat :: "BeatEnv \<Rightarrow> time \<Rightarrow> Runner \<times> World \<Rightarrow> Runner \<times> World" where
  "heartbeat e now rw = (case rw of (r, w) \<Rightarrow>
     case TouchInstance (be_Touch e) \<lparr>ii_ID = ru_instanceID r, ii_Version = be_Version e, ii_StartedAt = ru_startedAt r,
         ii_LastSeen = now, ii_PID = be_PID e\<rparr> (wo_store w) of
       (d, Some err) \<Rightarrow> (r, w\<lparr>wo_store := d\<rparr>)
     | (d, None) \<Rightarrow>
         (case be_Listing e of
            None \<Rightarrow> (r, w\<lparr>wo_store := d\<rparr>)
          | Some names \<Rightarrow>
              let (d', live) = LiveInstances (be_Now e) accountGuardInstanceWindow (be_ProcessStart e) names d;
                  n = int (length live)
              in (r\<lparr>ru_instances := n, ru_instanceWarned := (ru_instanceWarned r \<or> n > 1)\<rparr>, w\<lparr>wo_store := d'\<rparr>)))"

record SaveEnv =
  sv_Fails :: "syscall \<Rightarrow> bool"
  sv_Name :: string
  sv_Torn :: string
  sv_Beat :: BeatEnv

definition maybeSave :: "SaveEnv \<Rightarrow> time \<Rightarrow> bool \<Rightarrow> Runner \<times> World \<Rightarrow> Runner \<times> World" where
  "maybeSave e now forced rw = (case rw of (r, w) \<Rightarrow>
     if forced \<or> Sub now (ru_lastSave r) \<ge> accountGuardSaveEvery
     then let saves = fst (Save (sv_Fails e) (sv_Name e) (sv_Torn e) (ru_state r) (wo_store w))
          in heartbeat (sv_Beat e) now (r\<lparr>ru_lastSave := now\<rparr>, w\<lparr>wo_store := last (wo_store w # saves)\<rparr>)
     else (r, w))"

section \<open>The tick\<close>

record TickEnv =
  te_Now :: time
  te_Read :: "string \<Rightarrow> bool"
  te_Audit :: "syscall \<Rightarrow> bool"
  te_Records :: "Record list"
  te_Apply :: "nat \<Rightarrow> ApplyEnv"
  te_Save :: SaveEnv

text \<open>The round of a tick that could read the configuration: the runner after it, and the decisions.\<close>

definition tick_round ::
  "(string \<Rightarrow> Node option) \<Rightarrow> (Node \<Rightarrow> bool option) \<Rightarrow> TickEnv \<Rightarrow> string \<Rightarrow> Runner \<times> World \<Rightarrow> Runner \<times> Decision list" where
  "tick_round parse decb e raw rw = (case rw of (r, w) \<Rightarrow>
     let accounts = guard_accounts parse decb r raw;
         r1 = reconcileOwnership (te_Audit e) accounts (te_Now e) w r;
         (s, ds) = Advance (guard_samples r1 (te_Records e)) accounts (te_Now e) (guard_options (ru_cfg r1)) (ru_state r1)
     in (r1\<lparr>ru_state := s\<rparr>, ds))"

definition tick ::
  "(string \<Rightarrow> Node option) \<Rightarrow> (Node \<Rightarrow> bool option) \<Rightarrow> TickEnv \<Rightarrow> Runner \<times> World \<Rightarrow> Runner \<times> World" where
  "tick parse decb e rw = (case rw of (r, w) \<Rightarrow>
     let now = te_Now e; version = be_Version (sv_Beat (te_Save e)) in
     case read_config (te_Read e) r w of
       Inl err \<Rightarrow> publish version (last (Paths (cfg_PlanConfigPath (ru_cfg r)))) [] False (Some err) now (r, w)
     | Inr (path, raw) \<Rightarrow>
         let accounts = guard_accounts parse decb r raw;
             (r1, ds) = tick_round parse decb e raw (r, w);
             rw2 = carry_decisions parse decb (te_Apply e) ds (r1, w)
         in maybeSave (te_Save e) now (ds \<noteq> [])
              (publish version path accounts (judging r (guard_samples r (te_Records e))) None now rw2))"

section \<open>Start and stop\<close>

text \<open>\<open>startAccountGuard\<close> up to its first tick: a state that cannot be read starts empty.\<close>

definition new_runner :: "(syscall \<Rightarrow> bool) \<Rightarrow> Config \<Rightarrow> string \<Rightarrow> time \<Rightarrow> World \<Rightarrow> Runner" where
  "new_runner fails cfg iid now w =
     \<lparr>ru_cfg = cfg, ru_instanceID = iid, ru_startedAt = now,
      ru_state = (case Load fails (wo_store w) of Inl err \<Rightarrow> NewState | Inr s \<Rightarrow> s),
      ru_status = zero_status, ru_recent = [], ru_pending = Map.empty, ru_lastSave = zero_time,
      ru_adopted = False, ru_instances = 0, ru_instanceWarned = False\<rparr>"

definition startAccountGuard ::
  "(string \<Rightarrow> Node option) \<Rightarrow> (Node \<Rightarrow> bool option) \<Rightarrow> (syscall \<Rightarrow> bool) \<Rightarrow> Config \<Rightarrow> string \<Rightarrow> time \<Rightarrow> TickEnv \<Rightarrow>
   World \<Rightarrow> Runner \<times> World" where
  "startAccountGuard parse decb fails cfg iid now e w = tick parse decb e (new_runner fails cfg iid now w, w)"

definition stopAccountGuard :: "(syscall \<Rightarrow> bool) \<Rightarrow> Runner option \<Rightarrow> World \<Rightarrow> World" where
  "stopAccountGuard fails active w =
     (let w1 = w\<lparr>wo_published := None\<rparr> in
      case active of None \<Rightarrow> w1
      | Some r \<Rightarrow> w1\<lparr>wo_store := fst (ForgetInstance fails (ru_instanceID r) (wo_store w1))\<rparr>)"

section \<open>Seeding the defaults\<close>

definition durationLiteral :: "duration \<Rightarrow> string" where
  "durationLiteral value =
     (if value > 0 \<and> value mod Minute = 0 then Itoa (value div Minute) @ ''m'' else duration_String value)"

text \<open>The values the panel lists; \<open>yaml\<close> is \<open>yamlLiteral\<close> of the YAML library on one scalar.\<close>

datatype scalar = SString string | SBool bool | SInt int

definition pluginConfigDefaults :: "(scalar \<Rightarrow> string) \<Rightarrow> Config \<Rightarrow> PluginDefault list" where
  "pluginConfigDefaults yaml c = map (\<lambda>(k, v). \<lparr>pd_Key = k, pd_Literal = yaml v\<rparr>)
     [(''plan_refresh'', SString (durationLiteral (Or (cfg_PlanRefresh c) DefaultPlanRefresh))),
      (''channel_observe_enabled'', SBool (cfg_ChannelObserveEnabled c)),
      (''channel_store_dir'', SString (cfg_ChannelStoreDir c)),
      (''channel_retention_days'', SInt (cfg_ChannelRetentionDays c)),
      (''channel_max_size_mb'', SInt (cfg_ChannelMaxSizeMB c)),
      (''channel_baseline_provider'', SString (cfg_ChannelBaselineProvider c)),
      (''channel_log_enabled'', SBool (cfg_ChannelLogEnabled c)),
      (''channel_log_dir'', SString (cfg_ChannelLogDir c)),
      (''channel_log_delete_after_read'', SBool (cfg_ChannelLogDeleteAfterRead c)),
      (''channel_log_min_age_seconds'', SInt (cfg_ChannelLogMinAgeSeconds c)),
      (''account_guard_enabled'', SBool (cfg_AccountGuardEnabled c)),
      (''account_guard_dry_run'', SBool (cfg_AccountGuardDryRun c)),
      (''account_guard_threshold'', SInt (cfg_AccountGuardThreshold c)),
      (''account_guard_min_enabled'', SInt (cfg_AccountGuardMinEnabled c)),
      (''account_guard_reenable_minutes'', SInt (cfg_AccountGuardReenableMinutes c)),
      (''account_guard_max_disable_minutes'', SInt (cfg_AccountGuardMaxDisableMinutes c))]"

definition seedPluginConfigDefaults ::
  "(string \<Rightarrow> Node option) \<Rightarrow> (scalar \<Rightarrow> string) \<Rightarrow> (string \<Rightarrow> bool) \<Rightarrow> WriteEnv \<Rightarrow> Config \<Rightarrow> World \<Rightarrow> World" where
  "seedPluginConfigDefaults parse yaml fails e c w =
     (case ReadRaw (read_file fails (wo_files w)) Read_NotExist c of
        Inl err \<Rightarrow> w
      | Inr (path, raw) \<Rightarrow>
          (case PluginConfigDefaults parse raw buildinfo_ID (pluginConfigDefaults yaml c) of
             (updated, changed, err) \<Rightarrow>
               if err \<noteq> None \<or> \<not> changed then w
               else w\<lparr>wo_files := last (wo_files w # fst (writeConfigAtomic e path updated (wo_files w)))\<rparr>))"

end
