(* ===== verification/Guard_Store_Props.thy ===== *)
theory Guard_Store_Props
  imports Guard_Store
begin

text \<open>
  What the guard's files guarantee: a save is atomic under every failure and every crash, reading
  the audit trail back gives the newest decisions, and cleaning up heartbeats touches nothing
  else.
\<close>

section \<open>Atomic saves\<close>

lemma temp_not_state [simp]: "temp_name r \<noteq> StateFileName" "StateFileName \<noteq> temp_name r"
  by (simp_all add: temp_name_def)

definition save_document :: "State \<Rightarrow> string" where
  "save_document s = MarshalIndent (enc_state s) @ [CHR 0x0A]"

text \<open>Every directory of a run keeps a property that each step keeps, failing or not.\<close>

lemma run_steps_all:
  assumes "\<forall>(call, effect, broken) \<in> set steps. \<forall>d. P d \<longrightarrow> P (effect d) \<and> P (broken d)" and "P d"
  shows "\<forall>x \<in> set (fst (run_steps fails steps d)). P x"
  using assms
proof (induction steps arbitrary: d)
  case (Cons s steps)
  obtain call effect broken where s: "s = (call, effect, broken)" by (cases s)
  with Cons.prems have e: "P (effect d)" "P (broken d)" by auto
  have "\<forall>x \<in> set (fst (run_steps fails steps (effect d))). P x"
    using Cons.prems(1) e(1) by (intro Cons.IH) auto
  with e show ?case by (auto simp: s case_prod_beta)
qed simp

text \<open>
  What a step of a save may do to the other files: before the rename the state file is the old
  one, and only the temporary file and the state file ever change.
\<close>

definition save_state_ok :: "string \<Rightarrow> string \<Rightarrow> dir \<Rightarrow> dir \<Rightarrow> bool" where
  "save_state_ok tmp data d x \<longleftrightarrow>
     (x StateFileName = d StateFileName \<or> x StateFileName = Some data) \<and>
     (\<forall>n. n \<noteq> tmp \<and> n \<noteq> StateFileName \<longrightarrow> x n = d n)"

lemma save_run_ok:
  assumes "tmp \<noteq> StateFileName"
  shows "\<forall>x \<in> set (fst (run_steps fails (save_steps tmp torn data) d)). save_state_ok tmp data d x"
  by (rule run_steps_all) (use assms in \<open>auto simp: save_steps_def save_state_ok_def\<close>)

lemma Save_cases:
  "(\<exists>call. snd (Save fails r torn s d) = Some call \<and> saved_dir d (Save fails r torn s d) = d(temp_name r := None)) \<or>
   (\<exists>call. snd (Save fails r torn s d) = Some call \<and> saved_dir d (Save fails r torn s d) = d) \<or>
   (snd (Save fails r torn s d) = None \<and>
    saved_dir d (Save fails r torn s d) = d(StateFileName \<mapsto> save_document s, temp_name r := None))"
  by (simp add: Save_def saved_dir_def save_steps_def save_document_def Let_def) blast?

lemma Save_success:
  "saved_dir d (Save (\<lambda>_. False) r torn s d) StateFileName = Some (save_document s)"
proof -
  have "snd (Save (\<lambda>_. False) r torn s d) = None" by (simp add: Save_def save_steps_def Let_def)
  then show ?thesis using Save_cases [of "\<lambda>_. False" r torn s d] by auto
qed

text \<open>C9: Saving the guard's state is atomic. Whichever system call fails, and wherever the process is
  killed, the state file holds either its old content or the complete new document, and no other
  file of the directory but the temporary one changes. A save that reports success leaves the
  new document, one that reports an error leaves the old file.\<close>

theorem save_is_atomic:
  "(\<forall>x. x \<in> set (fst (Save fails r torn s d)) \<longrightarrow>
      (x StateFileName = d StateFileName \<or> x StateFileName = Some (save_document s)) \<and>
      (n \<noteq> temp_name r \<and> n \<noteq> StateFileName \<longrightarrow> x n = d n)) \<and>
   saved_dir d (Save fails r torn s d) StateFileName =
     (if snd (Save fails r torn s d) = None then Some (save_document s) else d StateFileName)"
proof
  let ?run = "run_steps fails (save_steps (temp_name r) torn (save_document s)) d"
  have ok: "save_state_ok (temp_name r) (save_document s) d x" if "x \<in> set (fst ?run)" for x
    using save_run_ok [of "temp_name r" fails torn "save_document s" d] that by simp
  have ne: "fst ?run \<noteq> []" by (simp add: save_steps_def)
  have "save_state_ok (temp_name r) (save_document s) d x" if "x \<in> set (fst (Save fails r torn s d))" for x
  proof -
    from that have "x \<in> set (fst ?run) \<or> x = (last (fst ?run))(temp_name r := None)"
      by (auto simp: Save_def save_document_def case_prod_beta Let_def split: if_splits)
    moreover have "save_state_ok (temp_name r) (save_document s) d (last (fst ?run))"
      using ne by (intro ok) simp
    ultimately show ?thesis using ok by (auto simp: save_state_ok_def)
  qed
  then show "\<forall>x. x \<in> set (fst (Save fails r torn s d)) \<longrightarrow>
      (x StateFileName = d StateFileName \<or> x StateFileName = Some (save_document s)) \<and>
      (n \<noteq> temp_name r \<and> n \<noteq> StateFileName \<longrightarrow> x n = d n)"
    by (auto simp: save_state_ok_def)
next
  show "saved_dir d (Save fails r torn s d) StateFileName =
     (if snd (Save fails r torn s d) = None then Some (save_document s) else d StateFileName)"
    using Save_cases [of fails r torn s d] by auto
qed

theorem save_is_atomic_witness:
  "saved_dir Map.empty (Save (\<lambda>c. c = Sys_Sync) ''1'' ''x'' NewState Map.empty) StateFileName = None \<and>
   saved_dir Map.empty (Save (\<lambda>_. False) ''1'' ''x'' NewState Map.empty) StateFileName = Some (save_document NewState)"
proof -
  have "snd (Save (\<lambda>c. c = Sys_Sync) ''1'' ''x'' NewState Map.empty) = Some Sys_Sync"
    "snd (Save (\<lambda>_. False) ''1'' ''x'' NewState Map.empty) = None"
    by (simp_all add: Save_def save_steps_def Let_def)
  then show ?thesis
    using save_is_atomic [of "\<lambda>c. c = Sys_Sync" "''1''" "''x''" NewState Map.empty]
      save_is_atomic [of "\<lambda>_. False" "''1''" "''x''" NewState Map.empty] by simp
qed

section \<open>Reading the audit trail back\<close>

text \<open>The reader's ring meets the interface of the bounded lists for every positive limit.\<close>

lemma push_recent_law: "length xs \<le> n \<Longrightarrow> 0 < n \<Longrightarrow> push_recent n xs x = lastn n (xs @ [x])"
  by (cases xs) (auto simp: push_recent_def lastn_def)

interpretation audit_ring: keep_last "Suc n" "push_recent (Suc n)" for n
  by unfold_locales (simp add: push_recent_law)

lemma ring_lines_foldl:
  "ring_lines limit ring ls = foldl (push_recent limit) ring (List.map_filter decode_line ls)"
  by (induction ls arbitrary: ring) (simp_all add: List.map_filter_def split: option.split)

lemma scan_lines_append:
  "CHR 0x0A \<notin> set line \<Longrightarrow> scan_lines (line @ CHR 0x0A # rest) = line # scan_lines rest"
  by (induction line) auto

lemma scan_lines_concat:
  assumes "\<forall>l \<in> set ls. CHR 0x0A \<notin> set l"
  shows "scan_lines (concat (map (\<lambda>l. l @ [CHR 0x0A]) ls) @ rest) = ls @ scan_lines rest"
  using assms by (induction ls) (auto simp: scan_lines_append)

definition audit_line :: "Decision \<Rightarrow> string" where
  "audit_line d = Marshal (enc_decision d)"

text \<open>What is documented of one audit line: it is one line, not too long, and decodes to its decision.\<close>

definition readable :: "Decision \<Rightarrow> bool" where
  "readable d \<longleftrightarrow> CHR 0x0A \<notin> set (audit_line d) \<and> length (audit_line d) < audit_line_max \<and>
     decode_line (audit_line d) = Some d"

definition append_all :: "Decision list \<Rightarrow> dir \<Rightarrow> dir" where
  "append_all ds d = foldl (\<lambda>x dcn. saved_dir x (AppendAudit (\<lambda>_. False) [] dcn x)) d ds"

lemma append_one:
  "saved_dir d (AppendAudit (\<lambda>_. False) [] dcn d) =
   d(AuditFileName \<mapsto> list_of (d AuditFileName) @ audit_line dcn @ [CHR 0x0A])"
  by (simp add: saved_dir_def AppendAudit_def audit_steps_def audit_line_def list_of_def Let_def split: option.split)

lemma append_all_content:
  "list_of (append_all ds d AuditFileName) =
   list_of (d AuditFileName) @ concat (map (\<lambda>x. audit_line x @ [CHR 0x0A]) ds)"
proof (induction ds arbitrary: d)
  case (Cons x ds)
  then show ?case
    by (simp add: append_all_def append_one) (simp add: list_of_def)
qed (simp add: append_all_def)

lemma audit_readable:
  assumes "0 < limit" and "list_all readable ds" and "d AuditFileName = None"
  shows "RecentAudit (\<lambda>_. False) limit (append_all ds d) = Inr (lastn (nat limit) ds)"
proof -
  have nl: "\<forall>l \<in> set (map audit_line ds). CHR 0x0A \<notin> set l"
    using assms(2) by (auto simp: list_all_iff readable_def)
  have content: "list_of (append_all ds d AuditFileName) = concat (map (\<lambda>l. l @ [CHR 0x0A]) (map audit_line ds))"
    using append_all_content [of ds d] assms(3) by (simp add: list_of_def comp_def)
  have lines: "scan_lines (list_of (append_all ds d AuditFileName)) = map audit_line ds"
    unfolding content using scan_lines_concat [OF nl, of "[]"] by simp
  have short: "\<not> list_ex (\<lambda>l. audit_line_max \<le> length l) (map audit_line ds)"
    using assms(2) by (auto simp: list_ex_iff list_all_iff readable_def)
  have decode: "List.map_filter decode_line (map audit_line ds) = ds"
    using assms(2) by (induction ds) (simp_all add: List.map_filter_def readable_def)
  obtain n where n: "nat limit = Suc n" using assms(1) by (cases "nat limit") auto
  show ?thesis
  proof (cases "append_all ds d AuditFileName")
    case None
    with lines have "ds = []" by (simp add: list_of_def)
    with None assms(1) show ?thesis by (simp add: RecentAudit_def)
  next
    case (Some c)
    then have "scan_lines c = map audit_line ds" using lines by (simp add: list_of_def)
    with Some assms(1) short show ?thesis
      by (simp add: RecentAudit_def ring_lines_foldl decode n audit_ring.push_run)
  qed
qed

text \<open>
  A torn line without its newline swallows the next one: the reader sees both as one line.
\<close>

lemma torn_line_joins_next:
  assumes "CHR 0x0A \<notin> set torn" and "CHR 0x0A \<notin> set line"
  shows "scan_lines (torn @ line @ [CHR 0x0A]) = [torn @ line]"
  using scan_lines_append [of "torn @ line" "[]"] assms by simp

section \<open>Heartbeats\<close>

text \<open>Counting the live guards cannot harm the guard's own files. LiveInstances removes only
  heartbeat files that have been quiet for more than five minutes, leaves every other file of
  the directory untouched, and returns the remaining heartbeats of the window that were refreshed
  since the process was loaded, ordered by start time.\<close>

theorem live_instances_safe:
  "(let (d', live) = LiveInstances now win startedAfter names d in
     (HasPrefix n InstanceFilePrefix \<or> d' n = d n) \<and>
     (d' n = d n \<or> judge_beat now win startedAfter d n = Stale) \<and>
     sorted (map ii_StartedAt live) \<and>
     set live = {i. \<exists>f \<in> set names. judge_beat now win startedAfter d f = Live i})"
proof -
  have pre: "HasPrefix n InstanceFilePrefix" if "judge_beat now win startedAfter d n = Stale"
    using that by (auto simp: judge_beat_def split: if_splits)
  show ?thesis
    using pre by (auto simp: LiveInstances_def Let_def split: beat.splits)
qed

end
