(* ===== verification/Go_Json_Props.thy ===== *)
theory Go_Json_Props
  imports Go_Json
begin

text \<open>
  What is printed parses back: \<open>parse_json (Marshal j) = Some j\<close> and the same for the indented
  layout, for every document whose strings are valid UTF-8 and whose numbers are in printed form.
  The proof follows the printer: strings first, then values by induction on the document, with
  one lemma for the elements of an array and one for the members of an object.
\<close>

section \<open>Valid UTF-8\<close>

function utf8_ok :: "string \<Rightarrow> bool" where
  "utf8_ok s =
     (case s of
        [] \<Rightarrow> True
      | c # r \<Rightarrow> if byte_of c < 128 then utf8_ok r else rune_size s \<noteq> 1 \<and> utf8_ok (drop (rune_size s) s))"
  by pat_completeness auto
termination by (relation "measure length") auto

declare utf8_ok.simps [simp del]

lemma utf8_ok_Nil [simp]: "utf8_ok []" by (simp add: utf8_ok.simps)

lemma utf8_ok_ascii: "list_all (\<lambda>c. byte_of c < 128) s \<Longrightarrow> utf8_ok s"
  by (induction s) (simp_all add: utf8_ok.simps)

lemma rune_size_le: "rune_size s \<le> 4"
  by (simp add: rune_size_def Let_def split: list.split)

text \<open>The size of a multi-byte rune is decided by its own bytes.\<close>

lemma rune_size_take:
  assumes "2 \<le> rune_size s"
  shows "rune_size (take (rune_size s) s @ t) = rune_size s"
proof -
  obtain a r where s: "s = a # r" using assms by (cases s) (auto simp: rune_size_def)
  have len: "rune_size s \<le> Suc (length r)" using rune_size_bounds(2) [of s] s by simp
  consider "rune_size s = 2" | "rune_size s = 3" | "rune_size s = 4"
    using assms rune_size_le [of s] by linarith
  then show ?thesis
  proof cases
    case 1
    with len obtain b r1 where "r = b # r1" by (cases r) auto
    with 1 show ?thesis by (auto simp: s rune_size_def Let_def split: if_splits)
  next
    case 2
    with len obtain b c r1 where "r = b # c # r1" by (cases r; cases "tl r") auto
    with 2 show ?thesis by (auto simp: s rune_size_def Let_def split: if_splits)
  next
    case 3
    with len obtain b c e r1 where "r = b # c # e # r1"
      by (cases r; cases "tl r"; cases "tl (tl r)") auto
    with 3 show ?thesis by (auto simp: s rune_size_def Let_def split: if_splits)
  qed
qed

lemma rune_size_high: "byte_of (hd (take (rune_size s) s @ t)) < 128 \<Longrightarrow> rune_size s \<le> 1"
  by (cases s) (auto simp: rune_size_def Let_def)

section \<open>Strings\<close>

lemma hex_value_char: "n < 16 \<Longrightarrow> hex_value (hex_char n) = Some n"
  by (auto simp: hex_value_def hex_char_def Let_def)

lemma escape_plain:
  assumes "byte_of c < 128"
  shows "escape (c # r) = escape_ascii c @ escape r"
  using assms by (subst escape.simps) simp

lemma char_of_byte [simp]: "char_of (byte_of c) = c"
  by simp

lemma byte_controls:
  "(byte_of c = 8) = (c = CHR 0x08)" "(byte_of c = 9) = (c = CHR 0x09)" "(byte_of c = 10) = (c = CHR 0x0A)"
  "(byte_of c = 12) = (c = CHR 0x0C)" "(byte_of c = 13) = (c = CHR 0x0D)"
  using of_char_eq_iff [of c "CHR 0x08", where ?'a = nat] of_char_eq_iff [of c "CHR 0x09", where ?'a = nat]
    of_char_eq_iff [of c "CHR 0x0A", where ?'a = nat] of_char_eq_iff [of c "CHR 0x0C", where ?'a = nat]
    of_char_eq_iff [of c "CHR 0x0D", where ?'a = nat]
  by simp_all

lemma unquote_ascii:
  assumes "byte_of c < 128" and "length (escape_ascii c) \<le> n"
    and "\<And>m. n - length (escape_ascii c) \<le> m \<Longrightarrow> unquote m t = Some (s, rest)"
  shows "unquote n (escape_ascii c @ t) = Some (c # s, rest)"
proof (cases n)
  case 0
  with assms(2) show ?thesis by (simp add: escape_ascii_def split: if_splits)
next
  case (Suc k)
  have rec: "unquote k t = Some (s, rest)"
    using assms(2) Suc by (intro assms(3)) (auto simp: escape_ascii_def split: if_splits)
  let ?h = "byte_of c div 16" and ?l = "byte_of c mod 16"
  have hex: "hex4 (CHR ''0'' # CHR ''0'' # hex_char ?h # hex_char ?l # t) = Some (byte_of c)"
    using assms(1) hex_value_char [of ?h] hex_value_char [of ?l] by (simp add: hex_value_def)
  have uni: "unicode_escape (CHR ''0'' # CHR ''0'' # hex_char ?h # hex_char ?l # t) = Some ([c], 4)"
    unfolding unicode_escape_def hex using assms(1) by (simp add: utf8_encode_def)
  have esc: "unquote (Suc k) (bslash # e # t) = Some (c # s, rest)" if "simple_escape e = Some c" "e \<noteq> CHR ''u''" for e
    using that rec by (simp add: bslash_def dquote_def)
  show ?thesis
    unfolding Suc escape_ascii_def using rec uni assms(1) esc
    by (auto simp: simple_escape_def bslash_def dquote_def byte_controls)
qed

lemma unquote_rune:
  assumes "2 \<le> rune_size s" and "rune_size s \<le> n"
    and "\<And>m. n - rune_size s \<le> m \<Longrightarrow> unquote m t = Some (u, rest)"
  shows "unquote n (take (rune_size s) s @ t) = Some (take (rune_size s) s @ u, rest)"
proof -
  obtain a r where s: "s = a # r" using assms(1) by (cases s) (auto simp: rune_size_def)
  obtain k where n: "n = Suc k" using assms(1,2) by (cases n) auto
  have rec: "unquote k t = Some (u, rest)" using assms(1) n by (intro assms(3)) simp
  obtain j where j: "rune_size s = Suc j" using assms(1) by (cases "rune_size s") auto
  have shape: "take (rune_size s) s @ t = a # (take j r @ t)" unfolding j by (simp add: s)
  have size: "rune_size (a # (take j r @ t)) = Suc j"
    using rune_size_take [OF assms(1), of t] shape j by simp
  have high: "128 \<le> byte_of a"
    using assms(1) by (auto simp: s rune_size_def Let_def split: if_splits)
  then have a: "a \<noteq> dquote" "a \<noteq> bslash" "\<not> byte_of a < 32" by (auto simp: dquote_def bslash_def)
  have "length (take j r) = j" using rune_size_bounds(2) [of s] s j by simp
  then have "drop (Suc j) (a # (take j r @ t)) = t" "take (Suc j) (a # (take j r @ t)) = a # take j r" by simp_all
  moreover have "take (rune_size s) s = a # take j r" unfolding j by (simp add: s)
  ultimately show ?thesis
    unfolding shape n using a high size rec assms(1) j by simp
qed

lemma u2028_bytes: "char_of (226::nat) = CHR 0xE2" "char_of (128::nat) = CHR 0x80"
  "char_of (168::nat) = CHR 0xA8" "char_of (169::nat) = CHR 0xA9"
  by code_simp+

lemma unquote_u2028:
  assumes "1 \<le> n" and "\<And>m. n - 6 \<le> m \<Longrightarrow> unquote m t = Some (u, rest)" and "d = CHR ''8'' \<and> x = CHR 0xA8 \<or> d = CHR ''9'' \<and> x = CHR 0xA9"
  shows "unquote n (bslash # CHR ''u'' # CHR ''2'' # CHR ''0'' # CHR ''2'' # d # t) =
    Some (CHR 0xE2 # CHR 0x80 # x # u, rest)"
proof -
  obtain k where n: "n = Suc k" using assms(1) by (cases n) auto
  have rec: "unquote k t = Some (u, rest)" using n by (intro assms(2)) simp
  have "unicode_escape (CHR ''2'' # CHR ''0'' # CHR ''2'' # d # t) = Some ([CHR 0xE2, CHR 0x80, x], 4)"
    using assms(3) by (auto simp: unicode_escape_def hex_value_def utf8_encode_def u2028_bytes)
  then show ?thesis using rec by (simp add: n bslash_def dquote_def)
qed

lemma unquote_escape:
  "utf8_ok s \<Longrightarrow> Suc (length (escape s)) \<le> n \<Longrightarrow> unquote n (escape s @ dquote # rest) = Some (s, rest)"
proof (induction s arbitrary: n rule: escape.induct)
  case (1 s)
  show ?case
  proof (cases s)
    case Nil
    with 1 show ?thesis by (cases n) (simp_all add: escape.simps)
  next
    case (Cons c r)
    show ?thesis
    proof (cases "byte_of c < 128")
      case True
      have ok: "utf8_ok r" using 1(6) Cons True by (simp add: utf8_ok.simps)
      have e: "escape s = escape_ascii c @ escape r" using True Cons by (simp add: escape_plain)
      have "unquote n (escape_ascii c @ (escape r @ dquote # rest)) = Some (c # r, rest)"
      proof (rule unquote_ascii [OF True])
        show "length (escape_ascii c) \<le> n" using 1(7) e by simp
        show "unquote m (escape r @ dquote # rest) = Some (r, rest)" if "n - length (escape_ascii c) \<le> m" for m
          using 1(1) [OF Cons True ok, of m] that 1(7) e by simp
      qed
      then show ?thesis using e Cons by simp
    next
      case False
      let ?k = "rune_size s"
      have two: "2 \<le> ?k" and ok: "utf8_ok (drop ?k s)"
        using 1(6) Cons False rune_size_bounds(1) [of s] by (auto simp: utf8_ok.simps [of "c # r"])
      then have ne: "?k \<noteq> 1" by simp
      have split: "take ?k s @ drop ?k s = s" by simp
      consider (a) "take 3 s = [CHR 0xE2, CHR 0x80, CHR 0xA8]" | (b) "take 3 s = [CHR 0xE2, CHR 0x80, CHR 0xA9]"
        | (c) "take 3 s \<noteq> [CHR 0xE2, CHR 0x80, CHR 0xA8]" "take 3 s \<noteq> [CHR 0xE2, CHR 0x80, CHR 0xA9]" by blast
      then show ?thesis
      proof cases
        case a
        have s3: "s = CHR 0xE2 # CHR 0x80 # CHR 0xA8 # drop 3 s" by (metis a append_Cons append_Nil append_take_drop_id)
        have k3: "?k = 3" by (subst s3) (simp add: rune_size_def cont_byte_def)
        have e: "escape s = bslash # ''u2028'' @ escape (drop 3 s)"
          using a Cons False ne by (subst escape.simps) simp
        have "unquote n (escape s @ dquote # rest) = Some (CHR 0xE2 # CHR 0x80 # CHR 0xA8 # drop 3 s, rest)"
          unfolding e
          using unquote_u2028 [of n "escape (drop 3 s) @ dquote # rest" "drop 3 s" rest "CHR ''8''" "CHR 0xA8"]
            1(3) [OF Cons False ne a] ok k3 1(7) e by auto
        then show ?thesis using s3 by simp
      next
        case b
        have s3: "s = CHR 0xE2 # CHR 0x80 # CHR 0xA9 # drop 3 s" by (metis b append_Cons append_Nil append_take_drop_id)
        have k3: "?k = 3" by (subst s3) (simp add: rune_size_def cont_byte_def)
        have na: "take 3 s \<noteq> [CHR 0xE2, CHR 0x80, CHR 0xA8]" using b by simp
        have e: "escape s = bslash # ''u2029'' @ escape (drop 3 s)"
          using b na Cons False ne by (subst escape.simps) simp
        have "unquote n (escape s @ dquote # rest) = Some (CHR 0xE2 # CHR 0x80 # CHR 0xA9 # drop 3 s, rest)"
          unfolding e
          using unquote_u2028 [of n "escape (drop 3 s) @ dquote # rest" "drop 3 s" rest "CHR ''9''" "CHR 0xA9"]
            1(4) [OF Cons False ne na b] ok k3 1(7) e by auto
        then show ?thesis using s3 by simp
      next
        case c
        have e: "escape s = take ?k s @ escape (drop ?k s)"
          using c Cons False ne by (subst escape.simps) auto
        have len: "length (take ?k s) = ?k" using rune_size_bounds(2) [of s] by simp
        have "unquote n (take ?k s @ (escape (drop ?k s) @ dquote # rest)) = Some (take ?k s @ drop ?k s, rest)"
        proof (rule unquote_rune [OF two])
          show "?k \<le> n" using 1(7) e len by simp
          show "unquote m (escape (drop ?k s) @ dquote # rest) = Some (drop ?k s, rest)" if "n - ?k \<le> m" for m
            using 1(5) [OF Cons False ne c ok, of m] that 1(7) e len by simp
        qed
        then show ?thesis using e split by simp
      qed
    qed
  qed
qed

section \<open>Values\<close>

definition stop :: "string \<Rightarrow> bool" where
  "stop rest \<longleftrightarrow> rest = [] \<or> (\<not> is_dig (hd rest) \<and> hd rest \<notin> set ''.eE'')"

text \<open>A number as the encoder prints it: the scanner takes exactly it.\<close>

definition number_ok :: "string \<Rightarrow> bool" where
  "number_ok n \<longleftrightarrow> n \<noteq> [] \<and> (is_dig (hd n) \<or> hd n = CHR ''-'') \<and>
     (\<forall>rest. stop rest \<longrightarrow> scan_number (n @ rest) = Some (n, rest))"

fun json_ok :: "json \<Rightarrow> bool" where
  "json_ok (JNum n) = number_ok n"
| "json_ok (JStr s) = utf8_ok s"
| "json_ok (JArr js) = (\<forall>j \<in> set js. json_ok j)"
| "json_ok (JObj ms) = (\<forall>(k, v) \<in> set ms. utf8_ok k \<and> json_ok v)"
| "json_ok _ = True"

locale layout =
  fixes br :: "nat \<Rightarrow> string" and colon :: string and pad :: string
  assumes br_space: "list_all json_space (br d)"
    and colon_def: "colon = CHR '':'' # pad" and pad_space: "list_all json_space pad"
begin

definition reads :: "json \<Rightarrow> bool" where
  "reads j \<longleftrightarrow> (\<forall>n d ws rest. 2 * length (render br colon d j) \<le> n \<longrightarrow> list_all json_space ws \<longrightarrow> stop rest \<longrightarrow>
     parse_value n (ws @ render br colon d j @ rest) = Some (j, rest))"

lemma skip_ws: "list_all json_space ws \<Longrightarrow> skip_space (ws @ s) = skip_space s"
  by (induction ws) (simp_all add: skip_space_def)

lemma skip_head: "\<not> json_space c \<Longrightarrow> skip_space (c # s) = c # s"
  by (simp add: skip_space_def)

definition starter :: "char \<Rightarrow> bool" where
  "starter c \<longleftrightarrow> \<not> json_space c \<and> c \<noteq> CHR '']'' \<and> c \<noteq> CHR 0x7D \<and> c \<noteq> CHR '',''"

lemma number_head:
  assumes "is_dig c \<or> c = CHR ''-''"
  shows "starter c" "\<not> json_space c" "c \<noteq> dquote" "c \<noteq> CHR ''[''" "c \<noteq> CHR 0x7B"
    "c \<noteq> CHR ''n''" "c \<noteq> CHR ''t''" "c \<noteq> CHR ''f''"
proof -
  have "c \<noteq> x" if "\<not> is_dig x" "x \<noteq> CHR ''-''" for x using assms that by auto
  then show "starter c" "\<not> json_space c" "c \<noteq> dquote" "c \<noteq> CHR ''[''" "c \<noteq> CHR 0x7B"
    "c \<noteq> CHR ''n''" "c \<noteq> CHR ''t''" "c \<noteq> CHR ''f''"
    by (simp_all add: is_dig_def starter_def json_space_def dquote_def)
qed

lemma render_head: "json_ok j \<Longrightarrow> \<exists>c t. render br colon d j = c # t \<and> starter c"
proof (cases j)
  case (JNum n)
  assume "json_ok j"
  with JNum have "n \<noteq> []" "is_dig (hd n) \<or> hd n = CHR ''-''" by (simp_all add: number_ok_def)
  with JNum show ?thesis using number_head(1) [of "hd n"] by (cases n) simp_all
qed (auto simp: json_string_def starter_def json_space_def dquote_def)

lemma reads_null: "reads JNull" and reads_bool: "reads (JBool b)"
  unfolding reads_def
proof -
  show "\<forall>n d ws rest. 2 * length (render br colon d JNull) \<le> n \<longrightarrow> list_all json_space ws \<longrightarrow> stop rest \<longrightarrow>
     parse_value n (ws @ render br colon d JNull @ rest) = Some (JNull, rest)"
  proof (intro allI impI)
    fix n d ws rest assume "2 * length (render br colon d JNull) \<le> n" "list_all json_space ws"
    then show "parse_value n (ws @ render br colon d JNull @ rest) = Some (JNull, rest)"
      by (cases n) (simp_all add: skip_ws skip_head json_space_def dquote_def HasPrefix_def)
  qed
  show "\<forall>n d ws rest. 2 * length (render br colon d (JBool b)) \<le> n \<longrightarrow> list_all json_space ws \<longrightarrow> stop rest \<longrightarrow>
     parse_value n (ws @ render br colon d (JBool b) @ rest) = Some (JBool b, rest)"
  proof (intro allI impI)
    fix n d ws rest assume "2 * length (render br colon d (JBool b)) \<le> n" "list_all json_space ws"
    then show "parse_value n (ws @ render br colon d (JBool b) @ rest) = Some (JBool b, rest)"
      by (cases n; cases b) (simp_all add: skip_ws skip_head json_space_def dquote_def HasPrefix_def)
  qed
qed

lemma reads_number: "number_ok num \<Longrightarrow> reads (JNum num)"
  unfolding reads_def
proof (intro allI impI)
  fix n d ws rest
  assume ok: "number_ok num" and n: "2 * length (render br colon d (JNum num)) \<le> n"
    and ws: "list_all json_space ws" and rest: "stop rest"
  obtain c t where num: "num = c # t" using ok by (cases num) (auto simp: number_ok_def)
  have c: "is_dig c \<or> c = CHR ''-''" using ok num by (simp add: number_ok_def)
  have "scan_number (c # t @ rest) = Some (num, rest)" using ok rest num by (auto simp: number_ok_def)
  then show "parse_value n (ws @ render br colon d (JNum num) @ rest) = Some (JNum num, rest)"
    using n ws number_head [OF c] by (cases n) (simp_all add: num skip_ws skip_head HasPrefix_def)
qed

lemma reads_string: "utf8_ok s \<Longrightarrow> reads (JStr s)"
  unfolding reads_def
proof (intro allI impI)
  fix n d ws rest
  assume ok: "utf8_ok s" and n: "2 * length (render br colon d (JStr s)) \<le> n" and ws: "list_all json_space ws"
  have "unquote (Suc (length (escape s @ dquote # rest))) (escape s @ dquote # rest) = Some (s, rest)"
    by (rule unquote_escape [OF ok]) simp
  with n ws show "parse_value n (ws @ render br colon d (JStr s) @ rest) = Some (JStr s, rest)"
    by (cases n) (simp_all add: skip_ws skip_head json_string_def json_space_def dquote_def)
qed

lemma not_space [simp]:
  "\<not> json_space (CHR '','')" "\<not> json_space (CHR '']'')" "\<not> json_space (CHR ''['')"
  "\<not> json_space (CHR 0x7B)" "\<not> json_space (CHR 0x7D)" "\<not> json_space (CHR '':'')" "\<not> json_space dquote"
  by (simp_all add: json_space_def dquote_def)

lemma stop_head: "json_space c \<or> c = CHR '','' \<or> c = CHR '']'' \<or> c = CHR 0x7D \<Longrightarrow> stop (c # s)"
  by (auto simp: stop_def is_dig_def json_space_def)

lemma stop_ws: "list_all json_space ws \<Longrightarrow> stop (c # s) \<Longrightarrow> stop (ws @ c # s)"
  using stop_head by (cases ws) auto

lemma separated_Cons: "js \<noteq> [] \<Longrightarrow> separated sep (j # js) = j @ sep @ separated sep js"
  by (cases js) (auto simp: separated_def)

lemma separated_one: "separated sep [j] = j"
  by (simp add: separated_def)

lemma parse_elems_reads:
  assumes "js \<noteq> []" and "\<forall>j \<in> set js. reads j" and "list_all json_space gap" and "list_all json_space fin"
    and "2 * length (separated ('','' @ gap) (map (render br colon d) js)) + 1 \<le> n" and "list_all json_space ws"
  shows "parse_elems n (ws @ separated ('','' @ gap) (map (render br colon d) js) @ fin @ CHR '']'' # rest) = Some (js, rest)"
  using assms
proof (induction js arbitrary: n ws)
  case (Cons j js)
  obtain k where n: "n = Suc k" using Cons.prems(5) by (cases n) auto
  show ?case
  proof (cases "js = []")
    case True
    have "stop (fin @ CHR '']'' # rest)" using Cons.prems(4) by (intro stop_ws stop_head) auto
    then have "parse_value k (ws @ render br colon d j @ (fin @ CHR '']'' # rest)) = Some (j, fin @ CHR '']'' # rest)"
      using Cons.prems n True unfolding reads_def by (simp add: separated_one)
    then show ?thesis
      using True Cons.prems(4) by (simp add: n separated_one skip_ws skip_head)
  next
    case False
    let ?more = "separated ('','' @ gap) (map (render br colon d) js)"
    let ?tail = "?more @ fin @ CHR '']'' # rest"
    have "parse_value k (ws @ render br colon d j @ (CHR '','' # gap @ ?tail)) = Some (j, CHR '','' # gap @ ?tail)"
      using Cons.prems n False unfolding reads_def by (auto simp: separated_Cons stop_head)
    moreover have "parse_elems k (gap @ ?tail) = Some (js, rest)"
      using Cons.prems n False by (intro Cons.IH) (auto simp: separated_Cons)
    ultimately show ?thesis
      using False by (simp add: n separated_Cons skip_head)
  qed
qed simp

definition member :: "nat \<Rightarrow> string \<times> json \<Rightarrow> string" where
  "member d kv = json_string (fst kv) @ colon @ render br colon d (snd kv)"

lemma parse_members_reads:
  assumes "ms \<noteq> []" and "\<forall>kv \<in> set ms. utf8_ok (fst kv) \<and> reads (snd kv)"
    and "list_all json_space gap" and "list_all json_space fin"
    and "2 * length (separated ('','' @ gap) (map (member d) ms)) + 1 \<le> n" and "list_all json_space ws"
  shows "parse_members n (ws @ separated ('','' @ gap) (map (member d) ms) @ fin @ CHR 0x7D # rest) = Some (ms, rest)"
  using assms
proof (induction ms arbitrary: n ws)
  case (Cons kv ms)
  obtain key j where kv: "kv = (key, j)" by (cases kv)
  obtain k where n: "n = Suc k" using Cons.prems(5) by (cases n) auto
  have key: "unquote (Suc (length (escape key @ dquote # t))) (escape key @ dquote # t) = Some (key, t)" for t
    using Cons.prems(2) kv by (intro unquote_escape) auto
  have m: "member d kv @ t = dquote # escape key @ dquote # CHR '':'' # pad @ render br colon d j @ t" for t
    unfolding member_def kv json_string_def by (simp add: colon_def)
  have q: "\<not> json_space dquote" by (simp add: json_space_def dquote_def)
  have step: "parse_members n (ws @ member d kv @ t) =
      (case skip_space t of [] \<Rightarrow> None
       | c # r4 \<Rightarrow> if c = CHR '','' then map_option (\<lambda>(ms, rest). (kv # ms, rest)) (parse_members k r4)
                  else if c = CHR 0x7D then Some ([kv], r4) else None)"
    if "stop t" "2 * length (member d kv) \<le> k" for t
  proof -
    have "2 * length (render br colon d j) \<le> k" using that(2) by (simp add: member_def kv)
    then have v: "parse_value k (pad @ render br colon d j @ t) = Some (j, t)"
      using Cons.prems(2) kv that(1) pad_space unfolding reads_def by auto
    show ?thesis
      unfolding m n using Cons.prems(6) key [of "CHR '':'' # pad @ render br colon d j @ t"] q v
      by (simp add: skip_ws skip_head kv del: unquote.simps split: list.split)
  qed
  show ?case
  proof (cases "ms = []")
    case True
    have "stop (fin @ CHR 0x7D # rest)" using Cons.prems(4) by (intro stop_ws stop_head) auto
    then show ?thesis
      using step [of "fin @ CHR 0x7D # rest"] True Cons.prems(4,5) n
      by (simp add: separated_one skip_ws skip_head)
  next
    case False
    let ?tail = "separated ('','' @ gap) (map (member d) ms) @ fin @ CHR 0x7D # rest"
    have "parse_members k (gap @ ?tail) = Some (ms, rest)"
      using Cons.prems n False by (intro Cons.IH) (auto simp: separated_Cons)
    moreover have "stop (CHR '','' # gap @ ?tail)" by (intro stop_head) simp
    ultimately show ?thesis
      using step [of "CHR '','' # gap @ ?tail"] False Cons.prems(5) n
      by (simp add: separated_Cons skip_head)
  qed
qed simp

lemma render_obj:
  "ms \<noteq> [] \<Longrightarrow> render br colon d (JObj ms) =
     [CHR 0x7B] @ br (Suc d) @ separated ('','' @ br (Suc d)) (map (member (Suc d)) ms) @ br d @ [CHR 0x7D]"
  by (simp add: member_def [abs_def] case_prod_unfold)

lemma separated_head:
  "ps \<noteq> [] \<Longrightarrow> hd ps = c # t \<Longrightarrow> \<exists>u. separated sep ps = c # u"
  by (cases ps) (auto simp: separated_def)

lemma skip_starter: "list_all json_space ws \<Longrightarrow> starter c \<Longrightarrow> skip_space (ws @ c # s) = c # s"
  by (simp add: skip_ws skip_head starter_def)

theorem reads_all: "json_ok j \<Longrightarrow> reads j"
proof (induction j)
  case (JArr js)
  show ?case
  proof (cases "js = []")
    case True
    show ?thesis
      unfolding reads_def True
    proof (intro allI impI)
      fix n d ws rest assume "2 * length (render br colon d (JArr [])) \<le> n" "list_all json_space ws"
      then show "parse_value n (ws @ render br colon d (JArr []) @ rest) = Some (JArr [], rest)"
        by (cases n) (simp_all add: skip_ws skip_head dquote_def)
    qed
  next
    case False
    have all: "\<forall>j \<in> set js. reads j" using JArr by auto
    show ?thesis
      unfolding reads_def
    proof (intro allI impI)
      fix n d ws rest
      assume n: "2 * length (render br colon d (JArr js)) \<le> n" and ws: "list_all json_space ws"
      let ?sep = "separated (CHR '','' # br (Suc d)) (map (render br colon (Suc d)) js)"
      obtain k where k: "n = Suc k" using n False by (cases n) auto
      obtain c t where "render br colon (Suc d) (hd js) = c # t" "starter c"
        using render_head [of "hd js" "Suc d"] JArr.prems False by auto
      then obtain u where u: "?sep = c # u"
        using separated_head [of "map (render br colon (Suc d)) js" c t] False by (auto simp: hd_map)
      have "parse_elems k (br (Suc d) @ ?sep @ br d @ CHR '']'' # rest) = Some (js, rest)"
        using n k False all br_space parse_elems_reads [of js "br (Suc d)" "br d" "Suc d" k "br (Suc d)" rest] by auto
      then show "parse_value n (ws @ render br colon d (JArr js) @ rest) = Some (JArr js, rest)"
        using ws False br_space \<open>starter c\<close> skip_starter [OF br_space \<open>starter c\<close>]
        by (simp add: k u skip_ws skip_head dquote_def) (simp add: starter_def)
    qed
  qed
next
  case (JObj ms)
  show ?case
  proof (cases "ms = []")
    case True
    show ?thesis
      unfolding reads_def True
    proof (intro allI impI)
      fix n d ws rest assume "2 * length (render br colon d (JObj [])) \<le> n" "list_all json_space ws"
      then show "parse_value n (ws @ render br colon d (JObj []) @ rest) = Some (JObj [], rest)"
        by (cases n) (simp_all add: skip_ws skip_head dquote_def)
    qed
  next
    case False
    have all: "\<forall>kv \<in> set ms. utf8_ok (fst kv) \<and> reads (snd kv)"
      using JObj by (fastforce simp: snds.simps)
    show ?thesis
      unfolding reads_def
    proof (intro allI impI)
      fix n d ws rest
      assume n: "2 * length (render br colon d (JObj ms)) \<le> n" and ws: "list_all json_space ws"
      let ?sep = "separated (CHR '','' # br (Suc d)) (map (member (Suc d)) ms)"
      obtain k where k: "n = Suc k" using n False by (cases n) (auto simp: render_obj)
      obtain t where t: "member (Suc d) (hd ms) = dquote # t" by (simp add: member_def json_string_def)
      obtain u where u: "?sep = dquote # u"
        using separated_head [of "map (member (Suc d)) ms" dquote t] t False by (auto simp: hd_map)
      have st: "starter dquote" by (simp add: starter_def json_space_def dquote_def)
      have "parse_members k (br (Suc d) @ ?sep @ br d @ CHR 0x7D # rest) = Some (ms, rest)"
        using n k False all br_space parse_members_reads [of ms "br (Suc d)" "br d" "Suc d" k "br (Suc d)" rest]
        by (auto simp: render_obj simp del: render.simps)
      then show "parse_value n (ws @ render br colon d (JObj ms) @ rest) = Some (JObj ms, rest)"
        using ws False br_space st skip_starter [OF br_space st]
        by (simp add: render_obj k u skip_ws skip_head del: render.simps) (simp add: dquote_def)
    qed
  qed
qed (simp_all add: reads_null reads_bool reads_number reads_string)

lemma parse_render:
  assumes "json_ok j" and "list_all json_space fin"
  shows "parse_json (render br colon d j @ fin) = Some j"
proof -
  have "stop fin" using assms(2) stop_head by (cases fin) (auto simp: stop_def)
  then have "parse_value (2 * length (render br colon d j @ fin) + 2) ([] @ render br colon d j @ fin) = Some (j, fin)"
    by (intro reads_all [OF assms(1), unfolded reads_def, rule_format]) simp_all
  moreover have "skip_space fin = []" using assms(2) by (induction fin) (simp_all add: skip_space_def)
  ultimately show ?thesis by (simp only: parse_json_def append_Nil option.case prod.case if_True simp_thms)
qed

end

interpretation compact: layout "\<lambda>_. []" "'':''" "[]"
  by unfold_locales simp_all

interpretation indented: layout "\<lambda>d. CHR 0x0A # replicate (2 * d) (CHR '' '')" "'': ''" "'' ''"
  by unfold_locales (simp_all add: json_space_def list_all_iff)

section \<open>Printed integers\<close>

lemma digits_is_dig: "list_all is_dig (digits_of n)"
  by (induction n rule: digits_of.induct)
    (subst digits_of.simps, auto simp: is_dig_def list_all_iff)

lemma digits_of_head: "10 \<le> n \<Longrightarrow> hd (digits_of n) \<noteq> CHR ''0''"
proof (induction n rule: less_induct)
  case (less n)
  then show ?case
  proof (cases "n div 10 < 10")
    case True
    have "char_of (48 + n div 10) \<noteq> CHR ''0''"
    proof
      assume "char_of (48 + n div 10) = CHR ''0''"
      then have "byte_of (char_of (48 + n div 10) :: char) = byte_of (CHR ''0'')" by (rule arg_cong)
      with True less.prems show False by simp
    qed
    then show ?thesis
      using True less.prems by (subst digits_of.simps, subst digits_of.simps) auto
  next
    case False
    then have "hd (digits_of (n div 10)) \<noteq> CHR ''0''" using less by auto
    then show ?thesis using less.prems by (subst digits_of.simps) auto
  qed
qed

lemma scan_digits:
  assumes "stop rest"
  shows "scan_number (digits_of n @ rest) = Some (digits_of n, rest)"
proof -
  have all: "list_all is_dig (digits_of n)" by (rule digits_is_dig)
  have not: "rest = [] \<or> \<not> is_dig (hd rest)" using assms by (auto simp: stop_def)
  have take: "takeWhile is_dig (digits_of n @ rest) = digits_of n"
    using all not by (cases rest) (auto simp: list_all_iff takeWhile_append)
  have drop: "dropWhile is_dig (digits_of n @ rest) = rest"
    using all not by (cases rest) (auto simp: list_all_iff dropWhile_append)
  obtain c t where d: "digits_of n = c # t" by (cases "digits_of n") auto
  have c: "is_dig c" using all d by simp
  have int: "scan_int (digits_of n @ rest) = Some (digits_of n, rest)"
  proof (cases "10 \<le> n")
    case True
    then have "c \<noteq> CHR ''0''" using digits_of_head d by fastforce
    then show ?thesis using c d take drop by (simp add: scan_int_def take_digits_def)
  next
    case False
    then have "digits_of n = [char_of (48 + n)]" by (subst digits_of.simps) simp
    with c d take drop show ?thesis by (auto simp: scan_int_def take_digits_def)
  qed
  have frac: "scan_frac rest = Some ([], rest)" and exp: "scan_exp rest = Some ([], rest)"
    using assms by (cases rest; auto simp: scan_frac_def scan_exp_def stop_def)+
  have "c \<noteq> CHR ''-''" using c by (auto simp: is_dig_def)
  then show ?thesis using int frac exp d by (simp add: scan_number_def)
qed

lemma number_ok_Itoa: "number_ok (Itoa i)"
proof (cases "i < 0")
  case True
  have "scan_number (CHR ''-'' # digits_of (nat (- i)) @ rest) = Some (CHR ''-'' # digits_of (nat (- i)), rest)"
    if "stop rest" for rest
  proof -
    have not: "hd (digits_of (nat (- i))) \<noteq> CHR ''-''"
      using digits_is_dig [of "nat (- i)"] by (cases "digits_of (nat (- i))") (auto simp: is_dig_def)
    then show ?thesis
      using scan_digits [OF that, of "nat (- i)"]
      by (cases "digits_of (nat (- i))") (auto simp: scan_number_def split: option.splits)
  qed
  with True show ?thesis by (simp add: number_ok_def Itoa_def)
next
  case False
  have "is_dig (hd (digits_of (nat i)))"
    using digits_is_dig [of "nat i"] by (cases "digits_of (nat i)") auto
  with False show ?thesis by (simp add: number_ok_def Itoa_def scan_digits)
qed

lemma Atoi_Itoa:
  assumes "- (2 ^ 63) \<le> i" and "i < 2 ^ 63"
  shows "Atoi (Itoa i) = Some i"
proof -
  obtain c t where d: "digits_of (nat i) = c # t" by (cases "digits_of (nat i)") auto
  then have "is_dig c" using digits_is_dig [of "nat i"] by simp
  then have c: "c \<noteq> CHR ''-''" "c \<noteq> CHR ''+''" by (auto simp: is_dig_def)
  show ?thesis
  proof (cases "i < 0")
    case True
    with assms show ?thesis by (simp add: Atoi_def Itoa_def parse_digits_of)
  next
    case False
    then have "Itoa i = c # t" using d by (simp add: Itoa_def)
    moreover have "parse_digits 0 (c # t) = Some (nat i)" using parse_digits_of [of "nat i"] d by simp
    ultimately show ?thesis using False assms c by (simp add: Atoi_def)
  qed
qed

lemmas parse_Marshal = compact.parse_render [folded Marshal_def]

end
