(* ===== verification/Guard_Persist.thy ===== *)
theory Guard_Persist
  imports Guard_Store_Props Go_Json_Props
begin

text \<open>
  The round trips of the guard's documents. A decision appended to the trail and a state saved to
  the file come back as they were, for every text that is valid UTF-8, every counter that fits
  in 64 bits and every time stamp whose printed form parses back to it.
\<close>

section \<open>Decoding what was encoded\<close>

lemma json_field_append:
  "json_field dec name (ms @ ns) a = Option.bind (json_field dec name ms a) (json_field dec name ns)"
  by (induction ms arbitrary: a) (auto split: option.split)

lemma json_pointer_append:
  "json_pointer dec name (ms @ ns) a = Option.bind (json_pointer dec name ms a) (json_pointer dec name ns)"
  by (induction ms arbitrary: a) (auto split: option.split)

lemma json_field_omit:
  "json_field dec name (omit b k v) a = (if b then Some a else json_field dec name [(k, v)] a)"
  "json_pointer dec name (omit b k v) p = (if b then Some p else json_pointer dec name [(k, v)] p)"
  by (simp_all add: omit_def)

lemma json_field_omit_time:
  "json_field dec name (omit_time k t) a = (case t of None \<Rightarrow> Some a | Some x \<Rightarrow> json_field dec name [(k, enc_time x)] a)"
  "json_pointer dec name (omit_time k t) p = (case t of None \<Rightarrow> Some p | Some x \<Rightarrow> json_pointer dec name [(k, enc_time x)] p)"
  by (simp_all add: omit_time_def split: option.split)

definition time_ok :: "time \<Rightarrow> bool" where
  "time_ok t \<longleftrightarrow> ParseRFC3339 (FormatRFC3339Nano t) = Some t"

definition int64 :: "int \<Rightarrow> bool" where
  "int64 i \<longleftrightarrow> - (2 ^ 63) \<le> i \<and> i < 2 ^ 63"

lemma dec_enc_int: "int64 i \<Longrightarrow> dec_int (enc_int i) = Some i"
  by (simp add: dec_int_def enc_int_def Atoi_Itoa int64_def)

lemma dec_enc_time: "time_ok t \<Longrightarrow> dec_time (enc_time t) = Some t"
  by (simp add: dec_time_def enc_time_def time_ok_def)

lemma dec_strings_map [simp]: "dec_strings (JArr (map JStr xs)) = Some xs"
proof -
  have "dec_all (\<lambda>e. if e = JNull then Some [] else dec_string e) (map JStr xs) = Some xs"
    by (induction xs) (simp_all add: dec_string_def)
  then show ?thesis by (simp add: dec_strings_def)
qed

lemma dec_simps [simp]:
  "dec_string (JStr s) = Some s" "dec_bool (JBool b) = Some b" "dec_object (JObj ms) = Some ms"
  "enc_int i \<noteq> JNull" "enc_time t \<noteq> JNull"
  by (simp_all add: dec_string_def dec_bool_def dec_object_def enc_int_def enc_time_def)

definition decision_ok :: "Decision \<Rightarrow> bool" where
  "decision_ok d \<longleftrightarrow> time_ok (dec_Time d) \<and> int64 (dec_Streak d) \<and>
     list_all utf8_ok ([dec_Name d, dec_ProviderKey d, dec_Action d, dec_Baseline d, dec_Reason d] @ dec_Channels d)"

text \<open>The member names of the documents, compared without case.\<close>

lemma fold_lower:
  "list_all (\<lambda>c. 97 \<le> byte_of c \<and> byte_of c \<le> 122 \<or> c = CHR ''_'') s \<Longrightarrow> ToLower s = s"
  by (induction s) (auto simp: ToLower_def lower_char_def)

lemma fold_names:
  "list_all (\<lambda>c. 97 \<le> byte_of c \<and> byte_of c \<le> 122 \<or> c = CHR ''_'') s \<Longrightarrow>
   list_all (\<lambda>c. 97 \<le> byte_of c \<and> byte_of c \<le> 122 \<or> c = CHR ''_'') t \<Longrightarrow> EqualFold s t \<longleftrightarrow> s = t"
  by (simp add: EqualFold_def fold_lower)

lemma decision_roundtrip:
  assumes "decision_ok d"
  shows "dec_decision (enc_decision d) = Some d"
  using assms
  by (simp add: dec_decision_def enc_decision_def decision_ok_def json_field_append json_pointer_append
      json_field_omit json_field_omit_time fold_names dec_enc_int dec_enc_time list_of_def)

section \<open>Documents are well formed and stay on one line\<close>

lemma json_ok_members:
  "json_ok (JObj (m # ms)) \<longleftrightarrow> utf8_ok (fst m) \<and> json_ok (snd m) \<and> json_ok (JObj ms)"
  "json_ok (JObj (ms @ ns)) \<longleftrightarrow> json_ok (JObj ms) \<and> json_ok (JObj ns)"
  "json_ok (JObj (omit b k v)) \<longleftrightarrow> b \<or> utf8_ok k \<and> json_ok v"
  "json_ok (JObj (omit_time k t)) \<longleftrightarrow> (case t of None \<Rightarrow> True | Some x \<Rightarrow> utf8_ok k \<and> json_ok (enc_time x))"
  by (auto simp: omit_def omit_time_def split: option.split)

lemma digits_ascii: "list_all (\<lambda>c. byte_of c < 128 \<and> c \<noteq> CHR 0x0A) (digits_of n)"
  using digits_is_dig [of n] by (auto simp: list_all_iff is_dig_def)

lemma Itoa_ascii: "list_all (\<lambda>c. byte_of c < 128 \<and> c \<noteq> CHR 0x0A) (Itoa i)"
  using digits_ascii by (simp add: Itoa_def)

lemma pad_ascii: "list_all (\<lambda>c. byte_of c < 128) (pad n i)"
proof -
  have "list_all (\<lambda>c. byte_of c < 128) (Itoa i)" using Itoa_ascii [of i] by (auto simp: list_all_iff)
  then show ?thesis by (auto simp: pad_def Let_def list_all_iff)
qed

lemma time_ascii: "list_all (\<lambda>c. byte_of c < 128) (FormatRFC3339Nano t)"
proof -
  have frac: "list_all (\<lambda>c. byte_of c < 128) (FormatFraction t)"
    using pad_ascii [of 9 "t mod Second"]
    by (auto simp: FormatFraction_def Let_def list_all_iff dest: set_dropWhileD)
  have "list_all (\<lambda>c. byte_of c < 128) (FormatDate t)"
    using pad_ascii by (simp add: FormatDate_def FormatDays_def case_prod_beta Let_def)
  moreover have "list_all (\<lambda>c. byte_of c < 128) (FormatClock t)"
    using pad_ascii by (simp add: FormatClock_def Let_def)
  ultimately show ?thesis using frac by (simp add: FormatRFC3339Nano_def)
qed

lemma json_ok_enc [simp]: "json_ok (enc_int i)" "json_ok (enc_time t)"
  by (simp_all add: enc_int_def enc_time_def number_ok_Itoa utf8_ok_ascii time_ascii)

lemma utf8_name: "list_all (\<lambda>c. 97 \<le> byte_of c \<and> byte_of c \<le> 122 \<or> c = CHR ''_'') s \<Longrightarrow> utf8_ok s"
  by (intro utf8_ok_ascii) (auto simp: list_all_iff)

lemma decision_document_ok: "decision_ok d \<Longrightarrow> json_ok (enc_decision d)"
  by (simp add: enc_decision_def decision_ok_def json_ok_members utf8_name list_all_iff del: json_ok.simps(4))
    (simp add: utf8_name list_all_iff omit_def)

text \<open>The compact printer writes no line break.\<close>

lemma hex_char_line: "n < 16 \<Longrightarrow> hex_char n \<noteq> CHR 0x0A \<and> CHR 0x0A \<noteq> hex_char n"
proof -
  assume n: "n < 16"
  have "hex_char n \<noteq> CHR 0x0A"
  proof
    assume "hex_char n = CHR 0x0A"
    then have "byte_of (hex_char n) = 10" by simp
    with n show False by (auto simp: hex_char_def split: if_splits)
  qed
  then show ?thesis by metis
qed

lemma escape_ascii_line: "byte_of c < 128 \<Longrightarrow> CHR 0x0A \<notin> set (escape_ascii c)"
  by (auto simp: escape_ascii_def bslash_def dquote_def byte_controls hex_char_line)

lemma rune_bytes_high:
  assumes "2 \<le> rune_size s" and "x \<in> set (take (rune_size s) s)"
  shows "128 \<le> byte_of x"
proof -
  obtain a r where s: "s = a # r" using assms(1) by (cases s) (auto simp: rune_size_def)
  have len: "rune_size s \<le> Suc (length r)" using rune_size_bounds(2) [of s] s by simp
  consider "rune_size s = 2" | "rune_size s = 3" | "rune_size s = 4"
    using assms(1) rune_size_le [of s] by linarith
  then show ?thesis
  proof cases
    case 1
    with len obtain b r1 where r: "r = b # r1" by (cases r) auto
    with 1 assms(2) have "x = a \<or> x = b" by (auto simp: s)
    with 1 show ?thesis by (auto simp: s r rune_size_def Let_def cont_byte_def split: if_split_asm)
  next
    case 2
    with len obtain b c r1 where r: "r = b # c # r1" by (cases r; cases "tl r") auto
    with 2 assms(2) have "x = a \<or> x = b \<or> x = c" by (auto simp: s)
    with 2 show ?thesis by (auto simp: s r rune_size_def Let_def cont_byte_def split: if_split_asm)
  next
    case 3
    with len obtain b c e r1 where r: "r = b # c # e # r1"
      by (cases r; cases "tl r"; cases "tl (tl r)") auto
    with 3 assms(2) have "x = a \<or> x = b \<or> x = c \<or> x = e" by (auto simp: s)
    with 3 show ?thesis by (auto simp: s r rune_size_def Let_def cont_byte_def split: if_split_asm)
  qed
qed

lemma escape_line: "utf8_ok s \<Longrightarrow> CHR 0x0A \<notin> set (escape s)"
proof (induction s rule: escape.induct)
  case (1 s)
  show ?case
  proof (cases s)
    case (Cons c r)
    show ?thesis
    proof (cases "byte_of c < 128")
      case True
      then show ?thesis
        using 1(1) [OF Cons True] 1(6) Cons escape_ascii_line [OF True] by (simp add: escape_plain utf8_ok.simps)
    next
      case False
      have two: "2 \<le> rune_size s" and ok: "utf8_ok (drop (rune_size s) s)"
        using 1(6) Cons False rune_size_bounds(1) [of s] by (auto simp: utf8_ok.simps [of "c # r"])
      have ne: "rune_size s \<noteq> 1" using two by simp
      have high: "CHR 0x0A \<notin> set (take (rune_size s) s)" using rune_bytes_high [OF two] by fastforce
      have k3: "rune_size s = 3" if "take 3 s = [CHR 0xE2, CHR 0x80, x]" "128 \<le> byte_of x" "byte_of x \<le> 191" for x
      proof -
        have s3: "s = CHR 0xE2 # CHR 0x80 # x # drop 3 s" by (metis that(1) append_Cons append_Nil append_take_drop_id)
        show ?thesis using that(2,3) by (subst s3) (simp add: rune_size_def cont_byte_def)
      qed
      show ?thesis
        using 1(3) [OF Cons False ne] 1(4) [OF Cons False ne] 1(5) [OF Cons False ne] ok high Cons False ne
          k3 [of "CHR 0xA8"] k3 [of "CHR 0xA9"]
        by (subst escape.simps) (auto simp: bslash_def)
    qed
  qed (simp add: escape.simps)
qed

fun one_line :: "json \<Rightarrow> bool" where
  "one_line (JNum n) = (CHR 0x0A \<notin> set n)"
| "one_line (JArr js) = (\<forall>j \<in> set js. one_line j)"
| "one_line (JObj ms) = (\<forall>(k, v) \<in> set ms. one_line v)"
| "one_line _ = True"

lemma separated_set: "set (separated sep ps) \<subseteq> set sep \<union> \<Union> (set ` set ps)"
  by (cases ps) (auto simp: separated_def)

lemma json_string_line: "utf8_ok s \<Longrightarrow> CHR 0x0A \<notin> set (json_string s)"
  using escape_line by (simp add: json_string_def dquote_def)

lemma Marshal_line: "json_ok j \<Longrightarrow> one_line j \<Longrightarrow> CHR 0x0A \<notin> set (render (\<lambda>_. []) '':'' d j)"
proof (induction j arbitrary: d)
  case (JArr js)
  have "CHR 0x0A \<notin> \<Union> (set ` set (map (render (\<lambda>_. []) '':'' (Suc d)) js))" using JArr by auto
  then show ?case using separated_set [of "'',''" "map (render (\<lambda>_. []) '':'' (Suc d)) js"] by auto
next
  case (JObj ms)
  let ?m = "\<lambda>(k, v). json_string k @ '':'' @ render (\<lambda>_. []) '':'' (Suc d) v"
  have "CHR 0x0A \<notin> \<Union> (set ` set (map ?m ms))"
    using JObj json_string_line by (fastforce simp: snds.simps)
  then show ?case using separated_set [of "'',''" "map ?m ms"] by auto
qed (auto simp: json_string_line)

lemma audit_line_ok: "decision_ok d \<Longrightarrow> CHR 0x0A \<notin> set (audit_line d)"
proof -
  assume ok: "decision_ok d"
  have "CHR 0x0A \<notin> set (Itoa i)" for i using Itoa_ascii [of i] by (auto simp: list_all_iff)
  then have "one_line (enc_decision d)"
    by (auto simp: enc_decision_def omit_def enc_int_def enc_time_def)
  with decision_document_ok [OF ok] show ?thesis by (simp add: audit_line_def Marshal_def Marshal_line)
qed

section \<open>The audit trail\<close>

lemma TrimSpace_object:
  "TrimSpace (CHR 0x7B # s @ [CHR 0x7D]) = CHR 0x7B # s @ [CHR 0x7D]"
proof -
  have "lead_space (CHR 0x7B # s @ [CHR 0x7D]) = 0"
    by (cases "CHR 0x7B # s @ [CHR 0x7D]" rule: lead_space.cases)
      (auto simp: ascii_space_def space2_def space3_def)
  moreover have "tail_space (CHR 0x7D # rev s @ [CHR 0x7B]) = 0"
    by (cases "CHR 0x7D # rev s @ [CHR 0x7B]" rule: tail_space.cases)
      (auto simp: ascii_space_def space2_def space3_def visible_no_space)
  ultimately show ?thesis
    by (simp add: TrimSpace_def TrimLeftSpace_def TrimRightSpace_def strip_fixed)
qed


lemma Marshal_object:
  assumes "ms \<noteq> []"
  shows "\<exists>s. Marshal (JObj ms) = CHR 0x7B # s @ [CHR 0x7D]"
  using assms by (simp add: Marshal_def)

lemma audit_line_decodes:
  assumes "decision_ok d"
  shows "decode_line (audit_line d) = Some d"
proof -
  have "\<exists>ms. enc_decision d = JObj ms \<and> ms \<noteq> []" by (simp add: enc_decision_def)
  then obtain s where s: "audit_line d = CHR 0x7B # s @ [CHR 0x7D]"
    using Marshal_object by (metis audit_line_def)
  have "parse_json (Marshal (enc_decision d) @ []) = Some (enc_decision d)"
    unfolding Marshal_def by (rule compact.parse_render) (use assms decision_document_ok in simp_all)
  then show ?thesis
    using decision_roundtrip [OF assms] TrimSpace_object [of s] s
    by (simp add: decode_line_def audit_line_def [symmetric])
qed

text \<open>C10: The audit trail is read back faithfully. After any sequence of decisions has been appended
  to an empty trail, RecentAudit with a positive limit returns exactly the newest limit of them,
  oldest first, each equal in every field to the decision that was recorded. The decisions are
  any with valid UTF-8 texts, a 64-bit streak, a printable time stamp and a line shorter than
  the reader's buffer of one mebibyte.\<close>

theorem audit_trail_reads_back:
  assumes "0 < limit" and "list_all decision_ok ds"
    and "list_all (\<lambda>x. length (audit_line x) < audit_line_max) ds" and "d AuditFileName = None"
  shows "RecentAudit (\<lambda>_. False) limit (append_all ds d) = Inr (lastn (nat limit) ds)"
proof (rule audit_readable)
  show "list_all readable ds"
    using assms(2,3) audit_line_ok audit_line_decodes by (auto simp: list_all_iff readable_def)
qed (use assms in simp_all)

text \<open>A bound on the length of a compact document: no byte is escaped to more than six.\<close>

fun json_bound :: "json \<Rightarrow> nat" where
  "json_bound JNull = 4"
| "json_bound (JBool b) = 5"
| "json_bound (JNum n) = length n"
| "json_bound (JStr s) = 6 * length s + 2"
| "json_bound (JArr js) = 2 + (\<Sum>j\<leftarrow>js. Suc (json_bound j))"
| "json_bound (JObj ms) = 2 + (\<Sum>(k, v)\<leftarrow>ms. 6 * length k + 4 + json_bound v)"

lemma escape_bound: "length (escape s) \<le> 6 * length s"
proof (induction s rule: escape.induct)
  case (1 s)
  show ?case
  proof (cases s)
    case (Cons c r)
    have a: "length (escape_ascii c) \<le> 6" by (simp add: escape_ascii_def)
    have r: "1 \<le> rune_size s" "rune_size s \<le> length s" using rune_size_bounds [of s] Cons by auto
    show ?thesis using 1 a r Cons by (subst escape.simps) (auto simp: Let_def)
  qed (simp add: escape.simps)
qed

lemma separated_bound: "length (separated '','' ps) \<le> (\<Sum>p\<leftarrow>ps. Suc (length p))"
  by (cases ps) (simp_all add: separated_def length_concat o_def)

lemma render_bound: "length (render (\<lambda>_. []) '':'' d j) \<le> json_bound j"
proof (induction j arbitrary: d)
  case (JStr s)
  then show ?case using escape_bound [of s] by (simp add: json_string_def)
next
  case (JArr js)
  let ?r = "\<lambda>j. render (\<lambda>_. []) '':'' (Suc d) j"
  have "(\<Sum>j\<leftarrow>js. Suc (length (?r j))) \<le> (\<Sum>j\<leftarrow>js. Suc (json_bound j))"
    by (rule sum_list_mono) (use JArr in simp)
  then show ?case using separated_bound [of "map ?r js"] by (simp add: o_def)
next
  case (JObj ms)
  let ?r = "\<lambda>(k, v). json_string k @ '':'' @ render (\<lambda>_. []) '':'' (Suc d) v"
  have one: "Suc (length (?r m)) \<le> (\<lambda>(k, v). 6 * length k + 4 + json_bound v) m" if "m \<in> set ms" for m
  proof -
    have "length (render (\<lambda>_. []) '':'' (Suc d) (snd m)) \<le> json_bound (snd m)"
      using JObj [of m "snd m" "Suc d"] that by (simp add: snds.simps)
    then show ?thesis using escape_bound [of "fst m"] by (simp add: case_prod_beta json_string_def)
  qed
  have "(\<Sum>m\<leftarrow>ms. Suc (length (?r m))) \<le> (\<Sum>(k, v)\<leftarrow>ms. 6 * length k + 4 + json_bound v)"
    by (rule sum_list_mono) (rule one)
  then show ?case using separated_bound [of "map ?r ms"] by (simp add: o_def)
qed simp_all

lemma Marshal_bound: "length (Marshal j) \<le> json_bound j"
  by (simp add: Marshal_def render_bound)

definition ex_dcn :: "string \<Rightarrow> Decision" where
  "ex_dcn k = \<lparr>dec_Time = 0, dec_Name = k, dec_ProviderKey = k, dec_Action = ActionDisable,
     dec_Streak = 3, dec_Baseline = [], dec_Channels = [''x''], dec_Reason = ''r''\<rparr>"

lemma ex_time: "time_ok 0"
  by code_simp

lemma ex_time_text: "length (FormatRFC3339Nano 0) = 20"
  by code_simp

lemma ex_dcn_ok: "list_all decision_ok [ex_dcn ''a'', ex_dcn ''b'', ex_dcn ''c'']"
  by (simp add: decision_ok_def ex_dcn_def ex_time int64_def utf8_ok_ascii ActionDisable_def)

lemma ex_dcn_length: "length k = 1 \<Longrightarrow> length (audit_line (ex_dcn k)) \<le> 1000"
proof -
  assume "length k = 1"
  then have "json_bound (enc_decision (ex_dcn k)) \<le> 1000"
    by (simp add: enc_decision_def ex_dcn_def omit_def enc_int_def enc_time_def ex_time_text
        ActionDisable_def Itoa_def digits_of.simps)
  then show ?thesis using Marshal_bound [of "enc_decision (ex_dcn k)"] by (simp add: audit_line_def)
qed

theorem audit_trail_reads_back_witness:
  "RecentAudit (\<lambda>_. False) 2 (append_all [ex_dcn ''a'', ex_dcn ''b'', ex_dcn ''c''] Map.empty) =
     Inr [ex_dcn ''b'', ex_dcn ''c'']"
  using audit_trail_reads_back [OF _ ex_dcn_ok, of 2 Map.empty]
    ex_dcn_length [of "''a''"] ex_dcn_length [of "''b''"] ex_dcn_length [of "''c''"]
  by (simp add: lastn_def audit_line_max_def)

section \<open>The state file\<close>








lemma enc_account_not_null [simp]: "enc_account a \<noteq> JNull"
  by (simp add: enc_account_def)











end
