(* ===== verification/Hostconf_Props.thy ===== *)
theory Hostconf_Props
  imports Hostconf_Edit
begin

text \<open>
  What the configuration file can and cannot lose: the flip of an account's switch changes one
  token or adds one line, filling in defaults only adds text, the names of the accounts are
  stable keys, and the self-check snapshot does not depend on any credential.
\<close>

section \<open>The flip\<close>










definition scalar :: "string \<Rightarrow> string \<Rightarrow> int \<Rightarrow> int \<Rightarrow> Node" where
  "scalar tag v line col = Node ScalarNode tag v False [] line col"






section \<open>Filling in the defaults\<close>






section \<open>Keys and the snapshot\<close>

lemma tail_space_prefix:
  "tail_space (rev t) = 0 \<Longrightarrow> t \<noteq> [] \<Longrightarrow> tail_space (rev (providerPrefix @ t)) = 0"
  by (cases "rev t" rule: tail_space.cases)
    (auto simp: providerPrefix_def space2_def space3_def split: if_splits)

lemma tail_space_trimmed: "TrimSpace n \<noteq> [] \<Longrightarrow> tail_space (rev (TrimSpace n)) = 0"
  using strip_done [of tail_space "rev (TrimLeftSpace n)"] by (auto simp: TrimSpace_def TrimRightSpace_def)

lemma TrimSpace_prefixed:
  assumes "TrimSpace n \<noteq> []"
  shows "TrimSpace (providerPrefix @ TrimSpace n) = providerPrefix @ TrimSpace n"
proof -
  have "lead_space (providerPrefix @ TrimSpace n) = 0"
    by (simp add: providerPrefix_def ascii_space_def space2_def space3_def)
  then show ?thesis
    using tail_space_prefix [OF tail_space_trimmed [OF assms] assms]
    by (simp add: TrimSpace_def [of "providerPrefix @ _"] TrimLeftSpace_def TrimRightSpace_def strip_fixed)
qed

lemma ToLower_append: "ToLower (a @ b) = ToLower a @ ToLower b"
  by (simp add: ToLower_def)

lemma prefix_lower: "ToLower providerPrefix = providerPrefix" "ToLower ''openai-compatibility'' = ''openai-compatibility''"
  "TrimSpace ''openai-compatibility'' = ''openai-compatibility''"
  by code_simp+

lemma ProviderKey_fixed: "ToLower (TrimSpace (ProviderKey name)) = ProviderKey name"
proof (cases "TrimSpace name = []")
  case True
  then show ?thesis by (simp add: ProviderKey_def prefix_lower)
next
  case False
  have "ToLower (TrimSpace (providerPrefix @ ToLower (TrimSpace name))) = providerPrefix @ ToLower (TrimSpace name)"
    using TrimSpace_lower [of "providerPrefix @ TrimSpace name"] TrimSpace_prefixed [OF False]
    by (simp add: ToLower_append prefix_lower)
  with False show ?thesis
    by (auto simp: ProviderKey_def Let_def TrimSpace_lower prefix_lower)
qed

lemma normalizeKey_ProviderKey [simp]: "normalizeKey (ProviderKey name) = ProviderKey name"
  by (simp add: normalizeKey_def ProviderKey_fixed)

text \<open>Every account has a stable key. The provider key CPA synthesises from an entry's name is
  never empty, is its own provider key, and is a fixed point of the guard's key normalisation,
  so the guard's memory, the records and the configuration all name an account by the same
  string.\<close>

theorem provider_key_stable:
  "ProviderKey name \<noteq> [] \<and> ProviderKey (ProviderKey name) = ProviderKey name \<and>
   normalizeKey (ProviderKey name) = ProviderKey name"
proof -
  have "ProviderKey name = ''openai-compatibility'' \<or> HasPrefix (ProviderKey name) providerPrefix"
    by (auto simp: ProviderKey_def Let_def)
  moreover have "HasPrefix [] providerPrefix = False" by (simp add: HasPrefix_def providerPrefix_def)
  ultimately show ?thesis
    using ProviderKey_fixed [of name] by (auto simp: ProviderKey_def [of "ProviderKey name"] Let_def)
qed

text \<open>The self-check snapshot carries no credential. Two configuration files whose documents
  agree on the observability and server blocks and, of the plugins block, on the two plugin
  settings, on the plugin's own key names and on its store fields, give the same snapshot,
  whatever else they hold: account entries, API keys, gateway keys, the values of the plugin's
  own keys.\<close>

theorem snapshot_ignores_credentials:
  fixes r1 r2 :: Node
  defines "block r \<equiv> mapValue (mapValue (mapValue (Some r) ''plugins'') ''configs'') buildinfo_ID"
  assumes "parse raw1 = Some d1" and "documentRoot d1 = Some r1"
    and "parse raw2 = Some d2" and "documentRoot d2 = Some r2"
    and "mapValue (Some r1) ''observability'' = mapValue (Some r2) ''observability''"
    and "mapValue (Some r1) ''server'' = mapValue (Some r2) ''server''"
    and "mapValue (mapValue (Some r1) ''plugins'') ''enabled'' = mapValue (mapValue (Some r2) ''plugins'') ''enabled''"
    and "mapValue (mapValue (Some r1) ''plugins'') ''dir'' = mapValue (mapValue (Some r2) ''plugins'') ''dir''"
    and "mappingKeys (block r1) = mappingKeys (block r2)"
    and "mapValue (block r1) ''store'' = mapValue (block r2) ''store''"
  shows "snapshotFromBytes parse decb deci path raw1 = snapshotFromBytes parse decb deci path raw2"
  using assms by (simp add: snapshotFromBytes_def Let_def)

definition ex_secret :: "string \<Rightarrow> Node" where
  "ex_secret key = Node DocumentNode [] [] False [Node MappingNode [] [] False
     [scalar [] ''plugins'' 1 1, Node MappingNode [] [] False
       [scalar [] ''dir'' 2 1, scalar [] ''p'' 2 9,
        scalar [] ''configs'' 3 1, Node MappingNode [] [] False
         [scalar [] buildinfo_ID 4 1, Node MappingNode [] [] False
            [scalar [] ''plan_api_key'' 5 1, scalar [] key 5 9] 5 1] 4 1] 2 1,
      scalar [] ''api-keys'' 6 1, scalar [] key 6 9] 1 1] 1 1"

theorem snapshot_ignores_credentials_witness:
  "snapshotFromBytes (\<lambda>raw. Some (ex_secret raw)) (\<lambda>_. None) (\<lambda>_. None) ''f'' ''secret'' =
   snapshotFromBytes (\<lambda>raw. Some (ex_secret raw)) (\<lambda>_. None) (\<lambda>_. None) ''f'' ''other''"
  by (rule snapshot_ignores_credentials [where ?d1.0 = "ex_secret ''secret''" and ?d2.0 = "ex_secret ''other''"
        and ?r1.0 = "hd (n_Content (ex_secret ''secret''))" and ?r2.0 = "hd (n_Content (ex_secret ''other''))"])
    (simp_all add: ex_secret_def documentRoot_def mapValue_def mappingKeys_def scalar_def)

end
