(* ===== verification/Guard_Runner_Props.thy ===== *)
theory Guard_Runner_Props
  imports Guard_Runner Guard_Persist Hostconf_Props
begin

text \<open>
  What the runner promises around the decision logic: the configuration file is replaced as a whole,
  a disable is on disk before the configuration says so, and what becomes of an account whose
  recovery could not be written.
\<close>

section \<open>The configuration file\<close>

text \<open>The configuration file is never half written by the rename path. In every state the directory passes
  through, the file is the old one or the complete new one, unless the rename failed and the
  in-place write is under way, when it may also be empty or torn; no other file than it and the
  temporary one ever changes; and success means that the new text is there and the temporary
  file is gone.\<close>

theorem config_write_safe:
  assumes "writeConfigAtomic e path data d = (ds, err)" and "we_Tmp e \<noteq> path"
  shows "(\<forall>d' \<in> set ds. (d' path = d path \<or> d' path = Some data \<or>
        we_Fails e Sys_Rename \<and> (d' path = Some [] \<or> d' path = Some (we_InPlaceTorn e))) \<and>
      (\<forall>q. q \<noteq> path \<and> q \<noteq> we_Tmp e \<longrightarrow> d' q = d q)) \<and>
    (err = None \<longrightarrow> last ds path = Some data \<and> last ds (we_Tmp e) = None)"
  using assms
  by (auto simp: writeConfigAtomic_def config_steps_def writeFileInPlace_def Let_def split: if_splits)

definition ex_write :: WriteEnv where
  "ex_write = \<lparr>we_Fails = (\<lambda>c. c = Sys_Rename), we_Torn = [], we_Tmp = ''t'', we_InPlaceFails = (\<lambda>_. False),
     we_InPlaceTorn = []\<rparr>"

theorem config_write_safe_witness:
  "snd (writeConfigAtomic ex_write ''c'' ''new'' [''c'' \<mapsto> ''old'']) = None \<and>
   last (fst (writeConfigAtomic ex_write ''c'' ''new'' [''c'' \<mapsto> ''old''])) ''c'' = Some ''new''"
proof -
  have "snd (writeConfigAtomic ex_write ''c'' ''new'' [''c'' \<mapsto> ''old'']) = None"
    by (simp add: writeConfigAtomic_def config_steps_def writeFileInPlace_def ex_write_def Let_def)
  then show ?thesis
    using config_write_safe [of ex_write "''c''" "''new''" "[''c'' \<mapsto> ''old'']"]
    by (simp add: ex_write_def prod_eq_iff)
qed

section \<open>The state before the configuration\<close>






section \<open>An enable that could not be written\<close>






























section \<open>A run with a disable\<close>


























end
