(* ===== verification/Channel_Parse_Props.thy ===== *)
theory Channel_Parse_Props
  imports Channel_Parse
begin

text \<open>
  What a fact says about its file. The section machine is compared with a reference that cuts the
  file into sections first and reads each response section on its own; the only line that can
  make it panic is found; and the lines that cannot influence the channel are named.
\<close>

section \<open>Reference: the sections of a file\<close>

fun sections :: "sectionKind \<Rightarrow> string list \<Rightarrow> (sectionKind \<times> string list) list" where
  "sections k [] = [(k, [])]"
| "sections k (l # ls) =
     (case section_name l of
        Inr (Some name) \<Rightarrow> (k, []) # sections (classify name) ls
      | _ \<Rightarrow> (k, l # snd (hd (sections k ls))) # tl (sections k ls))"

definition read_frame :: "responseSection \<Rightarrow> string \<Rightarrow> responseSection" where
  "read_frame r line = (case decode_payload line of None \<Rightarrow> r | Some f \<Rightarrow> take_frame f r)"

definition read_section :: "string list \<Rightarrow> responseSection" where
  "read_section ls = foldl read_frame new_response ls"

text \<open>The response sections of a file, in order, and the ones that carry a routing block.\<close>

definition answers :: "string list \<Rightarrow> responseSection list" where
  "answers ls = map (read_section \<circ> snd)
     (filter (\<lambda>s. fst s = sectionResponse) (tl (sections sectionOther ls)))"

definition routed :: "string list \<Rightarrow> responseSection list" where
  "routed ls = filter rs_found (answers ls)"

lemma sections_nonempty [simp]: "sections k ls \<noteq> []"
  by (cases ls) (auto split: sum.split option.split)

lemma fst_hd_sections [simp]: "fst (hd (sections k ls)) = k"
  by (cases ls) (auto split: sum.split option.split)

section \<open>The machine agrees with the reference\<close>

definition parser_wf :: "parser \<Rightarrow> bool" where
  "parser_wf p \<longleftrightarrow> (ps_section p = sectionResponse \<longleftrightarrow> ps_response p \<noteq> None)"

lemma new_parser_wf [simp]: "parser_wf (new_parser name t)"
  by (simp add: parser_wf_def new_parser_def)

lemma open_section_wf: "parser_wf (open_section k p)"
  by (cases k) (simp_all add: parser_wf_def open_section_def closeResponse_def Let_def split: option.split)

lemma infoLine_frame:
  "ps_section (infoLine l p) = ps_section p" "ps_response (infoLine l p) = ps_response p"
  "ps_best (infoLine l p) = ps_best p" "ps_lastFrames (infoLine l p) = ps_lastFrames p"
  "ps_attempts (infoLine l p) = ps_attempts p" "ps_hadError (infoLine l p) = ps_hadError p"
  by (auto simp: infoLine_def split: option.split)

lemma headerLine_frame:
  "ps_section (headerLine l p) = ps_section p" "ps_response (headerLine l p) = ps_response p"
  "ps_best (headerLine l p) = ps_best p" "ps_lastFrames (headerLine l p) = ps_lastFrames p"
  "ps_attempts (headerLine l p) = ps_attempts p" "ps_hadError (headerLine l p) = ps_hadError p"
  by (auto simp: headerLine_def split: option.split)

lemma frameLine_wf:
  assumes "ps_response p = Some r"
  shows "frameLine l p = Inr (p\<lparr>ps_response := Some (read_frame r l)\<rparr>)"
  using assms by (cases "decode_payload l") (simp_all add: frameLine_def read_frame_def)

text \<open>The three ways a line is taken: a new section, a frame of a response, anything else.\<close>

lemma parse_line_cases:
  assumes "parser_wf p"
  obtains (panic) "section_name l = Inl Slice_out_of_range" "parse_line l p = Inl Slice_out_of_range"
  | (header) name where "section_name l = Inr (Some name)" "parse_line l p = Inr (open_section (classify name) p)"
  | (frame) r where "section_name l = Inr None" "ps_section p = sectionResponse" "ps_response p = Some r"
      "parse_line l p = Inr (p\<lparr>ps_response := Some (read_frame r l)\<rparr>)"
  | (other) q where "section_name l = Inr None" "ps_section p \<noteq> sectionResponse" "parse_line l p = Inr q"
      "ps_section q = ps_section p" "ps_response q = ps_response p" "ps_best q = ps_best p"
      "ps_lastFrames q = ps_lastFrames p"
proof (cases "section_name l")
  case (Inl e)
  then have "e = Slice_out_of_range" by (auto simp: section_name_def Let_def split: if_splits)
  with Inl panic show thesis by (simp add: parse_line_def)
next
  case (Inr n)
  show thesis
  proof (cases n)
    case (Some name)
    with Inr header show thesis by (simp add: parse_line_def)
  next
    case None
    show thesis
    proof (cases "ps_section p = sectionResponse")
      case True
      with assms obtain r where "ps_response p = Some r" by (auto simp: parser_wf_def)
      with True Inr None frame show thesis by (simp add: parse_line_def frameLine_wf)
    next
      case False
      with Inr None show thesis
        by (cases "ps_section p")
          (auto simp: parse_line_def infoLine_frame headerLine_frame intro: other)
    qed
  qed
qed

definition opt_list :: "'a option \<Rightarrow> 'a list" where
  "opt_list x = (case x of None \<Rightarrow> [] | Some a \<Rightarrow> [a])"

lemma opt_list_simps [simp]: "opt_list None = []" "opt_list (Some a) = [a]"
  by (simp_all add: opt_list_def)

text \<open>The responses the machine will have closed: the open one first, then one per later section.\<close>

definition pending_answers :: "parser \<Rightarrow> string list \<Rightarrow> responseSection list" where
  "pending_answers p ls =
     (let ss = sections (ps_section p) ls in
      map (\<lambda>r. foldl read_frame r (snd (hd ss))) (opt_list (ps_response p)) @
      map (read_section \<circ> snd) (filter (\<lambda>s. fst s = sectionResponse) (tl ss)))"

definition last_opt :: "'a list \<Rightarrow> 'a option" where
  "last_opt xs = (if xs = [] then None else Some (last xs))"

lemma last_opt_append: "last_opt (xs @ ys) = (if ys = [] then last_opt xs else last_opt ys)"
  by (simp add: last_opt_def)

lemma closeResponse_best:
  "ps_best (closeResponse p) = last_opt (opt_list (ps_best p) @ filter rs_found (opt_list (ps_response p)))"
  by (cases "ps_response p"; cases "ps_best p") (auto simp: closeResponse_def last_opt_def)

lemma open_section_best: "ps_best (open_section k p) = ps_best (closeResponse p)"
  by (cases k) (simp_all add: open_section_def Let_def)

lemma open_section_state:
  "ps_section (open_section k p) = k"
  "ps_response (open_section k p) = (if k = sectionResponse then Some new_response else None)"
  by (cases k; simp add: open_section_def closeResponse_def Let_def split: option.split)+

lemma pending_open:
  assumes "section_name l = Inr (Some name)"
  shows "pending_answers p (l # ls) = opt_list (ps_response p) @ pending_answers (open_section (classify name) p) ls"
proof -
  obtain s ss where s: "sections (classify name) ls = s # ss" by (cases "sections (classify name) ls") auto
  then have "fst s = classify name" by (metis fst_hd_sections list.sel(1))
  with s assms show ?thesis
    by (cases "ps_response p")
      (simp_all add: pending_answers_def open_section_state read_section_def)
qed

lemma machine_best:
  assumes "parse_lines ls p = Inr q" and "parser_wf p"
  shows "ps_best (closeResponse q) = last_opt (opt_list (ps_best p) @ filter rs_found (pending_answers p ls))"
  using assms
proof (induction ls arbitrary: p)
  case Nil
  then show ?case by (cases "ps_response p") (simp_all add: closeResponse_best pending_answers_def)
next
  case (Cons l ls)
  from Cons.prems(2) show ?case
  proof (cases rule: parse_line_cases [where l = l])
    case panic
    with Cons.prems(1) show ?thesis by simp
  next
    case (header name)
    let ?o = "open_section (classify name) p"
    have "ps_best (closeResponse q) = last_opt (opt_list (ps_best ?o) @ filter rs_found (pending_answers ?o ls))"
      using Cons.prems(1) header by (intro Cons.IH open_section_wf) simp
    then show ?thesis
      using pending_open [OF header(1), of p ls]
      by (cases "ps_response p"; cases "ps_best p")
        (auto simp: open_section_best closeResponse_best last_opt_def)
  next
    case (frame r)
    let ?p = "p\<lparr>ps_response := Some (read_frame r l)\<rparr>"
    have "ps_best (closeResponse q) = last_opt (opt_list (ps_best ?p) @ filter rs_found (pending_answers ?p ls))"
      using Cons.prems frame by (intro Cons.IH) (simp_all add: parser_wf_def)
    then show ?thesis using frame by (simp add: pending_answers_def Let_def)
  next
    case (other p')
    have "ps_best (closeResponse q) = last_opt (opt_list (ps_best p') @ filter rs_found (pending_answers p' ls))"
      using Cons.prems other by (intro Cons.IH) (simp_all add: parser_wf_def)
    moreover have "ps_response p = None" using other Cons.prems(2) by (simp add: parser_wf_def)
    ultimately show ?thesis using other by (simp add: pending_answers_def Let_def)
  qed
qed

lemma machine_attempts:
  assumes "parse_lines ls p = Inr q" and "parser_wf p"
  shows "ps_attempts q = ps_attempts p + int (length (filter (\<lambda>s. fst s = sectionResponse \<or> fst s = sectionErrorResponse)
      (tl (sections (ps_section p) ls))))"
  using assms
proof (induction ls arbitrary: p)
  case (Cons l ls)
  show ?case
    using Cons.prems(2)
  proof (cases rule: parse_line_cases [where l = l])
    case panic
    with Cons.prems(1) show ?thesis by simp
  next
    case (header name)
    let ?o = "open_section (classify name) p"
    obtain s ss where s: "sections (classify name) ls = s # ss" by (cases "sections (classify name) ls") auto
    then have k: "fst s = classify name" by (metis fst_hd_sections list.sel(1))
    have "ps_attempts ?o = ps_attempts p +
        (if classify name = sectionResponse \<or> classify name = sectionErrorResponse then 1 else 0)"
      by (cases "classify name") (simp_all add: open_section_def closeResponse_def Let_def split: option.split)
    moreover have "ps_attempts q = ps_attempts ?o + int (length (filter
        (\<lambda>s. fst s = sectionResponse \<or> fst s = sectionErrorResponse) (tl (sections (ps_section ?o) ls))))"
      using Cons.prems(1) header by (intro Cons.IH open_section_wf) simp
    ultimately show ?thesis using header s k by (simp add: open_section_state)
  next
    case (frame r)
    let ?p = "p\<lparr>ps_response := Some (read_frame r l)\<rparr>"
    have "ps_attempts q = ps_attempts ?p + int (length (filter
        (\<lambda>s. fst s = sectionResponse \<or> fst s = sectionErrorResponse) (tl (sections (ps_section ?p) ls))))"
      using Cons.prems frame by (intro Cons.IH) (simp_all add: parser_wf_def)
    then show ?thesis using frame by simp
  next
    case (other p')
    have "ps_attempts p' = ps_attempts p"
      using other(1,3) by (cases "ps_section p")
        (auto simp: parse_line_def infoLine_frame headerLine_frame frameLine_def split: option.splits)
    moreover have "ps_attempts q = ps_attempts p' + int (length (filter
        (\<lambda>s. fst s = sectionResponse \<or> fst s = sectionErrorResponse) (tl (sections (ps_section p') ls))))"
      using Cons.prems other by (intro Cons.IH) (simp_all add: parser_wf_def)
    ultimately show ?thesis using other by simp
  qed
qed simp

section \<open>Facts\<close>

definition same_channel :: "Fact \<Rightarrow> responseSection \<Rightarrow> bool" where
  "same_channel f a \<longleftrightarrow> (let r = rs_routing a in
     fc_FinalProvider f = rt_finalProvider r \<and> fc_ResolvedProvider f = rt_resolvedProvider r \<and>
     fc_CanonicalSlug f = rt_canonicalSlug r \<and> fc_OriginalModelID f = rt_originalModelID r \<and>
     fc_PinnedProvider f = rt_pinnedProvider r \<and> fc_AffinityOutcome f = rt_affinityOutcome r \<and>
     fc_ModelAttemptCount f = rt_modelAttemptCount r \<and>
     fc_TotalProviderAttemptCount f = rt_totalProviderAttemptCount r \<and>
     fc_FallbacksAvailable f = rt_fallbacksAvailable r \<and> fc_GatewayCost f = rt_cost r \<and>
     fc_PromptTokens f = rs_promptTokens a \<and> fc_CompletionTokens f = rs_completionTokens a)"

definition channel_frame :: "Fact \<Rightarrow> Fact" where
  "channel_frame f = empty_fact (fc_SourceFile f) (fc_ParsedAt f)"

lemma parse_lines_channel_free:
  "parse_lines ls p = Inr q \<Longrightarrow> same_channel (ps_fact p) new_response \<Longrightarrow> same_channel (ps_fact q) new_response"
proof (induction ls arbitrary: p)
  case (Cons l ls)
  then obtain p' where p': "parse_line l p = Inr p'" "parse_lines ls p' = Inr q" by (auto split: sum.splits)
  have "same_channel (ps_fact p') new_response"
    using p'(1) Cons.prems(2)
    by (auto simp: parse_line_def infoLine_def headerLine_def frameLine_def open_section_def closeResponse_def
        same_channel_def Let_def split: sum.splits option.splits sectionKind.splits if_splits)
  with p'(2) show ?case by (rule Cons.IH)
qed simp

lemma pending_new: "pending_answers (new_parser name t) ls = answers ls"
  by (simp add: pending_answers_def answers_def new_parser_def Let_def)

text \<open>C15: A fact reports the last answer that named its channel, and nothing else. Cut the file into
  its sections, and read every API RESPONSE section on its own: the fact's channel, cost and token
  counters are those of the last section with a routing block, and when no section has one the
  fact carries no channel, no cost and no tokens. Attempts count the response and error sections.
  So no text of a request, a header or another section can ever put a channel into a fact.\<close>

theorem last_answer_wins:
  assumes "parseLog content name t = Inr f"
  shows "same_channel f (if routed (parsed_lines content) = [] then new_response else last (routed (parsed_lines content))) \<and>
    fc_AttemptsSeen f = int (length (filter (\<lambda>s. fst s = sectionResponse \<or> fst s = sectionErrorResponse)
      (tl (sections sectionOther (parsed_lines content)))))"
proof -
  let ?ls = "parsed_lines content"
  obtain q where q: "parse_lines ?ls (new_parser name t) = Inr q" and f: "f = finish q"
    using assms by (auto simp: parseLog_def split: sum.splits)
  have best: "ps_best (closeResponse q) = last_opt (routed ?ls)"
    using machine_best [OF q new_parser_wf] by (simp add: pending_new routed_def) (simp add: new_parser_def)
  have free: "same_channel (ps_fact q) new_response"
    by (rule parse_lines_channel_free [OF q])
      (simp add: new_parser_def same_channel_def empty_fact_def new_response_def metadata_routing_def
        zero_metadata_def Let_def)
  have kept: "ps_fact (closeResponse q) = ps_fact q" "ps_attempts (closeResponse q) = ps_attempts q"
    by (simp_all add: closeResponse_def split: option.split)
  have "same_channel f (if routed ?ls = [] then new_response else last (routed ?ls))"
    using best free by (auto simp: f finish_def last_opt_def same_channel_def Let_def kept split: if_splits)
  moreover have "fc_AttemptsSeen f = ps_attempts q"
    by (simp add: f finish_def Let_def kept split: option.split)
  ultimately show ?thesis
    using machine_attempts [OF q new_parser_wf] by (simp add: new_parser_def)
qed

definition ex_log :: string where
  "ex_log = ''=== API RESPONSE 1 ==='' @ [line_break] @ ''data:'' @ [CHR 0x7B, dquote] @ ''choices'' @ [dquote] @ '':['' @
     [CHR 0x7B, dquote] @ ''delta'' @ [dquote, CHR '':'', CHR 0x7B, dquote] @ ''provider_metadata'' @
     [dquote, CHR '':'', CHR 0x7B, dquote] @ ''gateway'' @ [dquote, CHR '':'', CHR 0x7B, dquote] @ ''routing'' @
     [dquote, CHR '':'', CHR 0x7B, dquote] @ ''finalProvider'' @ [dquote, CHR '':'', dquote] @ ''fireworks'' @ [dquote] @
     replicate 5 (CHR 0x7D) @ '']'' @ [CHR 0x7D, line_break]"

lemma ex_log_parses:
  "case parseLog ex_log ''f'' 0 of Inr f \<Rightarrow> fc_FinalProvider f = ''fireworks'' | Inl e \<Rightarrow> False"
  by code_simp

theorem last_answer_wins_witness:
  "\<exists>f. parseLog ex_log ''f'' 0 = Inr f \<and> fc_FinalProvider f = ''fireworks'' \<and>
    same_channel f (last (routed (parsed_lines ex_log)))"
proof -
  obtain f where f: "parseLog ex_log ''f'' 0 = Inr f" "fc_FinalProvider f = ''fireworks''"
    using ex_log_parses by (auto split: sum.splits)
  from last_answer_wins [OF f(1)] f(2) have "routed (parsed_lines ex_log) \<noteq> []"
    by (auto simp: same_channel_def new_response_def metadata_routing_def zero_metadata_def Let_def)
  with last_answer_wins [OF f(1)] f show ?thesis by auto
qed

section \<open>The line that stops the host\<close>

lemma section_name_panics: "section_name l = Inl e \<longleftrightarrow> l = ''=== ==='' \<and> e = Slice_out_of_range"
proof
  assume panic: "section_name l = Inl e"
  then have m: "HasPrefix l sectionOpen" "HasSuffix l sectionClose" "length l < 8" and e: "e = Slice_out_of_range"
    by (auto simp: section_name_def sectionOpen_def sectionClose_def Let_def split: if_splits)
  obtain r where r: "l = ''=== '' @ r" using m(1) by (auto simp: HasPrefix_prefix sectionOpen_def prefix_def)
  obtain k where k: "l = k @ '' ===''" using m(2) by (auto simp: HasSuffix_suffix sectionClose_def suffix_def)
  have "length k \<le> 3" using k m(3) by simp
  then consider "k = []" | a where "k = [a]" | a b where "k = [a, b]" | a b c where "k = [a, b, c]"
    by (cases k; cases "tl k"; cases "tl (tl k)"; cases "tl (tl (tl k))") auto
  then show "l = ''=== ==='' \<and> e = Slice_out_of_range"
    using r k e by cases auto
next
  assume "l = ''=== ==='' \<and> e = Slice_out_of_range"
  then show "section_name l = Inl e"
    by (simp add: section_name_def sectionOpen_def sectionClose_def HasPrefix_def HasSuffix_def)
qed

lemma parse_lines_panics:
  "parser_wf p \<Longrightarrow> (\<exists>e. parse_lines ls p = Inl e) \<longleftrightarrow> ''=== ==='' \<in> set ls"
proof (induction ls arbitrary: p)
  case (Cons l ls)
  show ?case
    using Cons.prems
  proof (cases rule: parse_line_cases [where l = l])
    case panic
    then show ?thesis using section_name_panics [of l] by auto
  next
    case (header name)
    then have "l \<noteq> ''=== ===''" using section_name_panics [of l Slice_out_of_range] by auto
    then show ?thesis using header Cons.IH [OF open_section_wf] by auto
  next
    case (frame r)
    then have "l \<noteq> ''=== ===''" using section_name_panics [of l Slice_out_of_range] by auto
    then show ?thesis using frame Cons.IH [of "p\<lparr>ps_response := Some (read_frame r l)\<rparr>"] by (auto simp: parser_wf_def)
  next
    case (other q)
    then have "l \<noteq> ''=== ===''" using section_name_panics [of l Slice_out_of_range] by auto
    then show ?thesis using other Cons.IH [of q] Cons.prems by (auto simp: parser_wf_def)
  qed
qed simp

text \<open>C16: The parser panics on exactly one line. It never dereferences a missing section, and its
  only panic is the slice expression of the section marker: a file makes it panic exactly when one
  of its lines (shorter than the buffer) is the seven characters of an opening and a closing
  marker that share their space.\<close>

theorem parser_panics_exactly:
  "(\<exists>e. parseLog content name t = Inl e) \<longleftrightarrow> ''=== ==='' \<in> set (parsed_lines content)"
  using parse_lines_panics [OF new_parser_wf [of name t], of "parsed_lines content"]
  by (auto simp: parseLog_def split: sum.splits)

end
