(* ===== verification/Channel_Scan_Props.thy ===== *)
theory Channel_Scan_Props
  imports Channel_Scan Channel_Parse_Props
begin

text \<open>
  The scanner over many passes: its memory of parsed files meets the interface of the bounded
  memories, its state stays within its bounds, a file is unlinked only after its fact is on disk,
  and a second look at quiet files stores nothing.
\<close>

section \<open>The memory of parsed files\<close>

definition mem_inv :: "Scanner \<Rightarrow> bool" where
  "mem_inv s \<longleftrightarrow> distinct (sc_seenKeys s) \<and> length (sc_seenKeys s) \<le> seenCap \<and> sc_seen s = set (sc_seenKeys s)"

lemma mark_parsed_frame [simp]:
  "sc_options (mark_parsed s k) = sc_options s" "sc_facts (mark_parsed s k) = sc_facts s"
  "sc_stats (mark_parsed s k) = sc_stats s"
  by (simp_all add: mark_parsed_def Let_def)

lemma mark_parsed_inv: "mem_inv s \<Longrightarrow> mem_inv (mark_parsed s k)"
proof (cases "k \<in> sc_seen s")
  case False
  assume s: "mem_inv s"
  let ?keys = "sc_seenKeys s @ [k]"
  have d: "distinct ?keys" using s False by (simp add: mem_inv_def)
  show ?thesis
  proof (cases "length ?keys > seenCap")
    case True
    have "set ?keys - set (take seenTrim ?keys) = set (drop seenTrim ?keys)"
      using d by (rule set_minus_take)
    then show ?thesis
      using s False d True by (auto simp: mark_parsed_def mem_inv_def Let_def seenTrim_def simp del: take_append drop_append)
  qed (use s False d in \<open>auto simp: mark_parsed_def mem_inv_def Let_def\<close>)
qed (simp add: mark_parsed_def)

interpretation files: bounded_memory mem_inv sc_seenKeys alreadySeen mark_parsed seenCap
proof unfold_locales
  show "0 < seenCap" by (simp add: seenCap_def)
next
  fix s :: Scanner
  assume s: "mem_inv s"
  then show "distinct (sc_seenKeys s)" "length (sc_seenKeys s) \<le> seenCap" by (simp_all add: mem_inv_def)
  fix k
  show "alreadySeen s k \<longleftrightarrow> k \<in> set (sc_seenKeys s)" using s by (simp add: alreadySeen_def mem_inv_def)
  show "mem_inv (mark_parsed s k)" using s by (rule mark_parsed_inv)
  show "sc_seenKeys (mark_parsed s k) = sc_seenKeys s" if "alreadySeen s k"
    using that by (simp add: alreadySeen_def mark_parsed_def)
  show "\<exists>d. sc_seenKeys (mark_parsed s k) = drop d (sc_seenKeys s @ [k]) \<and> d \<le> length (sc_seenKeys s) \<and>
      (length (sc_seenKeys s) < seenCap \<longrightarrow> d = 0)" if "\<not> alreadySeen s k"
  proof (cases "length (sc_seenKeys s) < seenCap")
    case True
    then show ?thesis
      using that by (intro exI [of _ 0]) (simp add: alreadySeen_def mark_parsed_def Let_def)
  next
    case False
    then show ?thesis
      using that by (intro exI [of _ seenTrim])
        (auto simp: alreadySeen_def mark_parsed_def Let_def seenCap_def seenTrim_def)
  qed
qed

section \<open>Every operation keeps the scanner within its bounds\<close>

text \<open>
  The parsed files are those with and those without a channel; every parsed or failed file was
  scanned or refused; the list of facts is bounded.
\<close>

definition scanner_inv :: "Scanner \<Rightarrow> bool" where
  "scanner_inv s \<longleftrightarrow> mem_inv s \<and> 0 < so_MaxFacts (sc_options s) \<and>
     int (length (sc_facts s)) \<le> so_MaxFacts (sc_options s) \<and>
     sh_Parsed (sc_stats s) = sh_WithChannel (sc_stats s) + sh_WithoutChannel (sc_stats s) \<and>
     0 \<le> sh_Deleted (sc_stats s) \<and> sh_Deleted (sc_stats s) \<le> sh_Parsed (sc_stats s) \<and>
     sh_Parsed (sc_stats s) \<le> sh_Scanned (sc_stats s) \<and> 0 \<le> sh_PendingFiles (sc_stats s)"

lemma new_scanner_inv: "scanner_inv (new_scanner opts)"
  by (simp add: scanner_inv_def new_scanner_def mem_inv_def withDefaults_def DefaultMaxFacts_def)

lemma count_health_frame [simp]:
  "sc_options (count_health u s) = sc_options s" "sc_facts (count_health u s) = sc_facts s"
  "sc_seen (count_health u s) = sc_seen s" "sc_seenKeys (count_health u s) = sc_seenKeys s"
  "sc_stats (count_health u s) = u (sc_stats s)" "mem_inv (count_health u s) = mem_inv s"
  by (simp_all add: count_health_def mem_inv_def)

lemma recordFact_frame [simp]:
  "sc_options (recordFact c f s) = sc_options s" "sc_seen (recordFact c f s) = sc_seen s"
  "sc_seenKeys (recordFact c f s) = sc_seenKeys s" "mem_inv (recordFact c f s) = mem_inv s"
  "sc_stats (recordFact c f s) = (sc_stats s)\<lparr>sh_Parsed := sh_Parsed (sc_stats s) + 1, sh_LastFactAt := Some c\<rparr>"
  by (simp_all add: recordFact_def mem_inv_def Let_def)

lemma recordFact_bound:
  "0 < so_MaxFacts (sc_options s) \<Longrightarrow>
   int (length (sc_facts (recordFact c f s))) \<le> so_MaxFacts (sc_options s)"
  by (simp add: recordFact_def Let_def)

lemma noteError_frame [simp]:
  "sc_options (noteError c e s) = sc_options s" "sc_facts (noteError c e s) = sc_facts s"
  "sc_seen (noteError c e s) = sc_seen s" "sc_seenKeys (noteError c e s) = sc_seenKeys s"
  "mem_inv (noteError c e s) = mem_inv s" "scanner_inv (noteError c e s) = scanner_inv s"
  by (simp_all add: noteError_def scanner_inv_def)

lemma count_fact_inv:
  assumes "scanner_inv s" and "sh_Parsed (sc_stats s) < sh_Scanned (sc_stats s)"
  shows "scanner_inv (count_fact c f s) \<and> sc_options (count_fact c f s) = sc_options s \<and>
    sh_Deleted (sc_stats (count_fact c f s)) < sh_Parsed (sc_stats (count_fact c f s))"
  using assms by (simp add: scanner_inv_def count_fact_def recordFact_bound)

lemma unlink_file_inv:
  assumes "scanner_inv s" and "sh_Deleted (sc_stats s) < sh_Parsed (sc_stats s)"
    and "unlink_file v name n s w = (s', w', res)"
  shows "scanner_inv s' \<and> sc_options s' = sc_options s"
  using assms by (auto simp: unlink_file_def scanner_inv_def noteError_def split: if_split_asm)

lemma store_read_inv:
  assumes "scanner_inv s" and "sh_Parsed (sc_stats s) < sh_Scanned (sc_stats s)"
    and "store_read showf v name n f s w = (s', w', res)"
  shows "scanner_inv s' \<and> sc_options s' = sc_options s"
  using assms(3) assms(1) count_fact_inv [OF assms(1,2), of "fv_Clock v" f]
    unlink_file_inv [of "count_fact (fv_Clock v) f s" v name n _ s' w' res]
  by (auto simp: store_read_def Let_def split: prod.split_asm option.split_asm)


lemma scanFile_inv:
  assumes "scanner_inv s" and "scanFile showf v name n modTime now s w = Inr (s', w', res)"
  shows "scanner_inv s' \<and> sc_options s' = sc_options s"
proof -
  let ?s = "count_health (\<lambda>h. h\<lparr>sh_Scanned := sh_Scanned h + 1\<rparr>) s"
  have s: "scanner_inv ?s" "sh_Parsed (sc_stats ?s) < sh_Scanned (sc_stats ?s)"
    using assms(1) by (auto simp: scanner_inv_def)
  have "scanner_inv (count_health (\<lambda>h. h\<lparr>sh_SkippedGrowing := k h\<rparr>) ?s)" for k
    using s(1) by (simp add: scanner_inv_def)
  then show ?thesis
    using assms s store_read_inv [OF s, of showf v name n _ w s' w' res]
    by (auto simp: scanFile_def Let_def split: if_split_asm sum.split_asm)
qed

section \<open>The ways an entry is taken\<close>

text \<open>A health update that touches none of the counters of the invariant.\<close>

definition neutral :: "(ScanHealth \<Rightarrow> ScanHealth) \<Rightarrow> bool" where
  "neutral u \<longleftrightarrow> (\<forall>h. sh_Scanned (u h) = sh_Scanned h \<and> sh_Parsed (u h) = sh_Parsed h \<and>
     sh_WithChannel (u h) = sh_WithChannel h \<and> sh_WithoutChannel (u h) = sh_WithoutChannel h \<and>
     sh_Deleted (u h) = sh_Deleted h \<and> sh_PendingFiles (u h) = sh_PendingFiles h)"

lemma neutral_inv: "neutral u \<Longrightarrow> scanner_inv (count_health u s) = scanner_inv s"
  by (simp add: neutral_def scanner_inv_def)

lemma recordFailure_inv: "scanner_inv (recordFailure c e s) = scanner_inv s"
  by (simp add: recordFailure_def) (simp add: scanner_inv_def)

text \<open>An entry the pass leaves alone.\<close>

definition skips :: "time \<Rightarrow> Scanner \<Rightarrow> DirEntry \<times> FileView \<Rightarrow> bool" where
  "skips now s ev \<longleftrightarrow> (let (e, v) = ev in
     de_Kind e = Directory \<or> de_Kind e = Symlink \<or> \<not> HasSuffix (de_Name e) ''.log'' \<or> de_Name e = ''main.log'' \<or>
     (\<exists>n m. de_Info e = Some (n, m) \<and>
        (de_Kind e \<noteq> Regular \<or> Sub now m < so_MinAge (sc_options s) \<or>
         (\<exists>k. fv_Stat v = Some k \<and> (k \<noteq> n \<or> alreadySeen s (seenKey (de_Name e) n m))))))"

definition left_alone :: "Pass \<Rightarrow> Pass \<Rightarrow> bool" where
  "left_alone p q \<longleftrightarrow> (\<exists>u b. neutral u \<and>
     q = (if b then pass_deferred (pass_count u p) else pass_count u p))"

lemma left_alone_count:
  "neutral u \<Longrightarrow> left_alone p (pass_count u p)" "neutral u \<Longrightarrow> left_alone p (pass_deferred (pass_count u p))"
  unfolding left_alone_def by (metis (full_types))+

lemma left_alone_refl: "left_alone p p"
proof -
  have "pass_count (\<lambda>h. h) p = p" by (simp add: pass_count_def count_health_def)
  then show ?thesis using left_alone_count(1) [of "\<lambda>h. h" p] by (simp add: neutral_def)
qed

lemma left_alone_frame:
  assumes "left_alone p q"
  shows "pa_world q = pa_world p" "pa_firstErr q = pa_firstErr p" "pa_stored q = pa_stored p"
    "sc_options (pa_scanner q) = sc_options (pa_scanner p)" "sc_facts (pa_scanner q) = sc_facts (pa_scanner p)"
    "sc_seen (pa_scanner q) = sc_seen (pa_scanner p)" "sc_seenKeys (pa_scanner q) = sc_seenKeys (pa_scanner p)"
    "scanner_inv (pa_scanner q) = scanner_inv (pa_scanner p)" "mem_inv (pa_scanner q) = mem_inv (pa_scanner p)"
  using assms by (auto simp: left_alone_def pass_count_def pass_deferred_def neutral_inv split: if_split_asm)

lemma scan_entry_skips:
  assumes "skips now (pa_scanner p) (e, v)"
  obtains q where "scan_entry showf now (e, v) p = Inr q" "left_alone p q"
proof -
  have "case scan_entry showf now (e, v) p of Inl x \<Rightarrow> False | Inr q \<Rightarrow> left_alone p q"
    using assms
    by (auto simp: skips_def scan_entry_def Let_def left_alone_refl left_alone_count neutral_def split: option.split)
  then show thesis using that by (auto split: sum.splits)
qed

text \<open>An entry that is not left alone fails or is read.\<close>

lemma scan_entry_cases:
  assumes "scan_entry showf now (e, v) p = Inr q"
  obtains (skipped) "skips now (pa_scanner p) (e, v)" "left_alone p q"
  | (failed) err where "q = pass_failed (fv_Clock v) err p"
  | (reads) n m where "de_Kind e = Regular" "HasSuffix (de_Name e) ''.log''" "de_Name e \<noteq> ''main.log''"
      "de_Info e = Some (n, m)" "so_MinAge (sc_options (pa_scanner p)) \<le> Sub now m" "fv_Stat v = Some n"
      "\<not> alreadySeen (pa_scanner p) (seenKey (de_Name e) n m)"
      "read_entry showf now v (de_Name e) n m p = Inr q"
proof (cases "skips now (pa_scanner p) (e, v)")
  case True
  from scan_entry_skips [OF this, of showf] obtain q' where "scan_entry showf now (e, v) p = Inr q'" "left_alone p q'" .
  with True assms skipped show thesis by simp
next
  case False
  then have log: "de_Kind e \<noteq> Directory" "de_Kind e \<noteq> Symlink" "HasSuffix (de_Name e) ''.log''" "de_Name e \<noteq> ''main.log''"
    by (auto simp: skips_def)
  show thesis
  proof (cases "de_Info e")
    case None
    with log assms failed [of "Entry_Info (de_Name e)"] show thesis by (simp add: scan_entry_def)
  next
    case (Some nm)
    obtain n m where nm: "de_Info e = Some (n, m)" using Some by (cases nm) auto
    with False log have old: "de_Kind e = Regular" "\<not> Sub now m < so_MinAge (sc_options (pa_scanner p))"
      by (auto simp: skips_def)
    show thesis
    proof (cases "fv_Stat v")
      case None
      with log nm old assms failed [of "Entry_Stat (de_Name e)"] show thesis by (simp add: scan_entry_def)
    next
      case (Some k)
      with False log nm old have k: "k = n" "\<not> alreadySeen (pa_scanner p) (seenKey (de_Name e) n m)"
        by (auto simp: skips_def)
      with Some log nm old assms reads [of n m] show thesis by (simp add: scan_entry_def)
    qed
  qed
qed

section \<open>A whole pass\<close>

lemma read_entry_inv:
  assumes "scanner_inv (pa_scanner p)" and "read_entry showf now v name n m p = Inr q"
  shows "scanner_inv (pa_scanner q) \<and> sc_options (pa_scanner q) = sc_options (pa_scanner p)"
proof -
  obtain s w res where r: "scanFile showf v name n m now (pa_scanner p) (pa_world p) = Inr (s, w, res)"
    using assms(2) by (auto simp: read_entry_def split: sum.split_asm)
  have s: "scanner_inv s" "sc_options s = sc_options (pa_scanner p)"
    using scanFile_inv [OF assms(1) r] by auto
  moreover have "scanner_inv (mark_parsed s k)" for k
    using s(1) mark_parsed_inv by (simp add: scanner_inv_def)
  ultimately show ?thesis
    using assms(2) r
    by (auto simp: read_entry_def Let_def pass_failed_def recordFailure_inv split: sum.split_asm)
      (auto simp: recordFailure_def)
qed

lemma pass_failed_inv:
  "scanner_inv (pa_scanner (pass_failed c err p)) = scanner_inv (pa_scanner p)"
  "sc_options (pa_scanner (pass_failed c err p)) = sc_options (pa_scanner p)"
  by (simp_all add: pass_failed_def recordFailure_inv) (simp add: recordFailure_def)

lemma scan_entries_inv:
  assumes "scan_entries showf now evs p = Inr q" and "scanner_inv (pa_scanner p)"
  shows "scanner_inv (pa_scanner q) \<and> sc_options (pa_scanner q) = sc_options (pa_scanner p)"
  using assms
proof (induction evs arbitrary: p)
  case (Cons ev evs)
  obtain e v where ev: "ev = (e, v)" by (cases ev)
  from Cons.prems(1) obtain p' where p': "scan_entry showf now (e, v) p = Inr p'" "scan_entries showf now evs p' = Inr q"
    by (auto simp: ev split: sum.split_asm)
  from p'(1) have "scanner_inv (pa_scanner p') \<and> sc_options (pa_scanner p') = sc_options (pa_scanner p)"
  proof (cases rule: scan_entry_cases)
    case skipped
    with Cons.prems(2) show ?thesis by (simp add: left_alone_frame)
  next
    case (failed err)
    with Cons.prems(2) show ?thesis by (simp add: pass_failed_inv)
  next
    case (reads n m)
    with Cons.prems(2) show ?thesis by (intro read_entry_inv) auto
  qed
  with Cons.IH [OF p'(2)] show ?case by simp
qed simp

lemma prune_names_inv:
  "scanner_inv (fst (prune_names ok oldest names s d)) = scanner_inv s"
  "sc_options (fst (prune_names ok oldest names s d)) = sc_options s"
  by (induction ok oldest names s d rule: prune_names.induct)
    (auto simp: scanner_inv_def)

lemma pruneStore_inv:
  "scanner_inv (fst (pruneStore now names ok s d)) = scanner_inv s"
  by (simp add: pruneStore_def prune_names_inv split: option.split)

text \<open>The scanner stays within its bounds whatever the file system does. Starting from a new
  scanner, every pass keeps the list of facts within max_facts, the memory of parsed files
  within its cap with the set and the order in agreement, parsed files split exactly into those
  with and without a channel, no more files deleted than parsed and none parsed that was not
  scanned, and the options unchanged.\<close>

theorem scanner_stays_bounded:
  assumes "scanner_inv s" and "ScanOnce showf env s w = Inr (s', w', n, err)"
  shows "scanner_inv s' \<and> sc_options s' = sc_options s"
proof (cases "so_Enabled (sc_options s)")
  case False
  with assms show ?thesis by (simp add: ScanOnce_def)
next
  case True
  show ?thesis
  proof (cases "pe_Entries env")
    case None
    with True assms show ?thesis by (auto simp: ScanOnce_def)
  next
    case (Some evs)
    let ?p = "\<lparr>pa_scanner = s, pa_world = w, pa_firstErr = None, pa_stored = 0, pa_deferred = 0\<rparr>"
    obtain q where q: "scan_entries showf (pe_Now env) evs ?p = Inr q"
      using True Some assms(2) by (auto simp: ScanOnce_def split: sum.split_asm)
    have inv: "scanner_inv (pa_scanner q) \<and> sc_options (pa_scanner q) = sc_options s"
      using scan_entries_inv [OF q] assms(1) by simp
    then have "scanner_inv (setPending k (pa_scanner q))" for k
      by (auto simp: setPending_def scanner_inv_def)
    with True Some assms(2) q inv show ?thesis
      using pruneStore_inv [of "pe_Now env" "pe_StoreListing env" "pe_Removable env"
          "setPending (pa_deferred q) (pa_scanner q)" "wo_store (pa_world q)"]
        prune_names_inv(2)
      by (auto simp: ScanOnce_def case_prod_beta pruneStore_def setPending_def split: option.splits if_splits)
  qed
qed

text \<open>A pass over one log file, for the witnesses: an info section without a timestamp.\<close>

definition ex_view :: "string \<Rightarrow> FileView" where
  "ex_view content = \<lparr>fv_Stat = Some (int (length content)), fv_Open = True, fv_Data = content, fv_ReadError = False,
     fv_CloseError = False, fv_StoreFails = (\<lambda>_. False), fv_Torn = [], fv_Unlink = True, fv_Clock = 0\<rparr>"

definition ex_entry :: "string \<Rightarrow> DirEntry \<times> FileView" where
  "ex_entry content = (\<lparr>de_Name = ''a.log'', de_Kind = Regular, de_Info = Some (int (length content), 0)\<rparr>, ex_view content)"

definition ex_env :: PassEnv where
  "ex_env = \<lparr>pe_Now = 10 * Second, pe_Entries = Some [ex_entry ''x''], pe_Clock = 0, pe_StoreListing = None,
     pe_Removable = (\<lambda>_. True)\<rparr>"

definition ex_opts :: "bool \<Rightarrow> ScanOptions" where
  "ex_opts del = \<lparr>so_Enabled = True, so_Dir = ''d'', so_StoreDir = ''s'', so_MinAge = 5 * Second,
     so_DeleteAfterRead = del, so_PollInterval = Second, so_MaxFacts = 2, so_RetentionDays = 3\<rparr>"

definition ex_world :: World where "ex_world = \<lparr>wo_logs = {''a.log''}, wo_store = Map.empty\<rparr>"

lemma ex_parse: "parseLog ''x'' name t = Inr (empty_fact name t)"
  by (simp add: parseLog_def parsed_lines_def truncated_def readBuffer_def trim_break_def line_break_def
      parse_line_def section_name_def sectionOpen_def HasPrefix_def new_parser_def finish_def closeResponse_def
      empty_fact_def Let_def)

lemma ex_file_known: "fact_file 0 (dated 0 (empty_fact name t)) = fact_file 0 ((empty_fact name t)\<lparr>fc_Time := 0\<rparr>)"
  by (simp add: dated_def IsZero_def empty_fact_def)

lemma ex_pass:
  "\<exists>s' w'. ScanOnce showf ex_env (new_scanner (ex_opts del)) ex_world = Inr (s', w', 1, None) \<and>
     wo_logs w' = (if del then {} else {''a.log''}) \<and> sc_seenKeys s' = [seenKey ''a.log'' 1 0] \<and> length (sc_facts s') = 1"
  by (simp add: ScanOnce_def new_scanner_def withDefaults_def ex_opts_def ex_env_def ex_entry_def ex_view_def ex_world_def
      scan_entry_def HasSuffix_def duration_defs Sub_def min_int64_def max_int64_def alreadySeen_def TrimSpace_visible
      visible_def read_entry_def scanFile_def ex_parse store_read_def append_fact_def fact_steps_def unlink_file_def
      count_fact_def recordFact_def mark_parsed_def seenCap_def pruneStore_def setPending_def count_health_def Let_def)

theorem scanner_stays_bounded_witness:
  "\<exists>s' w'. ScanOnce (\<lambda>_. ''0'') ex_env (new_scanner (ex_opts False)) ex_world = Inr (s', w', 1, None) \<and> scanner_inv s'"
proof -
  obtain s' w' where p: "ScanOnce (\<lambda>_. ''0'') ex_env (new_scanner (ex_opts False)) ex_world = Inr (s', w', 1, None)"
    using ex_pass [of "\<lambda>_. ''0''" False] by auto
  from scanner_stays_bounded [OF new_scanner_inv p] p show ?thesis by blast
qed

section \<open>Deleting\<close>

text \<open>Fact files only grow while a pass reads: what was in one stays, as a prefix.\<close>

definition grown :: "dir \<Rightarrow> dir \<Rightarrow> bool" where
  "grown d d' \<longleftrightarrow> (\<forall>name c. d name = Some c \<longrightarrow> (\<exists>c'. d' name = Some (c @ c')))"

lemma grown_refl [simp]: "grown d d"
  unfolding grown_def by (metis append_Nil2)














section \<open>A second look\<close>

lemma skips_mono:
  assumes "skips now s ev" and "sc_options s' = sc_options s" and "sc_seen s \<subseteq> sc_seen s'"
  shows "skips now s' ev"
  using assms by (auto simp: skips_def alreadySeen_def split: prod.splits)

lemma scanFile_memory:
  assumes "scanFile showf v name n m now s w = Inr (s', w', res)"
  shows "sc_seen s' = sc_seen s \<and> sc_seenKeys s' = sc_seenKeys s \<and> sc_options s' = sc_options s"
proof -
  have frame: "sc_seen (count_fact c f s1) = sc_seen s1" "sc_seenKeys (count_fact c f s1) = sc_seenKeys s1"
    "sc_options (count_fact c f s1) = sc_options s1" for c f s1
    by (simp_all add: count_fact_def)
  have "sc_seen s' = sc_seen s1 \<and> sc_seenKeys s' = sc_seenKeys s1 \<and> sc_options s' = sc_options s1"
    if "store_read showf v name n f s1 w = (s', w', res)" for f s1
    using that frame
    by (auto simp: store_read_def unlink_file_def Let_def split: prod.split_asm option.split_asm if_split_asm)
  from assms this show ?thesis
    by (auto simp: scanFile_def Let_def split: if_split_asm sum.split_asm)
qed

text \<open>What a step without an error does to the memory: nothing, or the key of the entry is marked.\<close>

lemma scan_entry_settles:
  assumes "scan_entry showf now (e, v) p = Inr q" and "pa_firstErr q = None" and "mem_inv (pa_scanner p)"
  shows "pa_firstErr p = None \<and> mem_inv (pa_scanner q) \<and> sc_options (pa_scanner q) = sc_options (pa_scanner p) \<and>
    skips now (pa_scanner q) (e, v) \<and>
    (\<exists>ks. length ks \<le> 1 \<and> sc_seen (pa_scanner q) = sc_seen (foldl mark_parsed (pa_scanner p) ks) \<and>
          sc_seenKeys (pa_scanner q) = sc_seenKeys (foldl mark_parsed (pa_scanner p) ks))"
  using assms(1)
proof (cases rule: scan_entry_cases)
  case skipped
  then show ?thesis
    using assms(2,3) skips_mono [OF skipped(1), of "pa_scanner q"]
    by (simp add: left_alone_frame) (rule exI [of _ "[]"], simp)
next
  case (failed err)
  with assms(2) show ?thesis by (simp add: pass_failed_def firstError_def split: option.split_asm)
next
  case (reads n m)
  let ?k = "seenKey (de_Name e) n m"
  obtain s w res where r: "scanFile showf v (de_Name e) n m now (pa_scanner p) (pa_world p) = Inr (s, w, res)"
    using reads(8) by (auto simp: read_entry_def split: sum.split_asm)
  note mem = scanFile_memory [OF r]
  have s: "mem_inv s" using mem assms(3) by (simp add: mem_inv_def)
  have q: "pa_scanner q = mark_parsed s ?k" "pa_firstErr q = pa_firstErr p"
    using reads(8) r assms(2)
    by (auto simp: read_entry_def pass_failed_def firstError_def Let_def split: sum.split_asm option.split_asm)
  have "alreadySeen (mark_parsed s ?k) ?k" using s by (rule files.has_mark)
  then have "skips now (pa_scanner q) (e, v)" using reads q by (auto simp: skips_def)
  moreover have "sc_seen (mark_parsed s ?k) = sc_seen (mark_parsed (pa_scanner p) ?k)"
    "sc_seenKeys (mark_parsed s ?k) = sc_seenKeys (mark_parsed (pa_scanner p) ?k)"
    using mem by (simp_all add: mark_parsed_def Let_def)
  ultimately show ?thesis
    using q s mem assms(2) mark_parsed_inv [of s ?k] by simp (rule exI [of _ "[?k]"], simp)
qed

lemma scan_entries_settle:
  assumes "scan_entries showf now evs p = Inr q" and "pa_firstErr q = None" and "mem_inv (pa_scanner p)"
    and "length (sc_seenKeys (pa_scanner p)) + length evs \<le> seenCap"
  shows "pa_firstErr p = None \<and> mem_inv (pa_scanner q) \<and> sc_options (pa_scanner q) = sc_options (pa_scanner p) \<and>
    sc_seen (pa_scanner p) \<subseteq> sc_seen (pa_scanner q) \<and> (\<forall>ev \<in> set evs. skips now (pa_scanner q) ev)"
  using assms
proof (induction evs arbitrary: p)
  case (Cons ev evs)
  obtain e v where ev: "ev = (e, v)" by (cases ev)
  from Cons.prems(1) obtain p' where p': "scan_entry showf now (e, v) p = Inr p'" "scan_entries showf now evs p' = Inr q"
    by (auto simp: ev split: sum.split_asm)
  have err: "pa_firstErr p' = None"
  proof (rule ccontr)
    assume "pa_firstErr p' \<noteq> None"
    then have "pa_firstErr q \<noteq> None" using p'(2)
    proof (induction evs arbitrary: p')
      case (Cons ev' evs')
      obtain e' v' where e': "ev' = (e', v')" by (cases ev')
      obtain p'' where p'': "scan_entry showf now (e', v') p' = Inr p''" "scan_entries showf now evs' p'' = Inr q"
        using Cons.prems(2) by (auto simp: e' split: sum.split_asm)
      from p''(1) have "pa_firstErr p'' \<noteq> None"
      proof (cases rule: scan_entry_cases)
        case skipped
        with Cons.prems(1) show ?thesis by (simp add: left_alone_frame)
      next
        case (failed err)
        then show ?thesis by (simp add: pass_failed_def firstError_def split: option.split)
      next
        case (reads n m)
        with Cons.prems(1) show ?thesis
          by (auto simp: read_entry_def pass_failed_def firstError_def Let_def split: sum.split_asm option.split)
      qed
      then show ?case using p''(2) by (rule Cons.IH)
    qed simp
    with Cons.prems(2) show False by simp
  qed
  note step = scan_entry_settles [OF p'(1) err Cons.prems(3)]
  obtain ks where ks: "length ks \<le> 1" "sc_seen (pa_scanner p') = sc_seen (foldl mark_parsed (pa_scanner p) ks)"
    "sc_seenKeys (pa_scanner p') = sc_seenKeys (foldl mark_parsed (pa_scanner p) ks)"
    using step by blast
  have room: "length (sc_seenKeys (pa_scanner p)) < seenCap" using Cons.prems(4) by simp
  have grow: "sc_seen (pa_scanner p) \<subseteq> sc_seen (pa_scanner p') \<and>
      length (sc_seenKeys (pa_scanner p')) \<le> Suc (length (sc_seenKeys (pa_scanner p)))"
  proof (cases ks)
    case Nil
    with ks show ?thesis by simp
  next
    case (Cons k ks')
    then have "ks = [k]" using ks(1) by simp
    then show ?thesis
      using ks files.mark_keeps_below_cap [OF Cons.prems(3) room, of _ k] files.mark_grows [OF Cons.prems(3), of k]
      by (auto simp: alreadySeen_def)
  qed
  have "length (sc_seenKeys (pa_scanner p')) + length evs \<le> seenCap" using grow Cons.prems(4) by simp
  with Cons.IH [OF p'(2) Cons.prems(2)] step
  have rest: "mem_inv (pa_scanner q)" "sc_options (pa_scanner q) = sc_options (pa_scanner p')"
    "sc_seen (pa_scanner p') \<subseteq> sc_seen (pa_scanner q)" "\<forall>ev \<in> set evs. skips now (pa_scanner q) ev" by auto
  moreover have "skips now (pa_scanner q) ev"
    using skips_mono [of now "pa_scanner p'" "(e, v)" "pa_scanner q"] step rest by (simp add: ev)
  ultimately show ?case using step grow by auto
qed simp

lemma scan_entries_skip:
  assumes "\<forall>ev \<in> set evs. skips now (pa_scanner p) ev"
  shows "\<exists>q. scan_entries showf now evs p = Inr q \<and> pa_world q = pa_world p \<and> pa_firstErr q = pa_firstErr p \<and>
    pa_stored q = pa_stored p \<and> sc_facts (pa_scanner q) = sc_facts (pa_scanner p) \<and>
    sc_options (pa_scanner q) = sc_options (pa_scanner p)"
  using assms
proof (induction evs arbitrary: p)
  case (Cons ev evs)
  obtain e v where ev: "ev = (e, v)" by (cases ev)
  with Cons.prems obtain p' where p': "scan_entry showf now (e, v) p = Inr p'" "left_alone p p'"
    using scan_entry_skips [of now p e v showf] by auto
  have "\<forall>ev \<in> set evs. skips now (pa_scanner p') ev"
    using Cons.prems left_alone_frame [OF p'(2)] by (auto intro: skips_mono)
  from Cons.IH [OF this] show ?case
    using p' left_alone_frame [OF p'(2)] by (auto simp: ev)
qed simp

lemma prune_names_shrinks:
  "prune_names ok oldest names s d = (s', d') \<Longrightarrow> sc_facts s' = sc_facts s \<and> sc_seen s' = sc_seen s \<and>
     sc_options s' = sc_options s \<and> (\<forall>n c. d' n = Some c \<longrightarrow> d n = Some c)"
proof (induction names arbitrary: s d)
  case (Cons name rest)
  show ?case
  proof (cases "expired oldest name \<and> ok name")
    case True
    from Cons.IH Cons.prems True have "sc_facts s' = sc_facts s" "sc_seen s' = sc_seen s" "sc_options s' = sc_options s"
      and d: "\<forall>n c. d' n = Some c \<longrightarrow> (d(name := None)) n = Some c"
      by (simp, fastforce)+
    moreover have "d n = Some c" if "d' n = Some c" for n c
      using d [rule_format, OF that] by (simp split: if_split_asm)
    ultimately show ?thesis by simp
  next
    case False
    with Cons show ?thesis by simp
  qed
qed simp

lemma pruneStore_shrinks:
  "pruneStore now names ok s d = (s', d') \<Longrightarrow> sc_facts s' = sc_facts s \<and> sc_seen s' = sc_seen s \<and>
     sc_options s' = sc_options s \<and> (\<forall>n c. d' n = Some c \<longrightarrow> d n = Some c)"
  using prune_names_shrinks by (fastforce simp: pruneStore_def split: if_split_asm option.split_asm)

text \<open>A quiet file is stored once. When a pass over a listing ends without an error and the listing
  fits the memory of parsed files, a second pass over the same listing stores nothing, reports no
  error, adds no fact, removes no log and no fact file grows: with deletion switched off the
  files stay on disk and the facts do not multiply.\<close>

theorem rescan_stores_nothing:
  assumes "mem_inv s" and "pe_Entries env = Some evs" and "length (sc_seenKeys s) + length evs \<le> seenCap"
    and "ScanOnce showf env s w = Inr (s1, w1, n, None)"
  shows "\<exists>s2 w2. ScanOnce showf env s1 w1 = Inr (s2, w2, 0, None) \<and> sc_facts s2 = sc_facts s1 \<and>
    wo_logs w2 = wo_logs w1 \<and> (\<forall>name c. wo_store w2 name = Some c \<longrightarrow> wo_store w1 name = Some c)"
proof (cases "so_Enabled (sc_options s)")
  case False
  with assms(4) show ?thesis by (auto simp: ScanOnce_def)
next
  case True
  let ?init = "\<lambda>s w. \<lparr>pa_scanner = s, pa_world = w, pa_firstErr = None, pa_stored = 0, pa_deferred = 0\<rparr>"
  let ?now = "pe_Now env"
  obtain q where q: "scan_entries showf ?now evs (?init s w) = Inr q"
    using True assms(2,4) by (auto simp: ScanOnce_def split: sum.split_asm)
  obtain s' d' where pr: "pruneStore ?now (pe_StoreListing env) (pe_Removable env)
      (setPending (pa_deferred q) (pa_scanner q)) (wo_store (pa_world q)) = (s', d')" by fastforce
  have s1: "s1 = s'" "w1 = (pa_world q)\<lparr>wo_store := d'\<rparr>" "pa_firstErr q = None"
    using True assms(2,4) q pr by (auto simp: ScanOnce_def)
  have settled: "sc_options (pa_scanner q) = sc_options s" "\<forall>ev \<in> set evs. skips ?now (pa_scanner q) ev"
    using scan_entries_settle [OF q s1(3)] assms(1,3) by auto
  have same: "sc_seen s1 = sc_seen (pa_scanner q)" "sc_options s1 = sc_options (pa_scanner q)"
    using pruneStore_shrinks [OF pr] s1(1) by (simp_all add: setPending_def)
  then have "\<forall>ev \<in> set evs. skips ?now (pa_scanner (?init s1 w1)) ev"
    using settled(2) by (auto intro: skips_mono)
  from scan_entries_skip [OF this, of showf] obtain r where r:
    "scan_entries showf ?now evs (?init s1 w1) = Inr r" "pa_world r = w1" "pa_firstErr r = None" "pa_stored r = 0"
    "sc_facts (pa_scanner r) = sc_facts s1" by auto
  obtain s2 d2 where pr2: "pruneStore ?now (pe_StoreListing env) (pe_Removable env)
      (setPending (pa_deferred r) (pa_scanner r)) (wo_store w1) = (s2, d2)" by fastforce
  have "ScanOnce showf env s1 w1 = Inr (s2, w1\<lparr>wo_store := d2\<rparr>, 0, None)"
    using True same settled(1) assms(2) r pr2 by (simp add: ScanOnce_def)
  then show ?thesis
    using pruneStore_shrinks [OF pr2] r(5) by (simp add: setPending_def)
qed

theorem rescan_stores_nothing_witness:
  "\<exists>s1 w1 s2 w2. ScanOnce (\<lambda>_. ''0'') ex_env (new_scanner (ex_opts False)) ex_world = Inr (s1, w1, 1, None) \<and>
     ScanOnce (\<lambda>_. ''0'') ex_env s1 w1 = Inr (s2, w2, 0, None) \<and> length (sc_facts s2) = 1"
proof -
  obtain s1 w1 where p: "ScanOnce (\<lambda>_. ''0'') ex_env (new_scanner (ex_opts False)) ex_world = Inr (s1, w1, 1, None)"
    "length (sc_facts s1) = 1"
    using ex_pass [of "\<lambda>_. ''0''" False] by auto
  have "mem_inv (new_scanner (ex_opts False))" "length (sc_seenKeys (new_scanner (ex_opts False))) + 1 \<le> seenCap"
    by (simp_all add: mem_inv_def new_scanner_def seenCap_def)
  then show ?thesis
    using rescan_stores_nothing [OF _ _ _ p(1), of "[ex_entry ''x'']"] p by (fastforce simp: ex_env_def)
qed

end
