(* ===== verification/Observation_Summary.thy ===== *)
theory Observation_Summary
  imports Observation_Recorder
begin

text \<open>
  The aggregation of a window, \<open>internal/observation/aggregate.go\<close>: one pass over the records, newest
  first, that fills the window's counters, the two provider dimensions, the models and the hours.

  Go maps are partial functions; a list built from a map is sorted by the code, and the model starts
  from the keys in order. Sums are unbounded integers, floats are real numbers.
\<close>

section \<open>Samples\<close>

definition sampleCap :: nat where "sampleCap = 240"

definition appendSample :: "'a::zero list \<Rightarrow> 'a \<Rightarrow> 'a list" where
  "appendSample samples value =
     (if value = 0 then samples
      else if length samples \<ge> sampleCap then tl samples @ [value]
      else samples @ [value])"

definition median :: "real list \<Rightarrow> real \<Rightarrow> real" where
  "median samples quantile =
     (if samples = [] then 0
      else let xs = sort samples in
        if length xs = 1 then xs ! 0
        else let position = quantile * real (length xs - 1);
                 lower = nat \<lfloor>position\<rfloor>;
                 upper = lower + 1
             in if upper \<ge> length xs then xs ! (length xs - 1)
                else let fraction = position - real lower
                     in xs ! lower + (xs ! upper - xs ! lower) * fraction)"

section \<open>A provider dimension\<close>

record ProviderStat =
  pv_Provider :: string
  pv_Requests :: int
  pv_Ratio :: real
  pv_OffBaseline :: int
  pv_Failed :: int
  pv_TTFTP50Ms :: real
  pv_TTFTP90Ms :: real
  pv_DecodeP50 :: real
  pv_InputTokens :: int
  pv_OutputTokens :: int
  pv_CachedTokens :: int
  pv_CostUSD :: real

record providerAccumulator =
  pc_rows :: "string \<rightharpoonup> ProviderStat"
  pc_ttft :: "string \<Rightarrow> int list"
  pc_tps :: "string \<Rightarrow> real list"
  pc_total :: int

definition newProviderAccumulator :: providerAccumulator where
  "newProviderAccumulator = \<lparr>pc_rows = Map.empty, pc_ttft = (\<lambda>_. []), pc_tps = (\<lambda>_. []), pc_total = 0\<rparr>"

definition new_row :: "string \<Rightarrow> ProviderStat" where
  "new_row name = \<lparr>pv_Provider = name, pv_Requests = 0, pv_Ratio = 0, pv_OffBaseline = 0, pv_Failed = 0,
     pv_TTFTP50Ms = 0, pv_TTFTP90Ms = 0, pv_DecodeP50 = 0, pv_InputTokens = 0, pv_OutputTokens = 0,
     pv_CachedTokens = 0, pv_CostUSD = 0\<rparr>"

definition row_of :: "providerAccumulator \<Rightarrow> string \<Rightarrow> ProviderStat" where
  "row_of a name = (case pc_rows a name of None \<Rightarrow> new_row name | Some row \<Rightarrow> row)"

definition add_provider :: "string \<Rightarrow> Record \<Rightarrow> bool \<Rightarrow> real \<Rightarrow> providerAccumulator \<Rightarrow> providerAccumulator" where
  "add_provider name r off cost a =
     (if name = [] then a
      else let row = row_of a name in
        a\<lparr>pc_rows := (pc_rows a)(name \<mapsto> row\<lparr>pv_Requests := pv_Requests row + 1,
             pv_OffBaseline := pv_OffBaseline row + (if off then 1 else 0),
             pv_Failed := pv_Failed row + (if rec_Failed r then 1 else 0),
             pv_InputTokens := pv_InputTokens row + rec_InputTokens r,
             pv_OutputTokens := pv_OutputTokens row + rec_OutputTokens r,
             pv_CachedTokens := pv_CachedTokens row + rec_CachedTokens r,
             pv_CostUSD := pv_CostUSD row + cost\<rparr>),
           pc_ttft := (pc_ttft a)(name := appendSample (pc_ttft a name) (rec_TTFTMs r)),
           pc_tps := (pc_tps a)(name := appendSample (pc_tps a name) (rec_TPS r)),
           pc_total := pc_total a + 1\<rparr>)"

definition finish_row :: "providerAccumulator \<Rightarrow> string \<Rightarrow> ProviderStat" where
  "finish_row a name =
     (let row = row_of a name; ttft = map real_of_int (pc_ttft a name) in
      row\<lparr>pv_Ratio := (if pc_total a > 0 then real_of_int (pv_Requests row) / real_of_int (pc_total a) else 0),
          pv_TTFTP50Ms := median ttft (1/2), pv_TTFTP90Ms := median ttft (9/10),
          pv_DecodeP50 := median (pc_tps a name) (1/2)\<rparr>)"

definition provider_list :: "providerAccumulator \<Rightarrow> ProviderStat list" where
  "provider_list a = sort_key (\<lambda>row. - pv_Requests row) (map (finish_row a) (sorted_list_of_set (dom (pc_rows a))))"

section \<open>Models and hours\<close>

record ModelStat =
  ms_Model :: string
  ms_CanonicalSlug :: string
  ms_Requests :: int
  ms_OffBaseline :: int
  ms_TTFTP50Ms :: real
  ms_DecodeP50 :: real

record modelAccumulator =
  ma_row :: ModelStat
  ma_ttft :: "int list"
  ma_tps :: "real list"

record HourPoint =
  hp_Hour :: time
  hp_Requests :: int
  hp_OffBaseline :: int
  hp_Failed :: int
  hp_Fallbacks :: int
  hp_Unresolved :: int
  hp_TTFTP50Ms :: real
  hp_DecodeP50 :: real
  hp_CostUSD :: real

record hourAccumulator =
  ha_point :: HourPoint
  ha_ttft :: "int list"
  ha_tps :: "real list"

definition empty_point :: "time \<Rightarrow> HourPoint" where
  "empty_point hour = \<lparr>hp_Hour = hour, hp_Requests = 0, hp_OffBaseline = 0, hp_Failed = 0, hp_Fallbacks = 0,
     hp_Unresolved = 0, hp_TTFTP50Ms = 0, hp_DecodeP50 = 0, hp_CostUSD = 0\<rparr>"

definition add_model :: "Record \<Rightarrow> bool \<Rightarrow> (string \<rightharpoonup> modelAccumulator) \<Rightarrow> (string \<rightharpoonup> modelAccumulator)" where
  "add_model r off m =
     (let model = (if rec_Model r = [] then rec_UpstreamModel r else rec_Model r) in
      if model = [] then m
      else let a = (case m model of Some a \<Rightarrow> a
             | None \<Rightarrow> \<lparr>ma_row = \<lparr>ms_Model = model, ms_CanonicalSlug = rec_CanonicalSlug r, ms_Requests = 0,
                  ms_OffBaseline = 0, ms_TTFTP50Ms = 0, ms_DecodeP50 = 0\<rparr>, ma_ttft = [], ma_tps = []\<rparr>);
             row = ma_row a
           in m(model \<mapsto> \<lparr>ma_row = row\<lparr>ms_Requests := ms_Requests row + 1,
                  ms_OffBaseline := ms_OffBaseline row + (if off then 1 else 0)\<rparr>,
                ma_ttft = appendSample (ma_ttft a) (rec_TTFTMs r), ma_tps = appendSample (ma_tps a) (rec_TPS r)\<rparr>))"

definition add_hour ::
  "Record \<Rightarrow> bool \<Rightarrow> bool \<Rightarrow> bool \<Rightarrow> real \<Rightarrow> (time \<rightharpoonup> hourAccumulator) \<Rightarrow> (time \<rightharpoonup> hourAccumulator)" where
  "add_hour r matched fallback off cost m =
     (let hour = TruncateHour (rec_Time r);
          slot = (case m hour of Some a \<Rightarrow> a | None \<Rightarrow> \<lparr>ha_point = empty_point hour, ha_ttft = [], ha_tps = []\<rparr>);
          p = ha_point slot
      in m(hour \<mapsto> \<lparr>ha_point = p\<lparr>hp_Requests := hp_Requests p + 1,
              hp_Unresolved := hp_Unresolved p + (if matched then 0 else 1),
              hp_Failed := hp_Failed p + (if rec_Failed r then 1 else 0),
              hp_Fallbacks := hp_Fallbacks p + (if fallback then 1 else 0),
              hp_OffBaseline := hp_OffBaseline p + (if off then 1 else 0),
              hp_CostUSD := hp_CostUSD p + cost\<rparr>,
            ha_ttft = appendSample (ha_ttft slot) (rec_TTFTMs r), ha_tps = appendSample (ha_tps slot) (rec_TPS r)\<rparr>))"

section \<open>Summary\<close>

record Totals =
  to_Resolved :: int
  to_Unresolved :: int
  to_OffBaseline :: int
  to_FailedRequests :: int
  to_Fallbacks :: int
  to_InputTokens :: int
  to_OutputTokens :: int
  to_CachedTokens :: int
  to_CostUSD :: real
  to_ttfts :: "int list"
  to_speeds :: "real list"
  to_channels :: providerAccumulator
  to_credentials :: providerAccumulator
  to_models :: "string \<rightharpoonup> modelAccumulator"
  to_hours :: "time \<rightharpoonup> hourAccumulator"

definition zero_totals :: Totals where
  "zero_totals = \<lparr>to_Resolved = 0, to_Unresolved = 0, to_OffBaseline = 0, to_FailedRequests = 0, to_Fallbacks = 0,
     to_InputTokens = 0, to_OutputTokens = 0, to_CachedTokens = 0, to_CostUSD = 0, to_ttfts = [], to_speeds = [],
     to_channels = newProviderAccumulator, to_credentials = newProviderAccumulator,
     to_models = Map.empty, to_hours = Map.empty\<rparr>"

definition off_baseline :: "string \<Rightarrow> Record \<Rightarrow> bool" where
  "off_baseline baseline r \<longleftrightarrow>
     (let channel = GatewayChannel r in channel \<noteq> [] \<and> baseline \<noteq> [] \<and> \<not> EqualFold channel baseline)"

text \<open>One iteration of the loop over the records.\<close>

definition add_record :: "Fact list \<Rightarrow> string \<Rightarrow> Totals \<Rightarrow> Record \<Rightarrow> Totals" where
  "add_record facts baseline t stored =
     (let found = join_match facts stored;
          matched = (found \<noteq> None);
          r = (case found of None \<Rightarrow> stored | Some f \<Rightarrow> withChannel stored f);
          off = off_baseline baseline r;
          fallback = (matched \<and> rec_GatewayAttempts r > 1);
          cost = rec_CostUSD r + rec_GatewayCost r
      in \<lparr>to_Resolved = to_Resolved t + (if matched then 1 else 0),
          to_Unresolved = to_Unresolved t + (if matched then 0 else 1),
          to_OffBaseline = to_OffBaseline t + (if off then 1 else 0),
          to_FailedRequests = to_FailedRequests t + (if rec_Failed r then 1 else 0),
          to_Fallbacks = to_Fallbacks t + (if fallback then 1 else 0),
          to_InputTokens = to_InputTokens t + rec_InputTokens r,
          to_OutputTokens = to_OutputTokens t + rec_OutputTokens r,
          to_CachedTokens = to_CachedTokens t + rec_CachedTokens r,
          to_CostUSD = to_CostUSD t + cost,
          to_ttfts = appendSample (to_ttfts t) (rec_TTFTMs r),
          to_speeds = appendSample (to_speeds t) (rec_TPS r),
          to_channels = add_provider (rec_GatewayProvider r) r off cost (to_channels t),
          to_credentials = add_provider (rec_CPProvider r) r False cost (to_credentials t),
          to_models = add_model r off (to_models t),
          to_hours = add_hour r matched fallback off cost (to_hours t)\<rparr>)"

text \<open>The points of the timeline: every hour from the first to the present one.\<close>

function hour_cursors :: "time \<Rightarrow> time \<Rightarrow> time list" where
  "hour_cursors cursor now = (if After cursor now then [] else cursor # hour_cursors (cursor + Hour) now)"
  by pat_completeness auto
termination
  by (relation "measure (\<lambda>(cursor, now). nat (now - cursor + 1))") (auto simp: After_def duration_defs)

declare hour_cursors.simps [simp del]

definition hour_point :: "(time \<rightharpoonup> hourAccumulator) \<Rightarrow> time \<Rightarrow> HourPoint" where
  "hour_point hours cursor =
     (case hours cursor of None \<Rightarrow> empty_point cursor
      | Some slot \<Rightarrow> (ha_point slot)\<lparr>hp_TTFTP50Ms := median (map real_of_int (ha_ttft slot)) (1/2),
                       hp_DecodeP50 := median (ha_tps slot) (1/2)\<rparr>)"

definition finish_model :: "modelAccumulator \<Rightarrow> ModelStat" where
  "finish_model a = (ma_row a)\<lparr>ms_TTFTP50Ms := median (map real_of_int (ma_ttft a)) (1/2),
     ms_DecodeP50 := median (ma_tps a) (1/2)\<rparr>"

definition model_list :: "(string \<rightharpoonup> modelAccumulator) \<Rightarrow> ModelStat list" where
  "model_list m = sort_key (\<lambda>row. - ms_Requests row)
     (map (\<lambda>k. finish_model (the (m k))) (sorted_list_of_set (dom m)))"

record Summary =
  sm_GeneratedAt :: time
  sm_Window :: string
  sm_From :: time
  sm_To :: time
  sm_Baseline :: string
  sm_Resolved :: int
  sm_Unresolved :: int
  sm_OffBaseline :: int
  sm_OffRatio :: real
  sm_FailedRequests :: int
  sm_Fallbacks :: int
  sm_Channels :: int
  sm_TTFTP50Ms :: real
  sm_TTFTP90Ms :: real
  sm_DecodeP50TPS :: real
  sm_InputTokens :: int
  sm_OutputTokens :: int
  sm_CachedTokens :: int
  sm_CostUSD :: real
  sm_Providers :: "ProviderStat list"
  sm_CPAProviders :: "ProviderStat list"
  sm_Models :: "ModelStat list"
  sm_Hours :: "HourPoint list"
  sm_Health :: ObsHealth

definition Summary :: "Fact list \<Rightarrow> string \<Rightarrow> string \<Rightarrow> time \<Rightarrow> Record list \<Rightarrow> ObsHealth \<Rightarrow> Summary" where
  "Summary facts baseline w now records health =
     (let start = TruncateHour (now - window_duration w);
          t = foldl (add_record facts baseline) zero_totals records;
          ttfts = map real_of_int (to_ttfts t);
          providers = provider_list (to_channels t)
      in \<lparr>sm_GeneratedAt = now, sm_Window = w, sm_From = start, sm_To = now, sm_Baseline = baseline,
          sm_Resolved = to_Resolved t, sm_Unresolved = to_Unresolved t, sm_OffBaseline = to_OffBaseline t,
          sm_OffRatio = (if to_Resolved t > 0 then real_of_int (to_OffBaseline t) / real_of_int (to_Resolved t) else 0),
          sm_FailedRequests = to_FailedRequests t, sm_Fallbacks = to_Fallbacks t,
          sm_Channels = int (length providers),
          sm_TTFTP50Ms = median ttfts (1/2), sm_TTFTP90Ms = median ttfts (9/10),
          sm_DecodeP50TPS = median (to_speeds t) (1/2),
          sm_InputTokens = to_InputTokens t, sm_OutputTokens = to_OutputTokens t,
          sm_CachedTokens = to_CachedTokens t, sm_CostUSD = to_CostUSD t,
          sm_Providers = providers, sm_CPAProviders = provider_list (to_credentials t),
          sm_Models = model_list (to_models t),
          sm_Hours = map (hour_point (to_hours t)) (hour_cursors start now), sm_Health = health\<rparr>)"

section \<open>Where the facts come from\<close>

definition factSourceMax :: nat where "factSourceMax = 40000"
definition factSourceTTL :: duration where "factSourceTTL = 5 * Second"

definition dec_fact :: "json \<Rightarrow> Fact option" where
  "dec_fact j = (if j = JNull then Some (empty_fact [] zero_time) else do {
     ms \<leftarrow> dec_object j;
     x0 \<leftarrow> json_field dec_time ''time'' ms zero_time;
     x1 \<leftarrow> json_field dec_string ''path'' ms [];
     x2 \<leftarrow> json_field dec_string ''method'' ms [];
     x3 \<leftarrow> json_field dec_string ''session_id'' ms [];
     x4 \<leftarrow> json_field dec_string ''session_uuid'' ms [];
     x5 \<leftarrow> json_field dec_bool ''has_session'' ms False;
     x6 \<leftarrow> json_field dec_string ''final_provider'' ms [];
     x7 \<leftarrow> json_field dec_string ''resolved_provider'' ms [];
     x8 \<leftarrow> json_field dec_string ''canonical_slug'' ms [];
     x9 \<leftarrow> json_field dec_string ''original_model_id'' ms [];
     x10 \<leftarrow> json_field dec_string ''pinned_provider'' ms [];
     x11 \<leftarrow> json_field dec_string ''affinity_outcome'' ms [];
     x12 \<leftarrow> json_field dec_int ''model_attempt_count'' ms 0;
     x13 \<leftarrow> json_field dec_int ''total_provider_attempt_count'' ms 0;
     x14 \<leftarrow> json_pointer dec_strings ''fallbacks_available'' ms None;
     x15 \<leftarrow> json_field dec_float ''gateway_cost'' ms 0;
     x16 \<leftarrow> json_field dec_int ''prompt_tokens'' ms 0;
     x17 \<leftarrow> json_field dec_int ''completion_tokens'' ms 0;
     x18 \<leftarrow> json_field dec_int ''frames'' ms 0;
     x19 \<leftarrow> json_field dec_int ''attempts_seen'' ms 0;
     x20 \<leftarrow> json_field dec_bool ''had_error_response'' ms False;
     x21 \<leftarrow> json_field dec_string ''source_file'' ms [];
     x22 \<leftarrow> json_field dec_time ''parsed_at'' ms zero_time;
     Some \<lparr>fc_Time = x0, fc_Path = x1, fc_Method = x2, fc_SessionID = x3, fc_SessionUUID = x4, fc_HasSession = x5,
       fc_FinalProvider = x6, fc_ResolvedProvider = x7, fc_CanonicalSlug = x8, fc_OriginalModelID = x9,
       fc_PinnedProvider = x10, fc_AffinityOutcome = x11, fc_ModelAttemptCount = x12,
       fc_TotalProviderAttemptCount = x13, fc_FallbacksAvailable = list_of x14, fc_GatewayCost = x15,
       fc_PromptTokens = x16, fc_CompletionTokens = x17, fc_Frames = x18, fc_AttemptsSeen = x19,
       fc_HadErrorResponse = x20, fc_SourceFile = x21, fc_ParsedAt = x22\<rparr> })"

definition fact_of_line :: "string \<Rightarrow> Fact option" where
  "fact_of_line l = (let line = TrimSpace l in if line = [] then None else Option.bind (parse_json line) dec_fact)"

text \<open>The lines of one file are added until the list is full; a line of a mebibyte ends the file.\<close>

fun take_facts :: "Fact list \<Rightarrow> string list \<Rightarrow> Fact list" where
  "take_facts facts [] = facts"
| "take_facts facts (l # ls) =
     (case fact_of_line l of
        None \<Rightarrow> take_facts facts ls
      | Some f \<Rightarrow> if length facts + 1 \<ge> factSourceMax then facts @ [f] else take_facts (facts @ [f]) ls)"

definition appendFactsFromFile :: "Fact list \<Rightarrow> string option \<Rightarrow> Fact list" where
  "appendFactsFromFile facts content =
     (case content of None \<Rightarrow> facts
      | Some c \<Rightarrow> take_facts facts (takeWhile (\<lambda>l. int (length l) < 1048576) (scan_lines c)))"

fun load_files :: "Fact list \<Rightarrow> string option list \<Rightarrow> Fact list" where
  "load_files facts [] = facts"
| "load_files facts (c # rest) =
     (let fs = appendFactsFromFile facts c in if length fs \<ge> factSourceMax then fs else load_files fs rest)"

text \<open>
  The two hand-written sorts: the element at \<open>i\<close> moves left while it is greater than its neighbour.
  The sorted part is kept last element first.
\<close>

fun sink :: "('a \<Rightarrow> 'a \<Rightarrow> bool) \<Rightarrow> 'a \<Rightarrow> 'a list \<Rightarrow> 'a list" where
  "sink gt x [] = [x]"
| "sink gt x (y # ys) = (if gt x y then y # sink gt x ys else x # y # ys)"

definition insertion :: "('a \<Rightarrow> 'a \<Rightarrow> bool) \<Rightarrow> 'a list \<Rightarrow> 'a list" where
  "insertion gt xs = rev (foldl (\<lambda>sorted x. sink gt x sorted) [] xs)"

definition sortStringsDesc :: "string list \<Rightarrow> string list" where
  "sortStringsDesc values = insertion (\<lambda>a b. a > b) values"

definition sortFactsNewestFirst :: "Fact list \<Rightarrow> Fact list" where
  "sortFactsNewestFirst facts = insertion (\<lambda>a b. After (fc_Time a) (fc_Time b)) facts"

definition fact_file_names :: "string list \<Rightarrow> string list" where
  "fact_file_names names = sortStringsDesc (filter (\<lambda>n. HasPrefix n factPrefix \<and> HasSuffix n factSuffix) names)"

definition loadFactFiles :: "string list option \<Rightarrow> dir \<Rightarrow> Fact list" where
  "loadFactFiles listing d =
     (case listing of None \<Rightarrow> []
      | Some names \<Rightarrow> take factSourceMax (load_files [] (map d (fact_file_names names))))"

definition factKey :: "Fact \<Rightarrow> string" where
  "factKey f = fc_SourceFile f @ ''|'' @ FormatRFC3339Nano (fc_Time f)"

fun merge_new :: "string set \<Rightarrow> Fact list \<Rightarrow> Fact list" where
  "merge_new seen [] = []"
| "merge_new seen (f # fs) =
     (if factKey f \<in> seen then merge_new seen fs else f # merge_new (insert (factKey f) seen) fs)"

definition mergeFacts :: "Fact list \<Rightarrow> Fact list \<Rightarrow> Fact list" where
  "mergeFacts stored live =
     (if live = [] then stored
      else if stored = [] then live
      else take factSourceMax (sortFactsNewestFirst (stored @ merge_new (factKey ` set stored) live)))"

text \<open>The source with its short cache; the ring is the running scanner's, when there is one.\<close>

record FactCache =
  fa_cached :: "Fact list"
  fa_loadedAt :: time

definition source_facts ::
  "time \<Rightarrow> string list option \<Rightarrow> dir \<Rightarrow> Scanner option \<Rightarrow> FactCache \<Rightarrow> Fact list \<times> FactCache" where
  "source_facts now listing d ring c =
     (if Sub now (fa_loadedAt c) < factSourceTTL then (fa_cached c, c)
      else let stored = loadFactFiles listing d;
               facts = mergeFacts stored (case ring of None \<Rightarrow> [] | Some s \<Rightarrow> Facts s)
           in (facts, \<lparr>fa_cached = facts, fa_loadedAt = now\<rparr>))"

end
