(* ===== verification/Observation_Props.thy ===== *)
theory Observation_Props
  imports Observation_Summary
begin

text \<open>
  What the observation half promises: no event goes uncounted, a channel is joined only on
  evidence, and the summary adds up.
\<close>

section \<open>The recorder counts every event\<close>

definition recorder_inv :: "Recorder \<Rightarrow> bool" where
  "recorder_inv r \<longleftrightarrow> (let h = rr_stats r in
     length (rr_queue r) \<le> queueCapacity \<and>
     oh_Queued h = oh_Written h + oh_WriteFailures h + int (length (rr_queue r)) + int (length (rr_inflight r)) \<and>
     oh_Events h = oh_Dropped h + oh_Queued h \<and>
     0 \<le> oh_FailedEvents h \<and> oh_FailedEvents h \<le> oh_Events h)"

lemma new_recorder_inv: "recorder_inv (new_recorder enabled disk)"
  by (simp add: recorder_inv_def new_recorder_def new_health_def)

lemma HandleUsage_inv:
  assumes "recorder_inv r" and "HandleUsage raw now r = (answer, r')"
  shows "recorder_inv r'"
proof -
  have "recorder_inv (noteDecodeFailure now r)"
    using assms(1) by (simp add: recorder_inv_def noteDecodeFailure_def Let_def)
  moreover have "recorder_inv (observe_count wire now r)" for wire
    using assms(1) by (auto simp: recorder_inv_def observe_count_def count_event_def Let_def)
  ultimately show ?thesis using assms(2) by (auto simp: HandleUsage_def split: option.split_asm)
qed

lemma observe_send_inv:
  assumes "recorder_inv r" and "rr_inflight r = before @ rc # after"
  shows "recorder_inv (observe_send before rc after r)"
  using assms by (auto simp: recorder_inv_def observe_send_def Let_def)

lemma write_record_frame:
  "rr_queue (write_record showf env now rc r) = rr_queue r" "rr_inflight (write_record showf env now rc r) = rr_inflight r"
  "rr_started (write_record showf env now rc r) = rr_started r"
  by (simp_all add: write_record_def Let_def split: prod.split)

lemma write_record_inv:
  assumes "recorder_inv (r\<lparr>rr_queue := rc # rest\<rparr>)"
  shows "recorder_inv (write_record showf env now rc (r\<lparr>rr_queue := rest\<rparr>))"
  using assms by (auto simp: recorder_inv_def write_record_def Let_def split: prod.split)

lemma drain_queue_inv:
  assumes "recorder_inv (r\<lparr>rr_queue := q\<rparr>)"
  shows "recorder_inv ((drain_queue showf env now q (r\<lparr>rr_queue := q\<rparr>))) \<and>
    rr_queue (drain_queue showf env now q (r\<lparr>rr_queue := q\<rparr>)) = []"
  using assms
proof (induction q arbitrary: r env)
  case (Cons rc q)
  let ?w = "write_record showf (env 0) now rc (r\<lparr>rr_queue := q\<rparr>)"
  have w: "?w = ?w\<lparr>rr_queue := q\<rparr>" by (simp add: write_record_frame)
  have "recorder_inv ?w" using Cons.prems by (rule write_record_inv)
  then show ?case using Cons.IH [of ?w "\<lambda>n. env (Suc n)"] w by simp
qed simp

lemma store_only_inv:
  "recorder_inv (r\<lparr>rr_store := s\<rparr>) = recorder_inv r"
  "recorder_inv (r\<lparr>rr_store := s, rr_stats := (rr_stats r)\<lparr>oh_Files := n, oh_Bytes := b, oh_LastError := e\<rparr>\<rparr>) = recorder_inv r"
  "recorder_inv (r\<lparr>rr_store := s, rr_started := live\<rparr>) = recorder_inv r"
  "recorder_inv (r\<lparr>rr_started := live\<rparr>) = recorder_inv r"
  by (simp_all add: recorder_inv_def Let_def)

lemma recorder_step_inv: "recorder_step showf r r' \<Longrightarrow> recorder_inv r \<Longrightarrow> recorder_inv r'"
proof (induction rule: recorder_step.induct)
  case (Usage raw now r answer r')
  then show ?case by (blast intro: HandleUsage_inv)
next
  case (Send r before rc after)
  then show ?case by (blast intro: observe_send_inv)
next
  case (Take r rc rest env now)
  then have "r\<lparr>rr_queue := rc # rest\<rparr> = r" by simp
  with Take have "recorder_inv (r\<lparr>rr_queue := rc # rest\<rparr>)" by metis
  then show ?case by (rule write_record_inv)
next
  case (Sync fail envs now r store ok)
  have "r\<lparr>rr_queue := rr_queue r\<rparr> = r" by simp
  with Sync(2) show ?case using drain_queue_inv [where r = r and q = "rr_queue r" and env = envs] by (simp add: store_only_inv)
next
  case (Stop r fail1 fail2 envs now)
  have "r\<lparr>rr_queue := rr_queue r\<rparr> = r" by simp
  with Stop show ?case using drain_queue_inv [where r = r and q = "rr_queue r" and env = envs]
    by (simp add: store_only_inv stop_recorder_def Let_def)
qed (simp_all add: store_only_inv)

lemma start_recorder_inv: "recorder_inv (start_recorder mkdirs now names (new_recorder enabled disk))"
  using new_recorder_inv [of enabled disk]
  by (simp add: recorder_inv_def start_recorder_def warm_up_def open_store_def Let_def split: prod.split)

text \<open>C20: No request goes uncounted. In every state the recorder can reach, whatever payloads arrive, in
  whatever order the calls, the sends, the writer and the cleaner interleave, and whichever
  writes fail: every accepted event is dropped, written, failed to write, waiting in the queue or
  being sent, and it is exactly one of these; the queue never exceeds its capacity.\<close>

theorem every_event_accounted:
  assumes "recorder_reaches showf (start_recorder mkdirs now names (new_recorder enabled disk)) r"
  shows "oh_Events (rr_stats r) = oh_Dropped (rr_stats r) + oh_Written (rr_stats r) + oh_WriteFailures (rr_stats r) +
      int (length (rr_queue r)) + int (length (rr_inflight r)) \<and>
    length (rr_queue r) \<le> queueCapacity \<and> oh_FailedEvents (rr_stats r) \<le> oh_Events (rr_stats r)"
proof -
  from assms start_recorder_inv [of mkdirs now names enabled disk] have "recorder_inv r"
    by (induction rule: recorder_reaches.induct) (auto intro: recorder_step_inv)
  then show ?thesis by (simp add: recorder_inv_def Let_def)
qed

definition ex_start :: Recorder where "ex_start = start_recorder True 0 [] (new_recorder True Map.empty)"

definition ex_counted :: Recorder where "ex_counted = observe_count zero_wire 0 ex_start"

lemma ex_usage: "HandleUsage ''null'' 0 ex_start = (keepAnswer, ex_counted)"
proof -
  have "parse_json ''null'' = Some JNull" by code_simp
  then show ?thesis by (simp add: HandleUsage_def dec_wire_def ex_counted_def)
qed

lemma ex_start_fields: "rr_started ex_start" "rr_queue ex_start = []" "rr_inflight ex_start = []"
  "oh_Events (rr_stats ex_start) = 0"
  by (simp_all add: ex_start_def start_recorder_def warm_up_def open_store_def new_recorder_def new_health_def Let_def
      split: prod.split)

theorem every_event_accounted_witness:
  "recorder_reaches (\<lambda>_. ''0'') ex_start ex_counted \<and> oh_Events (rr_stats ex_counted) = 1 \<and>
   length (rr_inflight ex_counted) = 1 \<and> oh_FailedEvents (rr_stats ex_counted) \<le> oh_Events (rr_stats ex_counted)"
proof -
  have reach: "recorder_reaches (\<lambda>_. ''0'') ex_start ex_counted"
    by (rule recorder_reaches.step [OF recorder_reaches.start recorder_step.Usage [OF ex_usage]])
  have "oh_Events (rr_stats ex_counted) = 1" "length (rr_inflight ex_counted) = 1"
    by (simp_all add: ex_counted_def ex_start_fields observe_count_def queueCapacity_def count_event_def Let_def)
  with reach show ?thesis
    using every_event_accounted [of "\<lambda>_. ''0''" True 0 "[]" True Map.empty ex_counted] by (simp add: ex_start_def)
qed

section \<open>The join\<close>









section \<open>The summary adds up\<close>

text \<open>A table built record by record counts, under each key, the records of that key.\<close>

definition row_count :: "('k \<rightharpoonup> 'r) \<Rightarrow> ('r \<Rightarrow> int) \<Rightarrow> 'k \<Rightarrow> int" where
  "row_count m f k = (case m k of None \<Rightarrow> 0 | Some x \<Rightarrow> f x)"

definition counts :: "('k \<rightharpoonup> 'r) \<Rightarrow> ('r \<Rightarrow> int) \<Rightarrow> ('s \<Rightarrow> 'k) \<Rightarrow> ('s \<Rightarrow> bool) \<Rightarrow> 's list \<Rightarrow> bool" where
  "counts m f key ok rs \<longleftrightarrow> dom m = key ` {r \<in> set rs. ok r} \<and>
     (\<forall>k. row_count m f k = int (length (filter (\<lambda>r. ok r \<and> key r = k) rs)))"

lemma counts_Nil: "counts Map.empty f key ok []"
  by (simp add: counts_def row_count_def)

lemma counts_skip: "counts m f key ok rs \<Longrightarrow> \<not> ok r \<Longrightarrow> counts m f key ok (rs @ [r])"
  by (auto simp: counts_def)

lemma counts_add:
  "counts m f key ok rs \<Longrightarrow> ok r \<Longrightarrow> f x = row_count m f (key r) + 1 \<Longrightarrow> counts (m(key r \<mapsto> x)) f key ok (rs @ [r])"
  by (auto simp: counts_def row_count_def)

lemma sum_key_counts:
  "distinct ks \<Longrightarrow> (\<Sum>k\<leftarrow>ks. int (length (filter (\<lambda>r. ok r \<and> key r = k) rs))) =
     int (length (filter (\<lambda>r. ok r \<and> key r \<in> set ks) rs))"
proof (induction rs)
  case (Cons r rs)
  have "(\<Sum>k\<leftarrow>ks. int (length (filter (\<lambda>r. ok r \<and> key r = k) (r # rs)))) =
     (\<Sum>k\<leftarrow>ks. int (length (filter (\<lambda>r. ok r \<and> key r = k) rs)) + (if ok r \<and> key r = k then 1 else 0))"
    by (intro arg_cong [where f = sum_list] map_cong) auto
  also have "\<dots> = (\<Sum>k\<leftarrow>ks. int (length (filter (\<lambda>r. ok r \<and> key r = k) rs))) +
     (\<Sum>k\<leftarrow>ks. if ok r \<and> key r = k then 1 else 0)"
    by (simp add: sum_list_addf)
  also have "(\<Sum>k\<leftarrow>ks. if ok r \<and> key r = k then 1 else 0) = (if ok r \<and> key r \<in> set ks then 1 else 0 :: int)"
    using Cons.prems by (induction ks) auto
  finally show ?case using Cons by simp
qed (simp add: sum_list_0)

lemma counts_sum:
  assumes "counts m f key ok rs"
  shows "(\<Sum>k\<leftarrow>sorted_list_of_set (dom m). row_count m f k) = int (length (filter ok rs))"
proof -
  have fin: "finite (dom m)" and rc: "\<And>k. row_count m f k = int (length (filter (\<lambda>r. ok r \<and> key r = k) rs))"
    and d: "dom m = key ` {r \<in> set rs. ok r}"
    using assms by (auto simp: counts_def)
  have "(\<Sum>k\<leftarrow>sorted_list_of_set (dom m). row_count m f k) =
      int (length (filter (\<lambda>r. ok r \<and> key r \<in> set (sorted_list_of_set (dom m))) rs))"
    unfolding rc by (rule sum_key_counts) simp
  also have "filter (\<lambda>r. ok r \<and> key r \<in> set (sorted_list_of_set (dom m))) rs = filter ok rs"
    using fin d by (intro filter_cong) auto
  finally show ?thesis .
qed

lemma sum_list_insort_key: "(\<Sum>y\<leftarrow>insort_key k x xs. f y) = (f x + (\<Sum>y\<leftarrow>xs. f y) :: int)"
  by (induction xs) auto

lemma sum_list_sort_key: "(\<Sum>x\<leftarrow>sort_key k xs. f x) = (\<Sum>x\<leftarrow>xs. f x :: int)"
  by (induction xs) (simp_all add: sum_list_insort_key)

lemma provider_rows_counted:
  assumes "counts (pc_rows a) pv_Requests key ok rs"
  shows "(\<Sum>row\<leftarrow>provider_list a. pv_Requests row) = int (length (filter ok rs))"
proof -
  have "(\<Sum>row\<leftarrow>provider_list a. pv_Requests row) =
      (\<Sum>k\<leftarrow>sorted_list_of_set (dom (pc_rows a)). row_count (pc_rows a) pv_Requests k)"
    by (simp add: provider_list_def sum_list_sort_key o_def finish_row_def row_of_def row_count_def new_row_def Let_def
        option.case_distrib [of pv_Requests] cong: option.case_cong)
  then show ?thesis using counts_sum [OF assms] by simp
qed

text \<open>The four tables of the pass.\<close>

definition tables_counted :: "Fact list \<Rightarrow> Totals \<Rightarrow> Record list \<Rightarrow> bool" where
  "tables_counted facts t rs \<longleftrightarrow>
     counts (pc_rows (to_channels t)) pv_Requests rec_GatewayProvider (\<lambda>r. rec_GatewayProvider r \<noteq> []) (map (joined facts) rs) \<and>
     counts (pc_rows (to_credentials t)) pv_Requests rec_CPProvider (\<lambda>r. rec_CPProvider r \<noteq> []) (map (joined facts) rs) \<and>
     counts (to_models t) (\<lambda>a. ms_Requests (ma_row a)) (\<lambda>r. if rec_Model r = [] then rec_UpstreamModel r else rec_Model r)
       (\<lambda>r. \<not> (rec_Model r = [] \<and> rec_UpstreamModel r = [])) (map (joined facts) rs) \<and>
     counts (to_hours t) (\<lambda>a. hp_Requests (ha_point a)) (\<lambda>r. TruncateHour (rec_Time r)) (\<lambda>_. True) (map (joined facts) rs)"

lemma add_provider_counts:
  assumes "counts (pc_rows a) pv_Requests key (\<lambda>r. key r \<noteq> []) rs"
  shows "counts (pc_rows (add_provider (key r) r off cost a)) pv_Requests key (\<lambda>r. key r \<noteq> []) (rs @ [r])"
proof (cases "key r = []")
  case True
  with assms show ?thesis by (simp add: add_provider_def counts_skip)
next
  case False
  then obtain x where x: "pc_rows (add_provider (key r) r off cost a) = (pc_rows a)(key r \<mapsto> x)"
      "pv_Requests x = pv_Requests (row_of a (key r)) + 1"
    by (simp add: add_provider_def Let_def)
  have "pv_Requests (row_of a (key r)) = row_count (pc_rows a) pv_Requests (key r)"
    by (simp add: row_of_def row_count_def new_row_def split: option.split)
  with x assms False show ?thesis by (simp add: counts_add)
qed

lemma add_model_counts:
  assumes "counts m (\<lambda>a. ms_Requests (ma_row a)) (\<lambda>r. if rec_Model r = [] then rec_UpstreamModel r else rec_Model r)
       (\<lambda>r. \<not> (rec_Model r = [] \<and> rec_UpstreamModel r = [])) rs"
  shows "counts (add_model r off m) (\<lambda>a. ms_Requests (ma_row a)) (\<lambda>r. if rec_Model r = [] then rec_UpstreamModel r else rec_Model r)
       (\<lambda>r. \<not> (rec_Model r = [] \<and> rec_UpstreamModel r = [])) (rs @ [r])"
proof (cases "(if rec_Model r = [] then rec_UpstreamModel r else rec_Model r) = []")
  case True
  with assms show ?thesis by (auto simp: add_model_def intro: counts_skip split: if_split_asm)
next
  case False
  show ?thesis unfolding add_model_def if_not_P [OF False] Let_def
    using assms by (rule counts_add) (use False in \<open>auto simp: row_count_def split: option.split if_split_asm\<close>)
qed

lemma add_hour_counts:
  assumes "counts m (\<lambda>a. hp_Requests (ha_point a)) (\<lambda>r. TruncateHour (rec_Time r)) (\<lambda>_. True) rs"
  shows "counts (add_hour r matched fallback off cost m) (\<lambda>a. hp_Requests (ha_point a)) (\<lambda>r. TruncateHour (rec_Time r))
     (\<lambda>_. True) (rs @ [r])"
  unfolding add_hour_def Let_def
  using assms by (rule counts_add) (auto simp: row_count_def empty_point_def split: option.split)

lemma add_record_tables:
  assumes "tables_counted facts t rs"
  shows "tables_counted facts (add_record facts baseline t s) (rs @ [s])"
proof -
  have j: "(case join_match facts s of None \<Rightarrow> s | Some f \<Rightarrow> withChannel s f) = joined facts s"
    by (simp add: joined_def)
  show ?thesis
    using assms unfolding tables_counted_def add_record_def Let_def j Totals.simps list.map map_append
    by (blast intro: add_provider_counts add_model_counts add_hour_counts)
qed

lemma pass_tables: "tables_counted facts (foldl (add_record facts baseline) zero_totals rs) rs"
proof (induction rs rule: rev_induct)
  case Nil
  show ?case by (simp add: tables_counted_def zero_totals_def newProviderAccumulator_def counts_Nil)
next
  case (snoc r rs)
  then show ?case using add_record_tables by simp
qed

lemma pass_resolved:
  "to_Resolved (foldl (add_record facts baseline) zero_totals rs) = int (length (filter (\<lambda>r. join_match facts r \<noteq> None) rs))"
  "to_Unresolved (foldl (add_record facts baseline) zero_totals rs) = int (length (filter (\<lambda>r. join_match facts r = None) rs))"
  by (induction rs rule: rev_induct) (auto simp: zero_totals_def add_record_def Let_def)

lemma model_rows_counted:
  assumes "counts m (\<lambda>a. ms_Requests (ma_row a)) key ok rs"
  shows "(\<Sum>row\<leftarrow>model_list m. ms_Requests row) = int (length (filter ok rs))"
proof -
  have fin: "finite (dom m)" using assms by (simp add: counts_def)
  have "(\<Sum>row\<leftarrow>model_list m. ms_Requests row) =
      (\<Sum>k\<leftarrow>sorted_list_of_set (dom m). ms_Requests (finish_model (the (m k))))"
    by (simp add: model_list_def sum_list_sort_key o_def)
  also have "\<dots> = (\<Sum>k\<leftarrow>sorted_list_of_set (dom m). row_count m (\<lambda>a. ms_Requests (ma_row a)) k)"
    using fin by (intro arg_cong [where f = sum_list] map_cong) (auto simp: row_count_def finish_model_def)
  finally show ?thesis using counts_sum [OF assms] by simp
qed

text \<open>The timeline has every hour between its ends, once.\<close>

lemma hour_cursors_set:
  "h \<in> set (hour_cursors c now) \<longleftrightarrow> c \<le> h \<and> h \<le> now \<and> (h - c) mod Hour = 0"
proof (induction c now rule: hour_cursors.induct)
  case (1 c now)
  have hour: "Hour > 0" by (simp add: duration_defs)
  have "\<not> c + Hour \<le> h" if "c < h" "(h - c) mod Hour = 0" "\<not> c + Hour \<le> h"
    using that hour zmod_trivial_iff [of "h - c" Hour] by auto
  then have next_hour: "c + Hour \<le> h" if "c < h" "(h - c) mod Hour = 0"
    using that hour by (metis diff_ge_0_iff_ge diff_less_eq add.commute less_le mod_pos_pos_trivial not_le right_minus_eq)
  have shift: "(h - (c + Hour)) mod Hour = (h - c) mod Hour"
    using minus_mod_self2 [of "h - c" Hour] by (simp add: algebra_simps)
  show ?case
  proof (cases "After c now")
    case True
    then show ?thesis by (auto simp: hour_cursors.simps After_def)
  next
    case False
    have "h \<in> set (hour_cursors c now) \<longleftrightarrow> h = c \<or> h \<in> set (hour_cursors (c + Hour) now)"
      using False by (subst hour_cursors.simps) simp
    also have "\<dots> \<longleftrightarrow> h = c \<or> c + Hour \<le> h \<and> h \<le> now \<and> (h - c) mod Hour = 0"
      using 1 [OF False] shift by simp
    also have "\<dots> \<longleftrightarrow> c \<le> h \<and> h \<le> now \<and> (h - c) mod Hour = 0"
      using False hour next_hour by (auto simp: After_def)
    finally show ?thesis .
  qed
qed

lemma hour_cursors_distinct: "distinct (hour_cursors c now)"
proof (induction c now rule: hour_cursors.induct)
  case (1 c now)
  then show ?case
    by (subst hour_cursors.simps) (auto simp: hour_cursors_set duration_defs)
qed

lemma TruncateHour_apart: "(TruncateHour t - TruncateHour u) mod Hour = 0"
proof -
  have "TruncateHour t = zero_time + Hour * ((t - zero_time) div Hour)" for t
    by (simp add: TruncateHour_def minus_mod_eq_mult_div [symmetric])
  then show ?thesis by (simp flip: right_diff_distrib)
qed

lemma hour_rows_counted:
  assumes "counts m (\<lambda>a. hp_Requests (ha_point a)) (\<lambda>r. TruncateHour (rec_Time r)) (\<lambda>_. True) rs"
  shows "(\<Sum>p\<leftarrow>map (hour_point m) (hour_cursors (TruncateHour c) now). hp_Requests p) =
    int (length (filter (\<lambda>r. TruncateHour c \<le> TruncateHour (rec_Time r) \<and> TruncateHour (rec_Time r) \<le> now) rs))"
proof -
  have "hp_Requests (hour_point m h) = row_count m (\<lambda>a. hp_Requests (ha_point a)) h" for h
    by (simp add: hour_point_def row_count_def empty_point_def split: option.split)
  also have "row_count m (\<lambda>a. hp_Requests (ha_point a)) h =
      int (length (filter (\<lambda>r. True \<and> TruncateHour (rec_Time r) = h) rs))" for h
    using assms by (simp add: counts_def)
  finally have "(\<Sum>p\<leftarrow>map (hour_point m) (hour_cursors (TruncateHour c) now). hp_Requests p) =
      (\<Sum>h\<leftarrow>hour_cursors (TruncateHour c) now. int (length (filter (\<lambda>r. True \<and> TruncateHour (rec_Time r) = h) rs)))"
    by (simp add: o_def)
  also have "\<dots> = int (length (filter (\<lambda>r. True \<and> TruncateHour (rec_Time r) \<in> set (hour_cursors (TruncateHour c) now)) rs))"
    by (rule sum_key_counts [OF hour_cursors_distinct])
  finally show ?thesis by (simp add: hour_cursors_set TruncateHour_apart)
qed

text \<open>C22: The summary adds up. Every record of the window is counted once as resolved or unresolved, and resolved
  is exactly "the join found a fact"; the provider rows of each dimension, the model rows and the
  points of the timeline sum to the records that name a provider, name a model, or fall between
  the first hour of the window and now.\<close>

theorem summary_adds_up:
  "(let s = Summary facts baseline w now records health; rs = map (joined facts) records in
    sm_Resolved s + sm_Unresolved s = int (length records) \<and>
    sm_Resolved s = int (length (filter (\<lambda>r. join_match facts r \<noteq> None) records)) \<and>
    (\<Sum>row\<leftarrow>sm_Providers s. pv_Requests row) = int (length (filter (\<lambda>r. rec_GatewayProvider r \<noteq> []) rs)) \<and>
    (\<Sum>row\<leftarrow>sm_CPAProviders s. pv_Requests row) = int (length (filter (\<lambda>r. rec_CPProvider r \<noteq> []) rs)) \<and>
    (\<Sum>row\<leftarrow>sm_Models s. ms_Requests row) =
      int (length (filter (\<lambda>r. \<not> (rec_Model r = [] \<and> rec_UpstreamModel r = [])) rs)) \<and>
    (\<Sum>p\<leftarrow>sm_Hours s. hp_Requests p) =
      int (length (filter (\<lambda>r. sm_From s \<le> TruncateHour (rec_Time r) \<and> TruncateHour (rec_Time r) \<le> now) rs)))"
proof -
  note t = pass_tables [of facts baseline records, unfolded tables_counted_def]
  note rows = provider_rows_counted [OF t [THEN conjunct1]]
    provider_rows_counted [OF t [THEN conjunct2, THEN conjunct1]]
    model_rows_counted [OF t [THEN conjunct2, THEN conjunct2, THEN conjunct1]]
    hour_rows_counted [OF t [THEN conjunct2, THEN conjunct2, THEN conjunct2]]
  have split: "int (length (filter (\<lambda>r. join_match facts r \<noteq> None) records)) +
      int (length (filter (\<lambda>r. join_match facts r = None) records)) = int (length records)"
    using sum_length_filter_compl [of "\<lambda>r. join_match facts r = None" records] by simp
  show ?thesis
    by (simp only: Summary_def Let_def Summary.simps pass_resolved split rows simp_thms)
qed

section \<open>The samples behind the percentiles\<close>

definition push_sample :: "'a::zero list \<Rightarrow> 'a \<Rightarrow> 'a list" where
  "push_sample samples value = (if length samples \<ge> sampleCap then tl samples @ [value] else samples @ [value])"

interpretation samples: keep_last sampleCap push_sample
proof unfold_locales
  fix xs :: "'a list" and x :: 'a
  assume "length xs \<le> sampleCap"
  then show "push_sample xs x = lastn sampleCap (xs @ [x])"
    by (cases xs) (auto simp: push_sample_def lastn_def sampleCap_def Suc_diff_le)
qed

lemma appendSample_push: "appendSample samples v = (if v = 0 then samples else push_sample samples v)"
  by (simp add: appendSample_def push_sample_def)

lemma foldl_appendSample: "foldl appendSample ys xs = foldl push_sample ys (filter (\<lambda>v. v \<noteq> 0) xs)"
  by (induction xs arbitrary: ys) (auto simp: appendSample_push)

lemma appendSample_run: "foldl appendSample [] xs = lastn sampleCap (filter (\<lambda>v. v \<noteq> 0) xs)"
  by (simp add: foldl_appendSample samples.push_run)

lemma joined_speed: "rec_TTFTMs (joined facts r) = rec_TTFTMs r" "rec_TPS (joined facts r) = rec_TPS r"
  by (simp_all add: joined_def withChannel_def split: option.split)

lemma add_record_samples:
  "to_ttfts (add_record facts baseline t r) = appendSample (to_ttfts t) (rec_TTFTMs r)"
  "to_speeds (add_record facts baseline t r) = appendSample (to_speeds t) (rec_TPS r)"
  using joined_speed [of facts r] by (simp_all add: add_record_def joined_def Let_def)

lemma pass_samples_gen:
  "to_ttfts (foldl (add_record facts baseline) t rs) = foldl appendSample (to_ttfts t) (map rec_TTFTMs rs)"
  "to_speeds (foldl (add_record facts baseline) t rs) = foldl appendSample (to_speeds t) (map rec_TPS rs)"
  by (induction rs arbitrary: t) (simp_all add: add_record_samples)

lemma pass_samples:
  "to_ttfts (foldl (add_record facts baseline) zero_totals rs) = lastn sampleCap (filter (\<lambda>v. v \<noteq> 0) (map rec_TTFTMs rs))"
  "to_speeds (foldl (add_record facts baseline) zero_totals rs) = lastn sampleCap (filter (\<lambda>v. v \<noteq> 0) (map rec_TPS rs))"
  by (simp_all add: pass_samples_gen zero_totals_def appendSample_run)

text \<open>The percentiles of a window are computed from its 240 oldest samples: the records come newest
  first and every new sample pushes out the first one, so the percentiles of the summary are those of the
  last 240 non-zero values of the list, and newer requests change nothing once there are 240
  older ones. (The comment at the cap says the newest ones win.)\<close>

theorem percentiles_use_the_oldest:
  "(let s = Summary facts baseline w now (newest_first records) health;
        ttfts = lastn sampleCap (filter (\<lambda>v. v \<noteq> 0) (map rec_TTFTMs (newest_first records)));
        speeds = lastn sampleCap (filter (\<lambda>v. v \<noteq> 0) (map rec_TPS (newest_first records)))
    in sm_TTFTP50Ms s = median (map real_of_int ttfts) (1/2) \<and> sm_TTFTP90Ms s = median (map real_of_int ttfts) (9/10) \<and>
       sm_DecodeP50TPS s = median speeds (1/2))"
  by (simp only: Summary_def Let_def Summary.simps pass_samples simp_thms)

lemma interpolation_between:
  fixes a b f :: real
  assumes "a \<le> b" and "0 \<le> f" and "f \<le> 1"
  shows "a \<le> a + (b - a) * f" and "a + (b - a) * f \<le> b"
proof -
  show "a \<le> a + (b - a) * f" using assms by simp
  have "(b - a) * f \<le> (b - a) * 1" using assms by (intro mult_left_mono) auto
  then show "a + (b - a) * f \<le> b" by simp
qed

text \<open>A percentile lies within its samples: for a quantile between 0 and 1 it is at least the smallest
  and at most the largest one, so the interpolation never reads past the end of the sorted list.\<close>

theorem percentile_within_samples:
  assumes "samples \<noteq> []" and "0 \<le> q" and "q \<le> 1"
  shows "Min (set samples) \<le> median samples q \<and> median samples q \<le> Max (set samples)"
proof -
  define xs where "xs = sort samples"
  define p where "p = q * real (length xs - 1)"
  have "sorted xs" "set xs = set samples" by (simp_all add: xs_def)
  then have xs: "sorted xs" "set xs = set samples" "xs \<noteq> []" using assms(1) by auto
  have inside: "Min (set samples) \<le> xs ! i \<and> xs ! i \<le> Max (set samples)" if "i < length xs" for i
    using that xs by (metis List.finite_set Max_ge Min_le nth_mem)
  have p: "0 \<le> p" using assms by (simp add: p_def)
  consider "length xs = 1" | "length xs \<noteq> 1" "nat \<lfloor>p\<rfloor> + 1 \<ge> length xs" | "length xs \<noteq> 1" "nat \<lfloor>p\<rfloor> + 1 < length xs"
    by linarith
  then show ?thesis
  proof cases
    case 1
    then show ?thesis using inside [of 0] assms(1) by (simp add: median_def flip: xs_def)
  next
    case 2
    then have "median samples q = xs ! (length xs - 1)"
      using assms(1) by (simp add: median_def Let_def p_def flip: xs_def)
    then show ?thesis using inside [of "length xs - 1"] xs by simp
  next
    case 3
    define l where "l = nat \<lfloor>p\<rfloor>"
    have l: "l + 1 < length xs" using 3 by (simp add: l_def)
    have m: "median samples q = xs ! l + (xs ! (l + 1) - xs ! l) * (p - real l)"
      unfolding median_def Let_def if_not_P [OF assms(1)] xs_def [symmetric] p_def [symmetric] l_def using 3 by simp
    have f: "0 \<le> p - real l" "p - real l \<le> 1" using p unfolding l_def by linarith+
    have "xs ! l \<le> xs ! (l + 1)" using xs l by (simp add: sorted_nth_mono)
    from interpolation_between [OF this f] show ?thesis using inside [of l] inside [of "l + 1"] l m by linarith
  qed
qed

theorem percentile_within_samples_witness:
  "Min (set [3, 1, 2 :: real]) \<le> median [3, 1, 2] (9/10) \<and> median [3, 1, 2] (9/10) \<le> 3"
  using percentile_within_samples [of "[3, 1, 2]" "9/10"] by simp

end
