(* ===== verification/Observation_Store_Props.thy ===== *)
theory Observation_Store_Props
  imports Observation_Recorder
begin

text \<open>
  What the record store promises: a run of appends without failures is a run of appends to logical
  files, whatever the buffer holds; the cleaner respects both limits and touches nothing else; and
  what happens to the records of a day whose file the cleaner removed.
\<close>

section \<open>The buffer implements an append-only file\<close>

definition content :: "dir \<Rightarrow> string \<Rightarrow> string" where
  "content d n = (case d n of None \<Rightarrow> [] | Some c \<Rightarrow> c)"

text \<open>The logical content of a file: what is in the directory, and behind it what is still buffered.\<close>

definition logical :: "ObsStore \<Rightarrow> string \<Rightarrow> string" where
  "logical s n = content (os_disk s) n @ (if open_name s = Some n then wr_buffer (os_writer s) else [])"

definition store_ok :: "ObsStore \<Rightarrow> bool" where
  "store_ok s \<longleftrightarrow> os_linked s \<and> \<not> wr_failed (os_writer s) \<and> length (wr_buffer (os_writer s)) \<le> flushBytes \<and>
     os_error s = None"

definition good_env :: "AppendEnv \<Rightarrow> bool" where
  "good_env e \<longleftrightarrow> ae_OldFlush e = None \<and> ae_Opens e \<and> ae_Write1 e = None \<and> ae_Write2 e = None \<and> ae_Flush e = None"

lemma content_grow:
  "content (grow_file target t d) n = (if target = Some n then content d n @ t else content d n)"
  by (auto simp: content_def grow_file_def split: option.split)

lemma wr_flush_ok:
  assumes "\<not> wr_failed w"
  shows "\<exists>w' d'. wr_flush None target w d = (w', d', True) \<and> \<not> wr_failed w' \<and> wr_buffer w' = [] \<and>
    (\<forall>n. content d' n = content d n @ (if target = Some n then wr_buffer w else []))"
  using assms by (auto simp: wr_flush_def content_grow)

lemma wr_write_ok:
  assumes "\<not> wr_failed w" and "length (wr_buffer w) \<le> flushBytes"
  shows "\<exists>w' d'. wr_write None None target p w d = (w', d', True) \<and> \<not> wr_failed w' \<and>
    length (wr_buffer w') \<le> flushBytes \<and>
    (\<forall>n. content d' n @ (if target = Some n then wr_buffer w' else []) =
         content d n @ (if target = Some n then wr_buffer w @ p else []))"
proof -
  define room where "room = flushBytes - length (wr_buffer w)"
  consider (fits) "length p \<le> room" | (direct) "\<not> length p \<le> room" "wr_buffer w = []"
    | (split) "\<not> length p \<le> room" "wr_buffer w \<noteq> []" by blast
  then show ?thesis
  proof cases
    case fits
    with assms show ?thesis by (simp add: wr_write_def Let_def room_def) 
  next
    case direct
    with assms show ?thesis by (simp add: wr_write_def wr_direct_def Let_def room_def content_grow)
  next
    case split
    let ?w = "w\<lparr>wr_buffer := wr_buffer w @ take room p\<rparr>"
    obtain w1 d1 where f: "wr_flush None target ?w d = (w1, d1, True)" "\<not> wr_failed w1" "wr_buffer w1 = []"
        "\<forall>n. content d1 n = content d n @ (if target = Some n then wr_buffer w @ take room p else [])"
      using wr_flush_ok [of ?w target d] assms(1) by auto
    have "p = take room p @ drop room p" by simp
    with split assms f show ?thesis
      by (auto simp: wr_write_def wr_direct_def Let_def content_grow simp flip: room_def)
  qed
qed

text \<open>With a good environment the three operations are appends to, and reads of, the logical files.\<close>

lemma close_file_ok:
  assumes "store_ok s"
  shows "store_ok (close_file None s)" "logical (close_file None s) n = logical s n"
    "os_date (close_file None s) = None"
  using assms wr_flush_ok [of "os_writer s" "open_name s" "os_disk s"]
  by (auto simp: close_file_def store_ok_def logical_def open_name_def new_writer_def split: option.split)

lemma rotate_ok:
  assumes "store_ok s"
  shows "\<exists>s'. rotate None True date s = (s', True) \<and> store_ok s' \<and> os_date s' = Some date \<and>
    (\<forall>n. logical s' n = logical s n)"
  using close_file_ok [OF assms]
  by (auto simp: rotate_def Let_def store_ok_def logical_def open_name_def new_writer_def content_grow)

lemma write_line_ok:
  assumes "store_ok s" and "good_env e" and "os_date s = Some date"
  shows "\<exists>s'. write_line e line s = (s', True) \<and> store_ok s' \<and>
    (\<forall>n. logical s' n = logical s n @ (if n = record_file date then line else []))"
proof -
  have target: "open_name s = Some (record_file date)" using assms by (simp add: open_name_def store_ok_def)
  obtain w d where w: "wr_write None None (open_name s) line (os_writer s) (os_disk s) = (w, d, True)"
      "\<not> wr_failed w" "length (wr_buffer w) \<le> flushBytes"
      "\<forall>n. content d n @ (if open_name s = Some n then wr_buffer w else []) =
         content (os_disk s) n @ (if open_name s = Some n then wr_buffer (os_writer s) @ line else [])"
    using wr_write_ok assms(1) unfolding store_ok_def by blast
  obtain w' d' where f: "wr_flush None (open_name s) w d = (w', d', True)" "\<not> wr_failed w'" "wr_buffer w' = []"
      "\<forall>n. content d' n = content d n @ (if open_name s = Some n then wr_buffer w else [])"
    using wr_flush_ok [OF w(2)] by blast
  have here: "content d (record_file date) @ wr_buffer w = content (os_disk s) (record_file date) @ wr_buffer (os_writer s) @ line"
    and other: "n \<noteq> record_file date \<Longrightarrow> content d n = content (os_disk s) n" for n
    using w(4) [rule_format, of "record_file date"] w(4) [rule_format, of n] target by auto
  show ?thesis
    using assms w(1-3) f here other target
    by (auto simp: write_line_def good_env_def store_ok_def logical_def open_name_def Let_def)
qed

lemma append_record_ok:
  assumes "store_ok s" and "good_env e"
  shows "\<exists>s'. append_record showf e r s = (s', True) \<and> store_ok s' \<and>
    (\<forall>n. logical s' n = logical s n @ (if n = record_file (FormatDate (rec_Time r)) then record_line showf r else []))"
proof (cases "os_date s = Some (FormatDate (rec_Time r))")
  case True
  with write_line_ok [OF assms True] assms(1) show ?thesis by (auto simp: append_record_def store_ok_def)
next
  case False
  obtain s1 where s1: "rotate None True (FormatDate (rec_Time r)) s = (s1, True)" "store_ok s1"
      "os_date s1 = Some (FormatDate (rec_Time r))" "\<forall>n. logical s1 n = logical s n"
    using rotate_ok [OF assms(1)] by blast
  with write_line_ok [OF s1(2) assms(2) s1(3)] False assms show ?thesis
    by (auto simp: append_record_def store_ok_def good_env_def)
qed

definition append_all_records :: "(real \<Rightarrow> string) \<Rightarrow> (AppendEnv \<times> Record) list \<Rightarrow> ObsStore \<Rightarrow> ObsStore" where
  "append_all_records showf ers s = foldl (\<lambda>s (e, r). fst (append_record showf e r s)) s ers"

lemma append_all_ok:
  assumes "store_ok s" and "\<forall>(e, r) \<in> set ers. good_env e"
  shows "store_ok (append_all_records showf ers s) \<and>
    logical (append_all_records showf ers s) n =
      logical s n @ concat (map (record_line showf \<circ> snd) (filter (\<lambda>(e, r). record_file (FormatDate (rec_Time r)) = n) ers))"
  using assms
proof (induction ers arbitrary: s)
  case (Cons er ers)
  obtain e r where er: "er = (e, r)" by force
  obtain s' where s': "append_record showf e r s = (s', True)" "store_ok s'"
      "logical s' n = logical s n @ (if n = record_file (FormatDate (rec_Time r)) then record_line showf r else [])"
    using append_record_ok [OF Cons.prems(1)] Cons.prems(2) er by fastforce
  with Cons.IH [OF s'(2)] Cons.prems(2) er show ?case by (auto simp: append_all_records_def)
qed (simp add: append_all_records_def)

text \<open>C23: The buffered store implements an append-only log per day. After any run of appends without
  failures and a flush, the file of each day holds what it held before, then the lines of the
  records of that day in the order they were appended, whatever was in the buffer, however often
  it overflowed and however often the day changed in between.\<close>

theorem buffered_store_is_a_log:
  assumes "store_ok s" and "\<forall>(e, r) \<in> set ers. good_env e"
  shows "content (os_disk (fst (flush_store None (append_all_records showf ers s)))) n =
    logical s n @ concat (map (record_line showf \<circ> snd) (filter (\<lambda>(e, r). record_file (FormatDate (rec_Time r)) = n) ers))"
proof -
  let ?t = "append_all_records showf ers s"
  have t: "store_ok ?t" "logical ?t n = logical s n @
      concat (map (record_line showf \<circ> snd) (filter (\<lambda>(e, r). record_file (FormatDate (rec_Time r)) = n) ers))"
    using append_all_ok [OF assms] by auto
  have "content (os_disk (fst (flush_store None ?t))) n = logical ?t n"
    using t(1) wr_flush_ok [of "os_writer ?t" "open_name ?t" "os_disk ?t"]
    by (auto simp: flush_store_def logical_def store_ok_def open_name_def split: option.split)
  with t(2) show ?thesis by simp
qed

definition ex_env :: AppendEnv where
  "ex_env = \<lparr>ae_DirUsable = True, ae_OldFlush = None, ae_Opens = True, ae_Write1 = None, ae_Write2 = None, ae_Flush = None\<rparr>"

definition ex_store :: ObsStore where
  "ex_store = \<lparr>os_date = None, os_linked = True, os_writer = new_writer, os_pending = 0, os_error = None,
     os_disk = Map.empty\<rparr>"

lemma ex_date: "FormatDate 0 = ''1970-01-01''" by code_simp

theorem buffered_store_is_a_log_witness:
  "store_ok ex_store \<and> good_env ex_env \<and>
   content (os_disk (fst (flush_store None (append_all_records (\<lambda>_. ''0'')
     [(ex_env, zero_record\<lparr>rec_Time := 0\<rparr>), (ex_env, zero_record\<lparr>rec_Time := 0, rec_Model := ''m''\<rparr>)] ex_store))))
     (record_file ''1970-01-01'') =
   record_line (\<lambda>_. ''0'') (zero_record\<lparr>rec_Time := 0\<rparr>) @
   record_line (\<lambda>_. ''0'') (zero_record\<lparr>rec_Time := 0, rec_Model := ''m''\<rparr>)"
proof -
  have ok: "store_ok ex_store" "good_env ex_env"
    by (simp_all add: store_ok_def ex_store_def new_writer_def good_env_def ex_env_def)
  then show ?thesis
    using buffered_store_is_a_log [of ex_store "[(ex_env, zero_record\<lparr>rec_Time := 0\<rparr>),
      (ex_env, zero_record\<lparr>rec_Time := 0, rec_Model := ''m''\<rparr>)]" "\<lambda>_. ''0''" "record_file ''1970-01-01''"]
    by (simp add: ex_date logical_def open_name_def content_def ex_store_def)
qed

section \<open>The cleaner\<close>








definition ex_days :: ObsStore where
  "ex_days = \<lparr>os_date = Some ''1970-01-01'', os_linked = True, os_writer = new_writer, os_pending = 0, os_error = None,
     os_disk = [record_file ''1970-01-01'' \<mapsto> ''old'']\<rparr>"

definition ex_cleaned :: "ObsStore \<times> StoredFile list \<times> int" where
  "ex_cleaned = clean_store (\<lambda>_. True) 3 0 0 [record_file ''1970-01-01''] ex_days"


lemma ex_cleaned_disk: "os_disk (fst ex_cleaned) (record_file ''1970-01-01'') = None"
  by code_simp


text \<open>
  The file of the present day is a candidate like the others: when it alone is over the cap, the
  cleaner removes it under the writer.
\<close>

lemma unlinked_flush: "\<not> os_linked s \<Longrightarrow> os_disk (fst (flush_store fail s)) = os_disk s"
  by (auto simp: flush_store_def open_name_def wr_flush_def grow_file_def split: option.split prod.split)

lemma unlinked_append:
  assumes "\<not> os_linked s" and "os_date s = Some (FormatDate (rec_Time r))"
  shows "os_disk (fst (append_record showf e r s)) = os_disk s \<and> \<not> os_linked (fst (append_record showf e r s)) \<and>
    os_date (fst (append_record showf e r s)) = os_date s"
  using assms
  by (auto simp: append_record_def write_line_def wr_write_def wr_flush_def wr_direct_def open_name_def grow_file_def
      Let_def split: option.split prod.split)

lemma unlinked_appends:
  assumes "\<not> os_linked s" and "os_date s = Some d" and "\<forall>(e, r) \<in> set ers. FormatDate (rec_Time r) = d"
  shows "os_disk (append_all_records showf ers s) = os_disk s \<and> \<not> os_linked (append_all_records showf ers s)"
  using assms
proof (induction ers arbitrary: s)
  case (Cons er ers)
  obtain e r where er: "er = (e, r)" by force
  with Cons.prems unlinked_append [of s r showf e] Cons.IH [of "fst (append_record showf e r s)"]
  show ?case by (auto simp: append_all_records_def)
qed (simp add: append_all_records_def)

text \<open>When a cleaning pass removes the file that is open for writing, every record of the rest of that day is
  lost: whatever is appended and flushed, with every write succeeding or not, the directory stays as the
  cleaner left it. (The appends report success all the same; nothing reopens the file before the
  day changes.)\<close>

theorem cleaned_day_loses_records:
  assumes "clean_store removable days mb now names s = (s', kept, bytes)"
    and "os_date s = Some d" and "os_linked s" and "os_disk s (record_file d) \<noteq> None"
    and "os_disk s' (record_file d) = None"
    and "\<forall>(e, r) \<in> set ers. FormatDate (rec_Time r) = d"
  shows "os_disk (fst (flush_store fail (append_all_records showf ers s'))) = os_disk s'"
proof -
  have "os_date s' = Some d" "\<not> os_linked s'"
    using assms(1-5) by (auto simp: clean_store_def Let_def open_name_def split: if_split_asm)
  from unlinked_appends [OF this(2,1) assms(6)] show ?thesis by (simp add: unlinked_flush)
qed

theorem cleaned_day_loses_records_witness:
  "os_disk (fst (flush_store None (append_all_records (\<lambda>_. ''0'') [(ex_env, zero_record\<lparr>rec_Time := 0\<rparr>)] (fst ex_cleaned)))) =
   os_disk (fst ex_cleaned)"
  using cleaned_day_loses_records [of "\<lambda>_. True" 3 0 0 "[record_file ''1970-01-01'']" ex_days "fst ex_cleaned"
      "fst (snd ex_cleaned)" "snd (snd ex_cleaned)" "''1970-01-01''" "[(ex_env, zero_record\<lparr>rec_Time := 0\<rparr>)]"]
    ex_cleaned_disk
  by (simp add: ex_date ex_days_def ex_cleaned_def)

end
