(* ===== verification/Official_Usage.thy ===== *)
theory Official_Usage
  imports Config Channel_Parse "HOL-Library.List_Lexorder" "HOL-Library.Char_ord" "HOL-Library.Product_Lexorder"
begin

text \<open>
  \<open>internal/plan/official_usage.go\<close> and the API client of \<open>internal/plan/plan.go\<close> it pages with: the
  rolling set of the upstream's own usage records, and the page windows counted from it.

  The upstream is a parameter: \<open>http\<close> answers a request, given its URL and its bearer token. The
  collector's own code only sees pages, so a walk takes \<open>pages\<close>, the answer to the \<open>n\<close>-th request of
  the walk for a cursor. Sums of \<open>int64\<close> columns wrap (\<open>add64\<close>); the floating-point columns are reals.
\<close>

definition add64 :: "int \<Rightarrow> int \<Rightarrow> int" where
  "add64 a b = wrap64 (a + b)"

section \<open>The API client\<close>

text \<open>What a failed call returns, one constructor per place that makes an error.\<close>

datatype plan_error =
    No_API_key
  | Transport string
  | Read_failed string
  | Bad_status int
  | Bad_envelope
  | Upstream string
  | No_data
  | Bad_data

text \<open>\<open>Http_failed\<close>: no request or no answer; \<open>Http_cut\<close>: the body could not be read to its end.\<close>

datatype http_answer = Http_failed string | Http_cut int string | Http_answer int string

type_synonym http = "string \<Rightarrow> string \<Rightarrow> http_answer"

definition microUSD :: real where "microUSD = 1000000"
definition planBodyLimit :: int where "planBodyLimit = 4194304"

definition isRejectedCredential :: "plan_error \<Rightarrow> bool" where
  "isRejectedCredential e = (case e of Bad_status s \<Rightarrow> s = 401 \<or> s = 403 | _ \<Rightarrow> False)"

record planClient =
  cl_http :: http
  cl_baseURL :: string
  cl_apiKey :: string

definition TrimRightSlash :: "string \<Rightarrow> string" where
  "TrimRightSlash s = rev (dropWhile (\<lambda>c. c = CHR ''/'') (rev s))"

definition newPlanClient :: "http \<Rightarrow> string \<Rightarrow> string \<Rightarrow> planClient" where
  "newPlanClient http baseURL apiKey =
     (let base = TrimRightSlash (TrimSpace baseURL) in
      \<lparr>cl_http = http, cl_baseURL = (if base = [] then DefaultPlanBaseURL else base),
       cl_apiKey = TrimSpace apiKey\<rparr>)"

record envelope =
  en_Success :: bool
  en_Error :: string
  en_Data :: "json option"

text \<open>\<open>json.RawMessage\<close> keeps whatever value the last \<open>data\<close> member has, \<open>null\<close> included.\<close>

definition dec_envelope :: "json \<Rightarrow> envelope option" where
  "dec_envelope j = upd_object (\<lambda>ms e. do {
     success \<leftarrow> json_field dec_bool ''success'' ms (en_Success e);
     err \<leftarrow> json_field dec_string ''error'' ms (en_Error e);
     payload \<leftarrow> json_update (\<lambda>v _. Some (Some v)) ''data'' ms (en_Data e);
     Some \<lparr>en_Success = success, en_Error = err, en_Data = payload\<rparr> }) j
     \<lparr>en_Success = False, en_Error = [], en_Data = None\<rparr>"

definition open_envelope :: "envelope \<Rightarrow> plan_error + json" where
  "open_envelope e =
     (if \<not> en_Success e
      then Inl (Upstream (if en_Error e = [] then ''upstream reported failure'' else en_Error e))
      else case en_Data e of
          None \<Rightarrow> Inl No_data
        | Some d \<Rightarrow> if d = JNull then Inl No_data else Inr d)"

definition api_get :: "planClient \<Rightarrow> string \<Rightarrow> (json \<Rightarrow> 'a option) \<Rightarrow> plan_error + 'a" where
  "api_get c path dec =
     (if cl_apiKey c = [] then Inl No_API_key
      else case cl_http c (cl_baseURL c @ path) (''Bearer '' @ cl_apiKey c) of
          Http_failed msg \<Rightarrow> Inl (Transport msg)
        | Http_cut status msg \<Rightarrow> Inl (Read_failed msg)
        | Http_answer status body \<Rightarrow>
            if status < 200 \<or> 300 \<le> status then Inl (Bad_status status)
            else (case Option.bind (parse_json (take (nat planBodyLimit) body)) dec_envelope of
                None \<Rightarrow> Inl Bad_envelope
              | Some e \<Rightarrow>
                  (case open_envelope e of
                     Inl err \<Rightarrow> Inl err
                   | Inr d \<Rightarrow> (case dec d of None \<Rightarrow> Inl Bad_data | Some a \<Rightarrow> Inr a))))"

section \<open>Usage records\<close>

definition officialUsageRetention :: duration where "officialUsageRetention = 26 * Hour"
definition officialUsagePageSize :: nat where "officialUsagePageSize = 200"
definition officialUsageMaxPages :: int where "officialUsageMaxPages = 80"
definition officialUsageMaxItems :: int where "officialUsageMaxItems = 40000"
definition officialUsagePagesSteady :: int where "officialUsagePagesSteady = 5"
definition officialUsagePagesExtend :: int where "officialUsagePagesExtend = 60"
definition officialUsageMaxBackoff :: duration where "officialUsageMaxBackoff = 30 * Minute"

definition unknownModelLabel :: string where
  "unknownModelLabel = concat (map utf8_encode [0x672A, 0x77E5, 0x6A21, 0x578B])"
definition unknownProviderLabel :: string where
  "unknownProviderLabel = concat (map utf8_encode [0x672A, 0x77E5, 0x4E0A, 0x6E38, 0x6E20, 0x9053])"

record officialUsageItem =
  ui_ID :: string
  ui_At :: time
  ui_Prompt :: int
  ui_Completion :: int
  ui_Cached :: int
  ui_CostMicro :: int
  ui_Model :: string
  ui_Provider :: string
  ui_Credits :: int
  ui_BYOK :: bool
  ui_Stream :: bool

record usageMetadata =
  md_IsBYOK :: bool
  md_IsStream :: bool
  md_RawModel :: string
  md_ModelTyp :: string

record officialUsageRawItem =
  ri_ID :: string
  ri_CreatedAt :: string
  ri_CostUnits :: int
  ri_CreditsUsed :: int
  ri_Operation :: string
  ri_AIModelTypeName :: string
  ri_AIModelName :: string
  ri_AIInferenceProviderName :: string
  ri_PromptTokens :: int
  ri_CompletionTokens :: int
  ri_TotalTokens :: int
  ri_CachedTokens :: int
  ri_Metadata :: usageMetadata

definition zero_usage_metadata :: usageMetadata where
  "zero_usage_metadata = \<lparr>md_IsBYOK = False, md_IsStream = False, md_RawModel = [], md_ModelTyp = []\<rparr>"

definition upd_usage_metadata :: "json \<Rightarrow> usageMetadata \<Rightarrow> usageMetadata option" where
  "upd_usage_metadata = upd_object (\<lambda>ms m. do {
     byok \<leftarrow> json_field dec_bool ''is_byok'' ms (md_IsBYOK m);
     stream \<leftarrow> json_field dec_bool ''is_stream'' ms (md_IsStream m);
     raw \<leftarrow> json_field dec_string ''raw_model'' ms (md_RawModel m);
     typ \<leftarrow> json_field dec_string ''model_type'' ms (md_ModelTyp m);
     Some \<lparr>md_IsBYOK = byok, md_IsStream = stream, md_RawModel = raw, md_ModelTyp = typ\<rparr> })"

text \<open>An element \<open>null\<close> of the list is the zero record.\<close>

definition dec_raw_item :: "json \<Rightarrow> officialUsageRawItem option" where
  "dec_raw_item j = (do {
     ms \<leftarrow> (if j = JNull then Some [] else dec_object j);
     x0 \<leftarrow> json_field dec_string ''id'' ms [];
     x1 \<leftarrow> json_field dec_string ''createdAt'' ms [];
     x2 \<leftarrow> json_field dec_int ''costUsd'' ms 0;
     x3 \<leftarrow> json_field dec_int ''creditsUsed'' ms 0;
     x4 \<leftarrow> json_field dec_string ''operation'' ms [];
     x5 \<leftarrow> json_field dec_string ''aiModelTypeName'' ms [];
     x6 \<leftarrow> json_field dec_string ''aiModelName'' ms [];
     x7 \<leftarrow> json_field dec_string ''aiInferenceProviderName'' ms [];
     x8 \<leftarrow> json_field dec_int ''promptTokens'' ms 0;
     x9 \<leftarrow> json_field dec_int ''completionTokens'' ms 0;
     x10 \<leftarrow> json_field dec_int ''totalTokens'' ms 0;
     x11 \<leftarrow> json_field dec_int ''cachedTokens'' ms 0;
     x12 \<leftarrow> json_update upd_usage_metadata ''metadata'' ms zero_usage_metadata;
     Some \<lparr>ri_ID = x0, ri_CreatedAt = x1, ri_CostUnits = x2, ri_CreditsUsed = x3, ri_Operation = x4,
       ri_AIModelTypeName = x5, ri_AIModelName = x6, ri_AIInferenceProviderName = x7, ri_PromptTokens = x8,
       ri_CompletionTokens = x9, ri_TotalTokens = x10, ri_CachedTokens = x11, ri_Metadata = x12\<rparr> })"

definition upd_list :: "(json \<Rightarrow> 'a option) \<Rightarrow> json \<Rightarrow> 'a list \<Rightarrow> 'a list option" where
  "upd_list dec j xs = (case j of JNull \<Rightarrow> Some [] | JArr js \<Rightarrow> dec_all dec js | _ \<Rightarrow> None)"

definition dec_usage_page :: "json \<Rightarrow> (officialUsageRawItem list \<times> string) option" where
  "dec_usage_page j = upd_object (\<lambda>ms (items, next).  do {
     items' \<leftarrow> json_update (upd_list dec_raw_item) ''items'' ms items;
     next' \<leftarrow> json_field dec_string ''nextToken'' ms next;
     Some (items', next') }) j ([], [])"

text \<open>\<open>url.QueryEscape\<close>.\<close>

definition query_char :: "char \<Rightarrow> string" where
  "query_char c =
     (if is_alpha c \<or> is_digit c \<or> c \<in> set ''-_.~'' then [c]
      else if c = CHR '' '' then ''+''
      else let b = byte_of c; hex = (\<lambda>d. ''0123456789ABCDEF'' ! d) in [CHR ''%'', hex (b div 16), hex (b mod 16)])"

definition usagePage :: "planClient \<Rightarrow> string \<Rightarrow> string \<Rightarrow> nat \<Rightarrow> plan_error + officialUsageRawItem list \<times> string" where
  "usagePage c userID cursor limit =
     api_get c (''/users/'' @ userID @ ''/usages?limit='' @ digits_of limit @
        (if cursor \<noteq> [] then ''&cursor='' @ concat (map query_char cursor) else [])) dec_usage_page"

definition parseOfficialItem :: "officialUsageRawItem \<Rightarrow> officialUsageItem option" where
  "parseOfficialItem raw =
     (if ri_ID raw = [] \<or> ri_CreatedAt raw = [] then None
      else case ParseRFC3339 (ri_CreatedAt raw) of
          None \<Rightarrow> None
        | Some t \<Rightarrow>
            let routed = TrimSpace (md_RawModel (ri_Metadata raw)) in
            Some \<lparr>ui_ID = ri_ID raw, ui_At = t, ui_Prompt = ri_PromptTokens raw,
              ui_Completion = ri_CompletionTokens raw, ui_Cached = ri_CachedTokens raw,
              ui_CostMicro = ri_CostUnits raw,
              ui_Model = (if routed = [] then TrimSpace (ri_AIModelName raw) else routed),
              ui_Provider = TrimSpace (ri_AIInferenceProviderName raw), ui_Credits = ri_CreditsUsed raw,
              ui_BYOK = md_IsBYOK (ri_Metadata raw), ui_Stream = md_IsStream (ri_Metadata raw)\<rparr>)"

end
