(* ===== verification/Official_Collector.thy ===== *)
theory Official_Collector
  imports Official_Usage
begin

text \<open>
  The collector of \<open>internal/plan/official_usage.go\<close>: its record set, the walk over the upstream's
  pages, the pruning, the back-off, and the page windows counted from the records.

  A fetch is \<open>fetch_begin\<close> (what it reads under the lock), \<open>walk\<close> (the calls, without the lock) and
  \<open>fetch_finish\<close>. The \<open>for\<close> loop without a condition is a \<open>partial_function\<close>; that it returns is a
  theorem, not an assumption. The pauses between pages are left out.
\<close>

section \<open>State\<close>

record officialUsageCollector =
  oc_items :: "officialUsageItem list"
  oc_seen :: "string set"
  oc_fetchedAt :: time
  oc_lastError :: "plan_error option"
  oc_truncated :: bool
  oc_fetching :: bool
  oc_failures :: int
  oc_retryAt :: time
  oc_maxPages :: int
  oc_maxItems :: int

definition newOfficialUsageCollector :: officialUsageCollector where
  "newOfficialUsageCollector = \<lparr>oc_items = [], oc_seen = {}, oc_fetchedAt = zero_time, oc_lastError = None,
     oc_truncated = False, oc_fetching = False, oc_failures = 0, oc_retryAt = zero_time,
     oc_maxPages = officialUsageMaxPages, oc_maxItems = officialUsageMaxItems\<rparr>"

definition pageLimit :: "officialUsageCollector \<Rightarrow> int" where
  "pageLimit c = (if oc_maxPages c > 0 then oc_maxPages c else officialUsageMaxPages)"

definition itemLimit :: "officialUsageCollector \<Rightarrow> int" where
  "itemLimit c = (if oc_maxItems c > 0 then oc_maxItems c else officialUsageMaxItems)"

section \<open>The walk\<close>

text \<open>\<open>wk_collected\<close> also counts the \<open>added\<close> records: the two grow together.\<close>

record walkState =
  wk_collected :: "officialUsageItem list"
  wk_known :: "string set"
  wk_cursor :: string
  wk_full :: bool
  wk_err :: "plan_error option"

type_synonym pages = "nat \<Rightarrow> string \<Rightarrow> plan_error + officialUsageRawItem list \<times> string"

text \<open>The records of one page; the second component is \<open>stop\<close>.\<close>

fun take_page :: "time \<Rightarrow> time \<Rightarrow> int \<Rightarrow> officialUsageRawItem list \<Rightarrow> walkState \<Rightarrow> walkState \<times> bool" where
  "take_page cutoff watermark limit [] w = (w, False)"
| "take_page cutoff watermark limit (raw # raws) w =
     (case parseOfficialItem raw of
        None \<Rightarrow> take_page cutoff watermark limit raws w
      | Some item \<Rightarrow>
          if \<not> After (ui_At item) cutoff \<or> \<not> IsZero watermark \<and> \<not> After (ui_At item) watermark
          then (w\<lparr>wk_full := True\<rparr>, True)
          else if ui_ID item \<in> wk_known w then take_page cutoff watermark limit raws w
          else if int (length (wk_collected w)) \<ge> limit then (w, True)
          else take_page cutoff watermark limit raws
                 (w\<lparr>wk_collected := wk_collected w @ [item], wk_known := insert (ui_ID item) (wk_known w)\<rparr>))"

partial_function (option) walk ::
  "pages \<Rightarrow> time \<Rightarrow> time \<Rightarrow> int \<Rightarrow> int \<Rightarrow> nat \<Rightarrow> walkState \<Rightarrow> walkState option" where
  "walk pages cutoff watermark limit budget page w =
     (if int page \<ge> budget then Some w
      else case pages page (wk_cursor w) of
          Inl e \<Rightarrow> Some (w\<lparr>wk_err := Some e\<rparr>)
        | Inr (items, next) \<Rightarrow>
            if items = [] then Some (w\<lparr>wk_full := True\<rparr>)
            else (case take_page cutoff watermark limit items w of (w', stop) \<Rightarrow>
                if stop then Some w'
                else if next = [] then Some (w'\<lparr>wk_full := True\<rparr>)
                else walk pages cutoff watermark limit budget (Suc page) (w'\<lparr>wk_cursor := next\<rparr>)))"

declare walk.simps [code]

section \<open>fetch\<close>

definition covered :: "time \<Rightarrow> officialUsageCollector \<Rightarrow> bool" where
  "covered cutoff c \<longleftrightarrow> oc_items c \<noteq> [] \<and> \<not> After (ui_At (last (oc_items c))) cutoff"

definition walk_budget :: "time \<Rightarrow> officialUsageCollector \<Rightarrow> int" where
  "walk_budget cutoff c =
     (let budget = (if covered cutoff c then officialUsagePagesSteady else officialUsagePagesExtend)
      in if budget > pageLimit c then pageLimit c else budget)"

definition watermark_of :: "officialUsageCollector \<Rightarrow> time" where
  "watermark_of c = (case oc_items c of [] \<Rightarrow> zero_time | item # _ \<Rightarrow> ui_At item)"

definition walk_start :: "officialUsageCollector \<Rightarrow> walkState" where
  "walk_start c = \<lparr>wk_collected = [], wk_known = oc_seen c, wk_cursor = [], wk_full = False, wk_err = None\<rparr>"

definition noteFailureLocked :: "time \<Rightarrow> duration \<Rightarrow> officialUsageCollector \<Rightarrow> officialUsageCollector" where
  "noteFailureLocked now every0 c =
     (let failures = oc_failures c + 1;
          every = (if every0 \<le> 0 then DefaultPlanUsageRefresh else every0);
          shift0 = (if failures - 1 > 4 then 4 else failures - 1);
          shift = (if shift0 < 0 then 0 else shift0);
          backoff0 = wrap64 (every * 2 ^ nat shift);
          backoff = (if backoff0 > officialUsageMaxBackoff then officialUsageMaxBackoff else backoff0)
      in c\<lparr>oc_failures := failures, oc_retryAt := now + backoff\<rparr>)"

text \<open>
  The kept records overwrite the front of the array; the ids forgotten are those of the array's
  positions from the number of kept records on, which are the dropped ones when the list is sorted.
\<close>

definition pruneLocked :: "time \<Rightarrow> officialUsageCollector \<Rightarrow> officialUsageCollector" where
  "pruneLocked cutoff c =
     (let kept = filter (\<lambda>i. \<not> Before (ui_At i) cutoff) (oc_items c)
      in c\<lparr>oc_items := kept,
           oc_seen := oc_seen c - set (map ui_ID (drop (length kept) (oc_items c)))\<rparr>)"

definition fetch_begin :: "officialUsageCollector \<Rightarrow> officialUsageCollector option" where
  "fetch_begin c = (if oc_fetching c then None else Some (c\<lparr>oc_fetching := True\<rparr>))"

definition merge_items :: "time \<Rightarrow> officialUsageItem list \<Rightarrow> officialUsageCollector \<Rightarrow> officialUsageCollector" where
  "merge_items cutoff collected c =
     pruneLocked cutoff (c\<lparr>oc_items := sort_key (\<lambda>i. - ui_At i) (oc_items c @ collected),
       oc_seen := oc_seen c \<union> set (map ui_ID collected)\<rparr>)"

definition fetch_finish :: "walkState \<Rightarrow> time \<Rightarrow> duration \<Rightarrow> time \<Rightarrow> officialUsageCollector \<Rightarrow> officialUsageCollector" where
  "fetch_finish w now every cutoff c0 =
     (let c = c0\<lparr>oc_fetching := False\<rparr> in
      if wk_collected w = [] \<and> wk_err w \<noteq> None
      then noteFailureLocked now every (c\<lparr>oc_lastError := wk_err w\<rparr>)
      else let c' = (merge_items cutoff (wk_collected w) c)\<lparr>oc_lastError := wk_err w, oc_fetchedAt := now,
                       oc_truncated := \<not> wk_full w\<rparr>
           in if wk_err w = None then c'\<lparr>oc_failures := 0, oc_retryAt := zero_time\<rparr>
              else noteFailureLocked now every c')"

definition fetch :: "pages \<Rightarrow> string \<Rightarrow> duration \<Rightarrow> time \<Rightarrow> officialUsageCollector \<Rightarrow> officialUsageCollector option" where
  "fetch pages userID every now c =
     (if userID = [] then Some c
      else case fetch_begin c of None \<Rightarrow> Some c
      | Some c1 \<Rightarrow>
          let cutoff = now - officialUsageRetention in
          map_option (\<lambda>w. fetch_finish w now every cutoff c1)
            (walk pages cutoff (watermark_of c) (itemLimit c) (walk_budget cutoff c) 0 (walk_start c)))"

definition due :: "time \<Rightarrow> duration \<Rightarrow> officialUsageCollector \<Rightarrow> bool" where
  "due now every0 c =
     (let every = (if every0 \<le> 0 then DefaultPlanUsageRefresh else every0) in
      if \<not> IsZero (oc_retryAt c) \<and> Before now (oc_retryAt c) then False
      else IsZero (oc_fetchedAt c) \<or> Sub now (oc_fetchedAt c) \<ge> every)"

definition refreshIfDue ::
  "pages \<Rightarrow> string \<Rightarrow> duration \<Rightarrow> time \<Rightarrow> officialUsageCollector \<Rightarrow> officialUsageCollector option" where
  "refreshIfDue pages userID every now c = (if due now every c then fetch pages userID every now c else Some c)"

text \<open>The histories of a collector: one refresh after the other, whatever the upstream answers.\<close>

inductive collector_reaches :: "officialUsageCollector \<Rightarrow> officialUsageCollector \<Rightarrow> bool" where
  start: "collector_reaches c c"
| refresh: "collector_reaches c d \<Longrightarrow> refreshIfDue pages userID every now d = Some e \<Longrightarrow> collector_reaches c e"

section \<open>Rows\<close>

record UsageModelRow =
  um_Model :: string
  um_InferenceProvider :: string
  um_Requests :: int
  um_InputTokens :: int
  um_OutputTokens :: int
  um_TotalTokens :: int
  um_CachedTokens :: int
  um_CacheRatio :: real
  um_CostUSD :: real
  um_CreditsUsed :: int

text \<open>
  A map of pointers to rows, kept as the list of its bindings in the order of their creation; the
  lists handed out are sorted, so that order never shows.
\<close>

fun row_upd :: "string \<Rightarrow> 'r \<Rightarrow> ('r \<Rightarrow> 'r) \<Rightarrow> (string \<times> 'r) list \<Rightarrow> (string \<times> 'r) list" where
  "row_upd k new f [] = [(k, f new)]"
| "row_upd k new f ((k', r) # rs) = (if k = k' then (k', f r) # rs else (k', r) # row_upd k new f rs)"

definition row_key :: "string \<Rightarrow> string \<Rightarrow> string" where
  "row_key provider model = provider @ [CHR 0x00] @ model"

definition new_model_row :: "string \<Rightarrow> string \<Rightarrow> UsageModelRow" where
  "new_model_row provider model = \<lparr>um_Model = model, um_InferenceProvider = provider, um_Requests = 0,
     um_InputTokens = 0, um_OutputTokens = 0, um_TotalTokens = 0, um_CachedTokens = 0, um_CacheRatio = 0,
     um_CostUSD = 0, um_CreditsUsed = 0\<rparr>"

definition grow_model_row :: "int \<Rightarrow> int \<Rightarrow> int \<Rightarrow> int \<Rightarrow> int \<Rightarrow> bool \<Rightarrow> UsageModelRow \<Rightarrow> UsageModelRow" where
  "grow_model_row prompt completion cached costMicro credits counted row = row\<lparr>
     um_Requests := (if counted then add64 (um_Requests row) 1 else um_Requests row),
     um_InputTokens := add64 (um_InputTokens row) prompt,
     um_OutputTokens := add64 (um_OutputTokens row) completion,
     um_TotalTokens := add64 (um_TotalTokens row) (prompt + completion),
     um_CachedTokens := add64 (um_CachedTokens row) cached,
     um_CostUSD := um_CostUSD row + real_of_int costMicro / microUSD,
     um_CreditsUsed := add64 (um_CreditsUsed row) credits\<rparr>"

definition addModelRow ::
  "string \<Rightarrow> string \<Rightarrow> int \<Rightarrow> int \<Rightarrow> int \<Rightarrow> int \<Rightarrow> int \<Rightarrow> bool \<Rightarrow> (string \<times> UsageModelRow) list
     \<Rightarrow> (string \<times> UsageModelRow) list" where
  "addModelRow provider0 model0 prompt completion cached costMicro credits counted rows =
     (let model = (if TrimSpace model0 = [] then unknownModelLabel else TrimSpace model0);
          provider = TrimSpace provider0
      in row_upd (row_key provider model) (new_model_row provider model)
           (grow_model_row prompt completion cached costMicro credits counted) rows)"

definition finish_model_row :: "UsageModelRow \<Rightarrow> UsageModelRow" where
  "finish_model_row row =
     (if um_InputTokens row > 0
      then row\<lparr>um_CacheRatio := real_of_int (um_CachedTokens row) / real_of_int (um_InputTokens row)\<rparr> else row)"

definition modelRows :: "(string \<times> UsageModelRow) list \<Rightarrow> UsageModelRow list" where
  "modelRows rows = sort_key (\<lambda>r. (- um_TotalTokens r, um_Model r, um_InferenceProvider r))
     (map (\<lambda>(k, r). finish_model_row r) rows)"

record OfficialChannelRow =
  or_InferenceProvider :: string
  or_Model :: string
  or_Requests :: int
  or_InputTokens :: int
  or_OutputTokens :: int
  or_CachedTokens :: int
  or_CostUSD :: real

definition channel_provider :: "officialUsageItem \<Rightarrow> string" where
  "channel_provider item = (let p = TrimSpace (ui_Provider item) in if p = [] then unknownProviderLabel else p)"

definition channel_model :: "officialUsageItem \<Rightarrow> string" where
  "channel_model item = (let m = TrimSpace (ui_Model item) in if m = [] then unknownModelLabel else m)"

definition add_channel_row :: "(string \<times> OfficialChannelRow) list \<Rightarrow> officialUsageItem \<Rightarrow> (string \<times> OfficialChannelRow) list" where
  "add_channel_row rows item =
     row_upd (row_key (channel_provider item) (channel_model item))
       \<lparr>or_InferenceProvider = channel_provider item, or_Model = channel_model item, or_Requests = 0,
         or_InputTokens = 0, or_OutputTokens = 0, or_CachedTokens = 0, or_CostUSD = 0\<rparr>
       (\<lambda>row. row\<lparr>or_Requests := add64 (or_Requests row) 1,
          or_InputTokens := add64 (or_InputTokens row) (ui_Prompt item),
          or_OutputTokens := add64 (or_OutputTokens row) (ui_Completion item),
          or_CachedTokens := add64 (or_CachedTokens row) (ui_Cached item),
          or_CostUSD := or_CostUSD row + real_of_int (ui_CostMicro item) / microUSD\<rparr>) rows"

definition officialChannelRows :: "officialUsageCollector \<Rightarrow> OfficialChannelRow list" where
  "officialChannelRows c = sort_key (\<lambda>r. (- or_Requests r, or_Model r, or_InferenceProvider r))
     (map snd (foldl add_channel_row [] (oc_items c)))"

section \<open>The page windows\<close>

record UsageWindow =
  ow_Window :: string
  ow_From :: string
  ow_To :: string
  ow_Requests :: int
  ow_InputTokens :: int
  ow_OutputTokens :: int
  ow_TotalTokens :: int
  ow_CachedTokens :: int
  ow_CacheRatio :: real
  ow_CostUSD :: real
  ow_SeriesRequests :: "int list"
  ow_SeriesTokens :: "int list"
  ow_SeriesCached :: "int list"
  ow_Models :: "UsageModelRow list"
  ow_CreditsUsed :: int
  ow_BYOKRequests :: int
  ow_StreamRequests :: int
  ow_Covered :: bool
  ow_Detail :: bool

definition empty_window :: "string \<Rightarrow> string \<Rightarrow> string \<Rightarrow> nat \<Rightarrow> bool \<Rightarrow> bool \<Rightarrow> UsageWindow" where
  "empty_window label from to buckets cov detail = \<lparr>ow_Window = label, ow_From = from, ow_To = to,
     ow_Requests = 0, ow_InputTokens = 0, ow_OutputTokens = 0, ow_TotalTokens = 0, ow_CachedTokens = 0,
     ow_CacheRatio = 0, ow_CostUSD = 0, ow_SeriesRequests = replicate buckets 0,
     ow_SeriesTokens = replicate buckets 0, ow_SeriesCached = replicate buckets 0, ow_Models = [],
     ow_CreditsUsed = 0, ow_BYOKRequests = 0, ow_StreamRequests = 0, ow_Covered = cov, ow_Detail = detail\<rparr>"

record officialWindowSpec =
  ws_Label :: string
  ws_Duration :: duration
  ws_Buckets :: nat

definition officialWindowSpecs :: "officialWindowSpec list" where
  "officialWindowSpecs =
     [\<lparr>ws_Label = ''1h'', ws_Duration = Hour, ws_Buckets = 12\<rparr>,
      \<lparr>ws_Label = ''24h'', ws_Duration = 24 * Hour, ws_Buckets = 24\<rparr>]"

definition window_covered :: "time \<Rightarrow> time \<Rightarrow> officialUsageItem list \<Rightarrow> bool" where
  "window_covered from accountCreated items =
     (let oldest = (if items = [] then zero_time else ui_At (last items)) in
      if \<not> IsZero accountCreated \<and> \<not> Before accountCreated from then True
      else \<not> (IsZero oldest \<or> After oldest from))"

definition bucket_width :: "officialWindowSpec \<Rightarrow> duration" where
  "bucket_width spec = (let width = ws_Duration spec div int (ws_Buckets spec) in if width \<le> 0 then Second else width)"

text \<open>Go's division truncates; a counted record is not before \<open>from\<close>, so the quotient is the floor.\<close>

definition bucket_of :: "officialWindowSpec \<Rightarrow> time \<Rightarrow> officialUsageItem \<Rightarrow> nat" where
  "bucket_of spec from item =
     (let b = Sub (ui_At item) from div bucket_width spec;
          b1 = (if b < 0 then 0 else b)
      in if b1 \<ge> int (ws_Buckets spec) then ws_Buckets spec - 1 else nat b1)"

definition add_at :: "nat \<Rightarrow> int \<Rightarrow> int list \<Rightarrow> int list" where
  "add_at i v xs = xs[i := add64 (xs ! i) v]"

definition add_item :: "officialWindowSpec \<Rightarrow> time \<Rightarrow> UsageWindow \<Rightarrow> officialUsageItem \<Rightarrow> UsageWindow" where
  "add_item spec from w item =
     (let b = bucket_of spec from item in w\<lparr>
        ow_Requests := add64 (ow_Requests w) 1,
        ow_InputTokens := add64 (ow_InputTokens w) (ui_Prompt item),
        ow_OutputTokens := add64 (ow_OutputTokens w) (ui_Completion item),
        ow_TotalTokens := add64 (ow_TotalTokens w) (ui_Prompt item + ui_Completion item),
        ow_CachedTokens := add64 (ow_CachedTokens w) (ui_Cached item),
        ow_CostUSD := ow_CostUSD w + real_of_int (ui_CostMicro item) / microUSD,
        ow_CreditsUsed := add64 (ow_CreditsUsed w) (ui_Credits item),
        ow_BYOKRequests := (if ui_BYOK item then add64 (ow_BYOKRequests w) 1 else ow_BYOKRequests w),
        ow_StreamRequests := (if ui_Stream item then add64 (ow_StreamRequests w) 1 else ow_StreamRequests w),
        ow_SeriesRequests := add_at b 1 (ow_SeriesRequests w),
        ow_SeriesTokens := add_at b (ui_Prompt item + ui_Completion item) (ow_SeriesTokens w),
        ow_SeriesCached := add_at b (ui_Cached item) (ow_SeriesCached w)\<rparr>)"

definition item_row :: "(string \<times> UsageModelRow) list \<Rightarrow> officialUsageItem \<Rightarrow> (string \<times> UsageModelRow) list" where
  "item_row rows item = addModelRow (ui_Provider item) (ui_Model item) (ui_Prompt item) (ui_Completion item)
     (ui_Cached item) (ui_CostMicro item) (ui_Credits item) True rows"

definition in_window :: "time \<Rightarrow> officialUsageItem list \<Rightarrow> officialUsageItem list" where
  "in_window from items = filter (\<lambda>i. \<not> Before (ui_At i) from) items"

definition close_window :: "(string \<times> UsageModelRow) list \<Rightarrow> UsageWindow \<Rightarrow> UsageWindow" where
  "close_window rows w = w\<lparr>
     ow_CacheRatio := (if ow_InputTokens w > 0
        then real_of_int (ow_CachedTokens w) / real_of_int (ow_InputTokens w) else ow_CacheRatio w),
     ow_Models := modelRows rows\<rparr>"

definition usage_window :: "time \<Rightarrow> time \<Rightarrow> officialUsageItem list \<Rightarrow> officialWindowSpec \<Rightarrow> UsageWindow" where
  "usage_window now accountCreated items spec =
     (let from = now - ws_Duration spec in
      close_window (foldl item_row [] (in_window from items))
        (foldl (add_item spec from)
          (empty_window (ws_Label spec) (FormatRFC3339 from) (FormatRFC3339 now) (ws_Buckets spec)
             (window_covered from accountCreated items) True)
          (in_window from items)))"

definition aggregate :: "time \<Rightarrow> time \<Rightarrow> officialUsageCollector \<Rightarrow> string \<rightharpoonup> UsageWindow" where
  "aggregate now accountCreated c =
     foldl (\<lambda>m spec. m(ws_Label spec \<mapsto> usage_window now accountCreated (oc_items c) spec)) Map.empty officialWindowSpecs"

record UsageState =
  us_Enabled :: bool
  us_Items :: nat
  us_Oldest :: string
  us_FetchedAt :: string
  us_Truncated :: bool
  us_Failures :: int
  us_RetryAt :: string
  us_Error :: "plan_error option"

definition collector_state :: "bool \<Rightarrow> officialUsageCollector \<Rightarrow> UsageState" where
  "collector_state enabled c = \<lparr>us_Enabled = enabled, us_Items = length (oc_items c),
     us_Oldest = (if oc_items c = [] then [] else FormatRFC3339 (ui_At (last (oc_items c)))),
     us_FetchedAt = (if IsZero (oc_fetchedAt c) then [] else FormatRFC3339 (oc_fetchedAt c)),
     us_Truncated = oc_truncated c, us_Failures = oc_failures c,
     us_RetryAt = (if IsZero (oc_retryAt c) then [] else FormatRFC3339 (oc_retryAt c)),
     us_Error = oc_lastError c\<rparr>"

section \<open>The week, from the daily totals\<close>

record dailyUsageItem =
  di_Date :: string
  di_Operation :: string
  di_AIModelTypeName :: string
  di_AIModelName :: string
  di_CostUnits :: int
  di_PromptTokens :: int
  di_CompletionTokens :: int

definition rowModelName :: "dailyUsageItem \<Rightarrow> string" where
  "rowModelName row = (let name = TrimSpace (di_AIModelName row)
     in if name \<noteq> [] then name else TrimSpace (di_AIModelTypeName row))"

text \<open>
  \<open>int(hours / 24)\<close>: both dates are midnights, so the quotient is exact and truncation is the floor.
\<close>

definition day_index :: "time \<Rightarrow> nat \<Rightarrow> string \<Rightarrow> nat option" where
  "day_index from days date =
     (case ParseDate (TrimSpace date) of
        None \<Rightarrow> None
      | Some t \<Rightarrow> let i = Sub t from div Day in if i < 0 \<or> i \<ge> int days then None else Some (nat i))"

definition add_day :: "time \<Rightarrow> nat \<Rightarrow> UsageWindow \<Rightarrow> dailyUsageItem \<Rightarrow> UsageWindow" where
  "add_day from days w row =
     (case day_index from days (di_Date row) of
        None \<Rightarrow> w
      | Some i \<Rightarrow> w\<lparr>
          ow_InputTokens := add64 (ow_InputTokens w) (di_PromptTokens row),
          ow_OutputTokens := add64 (ow_OutputTokens w) (di_CompletionTokens row),
          ow_TotalTokens := add64 (ow_TotalTokens w) (di_PromptTokens row + di_CompletionTokens row),
          ow_CostUSD := ow_CostUSD w + real_of_int (di_CostUnits row) / microUSD,
          ow_SeriesTokens := add_at i (di_PromptTokens row + di_CompletionTokens row) (ow_SeriesTokens w)\<rparr>)"

definition day_row :: "time \<Rightarrow> nat \<Rightarrow> (string \<times> UsageModelRow) list \<Rightarrow> dailyUsageItem \<Rightarrow> (string \<times> UsageModelRow) list" where
  "day_row from days rows row =
     (case day_index from days (di_Date row) of
        None \<Rightarrow> rows
      | Some _ \<Rightarrow> addModelRow [] (rowModelName row) (di_PromptTokens row) (di_CompletionTokens row) 0
                   (di_CostUnits row) 0 False rows)"

definition midnight :: "time \<Rightarrow> time" where
  "midnight t = day_number t * Day"

definition officialDailyWindow :: "dailyUsageItem list \<Rightarrow> time \<Rightarrow> time \<Rightarrow> UsageWindow" where
  "officialDailyWindow rows now accountCreated =
     (let days = 7; from = midnight now - 6 * Day
      in (foldl (add_day from days)
            (empty_window ''7d'' (FormatDate from) (FormatDate now) days (\<not> IsZero accountCreated) False) rows)
           \<lparr>ow_Models := modelRows (foldl (day_row from days) [] rows)\<rparr>)"

end
