(* ===== verification/Plan_Client.thy ===== *)
theory Plan_Client
  imports Official_Collector Observation
begin

text \<open>
  The calls of \<open>internal/plan/plan.go\<close>: the account, its rolling limits, its subscription, the daily
  totals and the balance, each one decoded from the envelope \<open>api_get\<close> opens, and the labels the page
  shows for them.

  \<open>fixed2\<close> stands for the formatting verb \<open>%.2f\<close>, a parameter because prices are reals here.
\<close>

section \<open>The account\<close>

record planUser =
  pu_ID :: string
  pu_DisplayName :: string
  pu_CreatedAt :: string

definition dec_user :: "json \<Rightarrow> planUser option" where
  "dec_user j = upd_object (\<lambda>ms u. do {
     uid \<leftarrow> json_field dec_string ''id'' ms (pu_ID u);
     name \<leftarrow> json_field dec_string ''displayName'' ms (pu_DisplayName u);
     created \<leftarrow> json_field dec_string ''createdAt'' ms (pu_CreatedAt u);
     Some \<lparr>pu_ID = uid, pu_DisplayName = name, pu_CreatedAt = created\<rparr> }) j
     \<lparr>pu_ID = [], pu_DisplayName = [], pu_CreatedAt = []\<rparr>"

definition me :: "planClient \<Rightarrow> plan_error + planUser" where
  "me c = api_get c ''/users/me'' dec_user"

section \<open>The rolling limits\<close>

record QuotaWindow =
  qw_Type :: string
  qw_Label :: string
  qw_PercentUsed :: real
  qw_ResetsAt :: string
  qw_ResetsIn :: string

record limitWire =
  lw_Type :: string
  lw_PercentUsed :: real
  lw_ResetsAt :: string

definition dec_limit :: "json \<Rightarrow> limitWire option" where
  "dec_limit j = upd_object (\<lambda>ms w. do {
     kind \<leftarrow> json_field dec_string ''type'' ms (lw_Type w);
     used \<leftarrow> json_field dec_float ''percentUsed'' ms (lw_PercentUsed w);
     resets \<leftarrow> json_field dec_string ''resetsAt'' ms (lw_ResetsAt w);
     Some \<lparr>lw_Type = kind, lw_PercentUsed = used, lw_ResetsAt = resets\<rparr> }) j
     \<lparr>lw_Type = [], lw_PercentUsed = 0, lw_ResetsAt = []\<rparr>"

definition dec_limits :: "json \<Rightarrow> limitWire list option" where
  "dec_limits j = upd_object (\<lambda>ms ws. json_update (upd_list dec_limit) ''limits'' ms ws) j []"

definition label_five_hours :: string where
  "label_five_hours = ''5 '' @ concat (map utf8_encode [0x5C0F, 0x65F6, 0x6EDA, 0x52A8, 0x7A97, 0x53E3])"
definition label_week :: string where
  "label_week = concat (map utf8_encode [0x672C, 0x5468, 0x989D, 0x5EA6])"
definition label_month :: string where
  "label_month = concat (map utf8_encode [0x672C, 0x6708, 0x989D, 0x5EA6])"

definition quotaWindowLabel :: "string \<Rightarrow> string" where
  "quotaWindowLabel kind =
     (let k = ToLower (TrimSpace kind) in
      if k \<in> {''five_hour'', ''five_hours'', ''5_hour'', ''5h''} then label_five_hours
      else if k \<in> {''weekly'', ''week''} then label_week
      else if k \<in> {''monthly'', ''month''} then label_month
      else kind)"

definition quota_window :: "time \<Rightarrow> limitWire \<Rightarrow> QuotaWindow" where
  "quota_window now w = \<lparr>qw_Type = lw_Type w, qw_Label = quotaWindowLabel (lw_Type w),
     qw_PercentUsed = lw_PercentUsed w, qw_ResetsAt = lw_ResetsAt w,
     qw_ResetsIn = (case ParseRFC3339 (lw_ResetsAt w) of None \<Rightarrow> []
                    | Some t \<Rightarrow> duration_String (RoundTo Minute (Sub t now)))\<rparr>"

definition usageLimits :: "time \<Rightarrow> planClient \<Rightarrow> plan_error + QuotaWindow list" where
  "usageLimits now c = (case api_get c ''/users/me/plan/usage-limits'' dec_limits of
      Inl e \<Rightarrow> Inl e | Inr ws \<Rightarrow> Inr (map (quota_window now) ws))"

section \<open>The subscription\<close>

record planDetails =
  pd_Name :: string
  pd_PriceUSD :: real
  pd_Description :: string
  pd_Interval :: string
  pd_Type :: string
  pd_Active :: bool
  pd_Benefits :: "string list"
  pd_PeriodStart :: string
  pd_PeriodEnd :: string
  pd_CanceledAt :: string

definition zero_details :: planDetails where
  "zero_details = \<lparr>pd_Name = [], pd_PriceUSD = 0, pd_Description = [], pd_Interval = [], pd_Type = [],
     pd_Active = False, pd_Benefits = [], pd_PeriodStart = [], pd_PeriodEnd = [], pd_CanceledAt = []\<rparr>"

definition upd_features :: "json \<Rightarrow> string list \<Rightarrow> string list option" where
  "upd_features = upd_object (json_update
     (\<lambda>v _. if v = JNull then Some [] else dec_strings v) ''included'')"

definition upd_plan :: "json \<Rightarrow> planDetails \<Rightarrow> planDetails option" where
  "upd_plan = upd_object (\<lambda>ms d. do {
     name \<leftarrow> json_field dec_string ''displayName'' ms (pd_Name d);
     price \<leftarrow> json_field (\<lambda>v. map_option (\<lambda>cents. real_of_int cents / 100) (dec_int v))
                ''pricePerSeatCents'' ms (pd_PriceUSD d);
     descr \<leftarrow> json_field dec_string ''description'' ms (pd_Description d);
     interval \<leftarrow> json_field dec_string ''interval'' ms (pd_Interval d);
     kind \<leftarrow> json_field dec_string ''type'' ms (pd_Type d);
     active \<leftarrow> json_field dec_bool ''isActive'' ms (pd_Active d);
     benefits \<leftarrow> json_update upd_features ''features'' ms (pd_Benefits d);
     Some (d\<lparr>pd_Name := name, pd_PriceUSD := price, pd_Description := descr, pd_Interval := interval,
       pd_Type := kind, pd_Active := active, pd_Benefits := benefits\<rparr>) })"

definition dec_plan :: "json \<Rightarrow> planDetails option" where
  "dec_plan j = upd_object (\<lambda>ms d0. do {
     d \<leftarrow> json_update upd_plan ''plan'' ms d0;
     start \<leftarrow> json_field dec_string ''currentPeriodStart'' ms (pd_PeriodStart d);
     until \<leftarrow> json_field dec_string ''currentPeriodEnd'' ms (pd_PeriodEnd d);
     canceled \<leftarrow> json_field dec_string ''canceledAt'' ms (pd_CanceledAt d);
     Some (d\<lparr>pd_PeriodStart := start, pd_PeriodEnd := until, pd_CanceledAt := canceled\<rparr>) }) j zero_details"

definition subscription :: "planClient \<Rightarrow> plan_error + planDetails" where
  "subscription c = api_get c ''/users/me/plan'' dec_plan"

definition billingIntervalLabel :: "string \<Rightarrow> string" where
  "billingIntervalLabel interval =
     (let k = ToLower (TrimSpace interval) in
      if k \<in> {''monthly'', ''month''} then utf8_encode 0x6708
      else if k \<in> {''yearly'', ''annual'', ''annually'', ''year''} then utf8_encode 0x5E74
      else if k \<in> {''weekly'', ''week''} then utf8_encode 0x5468
      else if k = [] then [] else interval)"

definition planPriceLabel :: "(real \<Rightarrow> string) \<Rightarrow> real \<Rightarrow> string \<Rightarrow> string" where
  "planPriceLabel fixed2 priceUSD interval =
     (if priceUSD \<le> 0 then []
      else if billingIntervalLabel interval \<noteq> []
      then ''$'' @ fixed2 priceUSD @ '' / '' @ billingIntervalLabel interval
      else ''$'' @ fixed2 priceUSD)"

section \<open>Daily totals and balance\<close>

definition dec_daily_item :: "json \<Rightarrow> dailyUsageItem option" where
  "dec_daily_item j = (do {
     ms \<leftarrow> (if j = JNull then Some [] else dec_object j);
     x0 \<leftarrow> json_field dec_string ''date'' ms [];
     x1 \<leftarrow> json_field dec_string ''operation'' ms [];
     x2 \<leftarrow> json_field dec_string ''aiModelTypeName'' ms [];
     x3 \<leftarrow> json_field dec_string ''aiModelName'' ms [];
     x4 \<leftarrow> json_field dec_int ''costUsd'' ms 0;
     x5 \<leftarrow> json_field dec_int ''promptTokens'' ms 0;
     x6 \<leftarrow> json_field dec_int ''completionTokens'' ms 0;
     Some \<lparr>di_Date = x0, di_Operation = x1, di_AIModelTypeName = x2, di_AIModelName = x3, di_CostUnits = x4,
       di_PromptTokens = x5, di_CompletionTokens = x6\<rparr> })"

definition dec_daily :: "json \<Rightarrow> dailyUsageItem list option" where
  "dec_daily j = upd_object (json_update (upd_list dec_daily_item) ''items'') j []"

definition dailyUsage :: "planClient \<Rightarrow> string \<Rightarrow> string \<Rightarrow> string \<Rightarrow> plan_error + dailyUsageItem list" where
  "dailyUsage c userID from to =
     api_get c (''/users/'' @ userID @ ''/usages/daily?startDate='' @ from @ ''&endDate='' @ to) dec_daily"

definition dec_balance :: "json \<Rightarrow> int option" where
  "dec_balance j = upd_object (\<lambda>ms b. json_field dec_int ''balance'' ms b) j 0"

definition balance :: "planClient \<Rightarrow> string \<Rightarrow> plan_error + real" where
  "balance c userID = (case api_get c (''/users/'' @ userID @ ''/balance'') dec_balance of
      Inl e \<Rightarrow> Inl e | Inr units \<Rightarrow> Inr (real_of_int units / microUSD))"

section \<open>What may be shown of a key or an account\<close>

definition ellipsis :: string where "ellipsis = utf8_encode 0x2026"
definition middle_dot :: string where "middle_dot = '' '' @ utf8_encode 0xB7 @ '' ''"

definition maskCredential :: "string \<Rightarrow> string" where
  "maskCredential key = (let t = TrimSpace key
     in if length t \<le> 8 then ellipsis else take 3 t @ ellipsis @ drop (length t - 4) t)"

definition shortAccountID :: "string \<Rightarrow> string" where
  "shortAccountID i = (let t = TrimSpace i
     in if length t \<le> 12 then t else take 8 t @ ellipsis @ drop (length t - 4) t)"

definition looksLikeClineKey :: "string \<Rightarrow> bool" where
  "looksLikeClineKey key \<longleftrightarrow> (let t = TrimSpace key in length t \<ge> 32 \<and> HasPrefix t ''sk_'')"

end
