(* ===== verification/Plan_Credentials.thy ===== *)
theory Plan_Credentials
  imports Plan_Client
begin

text \<open>
  Where \<open>internal/plan/plan.go\<close> finds the keys it polls with: the plugin's own configuration, CPA's
  configuration file, the host's credential files, and the bearer of the last upstream request.

  \<open>read\<close> is the file system, \<open>yaml\<close> the YAML decoder (the provider list of either schema), \<open>host\<close> the
  host's answer to a call, given the method and the payload. Log lines are left out.
\<close>

section \<open>The remembered bearer\<close>

record Bearer =
  lb_value :: string
  lb_lastKeys :: string
  lb_lastLen :: nat

definition no_bearer :: Bearer where
  "no_bearer = \<lparr>lb_value = [], lb_lastKeys = [], lb_lastLen = 0\<rparr>"

text \<open>\<open>http.Header\<close>: canonical names with their values; \<open>Get\<close> is the first value.\<close>

type_synonym headers = "(string \<times> string list) list"

definition header_get :: "headers \<Rightarrow> string \<Rightarrow> string" where
  "header_get hs name = (case map_of hs name of Some (v # _) \<Rightarrow> v | _ \<Rightarrow> [])"

definition RememberUpstreamBearer :: "headers option \<Rightarrow> Bearer \<Rightarrow> Bearer" where
  "RememberUpstreamBearer headers b =
     (case headers of None \<Rightarrow> b
      | Some hs \<Rightarrow>
          let auth0 = TrimSpace (header_get hs ''Authorization'');
              auth1 = (if auth0 = [] then TrimSpace (header_get hs ''Api-Key'') else auth0);
              auth = TrimSpace (TrimPrefix auth1 ''Bearer '')
          in b\<lparr>lb_lastKeys := separated '','' (sort (map fst hs)), lb_lastLen := length auth,
               lb_value := (if length auth \<ge> 20 then auth else lb_value b)\<rparr>)"

definition UpstreamBearer :: "Bearer \<Rightarrow> string" where
  "UpstreamBearer b = lb_value b"

definition BearerDiagnostics :: "Bearer \<Rightarrow> string \<times> nat" where
  "BearerDiagnostics b = (lb_lastKeys b, lb_lastLen b)"

section \<open>CPA's configuration file\<close>

record planCredential =
  cr_Key :: string
  cr_Label :: string
  cr_Source :: string

record configFileProvider =
  cp_Name :: string
  cp_BaseURL :: string
  cp_Disabled :: bool
  cp_APIKeys :: "string list"
  cp_APIKeyEntries :: "string list"
  cp_Keys :: "string list"

definition provider_credentials :: "configFileProvider \<Rightarrow> string list" where
  "provider_credentials p = cp_APIKeys p @ cp_APIKeyEntries p @ cp_Keys p"

text \<open>The two lists of the file: at the top level, and under \<open>api-keys\<close>.\<close>

type_synonym provider_yaml = "string \<Rightarrow> (configFileProvider list \<times> configFileProvider list) option"

definition openAICompatibilityProviders :: "provider_yaml \<Rightarrow> string \<Rightarrow> configFileProvider list option" where
  "openAICompatibilityProviders yaml raw = map_option (\<lambda>(top, nested). top @ nested) (yaml raw)"

definition provider_matches :: "Config \<Rightarrow> configFileProvider \<Rightarrow> bool" where
  "provider_matches cfg entry \<longleftrightarrow>
     \<not> cp_Disabled entry \<and> HostFromBaseURL (cp_BaseURL entry) \<noteq> [] \<and>
     (cfg_Hosts cfg \<noteq> [] \<and> snd (HostMatched cfg (cp_BaseURL entry)) \<or>
      EqualFold (TrimSpace (cp_Name entry)) ''cline'')"

fun number_keys :: "string \<Rightarrow> nat \<Rightarrow> string list \<Rightarrow> planCredential list" where
  "number_keys name index [] = []"
| "number_keys name index (key # keys) =
     (let t = TrimSpace key in
      if t = [] then number_keys name index keys
      else \<lparr>cr_Key = t, cr_Label = name @ '' #'' @ digits_of (Suc index) @ middle_dot @ maskCredential t,
             cr_Source = ''config-file''\<rparr> # number_keys name (Suc index) keys)"

definition provider_keys :: "configFileProvider \<Rightarrow> planCredential list" where
  "provider_keys entry =
     (let name = (if TrimSpace (cp_Name entry) = [] then HostFromBaseURL (cp_BaseURL entry)
                  else TrimSpace (cp_Name entry))
      in number_keys name 0 (provider_credentials entry))"

definition planConfigPaths :: "string list" where
  "planConfigPaths = [''/CLIProxyAPI/config.yaml'', ''/app/config.yaml'']"

definition config_paths :: "Config \<Rightarrow> string list" where
  "config_paths cfg = (let override = TrimSpace (cfg_PlanConfigPath cfg)
     in if override \<noteq> [] then [override] else planConfigPaths)"

text \<open>The first file that yields a key ends the search; an unreadable one is skipped.\<close>

fun search_configs :: "(string \<Rightarrow> string option) \<Rightarrow> provider_yaml \<Rightarrow> Config \<Rightarrow> string list \<Rightarrow> planCredential list" where
  "search_configs read yaml cfg [] = []"
| "search_configs read yaml cfg (path # paths) =
     (case Option.bind (read path) (openAICompatibilityProviders yaml) of
        None \<Rightarrow> search_configs read yaml cfg paths
      | Some providers \<Rightarrow>
          let found = concat (map provider_keys (filter (provider_matches cfg) providers))
          in if found \<noteq> [] then found else search_configs read yaml cfg paths)"

definition clineCredentialsFromConfigFile ::
  "(string \<Rightarrow> string option) \<Rightarrow> provider_yaml \<Rightarrow> Config \<Rightarrow> planCredential list" where
  "clineCredentialsFromConfigFile read yaml cfg = search_configs read yaml cfg (config_paths cfg)"

section \<open>The host's credential files\<close>

datatype host_method = MethodHostAuthList | MethodHostAuthGet

type_synonym host_call = "host_method \<Rightarrow> string option \<Rightarrow> string option"

record hostAuthFileEntry =
  hf_AuthIndex :: string
  hf_Name :: string
  hf_Type :: string
  hf_Provider :: string
  hf_Disabled :: bool
  hf_BaseURL :: string

definition dec_auth_entry :: "json \<Rightarrow> hostAuthFileEntry option" where
  "dec_auth_entry j = (do {
     ms \<leftarrow> (if j = JNull then Some [] else dec_object j);
     x0 \<leftarrow> json_field dec_string ''auth_index'' ms [];
     x1 \<leftarrow> json_field dec_string ''name'' ms [];
     x2 \<leftarrow> json_field dec_string ''type'' ms [];
     x3 \<leftarrow> json_field dec_string ''provider'' ms [];
     x4 \<leftarrow> json_field dec_bool ''disabled'' ms False;
     x5 \<leftarrow> json_field dec_string ''base_url'' ms [];
     Some \<lparr>hf_AuthIndex = x0, hf_Name = x1, hf_Type = x2, hf_Provider = x3, hf_Disabled = x4, hf_BaseURL = x5\<rparr> })"

definition dec_auth_list :: "json \<Rightarrow> hostAuthFileEntry list option" where
  "dec_auth_list j = upd_object (json_update (upd_list dec_auth_entry) ''files'') j []"

text \<open>The credential document of the answer; \<open>None\<close> when it has none.\<close>

definition dec_auth_get :: "json \<Rightarrow> json option option" where
  "dec_auth_get j = upd_object (\<lambda>ms doc. do {
     _ \<leftarrow> json_field dec_string ''auth_index'' ms [];
     _ \<leftarrow> json_field dec_string ''name'' ms [];
     json_update (\<lambda>v _. Some (Some v)) ''json'' ms doc }) j None"

text \<open>A map keeps the exact names of the members; the last one of a name wins.\<close>

definition map_field :: "string \<Rightarrow> (string \<times> json) list \<Rightarrow> json option" where
  "map_field name ms = map_of (rev ms) name"

fun first_key :: "(string \<times> json) list \<Rightarrow> string list \<Rightarrow> string" where
  "first_key ms [] = []"
| "first_key ms (name # names) =
     (case map_field name ms of
        Some (JStr v) \<Rightarrow> if TrimSpace v \<noteq> [] then TrimSpace v else first_key ms names
      | _ \<Rightarrow> first_key ms names)"

definition apiKeyFromAuthJSON :: "json option \<Rightarrow> string" where
  "apiKeyFromAuthJSON doc =
     (case doc of Some (JObj ms) \<Rightarrow> first_key ms [''api_key'', ''apiKey'', ''key'', ''access_token''] | _ \<Rightarrow> [])"

definition entryMatchesCline :: "hostAuthFileEntry \<Rightarrow> Config \<Rightarrow> bool" where
  "entryMatchesCline entry cfg \<longleftrightarrow>
     \<not> hf_Disabled entry \<and>
     (cfg_Hosts cfg \<noteq> [] \<and> snd (HostMatched cfg (hf_BaseURL entry)) \<or>
      (let haystack = ToLower (hf_Provider entry @ '' '' @ hf_Name entry) in
       list_ex (\<lambda>h. h \<noteq> [] \<and> Contains haystack (TrimPrefix h ''.'')) (cfg_Hosts cfg) \<or>
       Contains haystack ''cline''))"

definition auth_label :: "hostAuthFileEntry \<Rightarrow> string" where
  "auth_label entry =
     (let name = TrimSpace (hf_Name entry); kind = TrimSpace (hf_Type entry)
      in if name \<noteq> [] then name else if kind \<noteq> [] then kind else ''host-auth'')"

definition host_credential :: "host_call \<Rightarrow> hostAuthFileEntry \<Rightarrow> planCredential list" where
  "host_credential host entry =
     (case Option.bind (host MethodHostAuthGet (Some (Marshal (JObj [(''auth_index'', JStr (hf_AuthIndex entry))]))))
             (\<lambda>raw. Option.bind (parse_json raw) dec_auth_get) of
        None \<Rightarrow> []
      | Some doc \<Rightarrow>
          let key = TrimSpace (apiKeyFromAuthJSON doc)
          in if key = [] then []
             else [\<lparr>cr_Key = key, cr_Label = auth_label entry @ middle_dot @ maskCredential key, cr_Source = ''host-auth''\<rparr>])"

definition clineCredentialsFromHostAuth :: "host_call \<Rightarrow> Config \<Rightarrow> planCredential list" where
  "clineCredentialsFromHostAuth host cfg =
     (case Option.bind (host MethodHostAuthList None) (\<lambda>raw. Option.bind (parse_json raw) dec_auth_list) of
        None \<Rightarrow> []
      | Some entries \<Rightarrow> concat (map (host_credential host) (filter (\<lambda>e. entryMatchesCline e cfg) entries)))"

section \<open>ResolveCredentials\<close>

definition planMaxCredentials :: nat where "planMaxCredentials = 8"

text \<open>The closure \<open>add\<close>; its set of seen keys is the keys of the list.\<close>

definition add_credential :: "planCredential list \<Rightarrow> planCredential \<Rightarrow> planCredential list" where
  "add_credential out cred =
     (let t = TrimSpace (cr_Key cred) in
      if t = [] \<or> length out \<ge> planMaxCredentials then out
      else if t \<in> set (map cr_Key out) then out
      else out @ [cred\<lparr>cr_Key := t\<rparr>])"

definition label_plugin_config :: string where
  "label_plugin_config = concat (map utf8_encode [0x63D2, 0x4EF6, 0x914D, 0x7F6E])"
definition label_observed :: string where
  "label_observed = concat (map utf8_encode [0x4E0A, 0x6E38, 0x8BF7, 0x6C42, 0x5934])"

definition configured_key :: "Config \<Rightarrow> planCredential list" where
  "configured_key cfg = (let key = TrimSpace (cfg_PlanAPIKey cfg) in
     if key = [] then []
     else [\<lparr>cr_Key = key, cr_Label = label_plugin_config @ middle_dot @ maskCredential key, cr_Source = ''plugin-config''\<rparr>])"

definition observed_key :: "Bearer \<Rightarrow> planCredential list" where
  "observed_key b = (let key = UpstreamBearer b in
     if looksLikeClineKey key
     then [\<lparr>cr_Key = key, cr_Label = label_observed @ middle_dot @ maskCredential key, cr_Source = ''observed-header''\<rparr>]
     else [])"

record CredentialEnv =
  ce_read :: "string \<Rightarrow> string option"
  ce_yaml :: provider_yaml
  ce_host :: host_call
  ce_bearer :: Bearer

definition credential_candidates :: "CredentialEnv \<Rightarrow> Config \<Rightarrow> planCredential list" where
  "credential_candidates env cfg =
     configured_key cfg @ clineCredentialsFromConfigFile (ce_read env) (ce_yaml env) cfg @
     clineCredentialsFromHostAuth (ce_host env) cfg @ observed_key (ce_bearer env)"

definition ResolveCredentials :: "CredentialEnv \<Rightarrow> Config \<Rightarrow> planCredential list" where
  "ResolveCredentials env cfg = foldl add_credential [] (credential_candidates env cfg)"

end
