(* ===== verification/Plan_Poller.thy ===== *)
theory Plan_Poller
  imports Plan_Credentials
begin

text \<open>
  The poller of \<open>internal/plan/plan.go\<close>: one account per credential, a round of calls per account, and
  the published snapshot with its primary account.

  \<open>digest\<close> is the hexadecimal SHA-256 of a key; \<open>upstream n\<close> answers the calls of an account's round,
  \<open>n\<close> the page of its walk (every other call asks \<open>upstream 0\<close>). The clock is read several times in a
  round, and \<open>RoundClock\<close> has one field per reading; \<open>re_local\<close> prints a time in the local zone. The pauses between accounts are left out.
\<close>

section \<open>Snapshots\<close>

record Tokens =
  tk_FromDate :: string
  tk_ToDate :: string
  tk_InputTokens :: int
  tk_OutputTokens :: int
  tk_TotalTokens :: int
  tk_CostUSD :: real
  tk_BalanceUSD :: real
  tk_Requests :: int
  tk_Series :: "int list"

definition no_tokens :: Tokens where
  "no_tokens = \<lparr>tk_FromDate = [], tk_ToDate = [], tk_InputTokens = 0, tk_OutputTokens = 0, tk_TotalTokens = 0,
     tk_CostUSD = 0, tk_BalanceUSD = 0, tk_Requests = 0, tk_Series = []\<rparr>"

definition no_usage :: UsageState where
  "no_usage = \<lparr>us_Enabled = False, us_Items = 0, us_Oldest = [], us_FetchedAt = [], us_Truncated = False,
     us_Failures = 0, us_RetryAt = [], us_Error = None\<rparr>"

text \<open>What a snapshot's \<open>Error\<close> says: nothing, a failed call, a merged account, or no credential.\<close>

datatype snapshot_error = No_error | Call_failed plan_error | Merged_with string | No_credential

record AccountSnapshot =
  as_ID :: string
  as_Label :: string
  as_Source :: string
  as_Available :: bool
  as_Rejected :: bool
  as_Account :: string
  as_PlanName :: string
  as_PlanPrice :: string
  as_PlanDescription :: string
  as_PlanInterval :: string
  as_PlanType :: string
  as_PlanActive :: bool
  as_PlanBenefits :: "string list"
  as_PlanPeriodStart :: string
  as_PlanPeriodEnd :: string
  as_PlanCanceledAt :: string
  as_Limits :: "QuotaWindow list"
  as_Tokens :: Tokens
  as_TokensError :: "plan_error option"
  as_Windows :: "string \<rightharpoonup> UsageWindow"
  as_Usage :: UsageState
  as_OfficialChannels :: "OfficialChannelRow list"
  as_FetchedAt :: string
  as_Error :: snapshot_error

definition blank_snapshot :: "string \<Rightarrow> string \<Rightarrow> string \<Rightarrow> AccountSnapshot" where
  "blank_snapshot i label source = \<lparr>as_ID = i, as_Label = label, as_Source = source, as_Available = False,
     as_Rejected = False, as_Account = [], as_PlanName = [], as_PlanPrice = [], as_PlanDescription = [],
     as_PlanInterval = [], as_PlanType = [], as_PlanActive = False, as_PlanBenefits = [], as_PlanPeriodStart = [],
     as_PlanPeriodEnd = [], as_PlanCanceledAt = [], as_Limits = [], as_Tokens = no_tokens, as_TokensError = None,
     as_Windows = Map.empty, as_Usage = no_usage, as_OfficialChannels = [], as_FetchedAt = [], as_Error = No_error\<rparr>"

record Quota =
  qt_Available :: bool
  qt_Source :: string
  qt_Account :: string
  qt_PlanName :: string
  qt_PlanPrice :: string
  qt_PlanDescription :: string
  qt_PlanInterval :: string
  qt_PlanType :: string
  qt_PlanActive :: bool
  qt_PlanBenefits :: "string list"
  qt_PlanPeriodStart :: string
  qt_PlanPeriodEnd :: string
  qt_PlanCanceledAt :: string
  qt_Limits :: "QuotaWindow list"
  qt_Tokens :: Tokens
  qt_TokensError :: "plan_error option"
  qt_Windows :: "string \<rightharpoonup> UsageWindow"
  qt_OfficialChannels :: "OfficialChannelRow list"
  qt_Usage :: UsageState
  qt_FetchedAt :: string
  qt_Error :: snapshot_error
  qt_Accounts :: "AccountSnapshot list"

definition blank_quota :: "string \<Rightarrow> snapshot_error \<Rightarrow> AccountSnapshot list \<Rightarrow> Quota" where
  "blank_quota source err accounts = \<lparr>qt_Available = False, qt_Source = source, qt_Account = [], qt_PlanName = [],
     qt_PlanPrice = [], qt_PlanDescription = [], qt_PlanInterval = [], qt_PlanType = [], qt_PlanActive = False,
     qt_PlanBenefits = [], qt_PlanPeriodStart = [], qt_PlanPeriodEnd = [], qt_PlanCanceledAt = [], qt_Limits = [],
     qt_Tokens = no_tokens, qt_TokensError = None, qt_Windows = Map.empty, qt_OfficialChannels = [],
     qt_Usage = no_usage, qt_FetchedAt = [], qt_Error = err, qt_Accounts = accounts\<rparr>"

section \<open>Accounts\<close>

record planAccount =
  pa_id :: string
  pa_label :: string
  pa_source :: string
  pa_key :: string
  pa_usage :: officialUsageCollector
  pa_userID :: string
  pa_created :: time
  pa_tokens :: Tokens
  pa_tokensErr :: "plan_error option"
  pa_window7 :: "UsageWindow option"
  pa_lastDaily :: time
  pa_snapshot :: AccountSnapshot

definition credentialID :: "(string \<Rightarrow> string) \<Rightarrow> string \<Rightarrow> string" where
  "credentialID digest key = take 12 (digest (TrimSpace key))"

definition newPlanAccount :: "(string \<Rightarrow> string) \<Rightarrow> planCredential \<Rightarrow> planAccount" where
  "newPlanAccount digest cred = \<lparr>pa_id = credentialID digest (cr_Key cred), pa_label = cr_Label cred,
     pa_source = cr_Source cred, pa_key = cr_Key cred, pa_usage = newOfficialUsageCollector, pa_userID = [],
     pa_created = zero_time, pa_tokens = no_tokens, pa_tokensErr = None, pa_window7 = None,
     pa_lastDaily = zero_time, pa_snapshot = blank_snapshot [] [] []\<rparr>"

record Poller =
  pl_quota :: Quota
  pl_stopped :: bool
  pl_accounts :: "planAccount list"
  pl_loggedEmpty :: bool

definition newPoller :: Poller where
  "newPoller = \<lparr>pl_quota = blank_quota [] No_error [], pl_stopped = False, pl_accounts = [], pl_loggedEmpty = False\<rparr>"

definition PollerSnapshot :: "Poller option \<Rightarrow> Quota" where
  "PollerSnapshot p = (case p of None \<Rightarrow> blank_quota [] No_error [] | Some q \<Rightarrow> pl_quota q)"

definition store_quota :: "Quota \<Rightarrow> Poller \<Rightarrow> Poller" where
  "store_quota quota p = p\<lparr>pl_quota := quota\<rparr>"

definition Stop :: "Poller \<Rightarrow> Poller" where
  "Stop p = p\<lparr>pl_stopped := True\<rparr>"

text \<open>
  The map of known accounts holds pointers; when two credentials share an id they would share the account.
  Ids are looked up in the old list, the last of an id winning, as the map is filled in its order.
\<close>

definition sync_account :: "(string \<Rightarrow> string) \<Rightarrow> planAccount list \<Rightarrow> planCredential \<Rightarrow> planAccount" where
  "sync_account digest old cred =
     (case map_of (rev (map (\<lambda>a. (pa_id a, a)) old)) (credentialID digest (cr_Key cred)) of
        Some a \<Rightarrow> a\<lparr>pa_label := cr_Label cred, pa_source := cr_Source cred, pa_key := cr_Key cred\<rparr>
      | None \<Rightarrow> newPlanAccount digest cred)"

definition syncAccounts :: "(string \<Rightarrow> string) \<Rightarrow> planAccount list \<Rightarrow> planCredential list \<Rightarrow> planAccount list" where
  "syncAccounts digest old creds = map (sync_account digest old) creds"

section \<open>One account's round\<close>

definition planDefaultDailyEvery :: duration where "planDefaultDailyEvery = Hour"
definition planUsageWindowDays :: nat where "planUsageWindowDays = 31"

record RoundClock =
  ck_now :: time
  ck_limits :: time
  ck_since :: time
  ck_daily :: time
  ck_week :: time
  ck_done :: time
  ck_fetched :: time

record RoundEnv =
  re_upstream :: "nat \<Rightarrow> http"
  re_clock :: RoundClock
  re_fixed2 :: "real \<Rightarrow> string"
  re_local :: "time \<Rightarrow> string"

definition attachUsage :: "Config \<Rightarrow> planAccount \<Rightarrow> time \<Rightarrow> AccountSnapshot \<Rightarrow> AccountSnapshot" where
  "attachUsage cfg a now s =
     (if \<not> cfg_PlanUsageEnabled cfg then s
      else let windows = aggregate now (pa_created a) (pa_usage a) in
        s\<lparr>as_Windows := (case pa_window7 a of None \<Rightarrow> windows | Some w \<Rightarrow> windows(''7d'' \<mapsto> w)),
          as_Usage := collector_state True (pa_usage a),
          as_OfficialChannels := officialChannelRows (pa_usage a)\<rparr>)"

definition fail_round :: "RoundEnv \<Rightarrow> Config \<Rightarrow> planAccount \<Rightarrow> plan_error \<Rightarrow> AccountSnapshot \<Rightarrow> planAccount" where
  "fail_round env cfg a e s = a\<lparr>pa_snapshot := attachUsage cfg a (ck_now (re_clock env))
     (s\<lparr>as_Error := Call_failed e, as_FetchedAt := re_local env (ck_fetched (re_clock env))\<rparr>)\<rparr>"

definition plan_fields :: "(real \<Rightarrow> string) \<Rightarrow> planDetails \<Rightarrow> AccountSnapshot \<Rightarrow> AccountSnapshot" where
  "plan_fields fixed2 d s = s\<lparr>as_PlanName := pd_Name d,
     as_PlanPrice := planPriceLabel fixed2 (pd_PriceUSD d) (pd_Interval d),
     as_PlanDescription := pd_Description d, as_PlanInterval := pd_Interval d, as_PlanType := pd_Type d,
     as_PlanActive := pd_Active d, as_PlanBenefits := pd_Benefits d, as_PlanPeriodStart := pd_PeriodStart d,
     as_PlanPeriodEnd := pd_PeriodEnd d, as_PlanCanceledAt := pd_CanceledAt d\<rparr>"

definition add_daily :: "time \<Rightarrow> Tokens \<Rightarrow> dailyUsageItem \<Rightarrow> Tokens" where
  "add_daily start t item =
     (let t1 = t\<lparr>tk_InputTokens := add64 (tk_InputTokens t) (di_PromptTokens item),
                 tk_OutputTokens := add64 (tk_OutputTokens t) (di_CompletionTokens item),
                 tk_CostUSD := tk_CostUSD t + real_of_int (di_CostUnits item) / microUSD,
                 tk_Requests := add64 (tk_Requests t) 1\<rparr>
      in case day_index start (length (tk_Series t)) (di_Date item) of
          None \<Rightarrow> t1
        | Some i \<Rightarrow> t1\<lparr>tk_Series := add_at i (di_PromptTokens item + di_CompletionTokens item) (tk_Series t)\<rparr>)"

definition daily_totals :: "time \<Rightarrow> dailyUsageItem list \<Rightarrow> Tokens" where
  "daily_totals now items =
     (let start = midnight now - 30 * Day;
          t = foldl (add_daily start) (no_tokens\<lparr>tk_FromDate := FormatDate start, tk_ToDate := FormatDate now,
                tk_Series := replicate planUsageWindowDays 0\<rparr>) items
      in t\<lparr>tk_TotalTokens := add64 (tk_InputTokens t) (tk_OutputTokens t)\<rparr>)"

definition daily_due :: "RoundEnv \<Rightarrow> Config \<Rightarrow> planAccount \<Rightarrow> bool" where
  "daily_due env cfg a \<longleftrightarrow> cfg_PlanDailyEnabled cfg \<and>
     (IsZero (pa_lastDaily a) \<or> Sub (ck_since (re_clock env)) (pa_lastDaily a) > planDefaultDailyEvery)"

definition read_daily :: "RoundEnv \<Rightarrow> planClient \<Rightarrow> planAccount \<Rightarrow> AccountSnapshot \<Rightarrow> planAccount \<times> AccountSnapshot" where
  "read_daily env c a s =
     (let clock = re_clock env; now = ck_daily clock in
      case dailyUsage c (pa_userID a) (FormatDate (now - 30 * Day)) (FormatDate now) of
        Inl e \<Rightarrow> (a\<lparr>pa_tokensErr := Some e\<rparr>, s\<lparr>as_TokensError := Some e\<rparr>)
      | Inr items \<Rightarrow>
          let totals0 = daily_totals now items;
              totals = (case balance c (pa_userID a) of Inl _ \<Rightarrow> totals0 | Inr b \<Rightarrow> totals0\<lparr>tk_BalanceUSD := b\<rparr>)
          in (a\<lparr>pa_tokens := totals, pa_tokensErr := None,
                pa_window7 := Some (officialDailyWindow items (ck_week clock) (pa_created a)),
                pa_lastDaily := ck_done clock\<rparr>,
              s\<lparr>as_Tokens := totals, as_TokensError := None\<rparr>))"

definition finish_round :: "RoundEnv \<Rightarrow> Config \<Rightarrow> planAccount \<times> AccountSnapshot \<Rightarrow> planAccount" where
  "finish_round env cfg = (\<lambda>(a, s). a\<lparr>pa_snapshot := (attachUsage cfg a (ck_now (re_clock env)) s)
     \<lparr>as_FetchedAt := re_local env (ck_fetched (re_clock env)), as_Error := No_error\<rparr>\<rparr>)"

text \<open>The limits, the subscription and the daily totals, after the records.\<close>

definition read_quota :: "RoundEnv \<Rightarrow> Config \<Rightarrow> planClient \<Rightarrow> AccountSnapshot \<Rightarrow> planAccount \<Rightarrow> planAccount" where
  "read_quota env cfg c s a =
     (case usageLimits (ck_limits (re_clock env)) c of
        Inl e \<Rightarrow> fail_round env cfg a e (s\<lparr>as_Rejected := as_Rejected s \<or> isRejectedCredential e\<rparr>)
      | Inr limits \<Rightarrow>
          let s1 = (case subscription c of Inl _ \<Rightarrow> s | Inr d \<Rightarrow> plan_fields (re_fixed2 env) d s);
              s2 = s1\<lparr>as_Limits := limits, as_Available := True\<rparr>
          in finish_round env cfg (if daily_due env cfg a then read_daily env c a s2 else (a, s2)))"

definition collect_usage :: "RoundEnv \<Rightarrow> Config \<Rightarrow> planAccount \<Rightarrow> planAccount option" where
  "collect_usage env cfg a =
     (if cfg_PlanUsageEnabled cfg
      then map_option (\<lambda>u. a\<lparr>pa_usage := u\<rparr>)
             (refreshIfDue (\<lambda>n cursor. usagePage (newPlanClient (re_upstream env n) (cfg_PlanBaseURL cfg) (pa_key a))
                 (pa_userID a) cursor officialUsagePageSize)
               (pa_userID a) (Or (cfg_PlanUsageRefresh cfg) DefaultPlanUsageRefresh) (ck_now (re_clock env)) (pa_usage a))
      else Some a)"

definition learn_user :: "planUser \<Rightarrow> planAccount \<Rightarrow> planAccount" where
  "learn_user user a = (let a1 = a\<lparr>pa_userID := pu_ID user\<rparr> in
     case ParseRFC3339 (pu_CreatedAt user) of None \<Rightarrow> a1 | Some t \<Rightarrow> a1\<lparr>pa_created := t\<rparr>)"

definition start_snapshot :: "planAccount \<Rightarrow> AccountSnapshot" where
  "start_snapshot a = (blank_snapshot (pa_id a) (pa_label a) (pa_source a))
     \<lparr>as_Tokens := pa_tokens a, as_TokensError := pa_tokensErr a\<rparr>"

definition refreshAccount :: "RoundEnv \<Rightarrow> Config \<Rightarrow> planAccount \<Rightarrow> planAccount option" where
  "refreshAccount env cfg a =
     (let c = newPlanClient (re_upstream env 0) (cfg_PlanBaseURL cfg) (pa_key a); s = start_snapshot a in
      case me c of
        Inl e \<Rightarrow>
          let s1 = s\<lparr>as_Rejected := isRejectedCredential e\<rparr> in
          if pa_userID a = [] then Some (fail_round env cfg a e s1)
          else map_option (read_quota env cfg c s1) (collect_usage env cfg a)
      | Inr user \<Rightarrow>
          map_option (read_quota env cfg c (s\<lparr>as_Account := shortAccountID (pu_ID user)\<rparr>))
            (collect_usage env cfg (learn_user user a)))"

section \<open>A round of the poller\<close>

definition merged_account :: "string \<Rightarrow> planAccount \<Rightarrow> planAccount" where
  "merged_account label a = a\<lparr>pa_snapshot := (blank_snapshot (pa_id a) (pa_label a) (pa_source a))
     \<lparr>as_Account := shortAccountID (pa_userID a), as_Error := Merged_with label\<rparr>\<rparr>"

fun refresh_accounts :: "(planAccount \<Rightarrow> RoundEnv) \<Rightarrow> Config \<Rightarrow> (string \<rightharpoonup> string) \<Rightarrow> planAccount list \<Rightarrow> planAccount list option" where
  "refresh_accounts env cfg byUserID [] = Some []"
| "refresh_accounts env cfg byUserID (a # as) =
     (case (if pa_userID a = [] then None else byUserID (pa_userID a)) of
        Some label \<Rightarrow> map_option (\<lambda>as'. merged_account label a # as') (refresh_accounts env cfg byUserID as)
      | None \<Rightarrow> Option.bind (refreshAccount (env a) cfg a) (\<lambda>a'.
          map_option (\<lambda>as'. a' # as')
            (refresh_accounts env cfg
              (if pa_userID a' = [] then byUserID else byUserID(pa_userID a' \<mapsto> pa_label a')) as)))"

definition primaryAccount :: "planAccount list \<Rightarrow> planAccount option" where
  "primaryAccount accounts =
     (case find (\<lambda>a. as_Available (pa_snapshot a)) accounts of
        Some a \<Rightarrow> Some a
      | None \<Rightarrow> (case accounts of [] \<Rightarrow> None | a # _ \<Rightarrow> Some a))"

definition mirror :: "AccountSnapshot \<Rightarrow> Quota \<Rightarrow> Quota" where
  "mirror s q = q\<lparr>qt_Available := as_Available s, qt_Account := as_Account s, qt_PlanName := as_PlanName s,
     qt_PlanPrice := as_PlanPrice s, qt_PlanDescription := as_PlanDescription s, qt_PlanInterval := as_PlanInterval s,
     qt_PlanType := as_PlanType s, qt_PlanActive := as_PlanActive s, qt_PlanBenefits := as_PlanBenefits s,
     qt_PlanPeriodStart := as_PlanPeriodStart s, qt_PlanPeriodEnd := as_PlanPeriodEnd s,
     qt_PlanCanceledAt := as_PlanCanceledAt s, qt_Limits := as_Limits s, qt_Tokens := as_Tokens s,
     qt_TokensError := as_TokensError s, qt_Windows := as_Windows s, qt_Usage := as_Usage s,
     qt_OfficialChannels := as_OfficialChannels s, qt_FetchedAt := as_FetchedAt s, qt_Error := as_Error s\<rparr>"

definition publish_quota :: "Poller \<Rightarrow> Poller" where
  "publish_quota p =
     (let quota = blank_quota ''cline-api'' No_error (map pa_snapshot (pl_accounts p))
      in store_quota (case primaryAccount (pl_accounts p) of None \<Rightarrow> quota | Some a \<Rightarrow> mirror (pa_snapshot a) quota) p)"

definition refresh :: "(string \<Rightarrow> string) \<Rightarrow> CredentialEnv \<Rightarrow> (planAccount \<Rightarrow> RoundEnv) \<Rightarrow> Config \<Rightarrow> Poller \<Rightarrow> Poller option" where
  "refresh digest cenv env cfg p =
     (let accounts = syncAccounts digest (pl_accounts p) (ResolveCredentials cenv cfg) in
      if accounts = []
      then Some (store_quota (blank_quota ''cline-api'' No_credential []) (p\<lparr>pl_accounts := [], pl_loggedEmpty := True\<rparr>))
      else map_option (\<lambda>as. publish_quota (p\<lparr>pl_accounts := as, pl_loggedEmpty := False\<rparr>))
             (refresh_accounts env cfg Map.empty accounts))"

text \<open>The goroutine of \<open>Start\<close>: a round, then the wait, until the poller is stopped.\<close>

definition poll_interval :: "Config \<Rightarrow> duration" where
  "poll_interval cfg = (let interval = Or (cfg_PlanRefresh cfg) DefaultPlanRefresh
     in if interval < Minute then Minute else interval)"

inductive poller_reaches :: "(string \<Rightarrow> string) \<Rightarrow> Config \<Rightarrow> Poller \<Rightarrow> bool" for digest cfg where
  start: "poller_reaches digest cfg newPoller"
| round: "poller_reaches digest cfg p \<Longrightarrow> \<not> pl_stopped p \<Longrightarrow> refresh digest cenv env cfg p = Some p' \<Longrightarrow>
    poller_reaches digest cfg p'"
| stop: "poller_reaches digest cfg p \<Longrightarrow> poller_reaches digest cfg (Stop p)"

end
