(* ===== verification/Official_Props.thy ===== *)
theory Official_Props
  imports Official_Collector "HOL-Library.Multiset"
begin

text \<open>
  What the usage collector promises: a fetch returns within its page budget whatever the upstream
  answers, the record set stays sorted, free of duplicates and in step with its index of ids, a walk
  only ever adds records newer than the newest one kept, the windows and tables add up, and the
  back-off is bounded.
\<close>

section \<open>Sums modulo \<open>2\<^sup>6\<^sup>4\<close>\<close>

lemma wrap64_cong: "x mod 2 ^ 64 = y mod 2 ^ 64 \<Longrightarrow> wrap64 x = wrap64 y"
  unfolding wrap64_def by (metis mod_add_left_eq)

lemma wrap64_mod: "wrap64 x mod 2 ^ 64 = x mod 2 ^ 64"
  unfolding wrap64_def by (simp add: mod_diff_left_eq)

lemma wrap64_add_left [simp]: "wrap64 (wrap64 a + b) = wrap64 (a + b)"
  by (rule wrap64_cong) (metis mod_add_left_eq wrap64_mod)

lemma wrap64_add_right [simp]: "wrap64 (a + wrap64 b) = wrap64 (a + b)"
  using wrap64_add_left [of b a] by (simp add: add.commute)

lemma wrap64_zero [simp]: "wrap64 0 = 0" and wrap64_wrap [simp]: "wrap64 (wrap64 a) = wrap64 a"
  using wrap64_add_left [of a 0] by (simp_all add: wrap64_def)

lemma sum_list_update_int:
  "i < length xs \<Longrightarrow> sum_list (xs[i := v]) = sum_list xs + v - xs ! i" for xs :: "int list"
proof (induction xs arbitrary: i)
  case (Cons x xs)
  then show ?case by (cases i) auto
qed simp

lemma sum_add_at: "i < length xs \<Longrightarrow> wrap64 (sum_list (add_at i v xs)) = wrap64 (sum_list xs + v)"
proof -
  assume "i < length xs"
  then have "wrap64 (sum_list (add_at i v xs)) = wrap64 ((sum_list xs - xs ! i) + wrap64 (xs ! i + v))"
    by (simp add: add_at_def add64_def sum_list_update_int algebra_simps)
  also have "\<dots> = wrap64 (sum_list xs + v)"
    by (simp only: wrap64_add_right) (simp add: algebra_simps)
  finally show ?thesis .
qed

lemma length_add_at [simp]: "length (add_at i v xs) = length xs"
  by (simp add: add_at_def)

section \<open>Keyed tallies\<close>

text \<open>
  The tables of the page are folds of \<open>row_upd\<close>: each item grows the row of its key. Whatever column
  starts at zero and grows by the item's weight, its sum over the rows is the sum over the items.
\<close>

lemma row_upd_keys: "map fst (row_upd k new f rows) = (if k \<in> set (map fst rows) then map fst rows else map fst rows @ [k])"
  by (induction k new f rows rule: row_upd.induct) auto

locale tally =
  fixes key :: "'i \<Rightarrow> string" and new :: "'i \<Rightarrow> 'r" and grow :: "'i \<Rightarrow> 'r \<Rightarrow> 'r"
    and column :: "'r \<Rightarrow> int" and weight :: "'i \<Rightarrow> int"
  assumes column_new: "column (new i) = 0"
    and column_grow: "column (grow i r) = add64 (column r) (weight i)"
begin

lemma row_upd_sum:
  "wrap64 (sum_list (map (\<lambda>p. column (snd p)) (row_upd (key i) (new i) (grow i) rows)))
     = wrap64 (sum_list (map (\<lambda>p. column (snd p)) rows) + weight i)"
proof (induction rows)
  case Nil
  then show ?case by (simp add: column_new column_grow add64_def)
next
  case (Cons row rows)
  obtain k r where row: "row = (k, r)" by (cases row)
  show ?case
  proof (cases "key i = k")
    case True
    have "wrap64 (wrap64 (column r + weight i) + sum_list (map (\<lambda>p. column (snd p)) rows))
      = wrap64 (column r + weight i + sum_list (map (\<lambda>p. column (snd p)) rows))"
      by (rule wrap64_add_left)
    with True show ?thesis
      by (simp add: row column_grow add64_def algebra_simps del: wrap64_add_left)
  next
    case False
    have "wrap64 (column r + wrap64 (sum_list (map (\<lambda>p. column (snd p)) (row_upd (key i) (new i) (grow i) rows))))
      = wrap64 (column r + wrap64 (sum_list (map (\<lambda>p. column (snd p)) rows) + weight i))"
      by (simp only: Cons.IH)
    with False show ?thesis by (simp add: row algebra_simps)
  qed
qed

lemma fold_sum:
  "wrap64 (sum_list (map (\<lambda>p. column (snd p)) (foldl (\<lambda>rows i. row_upd (key i) (new i) (grow i) rows) [] items)))
     = wrap64 (sum_list (map weight items))"
proof (induction items rule: rev_induct)
  case (snoc i items)
  have "wrap64 (wrap64 (sum_list (map (\<lambda>p. column (snd p))
      (foldl (\<lambda>rows i. row_upd (key i) (new i) (grow i) rows) [] items))) + weight i)
    = wrap64 (wrap64 (sum_list (map weight items)) + weight i)"
    by (simp only: snoc.IH)
  then show ?case by (simp add: row_upd_sum)
qed simp

lemma fold_keys:
  "distinct (map fst (foldl (\<lambda>rows i. row_upd (key i) (new i) (grow i) rows) [] items)) \<and>
   set (map fst (foldl (\<lambda>rows i. row_upd (key i) (new i) (grow i) rows) [] items)) = key ` set items"
  by (induction items rule: rev_induct) (auto simp: row_upd_keys split: if_splits)

end

definition model_name :: "officialUsageItem \<Rightarrow> string" where
  "model_name i = (if TrimSpace (ui_Model i) = [] then unknownModelLabel else TrimSpace (ui_Model i))"

abbreviation item_key :: "officialUsageItem \<Rightarrow> string" where
  "item_key i \<equiv> row_key (TrimSpace (ui_Provider i)) (model_name i)"

abbreviation item_new :: "officialUsageItem \<Rightarrow> UsageModelRow" where
  "item_new i \<equiv> new_model_row (TrimSpace (ui_Provider i)) (model_name i)"

abbreviation item_grow :: "officialUsageItem \<Rightarrow> UsageModelRow \<Rightarrow> UsageModelRow" where
  "item_grow i \<equiv> grow_model_row (ui_Prompt i) (ui_Completion i) (ui_Cached i) (ui_CostMicro i) (ui_Credits i) True"

lemma item_row_tally: "item_row = (\<lambda>rows i. row_upd (item_key i) (item_new i) (item_grow i) rows)"
  by (intro ext) (simp add: item_row_def addModelRow_def model_name_def Let_def)

interpretation requests: tally item_key item_new item_grow um_Requests "\<lambda>_. 1"
  by unfold_locales (simp_all add: new_model_row_def grow_model_row_def)

interpretation tokens: tally item_key item_new item_grow um_TotalTokens "\<lambda>i. ui_Prompt i + ui_Completion i"
  by unfold_locales (simp_all add: new_model_row_def grow_model_row_def)

definition channel_new :: "officialUsageItem \<Rightarrow> OfficialChannelRow" where
  "channel_new item = \<lparr>or_InferenceProvider = channel_provider item, or_Model = channel_model item, or_Requests = 0,
     or_InputTokens = 0, or_OutputTokens = 0, or_CachedTokens = 0, or_CostUSD = 0\<rparr>"

definition channel_grow :: "officialUsageItem \<Rightarrow> OfficialChannelRow \<Rightarrow> OfficialChannelRow" where
  "channel_grow item row = row\<lparr>or_Requests := add64 (or_Requests row) 1,
     or_InputTokens := add64 (or_InputTokens row) (ui_Prompt item),
     or_OutputTokens := add64 (or_OutputTokens row) (ui_Completion item),
     or_CachedTokens := add64 (or_CachedTokens row) (ui_Cached item),
     or_CostUSD := or_CostUSD row + real_of_int (ui_CostMicro item) / microUSD\<rparr>"

abbreviation channel_key :: "officialUsageItem \<Rightarrow> string" where
  "channel_key i \<equiv> row_key (channel_provider i) (channel_model i)"

lemma add_channel_tally:
  "add_channel_row = (\<lambda>rows i. row_upd (channel_key i) (channel_new i) (channel_grow i) rows)"
  by (intro ext) (simp add: add_channel_row_def channel_new_def channel_grow_def [abs_def])

interpretation ch_requests: tally channel_key channel_new channel_grow or_Requests "\<lambda>_. 1"
  by unfold_locales (simp_all add: channel_new_def channel_grow_def)

interpretation ch_input: tally channel_key channel_new channel_grow or_InputTokens ui_Prompt
  by unfold_locales (simp_all add: channel_new_def channel_grow_def)

interpretation ch_output: tally channel_key channel_new channel_grow or_OutputTokens ui_Completion
  by unfold_locales (simp_all add: channel_new_def channel_grow_def)

lemma sum_sorted_rows: "sum_list (map f (sort_key g xs)) = sum_list (map f xs)" for f :: "'a \<Rightarrow> int"
proof -
  have "sum_mset (image_mset f (mset (sort_key g xs))) = sum_mset (image_mset f (mset xs))"
    by (simp only: mset_sort)
  then show ?thesis
    by (simp only: mset_map [symmetric] sum_mset_sum_list)
qed

section \<open>The walk\<close>

text \<open>What every state of a walk satisfies: \<open>seen\<close> is the index of ids the walk started from.\<close>

definition walk_ok :: "time \<Rightarrow> time \<Rightarrow> int \<Rightarrow> string set \<Rightarrow> walkState \<Rightarrow> bool" where
  "walk_ok cutoff watermark limit seen w \<longleftrightarrow>
     (\<forall>i \<in> set (wk_collected w). After (ui_At i) cutoff \<and> (IsZero watermark \<or> After (ui_At i) watermark)) \<and>
     distinct (map ui_ID (wk_collected w)) \<and> ui_ID ` set (wk_collected w) \<inter> seen = {} \<and>
     wk_known w = seen \<union> ui_ID ` set (wk_collected w) \<and>
     int (length (wk_collected w)) \<le> limit"

lemma take_page_ok:
  "walk_ok cutoff watermark limit seen w \<Longrightarrow> walk_ok cutoff watermark limit seen (fst (take_page cutoff watermark limit raws w))"
proof (induction cutoff watermark limit raws w rule: take_page.induct)
  case (2 cutoff watermark limit raw raws w)
  show ?case
  proof (cases "parseOfficialItem raw")
    case None
    with 2 show ?thesis by simp
  next
    case (Some item)
    let ?w = "w\<lparr>wk_collected := wk_collected w @ [item], wk_known := insert (ui_ID item) (wk_known w)\<rparr>"
    let ?old = "\<not> After (ui_At item) cutoff \<or> \<not> IsZero watermark \<and> \<not> After (ui_At item) watermark"
    have stop: "walk_ok cutoff watermark limit seen (w\<lparr>wk_full := True\<rparr>)"
      using 2(4) by (simp add: walk_ok_def)
    show ?thesis
    proof (cases "\<not> ?old \<and> ui_ID item \<notin> wk_known w \<and> \<not> int (length (wk_collected w)) \<ge> limit")
      case True
      with 2(4) have "walk_ok cutoff watermark limit seen ?w"
        by (auto simp: walk_ok_def)
      with 2(3) True Some show ?thesis by auto
    next
      case False
      with 2 stop Some show ?thesis by (auto split: if_splits)
    qed
  qed
qed simp

lemma walk_returns_ok:
  "walk_ok cutoff watermark limit seen w \<Longrightarrow>
   \<exists>w'. walk pages cutoff watermark limit budget page w = Some w' \<and> walk_ok cutoff watermark limit seen w'"
proof (induction "nat (budget - int page)" arbitrary: page w rule: less_induct)
  case less
  have ok: "walk_ok cutoff watermark limit seen (w\<lparr>wk_err := e\<rparr>)" "walk_ok cutoff watermark limit seen (w\<lparr>wk_full := f\<rparr>)"
    "walk_ok cutoff watermark limit seen (w\<lparr>wk_cursor := n\<rparr>)"
    if "walk_ok cutoff watermark limit seen w" for e f n w
    using that by (simp_all add: walk_ok_def)
  show ?case
  proof (cases "int page \<ge> budget")
    case True
    with less.prems show ?thesis by (simp add: walk.simps)
  next
    case more: False
    show ?thesis
    proof (cases "pages page (wk_cursor w)")
      case (Inl e)
      with more less.prems ok show ?thesis by (simp add: walk.simps)
    next
      case (Inr p)
      obtain items "next" where p: "p = (items, next)" by (cases p)
      obtain w1 stop where page: "take_page cutoff watermark limit items w = (w1, stop)"
        by (cases "take_page cutoff watermark limit items w")
      have w1: "walk_ok cutoff watermark limit seen w1"
        using take_page_ok [OF less.prems, of items] page by simp
      have "\<exists>w'. walk pages cutoff watermark limit budget (Suc page) (w1\<lparr>wk_cursor := next\<rparr>) = Some w'
          \<and> walk_ok cutoff watermark limit seen w'"
        by (rule less.hyps) (use more w1 ok in auto)
      with more Inr p page w1 less.prems ok show ?thesis
        by (auto simp: walk.simps [of _ _ _ _ _ page])
    qed
  qed
qed

text \<open>Answers past the budget are never asked for.\<close>

lemma walk_within_budget:
  "walk (\<lambda>n. if int n < budget then pages n else other n) cutoff watermark limit budget page w
     = walk pages cutoff watermark limit budget page w"
proof (induction "nat (budget - int page)" arbitrary: page w rule: less_induct)
  case less
  show ?case
  proof (cases "int page \<ge> budget")
    case False
    then have "walk (\<lambda>n. if int n < budget then pages n else other n) cutoff watermark limit budget (Suc page) v
      = walk pages cutoff watermark limit budget (Suc page) v" for v
      by (intro less.hyps) simp
    with False show ?thesis
      by (simp add: walk.simps [of _ _ _ _ _ page] split: sum.splits prod.splits)
  qed (simp add: walk.simps)
qed

lemma itemLimit_pos: "0 < itemLimit c"
  by (simp add: itemLimit_def officialUsageMaxItems_def)

lemma walk_start_ok: "walk_ok cutoff watermark (itemLimit c) (oc_seen c) (walk_start c)"
  using itemLimit_pos [of c] by (simp add: walk_ok_def walk_start_def)

lemma walk_from_start:
  obtains w where "walk pages cutoff watermark (itemLimit c) budget 0 (walk_start c) = Some w"
    "walk_ok cutoff watermark (itemLimit c) (oc_seen c) w"
  using walk_returns_ok [OF walk_start_ok] by blast

lemma fetch_total: "\<exists>c'. fetch pages userID every now c = Some c'"
  by (rule walk_from_start [of pages "now - officialUsageRetention" "watermark_of c" c "walk_budget (now - officialUsageRetention) c"])
    (simp add: fetch_def fetch_begin_def Let_def)

lemma refresh_total: "\<exists>c'. refreshIfDue pages userID every now c = Some c'"
  by (simp add: refreshIfDue_def fetch_total)

lemma walk_budget_bound: "walk_budget cutoff c \<le> 60"
  by (simp add: walk_budget_def officialUsagePagesSteady_def officialUsagePagesExtend_def Let_def)

text \<open>C25: A fetch returns whatever the upstream answers, page after page, and never asks for more than
  its budget, sixty pages at most: with every later answer replaced by anything else, the outcome is the
  same.\<close>

theorem fetch_returns:
  "\<exists>c'. fetch (\<lambda>n. if int n < walk_budget (now - officialUsageRetention) c then pages n else other n) userID every now c = Some c'
     \<and> fetch pages userID every now c = Some c' \<and> walk_budget (now - officialUsageRetention) c \<le> 60"
proof -
  obtain w where "walk pages (now - officialUsageRetention) (watermark_of c) (itemLimit c)
      (walk_budget (now - officialUsageRetention) c) 0 (walk_start c) = Some w"
    by (rule walk_from_start)
  then show ?thesis
    by (simp add: fetch_def fetch_begin_def walk_within_budget walk_budget_bound Let_def)
qed

section \<open>The record set\<close>

definition collector_ok :: "officialUsageCollector \<Rightarrow> bool" where
  "collector_ok c \<longleftrightarrow> sorted (map (\<lambda>i. - ui_At i) (oc_items c)) \<and> distinct (map ui_ID (oc_items c)) \<and>
     oc_seen c = ui_ID ` set (oc_items c)"

lemma filter_prefix:
  "sorted (map f xs) \<Longrightarrow> filter (\<lambda>x. f x \<le> b) xs = takeWhile (\<lambda>x. f x \<le> b) xs" for f :: "'a \<Rightarrow> int"
proof (induction xs)
  case (Cons x xs)
  show ?case
  proof (cases "f x \<le> b")
    case True
    with Cons show ?thesis by simp
  next
    case False
    then have "filter (\<lambda>x. f x \<le> b) (x # xs) = []"
      using Cons.prems by (auto simp: filter_empty_conv)
    with False show ?thesis by simp
  qed
qed simp

lemma prune_ok: "collector_ok c \<Longrightarrow> collector_ok (pruneLocked cutoff c)"
proof -
  assume ok: "collector_ok c"
  let ?P = "\<lambda>i. - ui_At i \<le> - cutoff"
  have P: "(\<lambda>i. \<not> Before (ui_At i) cutoff) = ?P"
    by (auto simp: Before_def)
  from ok have kept: "filter ?P (oc_items c) = takeWhile ?P (oc_items c)"
    by (intro filter_prefix) (simp add: collector_ok_def)
  have parts: "takeWhile ?P (oc_items c) @ dropWhile ?P (oc_items c) = oc_items c"
    by (rule takeWhile_dropWhile_id)
  have rest: "drop (length (takeWhile ?P (oc_items c))) (oc_items c) = dropWhile ?P (oc_items c)"
    by (simp add: dropWhile_eq_drop)
  have "distinct (map ui_ID (takeWhile ?P (oc_items c) @ dropWhile ?P (oc_items c)))"
    using ok by (simp only: parts) (simp add: collector_ok_def)
  then have apart: "ui_ID ` set (takeWhile ?P (oc_items c)) \<inter> ui_ID ` set (dropWhile ?P (oc_items c)) = {}"
    and kept_distinct: "distinct (map ui_ID (takeWhile ?P (oc_items c)))"
    by (simp_all only: map_append distinct_append set_map)
  have ids: "ui_ID ` set (oc_items c) =
      ui_ID ` set (takeWhile ?P (oc_items c)) \<union> ui_ID ` set (dropWhile ?P (oc_items c))"
    by (simp only: image_Un [symmetric] set_append [symmetric] parts)
  have seen: "oc_seen c - set (map ui_ID (dropWhile ?P (oc_items c))) = ui_ID ` set (takeWhile ?P (oc_items c))"
    using ok ids apart by (auto simp: collector_ok_def)
  have sorted: "sorted (map (\<lambda>i. - ui_At i) (takeWhile ?P (oc_items c)))"
    using ok sorted_filter [of "\<lambda>i. - ui_At i" "oc_items c" ?P] kept by (simp add: collector_ok_def)
  have "pruneLocked cutoff c = c\<lparr>oc_items := takeWhile ?P (oc_items c),
      oc_seen := ui_ID ` set (takeWhile ?P (oc_items c))\<rparr>"
    by (simp only: pruneLocked_def Let_def P kept rest seen)
  with sorted kept_distinct show ?thesis
    by (simp add: collector_ok_def)
qed

lemma merge_ok:
  assumes ok: "collector_ok c" and w: "walk_ok cutoff watermark limit (oc_seen c) w"
  shows "collector_ok (merge_items cutoff (wk_collected w) c)"
proof -
  have "distinct (map ui_ID (oc_items c @ wk_collected w))"
    using ok w by (simp only: collector_ok_def walk_ok_def map_append distinct_append set_map) blast
  then have "distinct (map ui_ID (sort_key (\<lambda>i. - ui_At i) (oc_items c @ wk_collected w)))"
    by (simp only: distinct_map distinct_sort set_sort)
  then show ?thesis
    using ok unfolding merge_items_def
    by (intro prune_ok) (simp add: collector_ok_def image_Un)
qed

lemma note_failure_items [simp]:
  "oc_items (noteFailureLocked now every c) = oc_items c" "oc_seen (noteFailureLocked now every c) = oc_seen c"
  by (simp_all add: noteFailureLocked_def Let_def)

lemma collector_ok_cong: "oc_items c = oc_items d \<Longrightarrow> oc_seen c = oc_seen d \<Longrightarrow> collector_ok c = collector_ok d"
  by (simp add: collector_ok_def)

lemma merge_items_cong:
  "oc_items c = oc_items d \<Longrightarrow> oc_seen c = oc_seen d \<Longrightarrow>
   oc_items (merge_items t xs c) = oc_items (merge_items t xs d) \<and> oc_seen (merge_items t xs c) = oc_seen (merge_items t xs d)"
  by (simp add: merge_items_def pruneLocked_def Let_def)

lemma finish_items:
  "oc_items (fetch_finish w now every cutoff c) =
     (if wk_collected w = [] \<and> wk_err w \<noteq> None then oc_items c else oc_items (merge_items cutoff (wk_collected w) c))"
  "oc_seen (fetch_finish w now every cutoff c) =
     (if wk_collected w = [] \<and> wk_err w \<noteq> None then oc_seen c else oc_seen (merge_items cutoff (wk_collected w) c))"
  using merge_items_cong [of "c\<lparr>oc_fetching := False\<rparr>" c]
  by (cases "wk_err w"; simp add: fetch_finish_def Let_def)+

lemma finish_ok:
  "collector_ok (fetch_finish w now every cutoff c) =
     (if wk_collected w = [] \<and> wk_err w \<noteq> None then collector_ok c
      else collector_ok (merge_items cutoff (wk_collected w) c))"
  by (cases "wk_collected w = [] \<and> wk_err w \<noteq> None")
    (simp_all only: collector_ok_def finish_items if_True if_False simp_thms)

text \<open>One fetch, in terms of a walk that meets \<open>walk_ok\<close>.\<close>

lemma fetch_cases:
  assumes "fetch pages userID every now c = Some c'"
  obtains (idle) "c' = c"
  | (walked) w where "walk_ok (now - officialUsageRetention) (watermark_of c) (itemLimit c) (oc_seen c) w"
      "c' = fetch_finish w now every (now - officialUsageRetention) (c\<lparr>oc_fetching := True\<rparr>)"
proof -
  obtain w where "walk pages (now - officialUsageRetention) (watermark_of c) (itemLimit c)
      (walk_budget (now - officialUsageRetention) c) 0 (walk_start c) = Some w"
    and "walk_ok (now - officialUsageRetention) (watermark_of c) (itemLimit c) (oc_seen c) w"
    by (rule walk_from_start)
  moreover have "c' = c" if "userID = [] \<or> oc_fetching c"
    using that assms by (auto simp: fetch_def fetch_begin_def split: if_splits)
  ultimately show thesis
    using assms that by (cases "userID = [] \<or> oc_fetching c") (simp_all add: fetch_def fetch_begin_def Let_def)
qed

lemma fetch_ok: "collector_ok c \<Longrightarrow> fetch pages userID every now c = Some c' \<Longrightarrow> collector_ok c'"
proof (erule fetch_cases)
  fix w
  assume ok: "collector_ok c" and w: "walk_ok (now - officialUsageRetention) (watermark_of c) (itemLimit c) (oc_seen c) w"
    and c': "c' = fetch_finish w now every (now - officialUsageRetention) (c\<lparr>oc_fetching := True\<rparr>)"
  have "collector_ok (c\<lparr>oc_fetching := True\<rparr>)"
    using ok by (simp add: collector_ok_def)
  moreover have "collector_ok (merge_items (now - officialUsageRetention) (wk_collected w) (c\<lparr>oc_fetching := True\<rparr>))"
    using ok w by (intro merge_ok) (simp_all add: collector_ok_def)
  ultimately show "collector_ok c'"
    by (simp add: c' finish_ok)
qed simp

text \<open>C26: Through any history of refreshes, whatever the upstream answers and whenever it fails, the
  retained records stay newest first, no record is kept twice, and the index of seen ids is exactly the
  ids of the retained records: a pruned record is forgotten, a kept one is not.\<close>

theorem collector_stays_consistent:
  assumes "collector_reaches newOfficialUsageCollector c"
  shows "sorted (map (\<lambda>i. - ui_At i) (oc_items c)) \<and> distinct (map ui_ID (oc_items c))
    \<and> oc_seen c = ui_ID ` set (oc_items c)"
proof -
  have "collector_ok c"
    using assms
  proof (induction newOfficialUsageCollector c rule: collector_reaches.induct)
    case start
    show ?case by (simp add: collector_ok_def newOfficialUsageCollector_def)
  next
    case refresh
    then show ?case by (auto simp: refreshIfDue_def intro: fetch_ok split: if_splits)
  qed
  then show ?thesis
    by (simp add: collector_ok_def)
qed

section \<open>The windows add up\<close>

lemma bucket_of_less: "0 < ws_Buckets spec \<Longrightarrow> bucket_of spec from item < ws_Buckets spec"
  by (simp add: bucket_of_def Let_def nat_less_iff)

text \<open>The counters of a window after some records: totals, and the three series beside them.\<close>

definition window_sums :: "officialWindowSpec \<Rightarrow> officialUsageItem list \<Rightarrow> UsageWindow \<Rightarrow> bool" where
  "window_sums spec items w \<longleftrightarrow>
     ow_Requests w = wrap64 (int (length items)) \<and>
     ow_InputTokens w = wrap64 (\<Sum>i\<leftarrow>items. ui_Prompt i) \<and>
     ow_OutputTokens w = wrap64 (\<Sum>i\<leftarrow>items. ui_Completion i) \<and>
     ow_TotalTokens w = wrap64 (\<Sum>i\<leftarrow>items. ui_Prompt i + ui_Completion i) \<and>
     ow_CachedTokens w = wrap64 (\<Sum>i\<leftarrow>items. ui_Cached i) \<and>
     length (ow_SeriesRequests w) = ws_Buckets spec \<and> length (ow_SeriesTokens w) = ws_Buckets spec \<and>
     length (ow_SeriesCached w) = ws_Buckets spec \<and>
     wrap64 (sum_list (ow_SeriesRequests w)) = ow_Requests w \<and>
     wrap64 (sum_list (ow_SeriesTokens w)) = ow_TotalTokens w \<and>
     wrap64 (sum_list (ow_SeriesCached w)) = ow_CachedTokens w"

lemma add_item_sums:
  assumes b: "0 < ws_Buckets spec" and w: "window_sums spec items w"
  shows "window_sums spec (items @ [item]) (add_item spec from w item)"
proof -
  have step: "wrap64 (sum_list (add_at (bucket_of spec from item) v xs)) = add64 (wrap64 s) v"
    if "length xs = ws_Buckets spec" "wrap64 (sum_list xs) = wrap64 s" for v s xs
  proof -
    have "wrap64 (sum_list (add_at (bucket_of spec from item) v xs)) = wrap64 (wrap64 (sum_list xs) + v)"
      using that(1) b by (simp add: sum_add_at bucket_of_less)
    then show ?thesis by (simp only: that(2) add64_def)
  qed
  show ?thesis
    using w step by (simp add: window_sums_def add_item_def Let_def add64_def add.commute)
qed

lemma window_fold_sums:
  "0 < ws_Buckets spec \<Longrightarrow>
   window_sums spec items (foldl (add_item spec from) (empty_window l f t (ws_Buckets spec) cov d) items)"
proof (induction items rule: rev_induct)
  case Nil
  show ?case by (simp add: window_sums_def empty_window_def sum_list_replicate)
next
  case (snoc item items)
  then show ?case by (simp add: add_item_sums)
qed

lemma close_window_sums: "window_sums spec items (close_window rows w) = window_sums spec items w"
  by (simp add: window_sums_def close_window_def)

lemma fold_item_fields:
  "ow_Covered (foldl (add_item spec from) w items) = ow_Covered w"
  by (induction items arbitrary: w) (simp_all add: add_item_def Let_def)

lemma close_window_covered [simp]: "ow_Covered (close_window rows w) = ow_Covered w"
  by (simp add: close_window_def)

lemma usage_window_covered: "ow_Covered (usage_window now created items spec) = window_covered (now - ws_Duration spec) created items"
  by (simp add: usage_window_def Let_def fold_item_fields empty_window_def)

lemma usage_window_sums:
  "0 < ws_Buckets spec \<Longrightarrow> window_sums spec (in_window (now - ws_Duration spec) items) (usage_window now created items spec)"
  by (simp add: usage_window_def Let_def close_window_sums window_fold_sums)

lemma sum_model_rows:
  fixes column :: "UsageModelRow \<Rightarrow> int"
  assumes "\<And>r. column (finish_model_row r) = column r"
  shows "(\<Sum>r\<leftarrow>modelRows rows. column r) = (\<Sum>p\<leftarrow>rows. column (snd p))"
  unfolding modelRows_def by (simp only: sum_sorted_rows map_map) (simp add: o_def case_prod_beta assms)

lemma finish_model_row_fields [simp]:
  "um_Requests (finish_model_row r) = um_Requests r" "um_TotalTokens (finish_model_row r) = um_TotalTokens r"
  by (simp_all add: finish_model_row_def)

lemma fold_specs:
  "foldl (\<lambda>m s. m(l s \<mapsto> f s)) m specs label = Some w \<Longrightarrow> m label = Some w \<or> (\<exists>s \<in> set specs. label = l s \<and> w = f s)"
  by (induction specs arbitrary: m) (fastforce split: if_splits)+

lemma aggregate_cases:
  assumes "aggregate now created c label = Some w"
  obtains spec where "spec \<in> set officialWindowSpecs" "label = ws_Label spec" "w = usage_window now created (oc_items c) spec"
  using assms fold_specs [of ws_Label "usage_window now created (oc_items c)" Map.empty officialWindowSpecs label w]
  by (auto simp: aggregate_def)

lemma specs_buckets: "spec \<in> set officialWindowSpecs \<Longrightarrow> 0 < ws_Buckets spec"
  by (auto simp: officialWindowSpecs_def)

lemma window_models: "ow_Models (usage_window now created items spec)
    = modelRows (foldl item_row [] (in_window (now - ws_Duration spec) items))"
  by (simp add: usage_window_def Let_def close_window_def)

text \<open>C28: A page window counts each retained record of its span exactly once, in three ways that agree:
  the requests and the tokens of the window are those of the records, its series has one bar per bucket
  and its bars add up to the totals, and so do the rows of its model table (all modulo 2 to the 64, as Go adds
  its 64-bit integers).\<close>

theorem window_adds_up:
  assumes "aggregate now created c label = Some w"
  shows "\<exists>spec items. spec \<in> set officialWindowSpecs \<and> label = ws_Label spec \<and>
    items = filter (\<lambda>i. now - ws_Duration spec \<le> ui_At i) (oc_items c) \<and>
    window_sums spec items w \<and>
    wrap64 (\<Sum>r\<leftarrow>ow_Models w. um_Requests r) = ow_Requests w \<and>
    wrap64 (\<Sum>r\<leftarrow>ow_Models w. um_TotalTokens r) = ow_TotalTokens w"
proof -
  obtain spec where spec: "spec \<in> set officialWindowSpecs" "label = ws_Label spec"
    and w: "w = usage_window now created (oc_items c) spec"
    using assms by (rule aggregate_cases)
  let ?items = "in_window (now - ws_Duration spec) (oc_items c)"
  have sums: "window_sums spec ?items w"
    unfolding w using spec(1) by (intro usage_window_sums specs_buckets)
  have rows: "foldl item_row [] ?items = foldl (\<lambda>rows i. row_upd (item_key i) (item_new i) (item_grow i) rows) [] ?items"
    by (simp add: item_row_tally)
  have "wrap64 (\<Sum>r\<leftarrow>ow_Models w. um_Requests r) = wrap64 (\<Sum>i\<leftarrow>?items. 1)"
    unfolding w window_models by (simp only: sum_model_rows finish_model_row_fields rows requests.fold_sum)
  moreover have "wrap64 (\<Sum>r\<leftarrow>ow_Models w. um_TotalTokens r) = wrap64 (\<Sum>i\<leftarrow>?items. ui_Prompt i + ui_Completion i)"
    unfolding w window_models by (simp only: sum_model_rows finish_model_row_fields rows tokens.fold_sum)
  moreover have "(\<Sum>i\<leftarrow>?items. 1) = int (length ?items)"
    by (induction ?items) (simp_all add: sum_list_triv)
  moreover have "?items = filter (\<lambda>i. now - ws_Duration spec \<le> ui_At i) (oc_items c)"
    by (simp add: in_window_def Before_def not_less)
  ultimately show ?thesis
    using spec sums by (intro exI [of _ spec] exI [of _ ?items]) (simp add: window_sums_def)
qed

text \<open>The table of upstream channels leaves no retained record out and counts none twice: the
  requests and the tokens of its rows add up to those of the records, whatever channel or model a record
  lacks.\<close>

theorem channel_table_adds_up:
  "wrap64 (\<Sum>r\<leftarrow>officialChannelRows c. or_Requests r) = wrap64 (int (length (oc_items c))) \<and>
   wrap64 (\<Sum>r\<leftarrow>officialChannelRows c. or_InputTokens r) = wrap64 (\<Sum>i\<leftarrow>oc_items c. ui_Prompt i) \<and>
   wrap64 (\<Sum>r\<leftarrow>officialChannelRows c. or_OutputTokens r) = wrap64 (\<Sum>i\<leftarrow>oc_items c. ui_Completion i)"
proof -
  let ?rows = "foldl (\<lambda>rows i. row_upd (channel_key i) (channel_new i) (channel_grow i) rows) [] (oc_items c)"
  have rows: "foldl add_channel_row [] (oc_items c) = ?rows"
    by (simp add: add_channel_tally)
  have sum: "(\<Sum>r\<leftarrow>officialChannelRows c. f r) = (\<Sum>p\<leftarrow>?rows. f (snd p))" for f :: "OfficialChannelRow \<Rightarrow> int"
    unfolding officialChannelRows_def by (simp only: sum_sorted_rows rows map_map) (simp add: o_def)
  have "(\<Sum>i\<leftarrow>oc_items c. 1) = int (length (oc_items c))"
    by (simp add: sum_list_triv)
  then show ?thesis
    by (simp only: sum ch_requests.fold_sum ch_input.fold_sum ch_output.fold_sum simp_thms)
qed

section \<open>A sample upstream\<close>

text \<open>
  The upstream holds one record of yesterday and, ten minutes later, two new ones on two pages; the
  second page is refused with 429 in the second round and everything answers in the third.
\<close>

definition sample_raw :: "string \<Rightarrow> string \<Rightarrow> int \<Rightarrow> officialUsageRawItem" where
  "sample_raw i created prompt = \<lparr>ri_ID = i, ri_CreatedAt = created, ri_CostUnits = 5, ri_CreditsUsed = 0,
     ri_Operation = [], ri_AIModelTypeName = [], ri_AIModelName = ''cline-pass/m'',
     ri_AIInferenceProviderName = ''vercel'', ri_PromptTokens = prompt, ri_CompletionTokens = 2,
     ri_TotalTokens = prompt + 2, ri_CachedTokens = 1, ri_Metadata = zero_usage_metadata\<rparr>"

definition raw1 :: officialUsageRawItem where "raw1 = sample_raw ''r1'' ''2026-01-01T23:00:00Z'' 10"
definition raw2 :: officialUsageRawItem where "raw2 = sample_raw ''r2'' ''2026-01-03T00:05:00Z'' 20"
definition raw3 :: officialUsageRawItem where "raw3 = sample_raw ''r3'' ''2026-01-03T00:09:00Z'' 30"

definition round1 :: pages where
  "round1 n cursor = Inr ([raw1], [])"
definition round2 :: pages where
  "round2 n cursor = (if n = 0 then Inr ([raw3], ''next'') else Inl (Bad_status 429))"
definition round3 :: pages where
  "round3 n cursor = Inr ([raw3, raw2, raw1], [])"

definition sample_now :: time where "sample_now = 1767398400 * Second"

definition sample_rounds :: "officialUsageCollector option" where
  "sample_rounds =
     Option.bind (refreshIfDue round1 ''u'' 0 sample_now newOfficialUsageCollector) (\<lambda>c1.
     Option.bind (refreshIfDue round2 ''u'' 0 (sample_now + 10 * Minute) c1)
       (refreshIfDue round3 ''u'' 0 (sample_now + 20 * Minute)))"


lemma window_adds_up_witness:
  "\<exists>spec items. spec \<in> set officialWindowSpecs \<and> ''24h'' = ws_Label spec \<and>
    items = filter (\<lambda>i. sample_now - ws_Duration spec \<le> ui_At i) (oc_items newOfficialUsageCollector) \<and>
    window_sums spec items (usage_window sample_now 0 [] \<lparr>ws_Label = ''24h'', ws_Duration = 24 * Hour, ws_Buckets = 24\<rparr>)
    \<and> wrap64 (\<Sum>r\<leftarrow>ow_Models (usage_window sample_now 0 [] \<lparr>ws_Label = ''24h'', ws_Duration = 24 * Hour, ws_Buckets = 24\<rparr>).
         um_Requests r)
      = ow_Requests (usage_window sample_now 0 [] \<lparr>ws_Label = ''24h'', ws_Duration = 24 * Hour, ws_Buckets = 24\<rparr>)
    \<and> wrap64 (\<Sum>r\<leftarrow>ow_Models (usage_window sample_now 0 [] \<lparr>ws_Label = ''24h'', ws_Duration = 24 * Hour, ws_Buckets = 24\<rparr>).
         um_TotalTokens r)
      = ow_TotalTokens (usage_window sample_now 0 [] \<lparr>ws_Label = ''24h'', ws_Duration = 24 * Hour, ws_Buckets = 24\<rparr>)"
  by (rule window_adds_up [of sample_now 0])
    (simp add: aggregate_def officialWindowSpecs_def newOfficialUsageCollector_def)

section \<open>Rounds of the sample upstream\<close>

definition item_of :: "officialUsageRawItem \<Rightarrow> time \<Rightarrow> officialUsageItem" where
  "item_of raw t = \<lparr>ui_ID = ri_ID raw, ui_At = t, ui_Prompt = ri_PromptTokens raw, ui_Completion = 2, ui_Cached = 1,
     ui_CostMicro = 5, ui_Model = ''cline-pass/m'', ui_Provider = ''vercel'', ui_Credits = 0,
     ui_BYOK = False, ui_Stream = False\<rparr>"

abbreviation item1 :: officialUsageItem where "item1 \<equiv> item_of raw1 (sample_now - 25 * Hour)"
abbreviation item2 :: officialUsageItem where "item2 \<equiv> item_of raw2 (sample_now + 5 * Minute)"
abbreviation item3 :: officialUsageItem where "item3 \<equiv> item_of raw3 (sample_now + 9 * Minute)"

lemma parse_samples:
  "parseOfficialItem raw1 = Some item1" "parseOfficialItem raw2 = Some item2" "parseOfficialItem raw3 = Some item3"
  by code_simp+

lemma sample_fields [simp]:
  "ui_ID (item_of raw t) = ri_ID raw" "ui_At (item_of raw t) = t"
  "ri_ID raw1 = ''r1''" "ri_ID raw2 = ''r2''" "ri_ID raw3 = ''r3''"
  by (simp_all add: item_of_def raw1_def raw2_def raw3_def sample_raw_def)

definition after_round :: "officialUsageItem list \<Rightarrow> time \<Rightarrow> plan_error option \<Rightarrow> bool \<Rightarrow> int \<Rightarrow> time \<Rightarrow> officialUsageCollector" where
  "after_round items fetched err part failures retry = \<lparr>oc_items = items, oc_seen = ui_ID ` set items,
     oc_fetchedAt = fetched, oc_lastError = err, oc_truncated = part, oc_fetching = False,
     oc_failures = failures, oc_retryAt = retry, oc_maxPages = officialUsageMaxPages, oc_maxItems = officialUsageMaxItems\<rparr>"

abbreviation rounds_1 :: officialUsageCollector where
  "rounds_1 \<equiv> after_round [item1] sample_now None False 0 zero_time"
abbreviation rounds_2 :: officialUsageCollector where
  "rounds_2 \<equiv> after_round [item3, item1] (sample_now + 10 * Minute) (Some (Bad_status 429)) True 1 (sample_now + 20 * Minute)"
abbreviation rounds_3 :: officialUsageCollector where
  "rounds_3 \<equiv> after_round [item3, item1] (sample_now + 20 * Minute) None False 0 zero_time"

lemmas round_defs = refreshIfDue_def due_def fetch_def fetch_begin_def walk_budget_def pageLimit_def itemLimit_def
  watermark_of_def walk_start_def walk.simps covered_def fetch_finish_def merge_items_def pruneLocked_def
  noteFailureLocked_def after_round_def Let_def Before_def After_def IsZero_def zero_time_def
  officialUsageRetention_def officialUsagePagesSteady_def officialUsagePagesExtend_def officialUsageMaxPages_def
  officialUsageMaxItems_def officialUsageMaxBackoff_def DefaultPlanUsageRefresh_def duration_defs sample_now_def
  Sub_def max_int64_def min_int64_def wrap64_def

lemma round_1: "refreshIfDue round1 ''u'' 0 sample_now newOfficialUsageCollector = Some rounds_1"
  by (simp add: round1_def parse_samples newOfficialUsageCollector_def round_defs)

lemma round_2: "refreshIfDue round2 ''u'' 0 (sample_now + 10 * Minute) rounds_1 = Some rounds_2"
  by (simp add: round2_def parse_samples round_defs)

lemma round_3: "refreshIfDue round3 ''u'' 0 (sample_now + 20 * Minute) rounds_2 = Some rounds_3"
  by (simp add: round3_def parse_samples round_defs)

lemma collector_stays_consistent_witness:
  "sorted (map (\<lambda>i. - ui_At i) (oc_items rounds_3)) \<and> distinct (map ui_ID (oc_items rounds_3))
    \<and> oc_seen rounds_3 = ui_ID ` set (oc_items rounds_3)"
proof (rule collector_stays_consistent)
  have "collector_reaches newOfficialUsageCollector rounds_1"
    by (rule collector_reaches.refresh [OF collector_reaches.start round_1])
  then have "collector_reaches newOfficialUsageCollector rounds_2"
    by (rule collector_reaches.refresh [OF _ round_2])
  then show "collector_reaches newOfficialUsageCollector rounds_3"
    by (rule collector_reaches.refresh [OF _ round_3])
qed

text \<open>C27: A fetch never goes back: once the collector holds a record, everything a later fetch adds is
  newer than the newest record held before it. What a walk cut short by its budget, by an upstream error
  or by a rate limit did not reach is therefore never fetched.\<close>

theorem fetch_never_goes_back:
  assumes "fetch pages userID every now c = Some c'" and "\<not> IsZero (watermark_of c)" and "i \<in> set (oc_items c')"
  shows "i \<in> set (oc_items c) \<or> After (ui_At i) (watermark_of c)"
  using assms(1)
proof (cases rule: fetch_cases)
  case idle
  with assms(3) show ?thesis by simp
next
  case (walked w)
  have "set (oc_items (merge_items t xs d)) \<subseteq> set (oc_items d) \<union> set xs" for t xs d
    by (auto simp: merge_items_def pruneLocked_def Let_def)
  from this [of "now - officialUsageRetention" "wk_collected w" "c\<lparr>oc_fetching := True\<rparr>"]
  have "set (oc_items c') \<subseteq> set (oc_items c) \<union> set (wk_collected w)"
    by (auto simp: walked(2) finish_items)
  with assms(2,3) walked(1) show ?thesis
    by (auto simp: walk_ok_def)
qed

lemma fetch_never_goes_back_witness:
  "item1 \<in> set (oc_items rounds_1) \<or> After (ui_At item1) (watermark_of rounds_1)"
  by (rule fetch_never_goes_back [of round2 "''u''" 0 "sample_now + 10 * Minute" rounds_1 rounds_2])
    (simp_all add: round2_def parse_samples round_defs)

text \<open>A hole is reported as covered: the upstream holds three records, the middle one on a page the
  second round was refused. The third round succeeds on the page that lists all three, and the collector
  reports no error, nothing truncated and a covered day, with one of the two requests of that day.\<close>

theorem hole_counts_as_covered:
  "\<exists>c w. sample_rounds = Some c \<and> map ui_ID (oc_items c) = [''r3'', ''r1''] \<and> \<not> oc_truncated c \<and> oc_lastError c = None \<and>
     round3 0 [] = Inr ([raw3, raw2, raw1], []) \<and>
     aggregate (sample_now + 20 * Minute) zero_time c ''24h'' = Some w \<and> ow_Covered w \<and> ow_Requests w = 1"
proof -
  let ?spec = "\<lparr>ws_Label = ''24h'', ws_Duration = 24 * Hour, ws_Buckets = 24\<rparr>"
  let ?w = "usage_window (sample_now + 20 * Minute) zero_time [item3, item1] ?spec"
  have "in_window (sample_now + 20 * Minute - 24 * Hour) [item3, item1] = [item3]"
    by (simp add: in_window_def round_defs)
  with usage_window_sums [of ?spec "sample_now + 20 * Minute" "[item3, item1]" zero_time]
  have "ow_Requests ?w = 1"
    by (simp add: window_sums_def wrap64_def)
  moreover have "ow_Covered ?w"
    by (simp add: usage_window_covered window_covered_def round_defs)
  moreover have "sample_rounds = Some rounds_3"
    by (simp add: sample_rounds_def round_1 round_2 round_3)
  moreover have "aggregate (sample_now + 20 * Minute) zero_time rounds_3 ''24h'' = Some ?w"
    by (simp add: aggregate_def officialWindowSpecs_def after_round_def)
  ultimately show ?thesis
    by (intro exI [of _ rounds_3] exI [of _ ?w])
      (simp add: after_round_def round3_def)
qed

section \<open>Back-off\<close>

text \<open>After each further failure in a row the collector waits the refresh interval doubled per earlier
  failure, sixteen times at most and half an hour at most, and no refresh is due before the wait is over,
  whatever interval is configured by then.\<close>

theorem back_off_is_bounded:
  assumes "0 \<le> oc_failures c" and "0 < every" and "every \<le> 2 ^ 58" and "0 \<le> now"
  shows "oc_retryAt (noteFailureLocked now every c)
      = now + min (every * 2 ^ nat (min (oc_failures c) 4)) (30 * Minute)
    \<and> (t < oc_retryAt (noteFailureLocked now every c) \<longrightarrow> \<not> due t every' (noteFailureLocked now every c))"
proof -
  let ?shift = "nat (min (oc_failures c) 4)"
  have "(2::int) ^ ?shift \<le> 2 ^ 4"
    by (intro power_increasing) auto
  then have "every * 2 ^ ?shift \<le> 2 ^ 58 * 2 ^ 4"
    using assms by (intro mult_mono) auto
  then have "wrap64 (every * 2 ^ ?shift) = every * 2 ^ ?shift"
    using assms by (intro wrap64_id) (auto simp: min_int64_def max_int64_def intro: order_trans [of _ 0])
  then have retry: "oc_retryAt (noteFailureLocked now every c)
      = now + min (every * 2 ^ ?shift) (30 * Minute)"
    using assms
    by (cases "oc_failures c \<le> 4") (simp_all add: noteFailureLocked_def officialUsageMaxBackoff_def Let_def min_def)
  moreover have "0 < min (every * 2 ^ ?shift) (30 * Minute)"
    using assms by (simp add: duration_defs)
  moreover have "zero_time < 0"
    by (simp add: zero_time_def duration_defs)
  ultimately have "\<not> IsZero (oc_retryAt (noteFailureLocked now every c))"
    unfolding IsZero_def using assms(4) by linarith
  then show ?thesis
    using retry by (simp add: due_def Before_def Let_def)
qed

lemma back_off_is_bounded_witness:
  "oc_retryAt (noteFailureLocked 1000 Minute rounds_2)
      = 1000 + min (Minute * 2 ^ nat (min (oc_failures rounds_2) 4)) (30 * Minute)
    \<and> (1001 < oc_retryAt (noteFailureLocked 1000 Minute rounds_2) \<longrightarrow> \<not> due 1001 Minute (noteFailureLocked 1000 Minute rounds_2))"
  by (rule back_off_is_bounded) (simp_all add: after_round_def duration_defs)

section \<open>The daily totals\<close>

lemma day_index_less: "day_index from days date = Some i \<Longrightarrow> i < days"
  by (auto simp: day_index_def Let_def nat_less_iff split: option.splits if_splits)

abbreviation day_tokens :: "dailyUsageItem \<Rightarrow> int" where
  "day_tokens row \<equiv> di_PromptTokens row + di_CompletionTokens row"

definition days_in :: "time \<Rightarrow> nat \<Rightarrow> dailyUsageItem list \<Rightarrow> dailyUsageItem list" where
  "days_in from days rows = filter (\<lambda>r. day_index from days (di_Date r) \<noteq> None) rows"

definition day_model :: "dailyUsageItem \<Rightarrow> string" where
  "day_model row = (if TrimSpace (rowModelName row) = [] then unknownModelLabel else TrimSpace (rowModelName row))"

abbreviation day_key :: "dailyUsageItem \<Rightarrow> string" where
  "day_key row \<equiv> row_key [] (day_model row)"

abbreviation day_grow :: "dailyUsageItem \<Rightarrow> UsageModelRow \<Rightarrow> UsageModelRow" where
  "day_grow row \<equiv> grow_model_row (di_PromptTokens row) (di_CompletionTokens row) 0 (di_CostUnits row) 0 False"

interpretation day_table: tally day_key "\<lambda>row. new_model_row [] (day_model row)" day_grow um_TotalTokens day_tokens
  by unfold_locales (simp_all add: new_model_row_def grow_model_row_def)

lemma day_rows:
  "foldl (day_row from days) start rows
     = foldl (\<lambda>t row. row_upd (day_key row) (new_model_row [] (day_model row)) (day_grow row) t) start (days_in from days rows)"
  by (induction rows arbitrary: start)
    (simp_all add: days_in_def day_row_def addModelRow_def day_model_def Let_def split: option.split)

lemma day_window_fold:
  assumes "length (ow_SeriesTokens w) = days"
  shows "length (ow_SeriesTokens (foldl (add_day from days) w rows)) = days \<and>
    wrap64 (sum_list (ow_SeriesTokens (foldl (add_day from days) w rows)))
      = wrap64 (sum_list (ow_SeriesTokens w) + (\<Sum>r\<leftarrow>days_in from days rows. day_tokens r)) \<and>
    wrap64 (ow_TotalTokens (foldl (add_day from days) w rows))
      = wrap64 (ow_TotalTokens w + (\<Sum>r\<leftarrow>days_in from days rows. day_tokens r))"
  using assms
proof (induction rows arbitrary: w)
  case Nil
  then show ?case by (simp add: days_in_def)
next
  case (Cons row rows)
  show ?case
  proof (cases "day_index from days (di_Date row)")
    case None
    with Cons show ?thesis by (simp add: days_in_def add_day_def)
  next
    case (Some i)
    let ?w = "add_day from days w row" and ?rest = "\<Sum>r\<leftarrow>days_in from days rows. day_tokens r"
    have i: "i < length (ow_SeriesTokens w)"
      using day_index_less [OF Some] Cons.prems by simp
    have series: "wrap64 (sum_list (ow_SeriesTokens ?w)) = wrap64 (sum_list (ow_SeriesTokens w) + day_tokens row)"
      using i by (simp add: add_day_def Some sum_add_at)
    have total: "ow_TotalTokens ?w = wrap64 (ow_TotalTokens w + day_tokens row)"
      by (simp add: add_day_def Some add64_def)
    have "wrap64 (wrap64 (sum_list (ow_SeriesTokens ?w)) + ?rest) = wrap64 (sum_list (ow_SeriesTokens w) + day_tokens row + ?rest)"
      by (simp only: series wrap64_add_left)
    moreover have "wrap64 (ow_TotalTokens ?w + ?rest) = wrap64 (ow_TotalTokens w + day_tokens row + ?rest)"
      by (simp only: total wrap64_add_left)
    moreover have "length (ow_SeriesTokens ?w) = days"
      using Cons.prems by (simp add: add_day_def Some)
    ultimately show ?thesis
      using Cons.IH [of ?w] by (simp add: days_in_def Some add.assoc)
  qed
qed

text \<open>The week built from the daily rows has seven bars, and its bars and the rows of its model table
  both add up to the week's tokens: those of the rows dated within today and the six days before.\<close>

theorem daily_window_adds_up:
  "length (ow_SeriesTokens (officialDailyWindow rows now created)) = 7 \<and>
   wrap64 (ow_TotalTokens (officialDailyWindow rows now created))
     = wrap64 (\<Sum>r\<leftarrow>days_in (midnight now - 6 * Day) 7 rows. day_tokens r) \<and>
   wrap64 (sum_list (ow_SeriesTokens (officialDailyWindow rows now created)))
     = wrap64 (ow_TotalTokens (officialDailyWindow rows now created)) \<and>
   wrap64 (\<Sum>r\<leftarrow>ow_Models (officialDailyWindow rows now created). um_TotalTokens r)
     = wrap64 (ow_TotalTokens (officialDailyWindow rows now created))"
proof -
  let ?from = "midnight now - 6 * Day"
  let ?w = "empty_window ''7d'' (FormatDate ?from) (FormatDate now) 7 (\<not> IsZero created) False"
  have fold: "length (ow_SeriesTokens (foldl (add_day ?from 7) ?w rows)) = 7 \<and>
    wrap64 (sum_list (ow_SeriesTokens (foldl (add_day ?from 7) ?w rows)))
      = wrap64 (sum_list (ow_SeriesTokens ?w) + (\<Sum>r\<leftarrow>days_in ?from 7 rows. day_tokens r)) \<and>
    wrap64 (ow_TotalTokens (foldl (add_day ?from 7) ?w rows))
      = wrap64 (ow_TotalTokens ?w + (\<Sum>r\<leftarrow>days_in ?from 7 rows. day_tokens r))"
    by (rule day_window_fold) (simp add: empty_window_def)
  have "wrap64 (\<Sum>r\<leftarrow>modelRows (foldl (day_row ?from 7) [] rows). um_TotalTokens r)
    = wrap64 (\<Sum>r\<leftarrow>days_in ?from 7 rows. day_tokens r)"
    by (simp only: sum_model_rows finish_model_row_fields day_rows day_table.fold_sum)
  with fold show ?thesis
    by (simp add: officialDailyWindow_def Let_def empty_window_def sum_list_replicate)
qed

end
