(* ===== verification/Plan_Props.thy ===== *)
theory Plan_Props
  imports Plan_Poller Official_Props
begin

text \<open>
  What the plan poller promises: which credentials it polls with, what a masked key may show, that every
  round returns, and how the published view follows from the accounts.
\<close>

section \<open>Credentials\<close>

text \<open>The specification: the trimmed keys, blanks dropped, each at its first occurrence, the first eight.\<close>

definition firsts :: "'a list \<Rightarrow> 'a list" where
  "firsts xs = rev (remdups (rev xs))"

lemma firsts_Nil [simp]: "firsts [] = []"
  by (simp add: firsts_def)

lemma firsts_snoc [simp]: "firsts (xs @ [x]) = (if x \<in> set xs then firsts xs else firsts xs @ [x])"
  by (simp add: firsts_def)

lemma set_firsts [simp]: "set (firsts xs) = set xs" and distinct_firsts [simp]: "distinct (firsts xs)"
  by (simp_all add: firsts_def)

definition wanted_keys :: "planCredential list \<Rightarrow> string list" where
  "wanted_keys cs = filter (\<lambda>k. k \<noteq> []) (map (\<lambda>c. TrimSpace (cr_Key c)) cs)"

lemma add_credential_keys:
  "map cr_Key (foldl add_credential [] cs) = take planMaxCredentials (firsts (wanted_keys cs))"
proof (induction cs rule: rev_induct)
  case Nil
  show ?case by (simp add: wanted_keys_def)
next
  case (snoc c cs)
  let ?out = "foldl add_credential [] cs" and ?t = "TrimSpace (cr_Key c)"
  have len: "length ?out = min planMaxCredentials (length (firsts (wanted_keys cs)))"
    using arg_cong [OF snoc, of length] by (simp add: min.commute)
  have wanted: "wanted_keys (cs @ [c]) = (if ?t = [] then wanted_keys cs else wanted_keys cs @ [?t])"
    by (simp add: wanted_keys_def)
  consider "?t = []" | "?t \<noteq> []" "length ?out \<ge> planMaxCredentials" | "?t \<noteq> []" "length ?out < planMaxCredentials"
    by linarith
  then show ?case
  proof cases
    case 1
    with snoc wanted show ?thesis by (simp add: add_credential_def [of ?out])
  next
    case 2
    with len have "planMaxCredentials \<le> length (firsts (wanted_keys cs))" by simp
    with 2 snoc wanted show ?thesis by (simp add: add_credential_def [of ?out])
  next
    case 3
    with len have all: "length (firsts (wanted_keys cs)) < planMaxCredentials" by linarith
    with snoc have "map cr_Key ?out = firsts (wanted_keys cs)" by simp
    moreover from this have "cr_Key ` set ?out = set (wanted_keys cs)"
      by (metis set_firsts set_map)
    ultimately show ?thesis
      using 3 all wanted by (simp add: add_credential_def [of ?out] Let_def)
  qed
qed


lemma sublist_split:
  assumes "sublist k (xs @ e # ys)" and "e \<notin> set k"
  shows "sublist k xs \<or> sublist k ys"
proof -
  obtain ps ss where "xs @ e # ys = ps @ k @ ss"
    using assms(1) by (auto simp: sublist_def)
  then consider us where "xs = ps @ us" "us @ e # ys = k @ ss" | us where "ps = xs @ us" "e # ys = us @ k @ ss"
    by (auto simp: append_eq_append_conv2)
  then show ?thesis
  proof cases
    case (1 us)
    then consider vs where "us = k @ vs" | vs where "k = us @ vs" "e # ys = vs @ ss"
      by (auto simp: append_eq_append_conv2)
    then show ?thesis
    proof cases
      case (2 vs)
      with assms(2) have "vs = []" by (cases vs) auto
      with 1 2 have "xs = ps @ k @ []" by simp
      then show ?thesis unfolding sublist_def by blast
    qed (use 1 in \<open>auto simp: sublist_def\<close>)
  next
    case (2 us)
    then show ?thesis
      using assms(2) by (cases us; cases k) (auto simp: sublist_def)
  qed
qed

lemma sublist_skip: "sublist k (e # ys) \<Longrightarrow> e \<notin> set k \<Longrightarrow> k \<noteq> [] \<Longrightarrow> sublist k ys"
  using sublist_split [of k "[]" e ys] by simp

text \<open>A masked key never shows the key: no ASCII key occurs in its own mask, however short it is.\<close>

theorem mask_hides_key:
  assumes "TrimSpace key = key" and "key \<noteq> []" and "list_all (\<lambda>c. byte_of c < 128) key"
  shows "\<not> sublist key (maskCredential key)"
proof
  assume sub: "sublist key (maskCredential key)"
  have bytes: "ellipsis = [CHR 0xE2, CHR 0x80, CHR 0xA6]"
    by (simp add: ellipsis_def utf8_encode_def char_of_def bit_0)
  have out: "CHR 0xE2 \<notin> set key" "CHR 0x80 \<notin> set key" "CHR 0xA6 \<notin> set key"
    using assms(3) by (auto simp: list_all_iff)
  show False
  proof (cases "length key \<le> 8")
    case True
    with sub assms have "sublist key [CHR 0xE2, CHR 0x80, CHR 0xA6]"
      by (simp add: maskCredential_def bytes)
    then have "sublist key [CHR 0x80, CHR 0xA6]"
      using out(1) assms(2) by (rule sublist_skip)
    then have "sublist key [CHR 0xA6]"
      using out(2) assms(2) by (rule sublist_skip)
    then have "sublist key []"
      using out(3) assms(2) by (rule sublist_skip)
    with assms(2) show False by simp
  next
    case False
    let ?tail = "drop (length key - 4) key"
    from False sub assms have "sublist key (take 3 key @ CHR 0xE2 # CHR 0x80 # CHR 0xA6 # ?tail)"
      by (simp add: maskCredential_def bytes Let_def)
    then have "sublist key (take 3 key) \<or> sublist key (CHR 0x80 # CHR 0xA6 # ?tail)"
      using out(1) by (rule sublist_split)
    then show False
    proof
      assume "sublist key (take 3 key)"
      with False show False by (auto dest: sublist_length_le)
    next
      assume "sublist key (CHR 0x80 # CHR 0xA6 # ?tail)"
      then have "sublist key (CHR 0xA6 # ?tail)"
        using out(2) assms(2) by (rule sublist_skip)
      then have "sublist key ?tail"
        using out(3) assms(2) by (rule sublist_skip)
      with False show False by (auto dest: sublist_length_le)
    qed
  qed
qed

lemma mask_hides_key_witness: "\<not> sublist ''sk_0123456789'' (maskCredential ''sk_0123456789'')"
  by (rule mask_hides_key) (code_simp)+

section \<open>One account's round\<close>

lemma attach_frame [simp]:
  "as_Available (attachUsage cfg a now s) = as_Available s" "as_Rejected (attachUsage cfg a now s) = as_Rejected s"
  "as_Error (attachUsage cfg a now s) = as_Error s"
  by (simp_all add: attachUsage_def Let_def)

lemma plan_fields_frame [simp]:
  "as_Available (plan_fields f d s) = as_Available s" "as_Rejected (plan_fields f d s) = as_Rejected s"
  by (simp_all add: plan_fields_def)

lemma read_daily_frame [simp]:
  "pa_usage (fst (read_daily env c a s)) = pa_usage a"
  "as_Available (snd (read_daily env c a s)) = as_Available s" "as_Rejected (snd (read_daily env c a s)) = as_Rejected s"
  by (simp_all add: read_daily_def Let_def split: sum.split)

lemma finish_round_fields [simp]:
  "pa_usage (finish_round env cfg p) = pa_usage (fst p)"
  "as_Available (pa_snapshot (finish_round env cfg p)) = as_Available (snd p)"
  "as_Rejected (pa_snapshot (finish_round env cfg p)) = as_Rejected (snd p)"
  "as_Error (pa_snapshot (finish_round env cfg p)) = No_error"
  by (simp_all add: finish_round_def case_prod_beta)

lemma fail_round_fields [simp]:
  "pa_usage (fail_round env cfg a e s) = pa_usage a"
  "as_Available (pa_snapshot (fail_round env cfg a e s)) = as_Available s"
  "as_Rejected (pa_snapshot (fail_round env cfg a e s)) = as_Rejected s"
  "as_Error (pa_snapshot (fail_round env cfg a e s)) = Call_failed e"
  by (simp_all add: fail_round_def)

lemma read_quota_usage [simp]: "pa_usage (read_quota env cfg c s a) = pa_usage a"
  by (auto simp: read_quota_def Let_def split: sum.split)

lemma read_quota_outcome:
  "\<not> as_Available s \<Longrightarrow>
   (as_Available (pa_snapshot (read_quota env cfg c s a)) \<longleftrightarrow> \<not> isl (usageLimits (ck_limits (re_clock env)) c)) \<and>
   (as_Error (pa_snapshot (read_quota env cfg c s a)) = No_error \<longleftrightarrow> \<not> isl (usageLimits (ck_limits (re_clock env)) c)) \<and>
   (as_Rejected (pa_snapshot (read_quota env cfg c s a)) \<longleftrightarrow>
      as_Rejected s \<or> (\<exists>e. usageLimits (ck_limits (re_clock env)) c = Inl e \<and> isRejectedCredential e))"
  by (auto simp: read_quota_def Let_def split: sum.split)

lemma collect_usage_total: "\<exists>a'. collect_usage env cfg a = Some a'"
  using refresh_total by (simp add: collect_usage_def)

lemma collect_usage_ok: "collect_usage env cfg a = Some a' \<Longrightarrow> collector_ok (pa_usage a) \<Longrightarrow> collector_ok (pa_usage a')"
  by (auto simp: collect_usage_def refreshIfDue_def intro: fetch_ok split: if_splits)

lemma learn_user_usage [simp]: "pa_usage (learn_user user a) = pa_usage a"
  by (simp add: learn_user_def Let_def split: option.split)

lemma refreshAccount_total: "\<exists>a'. refreshAccount env cfg a = Some a'"
  using collect_usage_total by (simp add: refreshAccount_def Let_def split: sum.split)

lemma refreshAccount_ok: "refreshAccount env cfg a = Some a' \<Longrightarrow> collector_ok (pa_usage a) \<Longrightarrow> collector_ok (pa_usage a')"
  by (auto simp: refreshAccount_def Let_def dest!: collect_usage_ok split: sum.splits if_splits)

lemma start_snapshot_fields [simp]:
  "\<not> as_Available (start_snapshot a)" "\<not> as_Rejected (start_snapshot a)"
  by (simp_all add: start_snapshot_def blank_snapshot_def)


section \<open>Rounds of the poller\<close>

lemma refresh_accounts_total: "\<exists>as. refresh_accounts env cfg known accounts = Some as"
proof (induction accounts arbitrary: known)
  case (Cons a accounts)
  obtain a' where "refreshAccount (env a) cfg a = Some a'"
    using refreshAccount_total by blast
  with Cons show ?case by (auto split: option.split)
qed simp

lemma refresh_accounts_props:
  "refresh_accounts env cfg known accounts = Some as \<Longrightarrow>
   length as = length accounts \<and> ((\<forall>a \<in> set accounts. collector_ok (pa_usage a)) \<longrightarrow> (\<forall>a \<in> set as. collector_ok (pa_usage a)))"
proof (induction accounts arbitrary: known as)
  case (Cons a accounts)
  show ?case
  proof (cases "if pa_userID a = [] then None else known (pa_userID a)")
    case None
    with Cons.prems obtain a' rest known' where parts: "refreshAccount (env a) cfg a = Some a'"
        "refresh_accounts env cfg known' accounts = Some rest" "as = a' # rest"
      by (auto simp del: if_split simp: bind_eq_Some_conv)
    with Cons.IH [OF parts(2)] refreshAccount_ok [OF parts(1)] show ?thesis by auto
  next
    case (Some label)
    with Cons.prems obtain rest where parts: "refresh_accounts env cfg known accounts = Some rest"
        "as = merged_account label a # rest"
      by (auto simp del: if_split)
    with Cons.IH [OF parts(1)] show ?thesis by (auto simp: merged_account_def)
  qed
qed simp

text \<open>A round of the poller always returns, whatever the upstream answers to whichever account.\<close>

theorem poller_round_returns: "\<exists>p'. refresh digest cenv env cfg p = Some p'"
  using refresh_accounts_total by (simp add: refresh_def Let_def)

text \<open>A sample deployment: a key in the plugin's configuration and an upstream that refuses every call.\<close>

definition refusing :: http where
  "refusing url bearer = Http_answer 401 []"

definition refusing_env :: RoundEnv where
  "refusing_env = \<lparr>re_upstream = \<lambda>_. refusing, re_clock = \<lparr>ck_now = 0, ck_limits = 0, ck_since = 0, ck_daily = 0,
     ck_week = 0, ck_done = 0, ck_fetched = 0\<rparr>, re_fixed2 = \<lambda>_. [], re_local = \<lambda>_. []\<rparr>"

definition sample_account :: "string \<Rightarrow> planAccount" where
  "sample_account key = (newPlanAccount (\<lambda>k. k) \<lparr>cr_Key = key, cr_Label = key, cr_Source = ''config-file''\<rparr>)
     \<lparr>pa_userID := ''user''\<rparr>"

definition sample_env :: CredentialEnv where
  "sample_env = \<lparr>ce_read = \<lambda>_. None, ce_yaml = \<lambda>_. None, ce_host = \<lambda>_ _. None, ce_bearer = no_bearer\<rparr>"

lemma api_get_refused:
  "cl_http c = refusing \<Longrightarrow> cl_apiKey c \<noteq> [] \<Longrightarrow> api_get c path dec = Inl (Bad_status 401)"
  by (simp add: api_get_def refusing_def)

lemma refusing_fails: "cl_http c = refusing \<Longrightarrow> isl (me c) \<and> isl (usageLimits t c)"
  by (cases "cl_apiKey c = []")
    (simp_all add: me_def usageLimits_def api_get_def refusing_def)

lemma newPlanClient_http [simp]: "cl_http (newPlanClient h base key) = h"
  by (simp add: newPlanClient_def Let_def)


section \<open>The published view\<close>

lemma find_available: "(\<exists>a. find P xs = Some a) = (\<exists>a \<in> set xs. P a)"
  by (induction xs) auto

lemma publish_view:
  "qt_Accounts (pl_quota (publish_quota p)) = map pa_snapshot (pl_accounts p) \<and>
   (qt_Available (pl_quota (publish_quota p)) \<longleftrightarrow> (\<exists>a \<in> set (pl_accounts p). as_Available (pa_snapshot a))) \<and>
   pl_accounts (publish_quota p) = pl_accounts p"
proof (cases "find (\<lambda>a. as_Available (pa_snapshot a)) (pl_accounts p)")
  case None
  then have "\<not> (\<exists>a \<in> set (pl_accounts p). as_Available (pa_snapshot a))"
    by (simp add: find_None_iff)
  with None show ?thesis
    by (cases "pl_accounts p") (simp_all add: publish_quota_def primaryAccount_def store_quota_def mirror_def blank_quota_def Let_def)
next
  case (Some a)
  then have "a \<in> set (pl_accounts p)" "as_Available (pa_snapshot a)"
    by (auto simp: find_Some_iff)
  with Some show ?thesis
    by (auto simp: publish_quota_def primaryAccount_def store_quota_def mirror_def blank_quota_def Let_def)
qed

lemma resolve_at_most_eight: "length (ResolveCredentials env cfg) \<le> 8"
proof -
  have "length (map cr_Key (ResolveCredentials env cfg)) \<le> 8"
    by (simp only: ResolveCredentials_def add_credential_keys) (simp add: planMaxCredentials_def)
  then show ?thesis by simp
qed

lemma new_collector_ok [simp]: "collector_ok newOfficialUsageCollector"
  by (simp add: collector_ok_def newOfficialUsageCollector_def)

lemma sync_account_ok:
  "\<forall>a \<in> set old. collector_ok (pa_usage a) \<Longrightarrow> collector_ok (pa_usage (sync_account digest old cred))"
  by (auto simp: sync_account_def newPlanAccount_def dest!: map_of_SomeD split: option.split)

text \<open>C31: In every state the poller reaches, through any rounds with any credentials and any answers, the
  published view is that of its accounts: it lists their snapshots in order and is available exactly when
  one of them is; at most eight accounts are polled, and every account's records are consistent.\<close>

theorem published_view_follows_accounts:
  assumes "poller_reaches digest cfg p"
  shows "qt_Accounts (pl_quota p) = map pa_snapshot (pl_accounts p) \<and>
    (qt_Available (pl_quota p) \<longleftrightarrow> (\<exists>a \<in> set (pl_accounts p). as_Available (pa_snapshot a))) \<and>
    length (pl_accounts p) \<le> 8 \<and> (\<forall>a \<in> set (pl_accounts p). collector_ok (pa_usage a))"
  using assms
proof induction
  case start
  show ?case by (simp add: newPoller_def blank_quota_def)
next
  case (round p cenv env p')
  let ?accounts = "syncAccounts digest (pl_accounts p) (ResolveCredentials cenv cfg)"
  have len: "length ?accounts \<le> 8" and ok: "\<forall>a \<in> set ?accounts. collector_ok (pa_usage a)"
    using resolve_at_most_eight [of cenv cfg] round.IH sync_account_ok [of "pl_accounts p" digest]
    by (auto simp: syncAccounts_def)
  show ?case
  proof (cases "?accounts = []")
    case True
    with round.hyps(3) have "p' = store_quota (blank_quota ''cline-api'' No_credential []) (p\<lparr>pl_accounts := [], pl_loggedEmpty := True\<rparr>)"
      by (simp add: refresh_def Let_def)
    then show ?thesis by (simp add: store_quota_def blank_quota_def)
  next
    case False
    with round.hyps(3) obtain as where as: "refresh_accounts env cfg Map.empty ?accounts = Some as"
      and p': "p' = publish_quota (p\<lparr>pl_accounts := as, pl_loggedEmpty := False\<rparr>)"
      by (auto simp: refresh_def Let_def)
    from refresh_accounts_props [OF as] publish_view [of "p\<lparr>pl_accounts := as, pl_loggedEmpty := False\<rparr>"] len ok
    show ?thesis by (simp add: p')
  qed
next
  case (stop p)
  then show ?case by (simp add: Stop_def)
qed

lemma published_view_follows_accounts_witness:
  "\<exists>p. poller_reaches (\<lambda>k. k) (Default\<lparr>cfg_PlanAPIKey := ''key''\<rparr>) p \<and> pl_accounts p \<noteq> [] \<and>
    (qt_Accounts (pl_quota p) = map pa_snapshot (pl_accounts p) \<and>
    (qt_Available (pl_quota p) \<longleftrightarrow> (\<exists>a \<in> set (pl_accounts p). as_Available (pa_snapshot a))) \<and>
    length (pl_accounts p) \<le> 8 \<and> (\<forall>a \<in> set (pl_accounts p). collector_ok (pa_usage a)))"
proof -
  let ?cfg = "Default\<lparr>cfg_PlanAPIKey := ''key''\<rparr>"
  have "TrimSpace ''key'' = ''key''" by code_simp
  then have accounts: "syncAccounts (\<lambda>k. k) [] (ResolveCredentials sample_env ?cfg) \<noteq> []"
    by (simp add: syncAccounts_def ResolveCredentials_def credential_candidates_def configured_key_def
        clineCredentialsFromConfigFile_def config_paths_def planConfigPaths_def clineCredentialsFromHostAuth_def
        observed_key_def UpstreamBearer_def no_bearer_def looksLikeClineKey_def sample_env_def add_credential_def
        planMaxCredentials_def Default_def Let_def)
  obtain as where as: "refresh_accounts (\<lambda>_. refusing_env) ?cfg Map.empty
      (syncAccounts (\<lambda>k. k) [] (ResolveCredentials sample_env ?cfg)) = Some as"
    using refresh_accounts_total by blast
  let ?p = "publish_quota (newPoller\<lparr>pl_accounts := as, pl_loggedEmpty := False\<rparr>)"
  have "refresh (\<lambda>k. k) sample_env (\<lambda>_. refusing_env) ?cfg newPoller = Some ?p"
    using accounts as by (simp add: refresh_def Let_def newPoller_def)
  then have reached: "poller_reaches (\<lambda>k. k) ?cfg ?p"
    using poller_reaches.round [OF poller_reaches.start] by (simp add: newPoller_def)
  moreover have "pl_accounts ?p \<noteq> []"
    using refresh_accounts_props [OF as] accounts publish_view by auto
  ultimately show ?thesis
    using published_view_follows_accounts [OF reached] by blast
qed

text \<open>C32: A revoked key takes its twin down with it: of two credentials known to belong to one account,
  only the first is polled, so once the upstream refuses the first, neither is available in the next round,
  whatever it would answer to the second.\<close>

theorem revoked_key_hides_its_twin:
  assumes "pa_userID a1 = user" and "pa_userID a2 = user" and "user \<noteq> []"
    and "re_upstream (env a1) 0 = refusing"
  shows "\<exists>as. refresh_accounts env cfg Map.empty [a1, a2] = Some as \<and> (\<forall>a \<in> set as. \<not> as_Available (pa_snapshot a))"
proof -
  let ?c = "newPlanClient refusing (cfg_PlanBaseURL cfg) (pa_key a1)"
  have fails: "isl (me ?c)" "isl (usageLimits (ck_limits (re_clock (env a1))) ?c)"
    using refusing_fails [of ?c "ck_limits (re_clock (env a1))"] by simp_all
  then obtain e where e: "me ?c = Inl e"
    by (auto simp: isl_def)
  obtain b where b: "collect_usage (env a1) cfg a1 = Some b"
    using collect_usage_total by blast
  let ?a = "read_quota (env a1) cfg ?c (start_snapshot a1\<lparr>as_Rejected := isRejectedCredential e\<rparr>) b"
  have a: "refreshAccount (env a1) cfg a1 = Some ?a"
    using assms e b by (simp add: refreshAccount_def Let_def)
  have "\<not> as_Available (pa_snapshot ?a)"
    using read_quota_outcome [of "start_snapshot a1\<lparr>as_Rejected := isRejectedCredential e\<rparr>" "env a1" cfg ?c b] fails by simp
  moreover have "pa_userID ?a = user"
    using b assms fails by (auto simp: read_quota_def collect_usage_def fail_round_def isl_def split: if_splits)
  ultimately show ?thesis
    using assms a by (simp add: merged_account_def blank_snapshot_def)
qed

lemma revoked_key_hides_its_twin_witness:
  "\<exists>as. refresh_accounts (\<lambda>_. refusing_env) Default Map.empty [sample_account ''k1'', sample_account ''k2''] = Some as
     \<and> (\<forall>a \<in> set as. \<not> as_Available (pa_snapshot a))"
  by (rule revoked_key_hides_its_twin [of _ "''user''"]) (simp_all add: sample_account_def refusing_env_def)

end
