(* ===== verification/Management.thy ===== *)
theory Management
  imports Guard_Runner Plan_Poller Observation_Summary
begin

text \<open>
  \<open>internal/management\<close>: the routes, the channel view with its paging, the export, and the health
  report, over the published state of \<open>internal/state\<close>.

  A handler answers with the payload it encodes; the encoding is \<open>encoding/json\<close> on those records and
  is not repeated. What a request reads besides the state is \<open>ManagementEnv\<close>: the clock, the directory
  listing, the facts of the join, the host configuration report (\<open>Hostconf.Read\<close>).
\<close>

section \<open>The published state\<close>

text \<open>A running collector together with the options it was started with.\<close>

record Observer =
  ob_Recorder :: Recorder
  ob_Directory :: string
  ob_Baseline :: string

record RuntimeState =
  st_cfg :: Config
  st_pol :: "Quota option"
  st_obs :: "Observer option"
  st_clog :: "Scanner option"
  st_guardStatus :: "Status option"
  st_bearer :: Bearer

definition initial_state :: RuntimeState where
  "initial_state = \<lparr>st_cfg = Default, st_pol = None, st_obs = None, st_clog = None, st_guardStatus = None,
     st_bearer = no_bearer\<rparr>"

record ManagementEnv =
  me_now :: time
  me_pluginStart :: time
  me_facts :: "Fact list"
  me_names :: "string list"
  me_disk :: dir
  me_fails :: "syscall \<Rightarrow> bool"
  me_hostConfig :: Snapshot
  me_csv :: "string list list \<Rightarrow> string \<times> (nat \<times> string) option"
  me_fixed :: "nat \<Rightarrow> real \<Rightarrow> string"

section \<open>Requests and responses\<close>

type_synonym response_headers = "(string \<times> string) list"

record ManagementRequest =
  mr_Path :: string
  mr_Query :: "string \<Rightarrow> string"

definition jsonHeaders :: response_headers where
  "jsonHeaders = [(''Content-Type'', ''application/json; charset=utf-8'')]"

definition htmlHeaders :: response_headers where
  "htmlHeaders = [(''Content-Type'', ''text/html; charset=utf-8''), (''Cache-Control'', ''no-store''),
     (''X-Content-Type-Options'', ''nosniff''), (''Referrer-Policy'', ''no-referrer'')]"

definition csvHeaders :: "string \<Rightarrow> response_headers" where
  "csvHeaders filename = [(''Content-Type'', ''text/csv; charset=utf-8''),
     (''Content-Disposition'', ''attachment; filename='' @ [dquote] @ filename @ [dquote]),
     (''Cache-Control'', ''no-store''), (''X-Content-Type-Options'', ''nosniff'')]"

section \<open>Paging\<close>

definition channelRecordLimit :: int where "channelRecordLimit = 20"
definition channelRecordMaxLimit :: int where "channelRecordMaxLimit = 200"
definition channelLogFactLimit :: nat where "channelLogFactLimit = 20"

definition recordPage :: "Record list \<Rightarrow> int \<Rightarrow> int \<Rightarrow> Record list" where
  "recordPage records offset limit =
     (if offset \<ge> int (length records) then []
      else let stop0 = add64 offset limit;
               stop = (if stop0 > int (length records) then int (length records) else stop0)
           in take (nat (stop - offset)) (drop (nat offset) records))"

definition parseRecordLimit :: "string \<Rightarrow> int option" where
  "parseRecordLimit raw =
     (let value = TrimSpace raw in
      if value = [] then Some channelRecordLimit
      else case Atoi value of None \<Rightarrow> None
        | Some n \<Rightarrow> if n < 1 \<or> n > channelRecordMaxLimit then None else Some n)"

definition parseRecordOffset :: "string \<Rightarrow> int option" where
  "parseRecordOffset raw =
     (let value = TrimSpace raw in
      if value = [] then Some 0
      else case Atoi value of None \<Rightarrow> None | Some n \<Rightarrow> if n < 0 then None else Some n)"

section \<open>Views\<close>

text \<open>\<open>NotRunning\<close>: \<open>LastError\<close> says that the component is switched on and nothing runs.\<close>

record channelLogView =
  lv_Enabled :: bool
  lv_DeleteAfterRead :: bool
  lv_MinAgeSeconds :: int
  lv_Health :: "ScanHealth option"
  lv_Directory :: string
  lv_NotRunning :: bool
  lv_Facts :: "Fact list"
  lv_FactsTotal :: nat

definition channelLogSnapshot :: "RuntimeState \<Rightarrow> channelLogView" where
  "channelLogSnapshot st =
     (let cfg = st_cfg st in
      case st_clog st of
        None \<Rightarrow> \<lparr>lv_Enabled = cfg_ChannelLogEnabled cfg, lv_DeleteAfterRead = cfg_ChannelLogDeleteAfterRead cfg,
            lv_MinAgeSeconds = cfg_ChannelLogMinAgeSeconds cfg, lv_Health = None,
            lv_Directory = cfg_ChannelLogDir cfg, lv_NotRunning = cfg_ChannelLogEnabled cfg,
            lv_Facts = [], lv_FactsTotal = 0\<rparr>
      | Some scanner \<Rightarrow> \<lparr>lv_Enabled = True, lv_DeleteAfterRead = so_DeleteAfterRead (sc_options scanner),
            lv_MinAgeSeconds = so_MinAge (sc_options scanner) div Second, lv_Health = Some (sc_stats scanner),
            lv_Directory = so_Dir (sc_options scanner), lv_NotRunning = False,
            lv_Facts = take channelLogFactLimit (Facts scanner), lv_FactsTotal = length (Facts scanner)\<rparr>)"

record observationView =
  ov_Health :: "ObsHealth option"
  ov_Enabled :: bool
  ov_Directory :: string
  ov_NotRunning :: bool

definition observationHealth :: "RuntimeState \<Rightarrow> observationView" where
  "observationHealth st =
     (case st_obs st of
        None \<Rightarrow> \<lparr>ov_Health = None, ov_Enabled = cfg_ChannelObserveEnabled (st_cfg st),
            ov_Directory = cfg_ChannelStoreDir (st_cfg st), ov_NotRunning = cfg_ChannelObserveEnabled (st_cfg st)\<rparr>
      | Some ob \<Rightarrow> \<lparr>ov_Health = Some (rr_stats (ob_Recorder ob)), ov_Enabled = True,
            ov_Directory = ob_Directory ob, ov_NotRunning = False\<rparr>)"

definition officialChannelView :: "RuntimeState \<Rightarrow> OfficialChannelRow list \<times> UsageState" where
  "officialChannelView st =
     (case st_pol st of None \<Rightarrow> ([], no_usage) | Some q \<Rightarrow> (qt_OfficialChannels q, qt_Usage q))"

text \<open>\<open>cv_Summary\<close> is \<open>None\<close> without a collector: then only its window is set.\<close>

record channelView =
  cv_Enabled :: bool
  cv_Window :: string
  cv_Summary :: "Summary option"
  cv_Records :: "Record list"
  cv_RecordsTotal :: nat
  cv_RecordsOffset :: int
  cv_RecordsLimit :: int
  cv_Health :: observationView
  cv_OfficialChannels :: "OfficialChannelRow list"
  cv_OfficialUsage :: UsageState
  cv_ChannelLog :: channelLogView

record planAccountHealth =
  ph_ID :: string
  ph_Label :: string
  ph_Source :: string
  ph_Available :: bool
  ph_Rejected :: bool
  ph_Account :: string
  ph_Items :: nat
  ph_Oldest :: string
  ph_Truncated :: bool
  ph_Failures :: int
  ph_Error :: snapshot_error

record healthResponse =
  hr_Plugin :: string
  hr_Version :: string
  hr_Enabled :: bool
  hr_Uptime :: string
  hr_UptimeSeconds :: int
  hr_HostConfig :: Snapshot
  hr_AccountGuard :: "Status option"
  hr_Plan :: Quota
  hr_PlanEnabled :: bool
  hr_PlanUsage :: UsageState
  hr_PlanAccounts :: "planAccountHealth list"
  hr_ChannelObservation :: observationView
  hr_ChannelLog :: channelLogView
  hr_RequestHeaderNames :: string
  hr_RequestBearerLen :: nat

datatype body = Body_text string | Body_page | Body_view channelView | Body_health healthResponse

record ManagementResponse =
  rs_StatusCode :: int
  rs_Headers :: response_headers
  rs_Body :: body

definition errorResponse :: "int \<Rightarrow> string \<Rightarrow> string \<Rightarrow> ManagementResponse" where
  "errorResponse status code message =
     (let q = [dquote] in \<lparr>rs_StatusCode = status, rs_Headers = jsonHeaders,
      rs_Body = Body_text (''{'' @ q @ ''error'' @ q @ '':'' @ q @ code @ q @ '','' @ q @ ''message'' @ q @ '':'' @ q @
        message @ q @ ''}'')\<rparr>)"

definition jsonResponse :: "body \<Rightarrow> ManagementResponse" where
  "jsonResponse payload = \<lparr>rs_StatusCode = 200, rs_Headers = jsonHeaders, rs_Body = payload\<rparr>"

section \<open>The channel view and its export\<close>

definition bad_window :: ManagementResponse where
  "bad_window = errorResponse 400 ''invalid_window'' ''window must be 1h, 24h or 7d''"

definition bad_records :: ManagementResponse where
  "bad_records = errorResponse 400 ''invalid_records'' (''records must be an integer between 1 and '' @ Itoa channelRecordMaxLimit)"

definition bad_offset :: ManagementResponse where
  "bad_offset = errorResponse 400 ''invalid_offset'' ''offset must be a non-negative integer''"

text \<open>The summary's own scan comes first and flushes the store; the page is cut from a second one.\<close>

definition observer_records :: "ManagementEnv \<Rightarrow> string \<Rightarrow> Observer \<Rightarrow> Record list" where
  "observer_records env w ob = ChannelRecordsSince (me_facts env) w (me_now env) (me_names env) (rr_store (ob_Recorder ob))"

definition observer_summary :: "ManagementEnv \<Rightarrow> string \<Rightarrow> Observer \<Rightarrow> Summary" where
  "observer_summary env w ob = Summary (me_facts env) (ob_Baseline ob) w (me_now env)
     (RecordsSince w (me_now env) (me_names env) (rr_store (ob_Recorder ob))) (rr_stats (ob_Recorder ob))"

definition channel_payload :: "ManagementEnv \<Rightarrow> RuntimeState \<Rightarrow> string \<Rightarrow> int \<Rightarrow> int \<Rightarrow> channelView" where
  "channel_payload env st w limit offset =
     (let (rows, usage) = officialChannelView st in
      case st_obs st of
        None \<Rightarrow> \<lparr>cv_Enabled = False, cv_Window = w, cv_Summary = None, cv_Records = [], cv_RecordsTotal = 0,
            cv_RecordsOffset = offset, cv_RecordsLimit = limit,
            cv_Health = \<lparr>ov_Health = None, ov_Enabled = False, ov_Directory = cfg_ChannelStoreDir (st_cfg st), ov_NotRunning = False\<rparr>,
            cv_OfficialChannels = rows, cv_OfficialUsage = usage, cv_ChannelLog = channelLogSnapshot st\<rparr>
      | Some ob \<Rightarrow>
          let records = observer_records env w ob; summary = observer_summary env w ob in
          \<lparr>cv_Enabled = True, cv_Window = w, cv_Summary = Some summary, cv_Records = recordPage records offset limit,
            cv_RecordsTotal = length records, cv_RecordsOffset = offset, cv_RecordsLimit = limit,
            cv_Health = \<lparr>ov_Health = Some (sm_Health summary), ov_Enabled = oh_Enabled (sm_Health summary),
              ov_Directory = ob_Directory ob, ov_NotRunning = False\<rparr>,
            cv_OfficialChannels = rows, cv_OfficialUsage = usage, cv_ChannelLog = channelLogSnapshot st\<rparr>)"

definition buildChannelView :: "ManagementEnv \<Rightarrow> RuntimeState \<Rightarrow> ManagementRequest \<Rightarrow> ManagementResponse" where
  "buildChannelView env st req =
     (case ParseWindow (mr_Query req ''window'') of (w, ok) \<Rightarrow>
      if \<not> ok then bad_window
      else case parseRecordLimit (mr_Query req ''records'') of
          None \<Rightarrow> bad_records
        | Some limit \<Rightarrow>
            (case parseRecordOffset (mr_Query req ''offset'') of
               None \<Rightarrow> bad_offset
             | Some offset \<Rightarrow> jsonResponse (Body_view (channel_payload env st w limit offset))))"

definition FormatStamp :: "time \<Rightarrow> string" where
  "FormatStamp t = filter (\<lambda>c. c \<noteq> CHR ''-'' \<and> c \<noteq> CHR '':'') (FormatRFC3339 t)"

text \<open>
  \<open>me_csv\<close> is \<open>encoding/csv\<close> writing into the buffer: the text, and where it stopped when it failed.
  Without a failure every row was written.
\<close>

definition buildChannelCSV :: "ManagementEnv \<Rightarrow> RuntimeState \<Rightarrow> ManagementRequest \<Rightarrow> ManagementResponse" where
  "buildChannelCSV env st req =
     (case ParseWindow (mr_Query req ''window'') of (w, ok) \<Rightarrow>
      if \<not> ok then bad_window
      else let (text, rows) =
            (case st_obs st of None \<Rightarrow> ([], 0)
             | Some ob \<Rightarrow>
                 let d = os_disk (fst (flush_store None (rr_store (ob_Recorder ob))));
                     table = WriteCSV (me_fixed env) (me_facts env) (ob_Baseline ob) (me_now env - window_duration w) (me_names env) d
                 in case me_csv env table of
                      (out, None) \<Rightarrow> (out, length table - 1)
                    | (out, Some (written, msg)) \<Rightarrow>
                        (out @ ''# export stopped after '' @ digits_of written @ '' rows: '' @ msg @ [CHR 0x0A], written))
         in \<lparr>rs_StatusCode = 200,
             rs_Headers = csvHeaders (''channel-observation-'' @ w @ ''-'' @ FormatStamp (me_now env) @ ''.csv'') @
               [(''X-Record-Count'', digits_of rows)],
             rs_Body = Body_text text\<rparr>)"

section \<open>Health\<close>

definition accountGuardRecentLimit :: int where "accountGuardRecentLimit = 10"

definition accountGuardSnapshot :: "ManagementEnv \<Rightarrow> RuntimeState \<Rightarrow> Status option" where
  "accountGuardSnapshot env st =
     (case st_guardStatus st of
        None \<Rightarrow> None
      | Some status \<Rightarrow>
          if gs_Recent status \<noteq> [] then Some status
          else case RecentAudit (me_fails env) accountGuardRecentLimit (me_disk env) of
              Inl _ \<Rightarrow> Some status
            | Inr recent \<Rightarrow> if recent = [] then Some status else Some (status\<lparr>gs_Recent := recent\<rparr>))"

definition account_health :: "AccountSnapshot \<Rightarrow> planAccountHealth" where
  "account_health s = \<lparr>ph_ID = as_ID s, ph_Label = as_Label s, ph_Source = as_Source s, ph_Available = as_Available s,
     ph_Rejected = as_Rejected s, ph_Account = as_Account s, ph_Items = us_Items (as_Usage s),
     ph_Oldest = us_Oldest (as_Usage s), ph_Truncated = us_Truncated (as_Usage s), ph_Failures = us_Failures (as_Usage s),
     ph_Error = (if as_Error s \<noteq> No_error then as_Error s
                 else case us_Error (as_Usage s) of None \<Rightarrow> No_error | Some e \<Rightarrow> Call_failed e)\<rparr>"

definition buildinfo_Version :: string where "buildinfo_Version = ''0.4.4''"

definition buildHealthResponse :: "ManagementEnv \<Rightarrow> RuntimeState \<Rightarrow> healthResponse" where
  "buildHealthResponse env st =
     (let cfg = st_cfg st; (names, len) = BearerDiagnostics (st_bearer st);
          up = Sub (me_now env) (me_pluginStart env);
          quota = (case st_pol st of None \<Rightarrow> blank_quota [] No_error [] | Some q \<Rightarrow> q)
      in \<lparr>hr_Plugin = buildinfo_ID, hr_Version = buildinfo_Version, hr_Enabled = cfg_Enabled cfg,
          hr_Uptime = duration_String (RoundTo Second up), hr_UptimeSeconds = up div Second,
          hr_HostConfig = me_hostConfig env, hr_AccountGuard = accountGuardSnapshot env st, hr_Plan = quota,
          hr_PlanEnabled = cfg_PlanEnabled cfg,
          hr_PlanUsage = (if qt_Accounts quota \<noteq> [] then qt_Usage quota
                          else no_usage\<lparr>us_Enabled := cfg_PlanUsageEnabled cfg\<rparr>),
          hr_PlanAccounts = map account_health (qt_Accounts quota),
          hr_ChannelObservation = observationHealth st, hr_ChannelLog = channelLogSnapshot st,
          hr_RequestHeaderNames = names, hr_RequestBearerLen = len\<rparr>)"

section \<open>Routes\<close>

definition invalid_request :: ManagementResponse where
  "invalid_request = \<lparr>rs_StatusCode = 400, rs_Headers = jsonHeaders,
     rs_Body = Body_text (''{'' @ [dquote] @ ''error'' @ [dquote] @ '':'' @ [dquote] @ ''invalid_request'' @ [dquote] @ ''}'')\<rparr>"

definition not_found :: ManagementResponse where
  "not_found = \<lparr>rs_StatusCode = 404, rs_Headers = jsonHeaders,
     rs_Body = Body_text (''{'' @ [dquote] @ ''error'' @ [dquote] @ '':'' @ [dquote] @ ''not_found'' @ [dquote] @ ''}'')\<rparr>"

definition route :: "ManagementEnv \<Rightarrow> RuntimeState \<Rightarrow> ManagementRequest \<Rightarrow> ManagementResponse" where
  "route env st req =
     (let path = TrimRightSlash (mr_Path req) in
      if HasSuffix path ''/index.html''
      then \<lparr>rs_StatusCode = 200, rs_Headers = htmlHeaders, rs_Body = Body_page\<rparr>
      else if HasSuffix path ''/health'' then jsonResponse (Body_health (buildHealthResponse env st))
      else if HasSuffix path ''/channel.csv'' then buildChannelCSV env st req
      else if HasSuffix path ''/channel'' then buildChannelView env st req
      else not_found)"

text \<open>\<open>decode\<close> reads the host's request; a request it refuses is answered, not an error.\<close>

definition management_Handle ::
  "(string \<Rightarrow> ManagementRequest option) \<Rightarrow> ManagementEnv \<Rightarrow> RuntimeState \<Rightarrow> string \<Rightarrow> ManagementResponse" where
  "management_Handle decode env st request =
     (case decode request of None \<Rightarrow> invalid_request | Some req \<Rightarrow> route env st req)"

end
