(* ===== verification/Plugin_Lifecycle.thy ===== *)
theory Plugin_Lifecycle
  imports Management
begin

text \<open>
  \<open>internal/plugin/plugin.go\<close>, \<open>internal/abi\<close> and the setters of \<open>internal/state\<close>: how the calls of
  the host start, stop and publish the plugin's background services.

  A service is an instance number here; what an instance does is modelled with its component. \<open>alive\<close>
  holds the instances whose goroutines have not been told to stop. The names of the methods are the
  library's constants, so they are constructors.
\<close>

section \<open>The response envelope\<close>

definition ABI_OK :: "json option \<Rightarrow> string" where
  "ABI_OK result = Marshal (JObj [(''ok'', JBool True), (''result'', (case result of None \<Rightarrow> JNull | Some j \<Rightarrow> j))])"

definition ABI_Failure :: "string \<Rightarrow> string \<Rightarrow> string" where
  "ABI_Failure code message = Marshal (JObj [(''ok'', JBool False),
     (''error'', JObj [(''code'', JStr code), (''message'', JStr message)])])"

section \<open>The configuration of a lifecycle call\<close>

text \<open>
  A \<open>[]byte\<close> field decodes from base64 text, line breaks ignored, or from an array of byte values.
\<close>

definition base64_value :: "char \<Rightarrow> nat option" where
  "base64_value c =
     (let b = byte_of c in
      if 65 \<le> b \<and> b \<le> 90 then Some (b - 65)
      else if 97 \<le> b \<and> b \<le> 122 then Some (b - 71)
      else if 48 \<le> b \<and> b \<le> 57 then Some (b + 4)
      else if c = CHR ''+'' then Some 62
      else if c = CHR ''/'' then Some 63
      else None)"

fun base64_decode :: "string \<Rightarrow> string option" where
  "base64_decode [] = Some []"
| "base64_decode (a # b # c # d # rest) =
     (case (base64_value a, base64_value b) of
        (Some x, Some y) \<Rightarrow>
          if c = CHR ''='' then (if d = CHR ''='' \<and> rest = [] then Some [char_of (x * 4 + y div 16)] else None)
          else (case base64_value c of
              None \<Rightarrow> None
            | Some z \<Rightarrow>
                if d = CHR ''='' then (if rest = [] then Some [char_of (x * 4 + y div 16), char_of (y mod 16 * 16 + z div 4)] else None)
                else (case base64_value d of
                    None \<Rightarrow> None
                  | Some w \<Rightarrow> map_option (\<lambda>t. char_of (x * 4 + y div 16) # char_of (y mod 16 * 16 + z div 4)
                        # char_of (z mod 4 * 64 + w) # t) (base64_decode rest)))
      | _ \<Rightarrow> None)"
| "base64_decode _ = None"

definition dec_byte :: "json \<Rightarrow> char option" where
  "dec_byte j = (if j = JNull then Some (CHR 0x00)
     else case dec_int j of None \<Rightarrow> None | Some n \<Rightarrow> if 0 \<le> n \<and> n < 256 then Some (char_of (nat n)) else None)"

definition upd_bytes :: "json \<Rightarrow> string \<Rightarrow> string option" where
  "upd_bytes j a = (case j of
      JNull \<Rightarrow> Some []
    | JStr s \<Rightarrow> base64_decode (filter (\<lambda>c. c \<noteq> CHR 0x0A \<and> c \<noteq> CHR 0x0D) s)
    | JArr js \<Rightarrow> dec_all dec_byte js
    | _ \<Rightarrow> None)"

definition dec_uint32 :: "json \<Rightarrow> int option" where
  "dec_uint32 j = (case dec_int j of None \<Rightarrow> None | Some n \<Rightarrow> if 0 \<le> n \<and> n < 2 ^ 32 then Some n else None)"

record lifecycleRequest =
  lr_ConfigYAML :: string
  lr_SchemaVersion :: int

definition dec_lifecycle :: "json \<Rightarrow> lifecycleRequest option" where
  "dec_lifecycle j = upd_object (\<lambda>ms r. do {
     yaml \<leftarrow> json_update upd_bytes ''config_yaml'' ms (lr_ConfigYAML r);
     version \<leftarrow> json_field dec_uint32 ''schema_version'' ms (lr_SchemaVersion r);
     Some \<lparr>lr_ConfigYAML = yaml, lr_SchemaVersion = version\<rparr> }) j \<lparr>lr_ConfigYAML = [], lr_SchemaVersion = 0\<rparr>"

definition configYAMLFromLifecycleRequest :: "string \<Rightarrow> string" where
  "configYAMLFromLifecycleRequest raw =
     (if TrimSpace raw = [] then []
      else case Option.bind (parse_json raw) dec_lifecycle of
          None \<Rightarrow> raw
        | Some req \<Rightarrow> lr_ConfigYAML req)"

section \<open>Registrations\<close>

record registrationCapability =
  rc_UsagePlugin :: bool
  rc_ManagementAPI :: bool

datatype field_type = Field_String | Field_Boolean | Field_Number

text \<open>The capabilities not named stay false; the descriptions of the fields are left out.\<close>

record registration =
  rg_Name :: string
  rg_Version :: string
  rg_Author :: string
  rg_ConfigFields :: "(string \<times> field_type) list"
  rg_Capabilities :: registrationCapability

definition buildinfo_Name :: string where
  "buildinfo_Name = ''Cline '' @ concat (map utf8_encode [0x6E20, 0x9053, 0x76D1, 0x63A7])"
definition buildinfo_Author :: string where "buildinfo_Author = ''wkeking''"

definition registered_fields :: "(string \<times> field_type) list" where
  "registered_fields =
     [(''plan_config_path'', Field_String), (''plan_refresh'', Field_String),
      (''channel_observe_enabled'', Field_Boolean), (''channel_store_dir'', Field_String),
      (''channel_retention_days'', Field_Number), (''channel_max_size_mb'', Field_Number),
      (''channel_baseline_provider'', Field_String), (''channel_log_enabled'', Field_Boolean),
      (''channel_log_dir'', Field_String), (''channel_log_delete_after_read'', Field_Boolean),
      (''channel_log_min_age_seconds'', Field_Number), (''account_guard_enabled'', Field_Boolean),
      (''account_guard_dry_run'', Field_Boolean), (''account_guard_threshold'', Field_Number),
      (''account_guard_min_enabled'', Field_Number), (''account_guard_scope_names'', Field_String),
      (''account_guard_reenable_minutes'', Field_Number), (''account_guard_max_disable_minutes'', Field_Number)]"

definition buildRegistration :: "Config \<Rightarrow> registration" where
  "buildRegistration cfg = \<lparr>rg_Name = buildinfo_Name, rg_Version = buildinfo_Version, rg_Author = buildinfo_Author,
     rg_ConfigFields = registered_fields,
     rg_Capabilities = \<lparr>rc_UsagePlugin = cfg_ChannelObserveEnabled cfg, rc_ManagementAPI = True\<rparr>\<rparr>"

definition BasePath :: string where "BasePath = ''/v0/management/plugins/'' @ buildinfo_ID"

definition management_routes :: "string list" where
  "management_routes = [BasePath @ ''/health'', BasePath @ ''/channel'', BasePath @ ''/channel.csv'']"

definition resource_routes :: "string list" where
  "resource_routes = [''/index.html'']"

text \<open>\<open>logFields\<close>: \<open>key=value\<close> pairs by key.\<close>

definition logFields :: "(string \<rightharpoonup> string) \<Rightarrow> string" where
  "logFields fs = separated '' '' (map (\<lambda>k. k @ ''='' @ the (fs k)) (sorted_list_of_set (dom fs)))"

section \<open>Services and the published state\<close>

datatype service = Poller_service | Recorder_service | Scanner_service | Guard_service

record Plugin =
  pg_cfg :: Config
  pg_pol :: "nat option"
  pg_obs :: "nat option"
  pg_observationRecorder :: "nat option"
  pg_activeRecorder :: "nat option"
  pg_clog :: "nat option"
  pg_channelLogScanner :: "nat option"
  pg_guardActive :: "nat option"
  pg_guardStatus :: bool
  pg_alive :: "(service \<times> nat) set"
  pg_next :: nat

definition loaded_plugin :: Plugin where
  "loaded_plugin = \<lparr>pg_cfg = Default, pg_pol = None, pg_obs = None, pg_observationRecorder = None,
     pg_activeRecorder = None, pg_clog = None, pg_channelLogScanner = None, pg_guardActive = None,
     pg_guardStatus = False, pg_alive = {}, pg_next = 0\<rparr>"

definition stop_instance :: "service \<Rightarrow> nat option \<Rightarrow> Plugin \<Rightarrow> Plugin" where
  "stop_instance s i p = (case i of None \<Rightarrow> p | Some n \<Rightarrow> p\<lparr>pg_alive := pg_alive p - {(s, n)}\<rparr>)"

definition start_instance :: "service \<Rightarrow> Plugin \<Rightarrow> Plugin" where
  "start_instance s p = p\<lparr>pg_alive := insert (s, pg_next p) (pg_alive p), pg_next := Suc (pg_next p)\<rparr>"

definition stopPlan :: "Plugin \<Rightarrow> Plugin" where
  "stopPlan p = (if pg_pol p = None then p else (stop_instance Poller_service (pg_pol p) p)\<lparr>pg_pol := None\<rparr>)"

definition stopObservation :: "Plugin \<Rightarrow> Plugin" where
  "stopObservation p = stop_instance Recorder_service (pg_observationRecorder p)
     (p\<lparr>pg_observationRecorder := None, pg_activeRecorder := None, pg_obs := None\<rparr>)"

definition stopChannelLog :: "Plugin \<Rightarrow> Plugin" where
  "stopChannelLog p = stop_instance Scanner_service (pg_channelLogScanner p)
     (p\<lparr>pg_channelLogScanner := None, pg_clog := None\<rparr>)"

definition stopGuard :: "Plugin \<Rightarrow> Plugin" where
  "stopGuard p = stop_instance Guard_service (pg_guardActive p) (p\<lparr>pg_guardActive := None, pg_guardStatus := False\<rparr>)"

definition startPlan :: "Config \<Rightarrow> Plugin \<Rightarrow> Plugin" where
  "startPlan cfg p = (if cfg_PlanEnabled cfg then (start_instance Poller_service p)\<lparr>pg_pol := Some (pg_next p)\<rparr> else p)"

definition startObservation :: "Config \<Rightarrow> Plugin \<Rightarrow> Plugin" where
  "startObservation cfg p =
     (if \<not> cfg_ChannelObserveEnabled cfg then p
      else let i = pg_next p in (start_instance Recorder_service p)
        \<lparr>pg_observationRecorder := Some i, pg_obs := Some i, pg_activeRecorder := Some i\<rparr>)"

definition startChannelLog :: "Config \<Rightarrow> Plugin \<Rightarrow> Plugin" where
  "startChannelLog cfg p =
     (if \<not> cfg_ChannelLogEnabled cfg then p
      else let i = pg_next p in (start_instance Scanner_service p)\<lparr>pg_channelLogScanner := Some i, pg_clog := Some i\<rparr>)"

text \<open>The guard runs even when it is switched off; its first tick publishes the status.\<close>

definition startGuard :: "Plugin \<Rightarrow> Plugin" where
  "startGuard p = (start_instance Guard_service p)\<lparr>pg_guardActive := Some (pg_next p), pg_guardStatus := True\<rparr>"

text \<open>\<open>parse\<close> is \<open>config.Parse\<close>, the decoder filled in.\<close>

definition LoadConfig :: "(string \<Rightarrow> Config option) \<Rightarrow> string \<Rightarrow> Plugin \<Rightarrow> Plugin" where
  "LoadConfig parse raw p =
     (let cfg = (case parse raw of None \<Rightarrow> Default | Some c \<Rightarrow> c);
          stopped = stopGuard (stopChannelLog (stopObservation (stopPlan p)))
      in startGuard (startChannelLog cfg (startObservation cfg (startPlan cfg (stopped\<lparr>pg_cfg := cfg\<rparr>)))))"

definition Shutdown :: "Plugin \<Rightarrow> Plugin" where
  "Shutdown p = (let p1 = stopGuard (stopChannelLog (stopObservation p)) in
     if pg_pol p1 = None then p1 else stop_instance Poller_service (pg_pol p1) p1)"

section \<open>The dispatcher\<close>

datatype abi_method = MethodPluginRegister | MethodPluginReconfigure | MethodPluginQuiesce | MethodPluginShutdown
  | MethodManagementRegister | MethodManagementHandle | MethodUsageHandle | Other_method string

text \<open>
  \<open>pe_management\<close> and \<open>pe_usage\<close> answer the two data calls (theories Management and
  Observation_Recorder); \<open>pe_registration\<close> and \<open>pe_routes\<close> encode the two registrations.
\<close>

record PluginEnv =
  pe_parse :: "string \<Rightarrow> Config option"
  pe_registration :: "registration \<Rightarrow> json"
  pe_routes :: "string list \<Rightarrow> string list \<Rightarrow> json"
  pe_management :: "string \<Rightarrow> string"
  pe_usage :: "string \<Rightarrow> string"

definition HandleMethod :: "PluginEnv \<Rightarrow> abi_method \<Rightarrow> string \<Rightarrow> Plugin \<Rightarrow> string \<times> Plugin" where
  "HandleMethod env method request p =
     (case method of
        MethodPluginRegister \<Rightarrow>
          let p' = LoadConfig (pe_parse env) (configYAMLFromLifecycleRequest request) p
          in (ABI_OK (Some (pe_registration env (buildRegistration (pg_cfg p')))), p')
      | MethodPluginReconfigure \<Rightarrow>
          let p' = LoadConfig (pe_parse env) (configYAMLFromLifecycleRequest request) p
          in (ABI_OK (Some (pe_registration env (buildRegistration (pg_cfg p')))), p')
      | MethodPluginQuiesce \<Rightarrow> (ABI_OK None, stopGuard (stopChannelLog p))
      | MethodPluginShutdown \<Rightarrow> (ABI_OK None, stopGuard (stopChannelLog p))
      | MethodManagementRegister \<Rightarrow> (ABI_OK (Some (pe_routes env management_routes resource_routes)), p)
      | MethodManagementHandle \<Rightarrow> (pe_management env request, p)
      | MethodUsageHandle \<Rightarrow> (pe_usage env request, p)
      | Other_method name \<Rightarrow> (ABI_Failure ''unknown_method'' (''unknown method: '' @ name), p))"

text \<open>The states a plugin reaches through calls of the host, in any order.\<close>

inductive plugin_reaches :: "Plugin \<Rightarrow> Plugin \<Rightarrow> bool" where
  start: "plugin_reaches p p"
| call: "plugin_reaches p q \<Longrightarrow> plugin_reaches p (snd (HandleMethod env method request q))"
| shutdown: "plugin_reaches p q \<Longrightarrow> plugin_reaches p (Shutdown q)"

section \<open>The C boundary\<close>

text \<open>
  \<open>cliproxyPluginCall\<close>: no method, a panic and an error become failure envelopes with the code 1;
  an empty answer leaves the response buffer empty. \<open>handle\<close> is the dispatcher's outcome.
\<close>

datatype outcome = Panicked string | Failed string | Answered string

definition cliproxyPluginCall :: "abi_method option \<Rightarrow> (abi_method \<Rightarrow> outcome) \<Rightarrow> int \<times> string" where
  "cliproxyPluginCall method handle =
     (case method of
        None \<Rightarrow> (1, ABI_Failure ''invalid_method'' ''method is required'')
      | Some m \<Rightarrow>
          (case handle m of
             Panicked msg \<Rightarrow> (1, ABI_Failure ''plugin_panic'' (''plugin recovered from panic: '' @ msg))
           | Failed msg \<Rightarrow> (1, ABI_Failure ''plugin_error'' msg)
           | Answered raw \<Rightarrow> (0, raw)))"

text \<open>\<open>management.Handle\<close> recovers a panic of its own: the call then returns no bytes and no error.\<close>

definition management_outcome :: "(string \<Rightarrow> go_panic + string) \<Rightarrow> string \<Rightarrow> outcome" where
  "management_outcome route_and_encode request =
     (case route_and_encode request of Inl _ \<Rightarrow> Answered [] | Inr raw \<Rightarrow> Answered raw)"

end
