(* ===== verification/Plugin_Props.thy ===== *)
theory Plugin_Props
  imports Plugin_Lifecycle Management_Props Go_Json_Props
begin

text \<open>
  What the lifecycle promises: one instance of each service at most, whatever the host calls; a quiesced
  plugin neither scans nor writes; every declared route is served and every declared field seeded.
\<close>

section \<open>One instance of each service\<close>

fun slot :: "service \<Rightarrow> Plugin \<Rightarrow> nat option" where
  "slot Poller_service p = pg_pol p"
| "slot Recorder_service p = pg_observationRecorder p"
| "slot Scanner_service p = pg_channelLogScanner p"
| "slot Guard_service p = pg_guardActive p"

definition lifecycle_ok :: "Plugin \<Rightarrow> bool" where
  "lifecycle_ok p \<longleftrightarrow> (\<forall>(s, i) \<in> pg_alive p. slot s p = Some i) \<and>
     pg_obs p = pg_observationRecorder p \<and> pg_activeRecorder p = pg_observationRecorder p \<and>
     pg_clog p = pg_channelLogScanner p \<and> (pg_guardStatus p \<longleftrightarrow> pg_guardActive p \<noteq> None)"

lemmas stop_defs = stop_instance_def stopPlan_def stopObservation_def stopChannelLog_def stopGuard_def
lemmas start_defs = start_instance_def startPlan_def startObservation_def startChannelLog_def startGuard_def

lemma slot_cases: "(\<forall>s. P s) \<longleftrightarrow> P Poller_service \<and> P Recorder_service \<and> P Scanner_service \<and> P Guard_service"
  by (metis service.exhaust)

lemma lifecycle_ok_alt:
  "lifecycle_ok p \<longleftrightarrow>
     (\<forall>i. (Poller_service, i) \<in> pg_alive p \<longrightarrow> pg_pol p = Some i) \<and>
     (\<forall>i. (Recorder_service, i) \<in> pg_alive p \<longrightarrow> pg_observationRecorder p = Some i) \<and>
     (\<forall>i. (Scanner_service, i) \<in> pg_alive p \<longrightarrow> pg_channelLogScanner p = Some i) \<and>
     (\<forall>i. (Guard_service, i) \<in> pg_alive p \<longrightarrow> pg_guardActive p = Some i) \<and>
     pg_obs p = pg_observationRecorder p \<and> pg_activeRecorder p = pg_observationRecorder p \<and>
     pg_clog p = pg_channelLogScanner p \<and> (pg_guardStatus p \<longleftrightarrow> pg_guardActive p \<noteq> None)"
proof -
  have "(\<forall>(s, i) \<in> pg_alive p. slot s p = Some i) \<longleftrightarrow> (\<forall>s i. (s, i) \<in> pg_alive p \<longrightarrow> slot s p = Some i)"
    by auto
  then show ?thesis
    by (simp add: lifecycle_ok_def slot_cases)
qed

lemma stopPlan_ok [inv_intros]: "lifecycle_ok p \<Longrightarrow> lifecycle_ok (stopPlan p)"
  by (auto simp: lifecycle_ok_alt stop_defs split: option.splits)

lemma stopObservation_ok [inv_intros]: "lifecycle_ok p \<Longrightarrow> lifecycle_ok (stopObservation p)"
  by (cases "pg_observationRecorder p") (auto simp: lifecycle_ok_alt stop_defs)

lemma stopChannelLog_ok [inv_intros]: "lifecycle_ok p \<Longrightarrow> lifecycle_ok (stopChannelLog p)"
  by (cases "pg_channelLogScanner p") (auto simp: lifecycle_ok_alt stop_defs)

lemma stopGuard_ok [inv_intros]: "lifecycle_ok p \<Longrightarrow> lifecycle_ok (stopGuard p)"
  by (cases "pg_guardActive p") (auto simp: lifecycle_ok_alt stop_defs)

text \<open>What is left after the four stops: nothing runs, nothing is published.\<close>

definition stopped :: "Plugin \<Rightarrow> Plugin" where
  "stopped p = stopGuard (stopChannelLog (stopObservation (stopPlan p)))"

lemma stopped_slots:
  "pg_pol (stopped p) = None" "pg_observationRecorder (stopped p) = None" "pg_channelLogScanner (stopped p) = None"
  "pg_guardActive (stopped p) = None"
  by (simp_all add: stopped_def stop_defs split: option.split)

lemma stopped_idle:
  assumes "lifecycle_ok p"
  shows "pg_alive (stopped p) = {}"
proof -
  have "lifecycle_ok (stopped p)"
    using assms by (simp add: stopped_def inv_intros)
  then have "slot s (stopped p) = Some i" if "(s, i) \<in> pg_alive (stopped p)" for s i
    using that by (auto simp: lifecycle_ok_def)
  moreover have "slot s (stopped p) = None" for s
    by (cases s) (simp_all add: stopped_slots)
  ultimately show ?thesis by fastforce
qed

text \<open>What runs after a load, said directly.\<close>

definition load_of :: "(string \<Rightarrow> Config option) \<Rightarrow> string \<Rightarrow> Config" where
  "load_of parse raw = (case parse raw of None \<Rightarrow> Default | Some c \<Rightarrow> c)"

lemma LoadConfig_start:
  "LoadConfig parse raw p = startGuard (startChannelLog (load_of parse raw) (startObservation (load_of parse raw)
     (startPlan (load_of parse raw) ((stopped p)\<lparr>pg_cfg := load_of parse raw\<rparr>))))"
  by (simp add: LoadConfig_def load_of_def stopped_def Let_def)

lemma stopped_ok: "lifecycle_ok p \<Longrightarrow> lifecycle_ok (stopped p)"
  by (simp add: stopped_def inv_intros)

lemma LoadConfig_ok [inv_intros]:
  assumes "lifecycle_ok p"
  shows "lifecycle_ok (LoadConfig parse raw p)"
proof -
  have "lifecycle_ok (stopped p)" "pg_alive (stopped p) = {}"
    using assms by (simp_all add: stopped_ok stopped_idle)
  then show ?thesis
    by (simp add: LoadConfig_start lifecycle_ok_alt start_defs Let_def stopped_slots)
qed

lemma LoadConfig_alive:
  assumes "lifecycle_ok p"
  shows "(\<exists>i. (Recorder_service, i) \<in> pg_alive (LoadConfig parse raw p)) \<longleftrightarrow> cfg_ChannelObserveEnabled (load_of parse raw)"
    and "(\<exists>i. (Scanner_service, i) \<in> pg_alive (LoadConfig parse raw p)) \<longleftrightarrow> cfg_ChannelLogEnabled (load_of parse raw)"
    and "(\<exists>i. (Poller_service, i) \<in> pg_alive (LoadConfig parse raw p)) \<longleftrightarrow> cfg_PlanEnabled (load_of parse raw)"
    and "\<exists>i. (Guard_service, i) \<in> pg_alive (LoadConfig parse raw p)"
    and "pg_cfg (LoadConfig parse raw p) = load_of parse raw"
  using stopped_idle [OF assms] by (auto simp: LoadConfig_start start_defs Let_def)

lemma Shutdown_ok [inv_intros]: "lifecycle_ok p \<Longrightarrow> lifecycle_ok (Shutdown p)"
proof -
  assume "lifecycle_ok p"
  then have "lifecycle_ok (stopGuard (stopChannelLog (stopObservation p)))"
    by (simp add: inv_intros)
  then show ?thesis
    by (auto simp: Shutdown_def Let_def lifecycle_ok_alt stop_instance_def split: option.split)
qed

lemma HandleMethod_ok [inv_intros]: "lifecycle_ok p \<Longrightarrow> lifecycle_ok (snd (HandleMethod env m request p))"
  by (cases m) (simp_all add: HandleMethod_def Let_def inv_intros)

lemma reached_ok: "plugin_reaches p q \<Longrightarrow> lifecycle_ok p \<Longrightarrow> lifecycle_ok q"
  by (induction rule: plugin_reaches.induct) (auto intro: inv_intros)

lemma loaded_ok: "lifecycle_ok loaded_plugin"
  by (simp add: lifecycle_ok_alt loaded_plugin_def)


definition sample_plugin_env :: PluginEnv where
  "sample_plugin_env = \<lparr>pe_parse = \<lambda>_. Some (Default\<lparr>cfg_ChannelLogEnabled := True\<rparr>), pe_registration = \<lambda>_. JObj [],
     pe_routes = \<lambda>_ _. JObj [], pe_management = \<lambda>_. [], pe_usage = \<lambda>_. []\<rparr>"

definition registered_plugin :: Plugin where
  "registered_plugin = snd (HandleMethod sample_plugin_env MethodPluginReconfigure []
     (snd (HandleMethod sample_plugin_env MethodPluginRegister [] loaded_plugin)))"

lemma registered_reached: "plugin_reaches loaded_plugin registered_plugin"
  unfolding registered_plugin_def by (intro plugin_reaches.call plugin_reaches.start)


section \<open>Quiesce\<close>

text \<open>Calls that bring no configuration.\<close>

inductive quiet_reaches :: "Plugin \<Rightarrow> Plugin \<Rightarrow> bool" where
  start: "quiet_reaches p p"
| call: "quiet_reaches p q \<Longrightarrow> method \<noteq> MethodPluginRegister \<Longrightarrow> method \<noteq> MethodPluginReconfigure \<Longrightarrow>
    quiet_reaches p (snd (HandleMethod env method request q))"
| shutdown: "quiet_reaches p q \<Longrightarrow> quiet_reaches p (Shutdown q)"

definition inert :: "Config \<Rightarrow> Plugin \<Rightarrow> bool" where
  "inert cfg p \<longleftrightarrow> lifecycle_ok p \<and> pg_guardActive p = None \<and> pg_channelLogScanner p = None \<and> pg_cfg p = cfg"

lemma inert_stops: "inert cfg p \<Longrightarrow> inert cfg (stopGuard (stopChannelLog p))"
  by (simp add: inert_def inv_intros) (simp add: stop_defs split: option.split)

lemma stop_frame:
  "pg_cfg (stop_instance s i p) = pg_cfg p" 
  "pg_guardActive (stop_instance s i p) = pg_guardActive p" "pg_channelLogScanner (stop_instance s i p) = pg_channelLogScanner p"
  "pg_cfg (stopObservation p) = pg_cfg p" "pg_guardActive (stopObservation p) = pg_guardActive p"
  "pg_channelLogScanner (stopObservation p) = pg_channelLogScanner p"
  by (auto simp: stop_instance_def stopObservation_def split: option.split)

lemma inert_shutdown:
  assumes "inert cfg p"
  shows "inert cfg (Shutdown p)"
proof -
  have "inert cfg (stopObservation p)"
    using assms by (simp add: inert_def inv_intros stop_frame)
  then have "inert cfg (stopGuard (stopChannelLog (stopObservation p)))"
    by (rule inert_stops)
  then show ?thesis
    using assms Shutdown_ok [of p]
    by (simp add: inert_def Shutdown_def Let_def stop_frame)
qed

lemma inert_call:
  "inert cfg p \<Longrightarrow> m \<noteq> MethodPluginRegister \<Longrightarrow> m \<noteq> MethodPluginReconfigure \<Longrightarrow>
   inert cfg (snd (HandleMethod env m request p))"
  by (cases m) (simp_all add: HandleMethod_def inert_stops)

lemma quiet_inert: "quiet_reaches p q \<Longrightarrow> inert cfg p \<Longrightarrow> inert cfg q"
  by (induction rule: quiet_reaches.induct) (auto intro: inert_call inert_shutdown)

lemma stops_inert: "lifecycle_ok p \<Longrightarrow> inert (pg_cfg p) (stopGuard (stopChannelLog p))"
  by (simp add: inert_def inv_intros) (simp add: stop_defs split: option.split)

text \<open>C35: A retired instance does not act: once the host has quiesced the plugin, no guard and no scanner of it
  runs, and none starts again until a call brings a configuration, whatever else is called; the
  configuration it was loaded with is kept.\<close>

theorem quiesced_plugin_is_inert:
  assumes "plugin_reaches loaded_plugin p"
    and "quiet_reaches (snd (HandleMethod env MethodPluginQuiesce request p)) q"
  shows "(Guard_service, i) \<notin> pg_alive q \<and> (Scanner_service, i) \<notin> pg_alive q \<and> pg_cfg q = pg_cfg p"
proof -
  have "inert (pg_cfg p) (snd (HandleMethod env MethodPluginQuiesce request p))"
    using reached_ok [OF assms(1) loaded_ok] by (simp add: HandleMethod_def stops_inert)
  then have "inert (pg_cfg p) q"
    by (rule quiet_inert [OF assms(2)])
  then show ?thesis by (auto simp: inert_def lifecycle_ok_alt)
qed

lemma quiesced_plugin_is_inert_witness:
  "(Guard_service, 7) \<notin> pg_alive (Shutdown (snd (HandleMethod sample_plugin_env MethodPluginQuiesce [] registered_plugin))) \<and>
   (Scanner_service, 7) \<notin> pg_alive (Shutdown (snd (HandleMethod sample_plugin_env MethodPluginQuiesce [] registered_plugin))) \<and>
   pg_cfg (Shutdown (snd (HandleMethod sample_plugin_env MethodPluginQuiesce [] registered_plugin))) = pg_cfg registered_plugin"
  by (rule quiesced_plugin_is_inert [OF registered_reached, where env = sample_plugin_env and request = "[]"])
    (intro quiet_reaches.shutdown quiet_reaches.start)

section \<open>What the plugin declares\<close>

text \<open>The answer to a registration declares the usage hook exactly when the recorder runs.\<close>

theorem registration_declares_what_runs:
  assumes "plugin_reaches loaded_plugin p"
    and "p' = LoadConfig parse raw p"
  shows "rc_UsagePlugin (rg_Capabilities (buildRegistration (pg_cfg p'))) \<longleftrightarrow> (\<exists>i. (Recorder_service, i) \<in> pg_alive p')"
  using LoadConfig_alive [OF reached_ok [OF assms(1) loaded_ok], of parse raw] assms(2)
  by (simp add: buildRegistration_def)

text \<open>Every route the plugin declares to the host is one its own router serves, and every configuration
  field it declares is seeded with its current value, except the two whose default is to be blank.\<close>

theorem declared_surface_is_served:
  "list_all (\<lambda>path. rs_StatusCode (route env st \<lparr>mr_Path = path, mr_Query = query\<rparr>) \<noteq> 404) (management_routes @ resource_routes) \<and>
   filter (\<lambda>n. n \<notin> {''plan_config_path'', ''account_guard_scope_names''}) (map fst registered_fields)
     = map pd_Key (pluginConfigDefaults yaml cfg)"
proof -
  have trimmed: "TrimRightSlash p = p" if "p \<in> set (management_routes @ resource_routes)" for p
    using that by (auto simp: management_routes_def resource_routes_def TrimRightSlash_def BasePath_def buildinfo_ID_def)
  have csv: "rs_StatusCode (buildChannelCSV env st req) \<noteq> 404" for req
    by (simp add: buildChannelCSV_def bad_window_def errorResponse_def Let_def case_prod_beta)
  have view: "rs_StatusCode (buildChannelView env st req) \<noteq> 404" for req
    by (auto simp: buildChannelView_def bad_window_def bad_records_def bad_offset_def errorResponse_def jsonResponse_def
        Let_def case_prod_beta split: option.split)
  have "rs_StatusCode (route env st \<lparr>mr_Path = p, mr_Query = query\<rparr>) \<noteq> 404" if "p \<in> set (management_routes @ resource_routes)" for p
  proof -
    have "HasSuffix ([] @ ''/index.html'') ''/index.html''"
      by (rule HasSuffix_append)
    with that have "HasSuffix p ''/index.html'' \<or> HasSuffix p ''/health'' \<or> HasSuffix p ''/channel.csv'' \<or> HasSuffix p ''/channel''"
      by (auto simp: management_routes_def resource_routes_def)
    with trimmed [OF that] csv view show ?thesis
      by (auto simp: route_def Let_def jsonResponse_def)
  qed
  moreover have "filter (\<lambda>n. n \<notin> {''plan_config_path'', ''account_guard_scope_names''}) (map fst registered_fields)
     = map pd_Key (pluginConfigDefaults yaml cfg)"
    by (simp add: registered_fields_def pluginConfigDefaults_def)
  ultimately show ?thesis
    by (simp add: list_all_iff)
qed

section \<open>Lifecycle requests\<close>

text \<open>A configuration block handed over as a JSON object is ignored: it decodes as a lifecycle request
  without a configuration, so the plugin runs on its defaults, and the JSON decoder of the configuration is
  never asked.\<close>

theorem json_block_is_ignored:
  assumes "parse_json raw = Some (JObj ms)" and "TrimSpace raw \<noteq> []"
    and "list_all (\<lambda>(k, v). \<not> EqualFold k ''config_yaml'' \<and> \<not> EqualFold k ''schema_version'') ms"
  shows "configYAMLFromLifecycleRequest raw = [] \<and>
    pg_cfg (snd (HandleMethod (env\<lparr>pe_parse := Parse probe decode\<rparr>) MethodPluginRegister raw p)) = Default"
proof -
  have "json_update upd ''config_yaml'' ms a = Some a" for upd :: "json \<Rightarrow> string \<Rightarrow> string option" and a
    using assms(3) by (induction ms arbitrary: a) auto
  moreover have "json_field dec ''schema_version'' ms a = Some a" for dec :: "json \<Rightarrow> int option" and a
    using assms(3) by (induction ms arbitrary: a) auto
  ultimately have none: "configYAMLFromLifecycleRequest raw = []"
    using assms(1,2) by (simp add: configYAMLFromLifecycleRequest_def dec_lifecycle_def upd_object_def)
  have "pg_cfg (LoadConfig (Parse probe decode) [] p) = Default"
    by (simp add: LoadConfig_start load_of_def Parse_def start_defs Let_def)
  with none show ?thesis
    by (simp add: HandleMethod_def Let_def)
qed

lemma json_block_is_ignored_witness:
  "configYAMLFromLifecycleRequest (CHR ''{'' # dquote # ''enabled'' @ dquote # '':false}'') = [] \<and>
    pg_cfg (snd (HandleMethod (sample_plugin_env\<lparr>pe_parse := Parse (\<lambda>_ _. None) (\<lambda>_ _ c. Some (c\<lparr>cfg_Enabled := False\<rparr>))\<rparr>)
      MethodPluginRegister (CHR ''{'' # dquote # ''enabled'' @ dquote # '':false}'') loaded_plugin)) = Default"
proof (rule json_block_is_ignored)
  show "parse_json (CHR ''{'' # dquote # ''enabled'' @ dquote # '':false}'') = Some (JObj [(''enabled'', JBool False)])"
    by code_simp
  show "TrimSpace (CHR ''{'' # dquote # ''enabled'' @ dquote # '':false}'') \<noteq> []"
    by code_simp
  show "list_all (\<lambda>(k, v). \<not> EqualFold k ''config_yaml'' \<and> \<not> EqualFold k ''schema_version'') [(''enabled'', JBool False)]"
    by code_simp
qed

section \<open>The boundary\<close>

text \<open>An envelope reads back: its result is the value that was put in.\<close>

theorem envelope_reads_back:
  assumes "json_ok j"
  shows "parse_json (ABI_OK (Some j)) = Some (JObj [(''ok'', JBool True), (''result'', j)])"
proof -
  have "utf8_ok ''ok''" "utf8_ok ''result''"
    by code_simp+
  then have "json_ok (JObj [(''ok'', JBool True), (''result'', j)])"
    using assms by simp
  from parse_Marshal [OF this, of "[]" 0] show ?thesis
    by (simp only: ABI_OK_def Marshal_def option.case append_Nil2 list.pred_inject simp_thms)
qed

text \<open>A panic of a management handler is answered to the host as a success without a body.\<close>

theorem management_panic_is_a_success:
  "cliproxyPluginCall (Some MethodManagementHandle) (\<lambda>_. management_outcome (\<lambda>_. Inl e) request) = (0, [])"
  by (simp add: cliproxyPluginCall_def management_outcome_def)

end
