(* ===== verification/Channel_Probe.thy ===== *)
theory Channel_Probe
  imports Plugin_Lifecycle "HOL-Library.AList"
begin

text \<open>
  The log line of \<open>internal/hostapi\<close> and the diagnostic plugin of \<open>cmd/channel-probe\<close>: the line it
  records per payload, and the search for keys that may name a credential.

  A decoded object is the list of its members in the order Go iterates its map, which is no order in
  particular: the theorems hold for every list.
\<close>

section \<open>Host calls\<close>

text \<open>The host's answer to a callback: its return code and the buffer it filled.\<close>

definition host_Call :: "int \<Rightarrow> string \<Rightarrow> string \<times> bool" where
  "host_Call code buffer = (if code \<noteq> 0 then ([], False) else (buffer, True))"

definition maxLogFieldLen :: nat where "maxLogFieldLen = 512"

definition log_payload :: "string \<Rightarrow> string \<Rightarrow> (string \<rightharpoonup> string) \<Rightarrow> string" where
  "log_payload level message fs = Marshal (JObj
     [(''fields'', JObj (map (\<lambda>k. (k, JStr (take maxLogFieldLen (the (fs k))))) (sorted_list_of_set (dom fs)))),
      (''level'', JStr level), (''message'', JStr (if message = [] then buildinfo_ID else message))])"

section \<open>Hits\<close>

definition maxHits :: nat where "maxHits = 40"
definition maxHitValue :: nat where "maxHitValue = 200"
definition maxHitDepth :: nat where "maxHitDepth = 12"

definition hitKeywords :: "string list" where
  "hitKeywords = [''provider'', ''auth'', ''credential'', ''channel'', ''route'', ''account'', ''model'', ''endpoint'',
     ''status'', ''trace'', ''session'', ''token'', ''latency'', ''ttft'', ''cache'', ''executor'', ''base_url'', ''source'']"

definition hasHitKeyword :: "string \<Rightarrow> bool" where
  "hasHitKeyword key \<longleftrightarrow> list_ex (\<lambda>w. Contains (ToLower key) w) hitKeywords"

definition RuneStart :: "char \<Rightarrow> bool" where
  "RuneStart c \<longleftrightarrow> \<not> (128 \<le> byte_of c \<and> byte_of c < 192)"

text \<open>The loop that moves the cut back to the start of a rune.\<close>

fun rune_cut :: "string \<Rightarrow> nat \<Rightarrow> nat" where
  "rune_cut text 0 = 0"
| "rune_cut text (Suc n) = (if RuneStart (text ! Suc n) then Suc n else rune_cut text n)"

text \<open>\<open>json.Marshal\<close> of a map writes its members by key.\<close>

fun by_key :: "json \<Rightarrow> json" where
  "by_key (JObj ms) = JObj (sort_key fst (map (\<lambda>(k, v). (k, by_key v)) ms))"
| "by_key (JArr js) = JArr (map by_key js)"
| "by_key j = j"

definition hit_text :: "json \<Rightarrow> string" where
  "hit_text v = (case v of JNull \<Rightarrow> ''null'' | JStr s \<Rightarrow> s | JNum n \<Rightarrow> n | _ \<Rightarrow> Marshal (by_key v))"

definition hitValue :: "json \<Rightarrow> string" where
  "hitValue v = (let text = hit_text v in
     if length text \<le> maxHitValue then text else take (rune_cut text maxHitValue) text)"

type_synonym hits = "(string \<times> string) list"

definition child_path :: "string \<Rightarrow> string \<Rightarrow> string" where
  "child_path path key = (if path \<noteq> [] then path @ ''.'' @ key else key)"

definition note_hit :: "string \<Rightarrow> string \<Rightarrow> json \<Rightarrow> hits \<Rightarrow> hits" where
  "note_hit path key child hits =
     (if hasHitKeyword key then AList.update (child_path path key) (hitValue child) hits else hits)"

function (sequential) walkHits :: "string \<Rightarrow> json \<Rightarrow> hits \<Rightarrow> nat \<Rightarrow> hits"
  and walk_members :: "string \<Rightarrow> (string \<times> json) list \<Rightarrow> hits \<Rightarrow> nat \<Rightarrow> hits"
  and walk_elements :: "string \<Rightarrow> nat \<Rightarrow> json list \<Rightarrow> hits \<Rightarrow> nat \<Rightarrow> hits" where
  "walkHits path (JObj ms) hits depth =
     (if length hits \<ge> maxHits \<or> depth > maxHitDepth then hits else walk_members path ms hits depth)"
| "walkHits path (JArr js) hits depth =
     (if length hits \<ge> maxHits \<or> depth > maxHitDepth then hits else walk_elements path 0 js hits depth)"
| "walkHits path JNull hits depth = hits"
| "walkHits path (JBool b) hits depth = hits"
| "walkHits path (JNum n) hits depth = hits"
| "walkHits path (JStr t) hits depth = hits"
| "walk_members path [] hits depth = hits"
| "walk_members path ((key, child) # ms) hits depth =
     walk_members path ms (walkHits (child_path path key) child (note_hit path key child hits) (Suc depth)) depth"
| "walk_elements path i [] hits depth = hits"
| "walk_elements path i (child # js) hits depth =
     walk_elements path (Suc i) js (walkHits (path @ ''['' @ digits_of i @ '']'') child hits (Suc depth)) depth"

  by pat_completeness auto
termination
  by (relation "measure (\<lambda>x. case x of
        Inl (path, v, hits, depth) \<Rightarrow> size v
      | Inr (Inl (path, ms, hits, depth)) \<Rightarrow> size_list (size_prod (\<lambda>_. 0) size) ms
      | Inr (Inr (path, i, js, hits, depth)) \<Rightarrow> size_list size js)") simp_all

definition collectHits :: "(string \<times> json) list \<Rightarrow> hits" where
  "collectHits members = walkHits [] (JObj members) [] 0"

section \<open>The recorded line\<close>

datatype probe_raw = Raw_text string | Raw_json string

record probeLine =
  pb_Time :: string
  pb_Method :: string
  pb_Bytes :: nat
  pb_Keys :: "string list"
  pb_Raw :: probe_raw
  pb_Hits :: hits

text \<open>\<open>arrange\<close> is the map the decoder fills and the order it is iterated in.\<close>

definition buildProbeLine :: "(json \<Rightarrow> json) \<Rightarrow> string \<Rightarrow> string \<Rightarrow> string \<Rightarrow> probeLine" where
  "buildProbeLine arrange now method payload =
     (let trimmed = TrimSpace payload;
          line = \<lparr>pb_Time = now, pb_Method = method, pb_Bytes = length payload, pb_Keys = [],
            pb_Raw = Raw_text payload, pb_Hits = []\<rparr>
      in if trimmed = [] then line
         else case parse_json trimmed of
             None \<Rightarrow> line
           | Some j \<Rightarrow>
               let line1 = line\<lparr>pb_Raw := Raw_json trimmed\<rparr> in
               (case arrange j of
                  JObj ms \<Rightarrow> line1\<lparr>pb_Keys := sort (map fst ms), pb_Hits := collectHits ms\<rparr>
                | _ \<Rightarrow> line1))"

datatype probe_method = Probe_register | Probe_quiesce | Probe_intercept string | Probe_complete string | Probe_other string

record Probe =
  pr_open :: bool
  pr_lines :: "probeLine list"

text \<open>\<open>opens\<close> tells whether the log can be opened; a line that cannot be written is lost silently.\<close>

definition recordProbeLine :: "bool \<Rightarrow> probeLine \<Rightarrow> Probe \<Rightarrow> Probe" where
  "recordProbeLine opens line p =
     (if \<not> pr_open p \<and> \<not> opens then p else p\<lparr>pr_open := True, pr_lines := pr_lines p @ [line]\<rparr>)"

definition probe_handleMethod ::
  "json \<Rightarrow> string \<Rightarrow> bool \<Rightarrow> (string \<Rightarrow> string \<Rightarrow> probeLine) \<Rightarrow> probe_method \<Rightarrow> string \<Rightarrow> Probe \<Rightarrow> string \<times> Probe" where
  "probe_handleMethod registration emptyObservation opens line_of method request p =
     (case method of
        Probe_register \<Rightarrow> (ABI_OK (Some registration), p)
      | Probe_quiesce \<Rightarrow> (ABI_OK None, p)
      | Probe_intercept name \<Rightarrow> (emptyObservation, recordProbeLine opens (line_of name request) p)
      | Probe_complete name \<Rightarrow> (ABI_OK None, recordProbeLine opens (line_of name request) p)
      | Probe_other name \<Rightarrow> (ABI_Failure ''unknown_method'' (''unknown method: '' @ name), p))"

definition probe_shutdown :: "Probe \<Rightarrow> Probe" where
  "probe_shutdown p = p\<lparr>pr_open := False\<rparr>"

section \<open>What the hits promise\<close>

lemma rune_cut_le: "rune_cut text n \<le> n"
  by (induction n) auto

lemma hitValue_short: "length (hitValue v) \<le> maxHitValue"
  using rune_cut_le [of "hit_text v" maxHitValue] by (auto simp: hitValue_def Let_def)

lemma update_values: "snd ` set (AList.update k v xs) \<subseteq> insert v (snd ` set xs)"
  by (induction xs) auto

lemma note_hit_short:
  "list_all (\<lambda>(k, v). length v \<le> maxHitValue) hits \<Longrightarrow> list_all (\<lambda>(k, v). length v \<le> maxHitValue) (note_hit path key child hits)"
  using update_values [of "child_path path key" "hitValue child" hits] hitValue_short [of child]
  by (fastforce simp: note_hit_def list_all_iff)

text \<open>Every recorded value fits the limit, whatever the payload holds and in whatever order it is walked.\<close>

theorem hit_values_are_short: "list_all (\<lambda>(k, v). length v \<le> maxHitValue) (collectHits members)"
proof -
  have "list_all (\<lambda>(k, v). length v \<le> maxHitValue) hits \<Longrightarrow>
      list_all (\<lambda>(k, v). length v \<le> maxHitValue) (walkHits path v hits depth)"
    and "list_all (\<lambda>(k, v). length v \<le> maxHitValue) hits \<Longrightarrow>
      list_all (\<lambda>(k, v). length v \<le> maxHitValue) (walk_members path ms hits depth)"
    and "list_all (\<lambda>(k, v). length v \<le> maxHitValue) hits \<Longrightarrow>
      list_all (\<lambda>(k, v). length v \<le> maxHitValue) (walk_elements path i js hits depth)"
    for path v hits depth ms i js
    by (induction path v hits depth and path ms hits depth and path i js hits depth
        rule: walkHits_walk_members_walk_elements.induct)
      (auto intro: note_hit_short)
  then show ?thesis by (simp add: collectHits_def)
qed

lemma update_new: "k \<notin> fst ` set xs \<Longrightarrow> AList.update k v xs = xs @ [(k, v)]"
  by (induction xs) auto

text \<open>The limit of forty hits does not hold: it is checked before an object is entered and not between its
  members, so an object with any number of matching keys leaves as many hits.\<close>

theorem flat_object_exceeds_the_limit:
  assumes "distinct (map fst ms)" and "list_all (\<lambda>(k, v). hasHitKeyword k \<and> v = JNull) ms"
  shows "length (collectHits ms) = length ms"
proof -
  have "length (walk_members [] xs hits 0) = length hits + length xs"
    if "distinct (map fst xs)" "list_all (\<lambda>(k, v). hasHitKeyword k \<and> v = JNull) xs"
      "fst ` set xs \<inter> fst ` set hits = {}" for xs and hits :: hits
    using that
  proof (induction xs arbitrary: hits)
    case (Cons x xs)
    obtain k v where x: "x = (k, v)" by (cases x)
    with Cons.prems have new: "k \<notin> fst ` set hits" "hasHitKeyword k" "v = JNull" by auto
    then have step: "note_hit [] k v hits = hits @ [(k, hitValue v)]"
      by (simp add: note_hit_def child_path_def update_new)
    have "length (walk_members [] xs (hits @ [(k, hitValue v)]) 0) = length (hits @ [(k, hitValue v)]) + length xs"
      using Cons.prems x by (intro Cons.IH) auto
    with x new step show ?case by simp
  qed simp
  from this [of ms "[]"] assms show ?thesis
    by (simp add: collectHits_def maxHits_def maxHitDepth_def)
qed

lemma flat_object_exceeds_the_limit_witness:
  "length (collectHits (map (\<lambda>i. (''model'' @ digits_of i, JNull)) [0..<41])) = 41"
proof -
  have "hasHitKeyword (''model'' @ s)" for s
    by (simp add: hasHitKeyword_def hitKeywords_def ToLower_def lower_char_def HasPrefix_def)
  then have "length (collectHits (map (\<lambda>i. (''model'' @ digits_of i, JNull)) [0..<41]))
      = length (map (\<lambda>i. (''model'' @ digits_of i, JNull)) [0..<41])"
    by (intro flat_object_exceeds_the_limit) (simp_all add: list_all_iff distinct_map inj_on_def digits_of_inject o_def)
  then show ?thesis by simp
qed

end
