(* ===== verification/Go_Duration.thy ===== *)
theory Go_Duration
  imports Go_Time
begin

text \<open>
  The part of Go's \<open>time\<close> and \<open>fmt\<close> packages that reads a duration from text: \<open>time.ParseDuration\<close> and
  the \<open>%f\<close> verb of \<open>fmt.Sscanf\<close>, with the proof that \<open>ParseDuration\<close> reads back what
  \<open>Duration.String\<close> writes, for every duration.

  The library multiplies the fraction of a value in floating point; the model takes the exact
  product, which is the same for every text \<open>Duration.String\<close> writes.
\<close>

section \<open>ParseDuration\<close>

definition is_decimal :: "char \<Rightarrow> bool" where
  "is_decimal c = (digit_val c \<noteq> None)"

definition digits_value :: "string \<Rightarrow> nat" where
  "digits_value ds = (case parse_digits 0 ds of Some n \<Rightarrow> n | None \<Rightarrow> 0)"

text \<open>\<open>leadingInt\<close>: the digits at the front, \<open>None\<close> when they exceed \<open>2 ^ 63\<close>.\<close>

definition leadingInt :: "string \<Rightarrow> (int \<times> string) option" where
  "leadingInt s = (let n = int (digits_value (takeWhile is_decimal s))
     in if n > 2 ^ 63 then None else Some (n, dropWhile is_decimal s))"

text \<open>\<open>leadingFraction\<close>: digits that would overflow are skipped and do not count in the scale.\<close>

fun fraction_digits :: "bool \<Rightarrow> int \<Rightarrow> int \<Rightarrow> string \<Rightarrow> int \<times> int \<times> string" where
  "fraction_digits over x scale [] = (x, scale, [])"
| "fraction_digits over x scale (c # s) =
     (case digit_val c of
        None \<Rightarrow> (x, scale, c # s)
      | Some d \<Rightarrow>
          if over \<or> x > max_int64 div 10 \<or> x * 10 + int d > 2 ^ 63 then fraction_digits True x scale s
          else fraction_digits False (x * 10 + int d) (scale * 10) s)"

definition duration_unit :: "string \<Rightarrow> duration option" where
  "duration_unit u =
     (if u = ''ns'' then Some 1
      else if u = ''us'' \<or> u = [CHR 0xC2, CHR 0xB5, CHR ''s''] \<or> u = [CHR 0xCE, CHR 0xBC, CHR ''s''] then Some 1000
      else if u = ''ms'' then Some 1000000
      else if u = ''s'' then Some Second
      else if u = ''m'' then Some Minute
      else if u = ''h'' then Some Hour
      else None)"

text \<open>One number with its unit: the nanoseconds it adds, and the rest of the text.\<close>

definition duration_part :: "string \<Rightarrow> (duration \<times> string) option" where
  "duration_part s =
     (if s = [] \<or> \<not> (hd s = CHR ''.'' \<or> is_decimal (hd s)) then None
      else case leadingInt s of
        None \<Rightarrow> None
      | Some (v, s1) \<Rightarrow>
          let pre = (s1 \<noteq> s);
              point = (s1 \<noteq> [] \<and> hd s1 = CHR ''.'');
              (f, scale, s2) = (if point then fraction_digits False 0 1 (tl s1) else (0, 1, s1));
              post = (point \<and> s2 \<noteq> tl s1);
              u = takeWhile (\<lambda>c. \<not> (c = CHR ''.'' \<or> is_decimal c)) s2
          in if \<not> pre \<and> \<not> post \<or> u = [] then None
             else case duration_unit u of
               None \<Rightarrow> None
             | Some unit \<Rightarrow>
                 if v > 2 ^ 63 div unit then None
                 else let w = v * unit + f * unit div scale
                   in if w > 2 ^ 63 then None else Some (w, drop (length u) s2))"

text \<open>
  The loop over the parts. Every part reads at least one byte and the fuel is more than the length of
  the text, so it is never what ends the loop.
\<close>

fun duration_parts :: "nat \<Rightarrow> duration \<Rightarrow> string \<Rightarrow> duration option" where
  "duration_parts fuel d [] = Some d"
| "duration_parts 0 d (c # s) = None"
| "duration_parts (Suc fuel) d (c # s) =
     (case duration_part (c # s) of
        None \<Rightarrow> None
      | Some (w, r) \<Rightarrow> if d + w > 2 ^ 63 then None else duration_parts fuel (d + w) r)"

definition ParseDuration :: "string \<Rightarrow> duration option" where
  "ParseDuration s0 =
     (let neg = (s0 \<noteq> [] \<and> hd s0 = CHR ''-'');
          s = (if s0 \<noteq> [] \<and> (hd s0 = CHR ''-'' \<or> hd s0 = CHR ''+'') then tl s0 else s0)
      in if s = ''0'' then Some 0
         else if s = [] then None
         else case duration_parts (3 + length s) 0 s of
           None \<Rightarrow> None
         | Some d \<Rightarrow> if neg then Some (- d) else if d > max_int64 then None else Some d)"

section \<open>Reading back what String writes\<close>

lemma is_decimal_of: "list_all is_decimal (digits_of n)"
proof (induction n rule: digits_of.induct)
  case (1 n)
  then show ?case
    by (subst digits_of.simps) (cases "n < 10"; simp add: is_decimal_def [abs_def] digit_val_char del: of_char_of)
qed

lemma span_digits:
  assumes "list_all is_decimal ds" and "r = [] \<or> \<not> is_decimal (hd r)"
  shows "takeWhile is_decimal (ds @ r) = ds" "dropWhile is_decimal (ds @ r) = r"
  using assms by (cases r; induction ds; simp)+

lemma leadingInt_Itoa:
  assumes "0 \<le> a" "a \<le> 2 ^ 63" and "r = [] \<or> \<not> is_decimal (hd r)"
  shows "leadingInt (Itoa a @ r) = Some (a, r)"
  using assms span_digits [OF is_decimal_of assms(3), of "nat a"]
  by (simp add: leadingInt_def Itoa_def digits_value_def parse_digits_of Let_def)

lemma parse_digits_all: "parse_digits a ds = Some n \<Longrightarrow> list_all is_decimal ds"
  by (induction ds arbitrary: a) (auto simp: is_decimal_def split: option.split_asm)

lemma digit_val_less: "digit_val c = Some d \<Longrightarrow> d < 10"
  by (auto simp: digit_val_def split: if_split_asm)

text \<open>A fraction of at most eighteen digits is read without overflow.\<close>

lemma fraction_digits_reads:
  assumes "parse_digits x ds = Some n" and "r = [] \<or> \<not> is_decimal (hd r)" and "(x + 1) * 10 ^ length ds \<le> 10 ^ 18"
  shows "fraction_digits False (int x) scale (ds @ r) = (int n, scale * 10 ^ length ds, r)"
  using assms
proof (induction ds arbitrary: x scale)
  case Nil
  then show ?case by (cases r) (auto simp: is_decimal_def)
next
  case (Cons c ds)
  then obtain d where d: "digit_val c = Some d" and n: "parse_digits (10 * x + d) ds = Some n"
    by (auto split: option.split_asm)
  have "10 * x + d + 1 \<le> (x + 1) * 10" using digit_val_less [OF d] by simp
  then have "(10 * x + d + 1) * 10 ^ length ds \<le> (x + 1) * 10 * 10 ^ length ds" by (rule mult_right_mono) simp
  also have "\<dots> \<le> 10 ^ 18" using Cons.prems(3) by (simp add: algebra_simps)
  finally have small: "(10 * x + d + 1) * 10 ^ length ds \<le> 10 ^ 18" .
  have "(10 * x + d + 1) * 1 \<le> (10 * x + d + 1) * 10 ^ length ds" by (rule mult_le_mono2) simp
  from order_trans [OF this small] have "10 * x + d + 1 \<le> 10 ^ 18" by (simp only: mult_1_right)
  then have "x < 10 ^ 17" "10 * x + d < 10 ^ 18" by simp_all
  then have "\<not> int x > max_int64 div 10" "\<not> int x * 10 + int d > 2 ^ 63"
    by (simp_all add: max_int64_def)
  then show ?case
    using Cons.IH [OF n Cons.prems(2) small, of "scale * 10"] d by (simp add: mult.commute)
qed

lemma length_digits_of: "n < 10 ^ p \<Longrightarrow> 0 < p \<Longrightarrow> length (digits_of n) \<le> p"
proof (induction n arbitrary: p rule: digits_of.induct)
  case (1 n)
  show ?case
  proof (cases "n < 10")
    case False
    obtain q where q: "p = Suc q" using 1(3) by (cases p) auto
    with 1(2) False have "0 < q" by (cases q) auto
    note q = q this
    then have "n div 10 < 10 ^ q" using 1(2) by (simp add: less_mult_imp_div_less mult.commute)
    from 1(1) [OF False this q(2)] False q(1) show ?thesis by (subst digits_of.simps) simp
  qed (use 1 in \<open>subst digits_of.simps, simp\<close>)
qed

lemma parse_digits_zeros: "parse_digits a (replicate k (CHR ''0'')) = Some (a * 10 ^ k)"
  by (induction k arbitrary: a) (simp_all add: digit_val_def mult.commute mult.left_commute)

lemma pad_reads:
  assumes "0 \<le> v" "v < 10 ^ p" "0 < p"
  shows "length (pad p v) = p" "parse_digits 0 (pad p v) = Some (nat v)"
proof -
  have "nat v < 10 ^ p" using assms by (simp add: nat_less_iff)
  then have "length (digits_of (nat v)) \<le> p" using length_digits_of assms(3) by simp
  then show "length (pad p v) = p" using assms(1) by (simp add: pad_def Itoa_def Let_def)
  show "parse_digits 0 (pad p v) = Some (nat v)"
    using assms(1) parse_digits_zeros [of 0] by (simp add: pad_def Itoa_def Let_def parse_digits_append parse_digits_of)
qed

lemma strip_zeros:
  obtains k where "ds = rev (dropWhile (\<lambda>c. c = CHR ''0'') (rev ds)) @ replicate k (CHR ''0'')"
proof -
  have "ds = rev (dropWhile (\<lambda>c. c = CHR ''0'') (rev ds)) @ rev (takeWhile (\<lambda>c. c = CHR ''0'') (rev ds))"
    by (metis rev_append rev_rev_ident takeWhile_dropWhile_id)
  moreover have "rev (takeWhile (\<lambda>c. c = CHR ''0'') (rev ds)) =
      replicate (length (takeWhile (\<lambda>c. c = CHR ''0'') (rev ds))) (CHR ''0'')"
    by (intro replicate_eqI) (auto dest: set_takeWhileD)
  ultimately show ?thesis using that by metis
qed

lemma is_decimal_units [simp]:
  "\<not> is_decimal (CHR ''.'')" "\<not> is_decimal (CHR ''n'')" "\<not> is_decimal (CHR ''m'')" "\<not> is_decimal (CHR ''s'')"
  "\<not> is_decimal (CHR ''h'')" "\<not> is_decimal (CHR 0xC2)" "\<not> is_decimal (CHR 0xB5)"
  by (simp_all add: is_decimal_def digit_val_def)

text \<open>What \<open>String\<close> writes for one unit of \<open>10 ^ p\<close> nanoseconds, and for a unit without a fraction.\<close>

definition unit_text :: "string \<Rightarrow> bool" where
  "unit_text u = (u \<noteq> [] \<and> (\<forall>c \<in> set u. c \<noteq> CHR ''.'' \<and> \<not> is_decimal c))"

lemma unit_span:
  assumes "unit_text u" "r = [] \<or> is_decimal (hd r)"
  shows "takeWhile (\<lambda>c. \<not> (c = CHR ''.'' \<or> is_decimal c)) (u @ r) = u"
  using assms by (cases r) (auto simp: unit_text_def takeWhile_append)

lemma Itoa_digit: "0 \<le> a \<Longrightarrow> Itoa a \<noteq> [] \<and> is_decimal (hd (Itoa a))"
  using is_decimal_of [of "nat a"] by (cases "digits_of (nat a)") (auto simp: Itoa_def)

lemma unit_head: "unit_text u \<Longrightarrow> u @ r \<noteq> [] \<and> hd (u @ r) \<noteq> CHR ''.'' \<and> \<not> is_decimal (hd (u @ r))"
  by (cases u) (auto simp: unit_text_def)

lemma part_whole:
  assumes "0 \<le> a" "duration_unit u = Some k" "0 < k" "a * k \<le> 2 ^ 63" "unit_text u" "r = [] \<or> is_decimal (hd r)"
  shows "duration_part (Itoa a @ u @ r) = Some (a * k, r)"
proof -
  have "a * k div k \<le> 2 ^ 63 div k" using assms(4,3) by (rule zdiv_mono1)
  then have a: "a \<le> 2 ^ 63 div k" using assms(3) by simp
  have "a * 1 \<le> a * k" using assms(1,3) by (intro mult_left_mono) auto
  then have "a \<le> 2 ^ 63" using assms(4) by linarith
  then have "leadingInt (Itoa a @ u @ r) = Some (a, u @ r)"
    using unit_head [OF assms(5), of r] assms(1) by (intro leadingInt_Itoa) auto
  then show ?thesis
    using a unit_head [OF assms(5), of r] Itoa_digit [OF assms(1)] assms unit_span [OF assms(5,6)]
    by (simp add: duration_part_def unit_text_def)
qed

lemma fraction_stripped:
  assumes "0 \<le> i" "i < 10 ^ p" "0 < p"
  defines "t \<equiv> rev (dropWhile (\<lambda>c. c = CHR ''0'') (rev (pad p i)))"
  obtains n z where "parse_digits 0 t = Some n" "int n * 10 ^ z = i" "length t + z = p"
proof -
  obtain z where z: "pad p i = t @ replicate z (CHR ''0'')" unfolding t_def using strip_zeros by blast
  note padded = pad_reads [OF assms(1-3)]
  from padded(2) z obtain n where n: "parse_digits 0 t = Some n" "n * 10 ^ z = nat i"
    by (auto simp: parse_digits_append parse_digits_zeros split: option.split_asm)
  from n(2) assms(1) have "int n * 10 ^ z = i" by (metis int_nat_eq of_nat_mult of_nat_numeral of_nat_power)
  with n(1) padded(1) z that show ?thesis by simp
qed

lemma part_point:
  assumes "0 \<le> a" "duration_unit u = Some k" "0 < k" "a * k \<le> 2 ^ 63" "unit_text u" "r = [] \<or> is_decimal (hd r)"
    and "t \<noteq> []" "parse_digits 0 t = Some n" "length t \<le> 18" "a * k + int n * k div 10 ^ length t \<le> 2 ^ 63"
  shows "duration_part (Itoa a @ CHR ''.'' # t @ u @ r) = Some (a * k + int n * k div 10 ^ length t, r)"
proof -
  have "a * k div k \<le> 2 ^ 63 div k" using assms(4,3) by (rule zdiv_mono1)
  then have a: "a \<le> 2 ^ 63 div k" using assms(3) by simp
  have "a * 1 \<le> a * k" using assms(1,3) by (intro mult_left_mono) auto
  then have "a \<le> 2 ^ 63" using assms(4) by linarith
  then have lead: "leadingInt (Itoa a @ CHR ''.'' # t @ u @ r) = Some (a, CHR ''.'' # t @ u @ r)"
    using assms(1) by (intro leadingInt_Itoa) auto
  have "(0 + 1) * 10 ^ length t \<le> (10 :: nat) ^ 18"
    using power_increasing [OF assms(9), of "10 :: nat"] by simp
  then have frac: "fraction_digits False 0 1 (t @ u @ r) = (int n, 10 ^ length t, u @ r)"
    using fraction_digits_reads [OF assms(8), of "u @ r" 1] unit_head [OF assms(5), of r] by simp
  show ?thesis
    using a Itoa_digit [OF assms(1)] assms unit_span [OF assms(5,6)] lead frac
    by (simp add: duration_part_def unit_text_def Let_def)
qed

lemma part_fraction:
  assumes "0 \<le> a" "duration_unit u = Some k" "k = 10 ^ p" "0 < p" "p \<le> 18" "a * k + v mod k \<le> 2 ^ 63"
    and "unit_text u" "r = [] \<or> is_decimal (hd r)"
  shows "duration_part (Itoa a @ duration_fraction p v @ u @ r) = Some (a * k + v mod k, r)"
proof -
  define t where "t = rev (dropWhile (\<lambda>c. c = CHR ''0'') (rev (pad p (v mod k))))"
  have pos: "0 < k" and i: "0 \<le> v mod k" "v mod k < 10 ^ p" using assms(3) by simp_all
  obtain n z where n: "parse_digits 0 t = Some n" "int n * 10 ^ z = v mod k" "length t + z = p"
    unfolding t_def by (rule fraction_stripped [OF i assms(4)])
  have written: "duration_fraction p v = (if t = [] then [] else CHR ''.'' # t)"
    by (simp only: duration_fraction_def Let_def t_def assms(3))
  have whole: "a * k \<le> 2 ^ 63" using assms(6) i(1) by linarith
  have "p = length t + z" using n(3) by simp
  then have "int n * k = int n * 10 ^ z * 10 ^ length t" using assms(3) by (simp add: power_add)
  then have frac: "int n * k div 10 ^ length t = v mod k" unfolding n(2) by simp
  show ?thesis
  proof (cases "t = []")
    case True
    then have "v mod k = 0" using n(1) frac by simp
    then show ?thesis using True part_whole [OF assms(1,2) pos whole assms(7,8)] by (simp add: written)
  next
    case False
    then show ?thesis
      using part_point [OF assms(1,2) pos whole assms(7,8) False n(1)] n(3) assms(5,6) by (simp add: written frac)
  qed
qed

lemma duration_units:
  "duration_unit ''ns'' = Some 1" "unit_text ''ns''"
  "duration_unit (micro_sign @ ''s'') = Some 1000" "unit_text (micro_sign @ ''s'')"
  "duration_unit ''ms'' = Some 1000000" "unit_text ''ms''"
  "duration_unit ''s'' = Some Second" "unit_text ''s''"
  "duration_unit ''m'' = Some Minute" "unit_text ''m''"
  "duration_unit ''h'' = Some Hour" "unit_text ''h''"
  by (simp_all add: duration_unit_def unit_text_def micro_sign_def)

lemma parts_step:
  "duration_part s = Some (w, r) \<Longrightarrow> s \<noteq> [] \<Longrightarrow> d + w \<le> 2 ^ 63 \<Longrightarrow>
   duration_parts (Suc fuel) d s = duration_parts fuel (d + w) r"
  by (cases s) auto

lemma last_part:
  "duration_part s = Some (u, []) \<Longrightarrow> s \<noteq> [] \<Longrightarrow> d + u \<le> 2 ^ 63 \<Longrightarrow> duration_parts (Suc fuel) d s = Some (d + u)"
  by (simp add: parts_step)

lemma part_pieces:
  assumes "0 \<le> u" "u \<le> 2 ^ 63"
  defines "secs \<equiv> u div Second"
  defines "mins \<equiv> secs div 60"
  defines "hours \<equiv> mins div 60"
  shows "u = secs * Second + u mod Second" "secs = 60 * mins + secs mod 60" "mins = 60 * hours + mins mod 60"
    and "0 \<le> secs" "0 \<le> mins" "0 \<le> hours"
  using assms(1) by (simp_all add: secs_def mins_def hours_def Second_def)

lemma tail_reads:
  assumes "0 \<le> u" "u \<le> 2 ^ 63"
  shows "duration_part (Itoa (u div Second mod 60) @ duration_fraction 9 u @ ''s'') =
    Some (u div Second mod 60 * Second + u mod Second, [])"
proof -
  have "u div Second mod 60 * Second + u mod Second \<le> 60 * Second" by (simp add: Second_def)
  then have "u div Second mod 60 * Second + u mod Second \<le> 2 ^ 63" by (simp add: Second_def)
  then show ?thesis
    using part_fraction [of "u div Second mod 60" "''s''" Second 9 u "[]"] duration_units by (simp add: Second_def)
qed

lemma Itoa_nonempty: "Itoa a \<noteq> []"
  by (simp add: Itoa_def)

text \<open>Less than a second: one number with one unit.\<close>

lemma short_reads:
  assumes "0 \<le> u" "u < Second"
  shows "duration_parts (Suc f) 0 (duration_text u) = Some u"
proof -
  have le: "u \<le> 2 ^ 63" using assms(2) by (simp add: Second_def)
  consider "u = 0" | "0 < u" "u < 1000" | "1000 \<le> u" "u < 1000000" | "1000000 \<le> u" "u < Second"
    using assms by linarith
  then show ?thesis
  proof cases
    case 1
    then show ?thesis using part_whole [of 0 "''s''" Second "[]"] duration_units
      by (simp add: duration_text_def Itoa_def digits_of.simps [of 0] char_of_def bit_0 Second_def)
  next
    case 2
    then have "duration_text u = Itoa u @ ''ns''" by (simp add: duration_text_def)
    moreover have "duration_part (Itoa u @ ''ns'' @ []) = Some (u * 1, [])"
      using assms le duration_units by (intro part_whole) auto
    ultimately show ?thesis using last_part [of "Itoa u @ ''ns''" u] le Itoa_nonempty by simp
  next
    case 3
    then have "duration_text u = Itoa (u div 1000) @ duration_fraction 3 u @ micro_sign @ ''s''"
      by (simp add: duration_text_def)
    moreover have "duration_part (Itoa (u div 1000) @ duration_fraction 3 u @ (micro_sign @ ''s'') @ []) =
        Some (u div 1000 * 1000 + u mod 1000, [])"
      using assms(1) le duration_units by (intro part_fraction) auto
    ultimately show ?thesis using last_part le Itoa_nonempty by simp
  next
    case 4
    then have "duration_text u = Itoa (u div 1000000) @ duration_fraction 6 u @ ''ms''"
      by (simp add: duration_text_def)
    moreover have "duration_part (Itoa (u div 1000000) @ duration_fraction 6 u @ ''ms'' @ []) =
        Some (u div 1000000 * 1000000 + u mod 1000000, [])"
      using assms(1) le duration_units by (intro part_fraction) auto
    ultimately show ?thesis using last_part le Itoa_nonempty by simp
  qed
qed

lemma text_reads:
  assumes "0 \<le> u" "u \<le> 2 ^ 63" and "3 \<le> fuel"
  shows "duration_parts fuel 0 (duration_text u) = Some u"
proof -
  define secs mins hours where d: "secs = u div Second" "mins = secs div 60" "hours = mins div 60"
  obtain f where fuel: "fuel = Suc (Suc (Suc f))" using assms(3) by (metis Suc_le_D Suc_le_mono numeral_3_eq_3)
  note pieces = part_pieces [OF assms(1,2), folded d(1), folded d(2), folded d(3)]
  note tail = tail_reads [OF assms(1,2), folded d(1), folded d(2), folded d(3)]
  note nonempty = Itoa_nonempty
  have digit: "is_decimal (hd (Itoa a))" if "0 \<le> a" for a using Itoa_digit [OF that] by simp
  have rest: "0 \<le> secs mod 60 * Second" "0 \<le> u mod Second" "0 \<le> mins mod 60" by (simp_all add: Second_def)
  consider "u < Second" | "Second \<le> u" "mins = 0" | "Second \<le> u" "mins \<noteq> 0" "hours = 0" | "Second \<le> u" "mins \<noteq> 0" "hours \<noteq> 0"
    by linarith
  then show ?thesis
  proof cases
    case 1
    then show ?thesis using short_reads [OF assms(1)] by (simp add: fuel)
  next
    case 2
    then have written: "duration_text u = Itoa (secs mod 60) @ duration_fraction 9 u @ ''s''"
      by (simp add: duration_text_def Let_def Second_def d)
    have "secs mod 60 = secs" using pieces(2) 2(2) by linarith
    then have "secs mod 60 * Second + u mod Second = u" using pieces(1) by metis
    with tail show ?thesis using last_part assms(2) nonempty fuel unfolding written by simp
  next
    case 3
    let ?r = "Itoa (secs mod 60) @ duration_fraction 9 u @ ''s''"
    from 3 have written: "duration_text u = Itoa mins @ ''m'' @ ?r"
      by (simp add: duration_text_def Let_def Second_def d)
    have sum: "mins * Minute + (secs mod 60 * Second + u mod Second) = u"
      using pieces(1,2) by (simp add: Minute_def Second_def)
    then have small: "mins * Minute \<le> 2 ^ 63" using rest assms(2) by linarith
    have "duration_part (Itoa mins @ ''m'' @ ?r) = Some (mins * Minute, ?r)"
      using pieces(5) duration_units(9) _ small duration_units(10)
    proof (rule part_whole)
      show "0 < Minute" by (simp add: Minute_def Second_def)
      show "?r = [] \<or> is_decimal (hd ?r)" using nonempty digit [of "secs mod 60"] by simp
    qed
    then have "duration_parts fuel 0 (Itoa mins @ ''m'' @ ?r) = duration_parts (Suc (Suc f)) (mins * Minute) ?r"
      using small nonempty by (simp add: fuel parts_step)
    also have "\<dots> = Some u" using last_part [OF tail] nonempty sum assms(2) by simp
    finally show ?thesis unfolding written .
  next
    case 4
    let ?r = "Itoa (secs mod 60) @ duration_fraction 9 u @ ''s''"
    let ?q = "Itoa (mins mod 60) @ ''m'' @ ?r"
    from 4 have written: "duration_text u = Itoa hours @ ''h'' @ ?q"
      by (simp add: duration_text_def Let_def Second_def d)
    have sum: "hours * Hour + (mins mod 60 * Minute + (secs mod 60 * Second + u mod Second)) = u"
      using pieces(1-3) by (simp add: Hour_def Minute_def Second_def)
    have pos: "0 < Minute" "0 < Hour" "0 \<le> mins mod 60" by (simp_all add: Hour_def Minute_def Second_def)
    have "0 \<le> mins mod 60 * Minute" using pos by simp
    then have big: "hours * Hour \<le> 2 ^ 63" "mins mod 60 * Minute \<le> 2 ^ 63"
      using sum rest assms(2) pieces(6) pos by (simp_all add: Hour_def Minute_def Second_def)
    have heads: "?q = [] \<or> is_decimal (hd ?q)" "?r = [] \<or> is_decimal (hd ?r)"
      using nonempty digit [of "mins mod 60"] digit [of "secs mod 60"] by simp_all
    have "duration_part (Itoa hours @ ''h'' @ ?q) = Some (hours * Hour, ?q)"
      by (rule part_whole [OF pieces(6) duration_units(11) pos(2) big(1) duration_units(12) heads(1)])
    moreover have "duration_part ?q = Some (mins mod 60 * Minute, ?r)"
      by (rule part_whole [OF pos(3) duration_units(9) pos(1) big(2) duration_units(10) heads(2)])
    moreover have "0 \<le> mins mod 60 * Minute" by (simp add: Minute_def Second_def)
    then have "hours * Hour \<le> 2 ^ 63" "hours * Hour + mins mod 60 * Minute \<le> 2 ^ 63"
      using sum rest assms(2) by linarith+
    moreover have "hours * Hour + mins mod 60 * Minute + (secs mod 60 * Second + u mod Second) = u"
      using sum by linarith
    ultimately have "duration_parts fuel 0 (Itoa hours @ ''h'' @ ?q) = Some u"
      using last_part [OF tail] nonempty assms(2) by (simp add: fuel parts_step)
    then show ?thesis unfolding written .
  qed
qed

text \<open>What the loop accepts starts like a number and is not the special case \<open>"0"\<close>.\<close>

lemma parts_head:
  assumes "duration_parts fuel d s = Some u" "s \<noteq> []"
  shows "hd s = CHR ''.'' \<or> is_decimal (hd s)" "s \<noteq> ''0''"
proof -
  obtain w r where part: "duration_part s = Some (w, r)"
    using assms by (cases s; cases fuel) (auto split: option.split_asm)
  then show "hd s = CHR ''.'' \<or> is_decimal (hd s)" by (auto simp: duration_part_def split: if_split_asm)
  have "leadingInt ''0'' = Some (0, [])"
    by (simp add: leadingInt_def is_decimal_def digits_value_def digit_val_def)
  then have "duration_part ''0'' = None" by (simp add: duration_part_def Let_def)
  with part show "s \<noteq> ''0''" by auto
qed

lemma duration_text_shape:
  assumes "0 \<le> u" "u \<le> 2 ^ 63"
  shows "duration_text u \<noteq> []" "duration_text u \<noteq> ''0''"
    and "hd (duration_text u) \<noteq> CHR ''-'' \<and> hd (duration_text u) \<noteq> CHR ''+''"
    and "hd (duration_text u) = CHR ''.'' \<or> is_decimal (hd (duration_text u))"
proof -
  note reads = text_reads [OF assms order_refl]
  show ne: "duration_text u \<noteq> []"
    using reads by (cases "u = 0") (auto simp: duration_text_def)
  show "duration_text u \<noteq> ''0''" using parts_head(2) [OF reads ne] .
  show "hd (duration_text u) \<noteq> CHR ''-'' \<and> hd (duration_text u) \<noteq> CHR ''+''"
    using parts_head(1) [OF reads ne] by (auto simp: is_decimal_def digit_val_def)
  show "hd (duration_text u) = CHR ''.'' \<or> is_decimal (hd (duration_text u))" by (rule parts_head(1) [OF reads ne])
qed

theorem ParseDuration_String:
  assumes "min_int64 \<le> d" "d \<le> max_int64"
  shows "ParseDuration (duration_String d) = Some d"
proof (cases "d < 0")
  case True
  then have u: "0 \<le> - d" "- d \<le> 2 ^ 63" using assms by (simp_all add: min_int64_def)
  then show ?thesis
    using True duration_text_shape [OF u] text_reads [OF u, of "3 + length (duration_text (- d))"]
    by (simp add: ParseDuration_def duration_String_def Let_def)
next
  case False
  then have u: "0 \<le> d" "d \<le> 2 ^ 63" using assms by (simp_all add: max_int64_def)
  then show ?thesis
    using False duration_text_shape [OF u] text_reads [OF u, of "3 + length (duration_text d)"] assms(2)
    by (simp add: ParseDuration_def duration_String_def Let_def)
qed

text \<open>A whole number of minutes in the short form.\<close>

theorem ParseDuration_minutes:
  assumes "0 \<le> m" "m * Minute \<le> max_int64"
  shows "ParseDuration (Itoa m @ ''m'') = Some (m * Minute)"
proof -
  have "m * Minute \<le> 2 ^ 63" using assms(2) by (simp add: max_int64_def)
  then have "duration_part (Itoa m @ ''m'' @ []) = Some (m * Minute, [])"
    using assms(1) duration_units by (intro part_whole) (auto simp: Minute_def Second_def)
  then have run: "duration_parts (Suc f) 0 (Itoa m @ ''m'') = Some (m * Minute)" for f
    using last_part [of "Itoa m @ ''m''" "m * Minute" 0] \<open>m * Minute \<le> 2 ^ 63\<close> by simp
  note head = parts_head [OF run]
  have "hd (Itoa m @ ''m'') \<noteq> CHR ''-'' \<and> hd (Itoa m @ ''m'') \<noteq> CHR ''+''"
    using head(1) by (auto simp: is_decimal_def digit_val_def)
  then show ?thesis
    using head(2) run [of "2 + length (Itoa m @ ''m'')"] assms(2)
    by (simp add: ParseDuration_def Let_def numeral_eq_Suc)
qed

end
