(* ===== verification/Config_Decode.thy ===== *)
theory Config_Decode
  imports Config Go_Duration Go_Json_Props "HOL-Library.Monad_Syntax"
begin

text \<open>
  The two decoders of \<open>internal/config/config.go\<close> that are the program's own code:
  \<open>Duration.UnmarshalYAML\<close>, which reads a duration written as text or as a number of seconds, and
  \<open>decodeJSONConfig\<close>, the branch of \<open>Parse\<close> for a document without a colon and without a line break.
\<close>

section \<open>Numbers of seconds\<close>

text \<open>
  \<open>fmt.Sscanf\<close> with \<open>%f\<close> reads the longest text at the front that looks like a number and ignores
  what follows. Decimal numbers are defined here. \<open>exotic\<close> stands for the library on the other
  spellings (NaN, infinities, hexadecimal digits, underscores, a binary exponent), and \<open>overflow\<close> for the
  conversion to \<open>int64\<close> of a float outside its range, which the language leaves to the machine.
\<close>

definition digit_prefix :: "string \<Rightarrow> string" where "digit_prefix = takeWhile is_decimal"

definition digit_rest :: "string \<Rightarrow> string" where "digit_rest = dropWhile is_decimal"

definition scan_sign :: "string \<Rightarrow> bool \<times> string" where
  "scan_sign s = (case s of [] \<Rightarrow> (False, [])
     | c # r \<Rightarrow> if c = CHR ''-'' then (True, r) else if c = CHR ''+'' then (False, r) else (False, s))"

definition exotic_next :: "string \<Rightarrow> bool" where
  "exotic_next s = (s \<noteq> [] \<and> hd s \<in> {CHR ''_'', CHR ''p'', CHR ''P''})"

definition exotic_start :: "string \<Rightarrow> bool" where
  "exotic_start s = (s \<noteq> [] \<and> (hd s \<in> {CHR ''n'', CHR ''N'', CHR ''i'', CHR ''I''} \<or>
     hd s = CHR ''0'' \<and> tl s \<noteq> [] \<and> hd (tl s) \<in> {CHR ''x'', CHR ''X'', CHR ''b'', CHR ''B'', CHR ''o'', CHR ''O''}))"

text \<open>\<open>strconv.ParseFloat\<close> on a decimal: \<open>None\<close> without a digit, and beyond the largest float.\<close>

definition decimal_value :: "string \<Rightarrow> string \<Rightarrow> int \<Rightarrow> real option" where
  "decimal_value whole decimals e =
     (if whole @ decimals = [] then None
      else let x = real (digits_value (whole @ decimals)) * power_int 10 (e - int (length decimals))
        in if x \<ge> 2 ^ 1024 - 2 ^ 970 then None else Some x)"

definition scan_decimal :: "string \<Rightarrow> real option option" where
  "scan_decimal s =
     (let whole = digit_prefix s; s1 = digit_rest s;
          point = (s1 \<noteq> [] \<and> hd s1 = CHR ''.'');
          decimals = (if point then digit_prefix (tl s1) else []);
          s2 = (if point then digit_rest (tl s1) else s1)
      in if exotic_start s \<or> exotic_next s1 \<or> exotic_next s2 then None
         else if s2 \<noteq> [] \<and> (hd s2 = CHR ''e'' \<or> hd s2 = CHR ''E'') then
           (let (neg, s3) = scan_sign (tl s2); e = digit_prefix s3 in
            if exotic_next (digit_rest s3) then None
            else if e = [] then Some None
            else Some (decimal_value whole decimals (if neg then - int (digits_value e) else int (digits_value e))))
         else Some (decimal_value whole decimals 0))"

definition Sscanf_float :: "(string \<Rightarrow> real option) \<Rightarrow> string \<Rightarrow> real option" where
  "Sscanf_float exotic s =
     (let (neg, body) = scan_sign s in
      case scan_decimal body of
        None \<Rightarrow> exotic s
      | Some v \<Rightarrow> map_option (\<lambda>x. if neg then - x else x) v)"

text \<open>\<open>time.Duration(seconds * float64(time.Second))\<close>: the fraction of a nanosecond is cut off.\<close>

definition seconds_duration :: "(real \<Rightarrow> duration) \<Rightarrow> real \<Rightarrow> duration" where
  "seconds_duration overflow x =
     (let ns = x * real_of_int Second in
      if - (2 ^ 63) \<le> ns \<and> ns < 2 ^ 63 then (if ns < 0 then \<lceil>ns\<rceil> else \<lfloor>ns\<rfloor>) else overflow ns)"

section \<open>Duration.UnmarshalYAML\<close>

text \<open>The scalar's text, \<open>None\<close> for a nil node. The method never fails.\<close>

definition UnmarshalYAML ::
  "(string \<Rightarrow> real option) \<Rightarrow> (real \<Rightarrow> duration) \<Rightarrow> string option \<Rightarrow> Duration \<Rightarrow> Duration" where
  "UnmarshalYAML exotic overflow value d =
     (case value of
        None \<Rightarrow> d
      | Some v \<Rightarrow>
          let raw = TrimSpace v in
          if raw = [] \<or> raw = ''0'' then d
          else case ParseDuration raw of
            Some parsed \<Rightarrow> \<lparr>dur_Value = parsed, dur_Set = True\<rparr>
          | None \<Rightarrow> (case Sscanf_float exotic raw of
              Some seconds \<Rightarrow> \<lparr>dur_Value = seconds_duration overflow seconds, dur_Set = True\<rparr>
            | None \<Rightarrow> d))"

section \<open>decodeJSONConfig\<close>

text \<open>
  The struct has YAML tags only, so its JSON members carry the field names of the source. \<open>null\<close> makes a list
  empty and leaves every other field alone.
\<close>

definition json_list :: "string \<Rightarrow> (string \<times> json) list \<Rightarrow> string list \<Rightarrow> string list option" where
  "json_list name ms xs = map_option (\<lambda>r. case r of None \<Rightarrow> [] | Some ys \<Rightarrow> ys) (json_pointer dec_strings name ms (Some xs))"

definition json_duration :: "string \<Rightarrow> (string \<times> json) list \<Rightarrow> Duration \<Rightarrow> Duration option" where
  "json_duration name ms d =
     json_field (\<lambda>j. case j of
         JObj fs \<Rightarrow> do {
           v \<leftarrow> json_field dec_int ''Value'' fs (dur_Value d);
           s \<leftarrow> json_field dec_bool ''Set'' fs (dur_Set d);
           Some \<lparr>dur_Value = v, dur_Set = s\<rparr> }
       | _ \<Rightarrow> None) name ms d"

definition json_config :: "(string \<times> json) list \<Rightarrow> Config \<Rightarrow> Config option" where
  "json_config ms c = do {
     enabled \<leftarrow> json_field dec_bool ''Enabled'' ms (cfg_Enabled c);
     priority \<leftarrow> json_field dec_int ''Priority'' ms (cfg_Priority c);
     hosts \<leftarrow> json_list ''Hosts'' ms (cfg_Hosts c);
     timezone \<leftarrow> json_field dec_string ''Timezone'' ms (cfg_Timezone c);
     planEnabled \<leftarrow> json_field dec_bool ''PlanEnabled'' ms (cfg_PlanEnabled c);
     apiKey \<leftarrow> json_field dec_string ''PlanAPIKey'' ms (cfg_PlanAPIKey c);
     baseURL \<leftarrow> json_field dec_string ''PlanBaseURL'' ms (cfg_PlanBaseURL c);
     configPath \<leftarrow> json_field dec_string ''PlanConfigPath'' ms (cfg_PlanConfigPath c);
     refresh \<leftarrow> json_duration ''PlanRefresh'' ms (cfg_PlanRefresh c);
     daily \<leftarrow> json_field dec_bool ''PlanDailyEnabled'' ms (cfg_PlanDailyEnabled c);
     usage \<leftarrow> json_field dec_bool ''PlanUsageEnabled'' ms (cfg_PlanUsageEnabled c);
     usageRefresh \<leftarrow> json_duration ''PlanUsageRefresh'' ms (cfg_PlanUsageRefresh c);
     observe \<leftarrow> json_field dec_bool ''ChannelObserveEnabled'' ms (cfg_ChannelObserveEnabled c);
     storeDir \<leftarrow> json_field dec_string ''ChannelStoreDir'' ms (cfg_ChannelStoreDir c);
     retention \<leftarrow> json_field dec_int ''ChannelRetentionDays'' ms (cfg_ChannelRetentionDays c);
     maxSize \<leftarrow> json_field dec_int ''ChannelMaxSizeMB'' ms (cfg_ChannelMaxSizeMB c);
     baseline \<leftarrow> json_field dec_string ''ChannelBaselineProvider'' ms (cfg_ChannelBaselineProvider c);
     logEnabled \<leftarrow> json_field dec_bool ''ChannelLogEnabled'' ms (cfg_ChannelLogEnabled c);
     logDir \<leftarrow> json_field dec_string ''ChannelLogDir'' ms (cfg_ChannelLogDir c);
     deleteAfter \<leftarrow> json_field dec_bool ''ChannelLogDeleteAfterRead'' ms (cfg_ChannelLogDeleteAfterRead c);
     minAge \<leftarrow> json_field dec_int ''ChannelLogMinAgeSeconds'' ms (cfg_ChannelLogMinAgeSeconds c);
     guardEnabled \<leftarrow> json_field dec_bool ''AccountGuardEnabled'' ms (cfg_AccountGuardEnabled c);
     dryRun \<leftarrow> json_field dec_bool ''AccountGuardDryRun'' ms (cfg_AccountGuardDryRun c);
     threshold \<leftarrow> json_field dec_int ''AccountGuardThreshold'' ms (cfg_AccountGuardThreshold c);
     minEnabled \<leftarrow> json_field dec_int ''AccountGuardMinEnabled'' ms (cfg_AccountGuardMinEnabled c);
     scopeNames \<leftarrow> json_list ''AccountGuardScopeNames'' ms (cfg_AccountGuardScopeNames c);
     reenable \<leftarrow> json_field dec_int ''AccountGuardReenableMinutes'' ms (cfg_AccountGuardReenableMinutes c);
     maxDisable \<leftarrow> json_field dec_int ''AccountGuardMaxDisableMinutes'' ms (cfg_AccountGuardMaxDisableMinutes c);
     Some \<lparr>cfg_Enabled = enabled, cfg_Priority = priority, cfg_Hosts = hosts, cfg_Timezone = timezone,
       cfg_PlanEnabled = planEnabled, cfg_PlanAPIKey = apiKey, cfg_PlanBaseURL = baseURL,
       cfg_PlanConfigPath = configPath, cfg_PlanRefresh = refresh, cfg_PlanDailyEnabled = daily,
       cfg_PlanUsageEnabled = usage, cfg_PlanUsageRefresh = usageRefresh,
       cfg_ChannelObserveEnabled = observe, cfg_ChannelStoreDir = storeDir, cfg_ChannelRetentionDays = retention,
       cfg_ChannelMaxSizeMB = maxSize, cfg_ChannelBaselineProvider = baseline, cfg_ChannelLogEnabled = logEnabled,
       cfg_ChannelLogDir = logDir, cfg_ChannelLogDeleteAfterRead = deleteAfter, cfg_ChannelLogMinAgeSeconds = minAge,
       cfg_AccountGuardEnabled = guardEnabled, cfg_AccountGuardDryRun = dryRun,
       cfg_AccountGuardThreshold = threshold, cfg_AccountGuardMinEnabled = minEnabled,
       cfg_AccountGuardScopeNames = scopeNames, cfg_AccountGuardReenableMinutes = reenable,
       cfg_AccountGuardMaxDisableMinutes = maxDisable\<rparr> }"

text \<open>The probe for \<open>hosts\<close> comes first; its list, when there is one, replaces the default before the rest is read.\<close>

definition json_hosts_probe :: "string \<Rightarrow> string list option" where
  "json_hosts_probe raw =
     (case parse_json raw of
        Some (JObj ms) \<Rightarrow> (case json_pointer dec_strings ''hosts'' ms None of Some hosts \<Rightarrow> hosts | None \<Rightarrow> None)
      | _ \<Rightarrow> None)"

definition json_unmarshal :: "string \<Rightarrow> Config \<Rightarrow> Config option" where
  "json_unmarshal raw cfg =
     (case parse_json raw of
        Some (JObj ms) \<Rightarrow> json_config ms cfg
      | Some JNull \<Rightarrow> Some cfg
      | _ \<Rightarrow> None)"

definition decodeJSONConfig :: "string \<Rightarrow> Config \<Rightarrow> Config option" where
  "decodeJSONConfig raw cfg =
     json_unmarshal raw (case json_hosts_probe raw of Some hosts \<Rightarrow> cfg\<lparr>cfg_Hosts := hosts\<rparr> | None \<Rightarrow> cfg)"

text \<open>\<open>Parse\<close> with this branch in place; the YAML decoder is still a parameter.\<close>

definition ParseBlock ::
  "(string \<Rightarrow> string list option) \<Rightarrow> (string \<Rightarrow> Config \<Rightarrow> Config option) \<Rightarrow> string \<Rightarrow> Config option" where
  "ParseBlock yamlProbe yamlDecode =
     Parse (\<lambda>yaml raw. if yaml then yamlProbe raw else json_hosts_probe raw)
       (\<lambda>yaml raw cfg. if yaml then yamlDecode raw cfg else json_unmarshal raw cfg)"

end
