(* ===== verification/Config_Decode_Props.thy ===== *)
theory Config_Decode_Props
  imports Config_Decode Guard_Runner Plan_Poller
begin

text \<open>
  What the decoders of the configuration promise: a refresh interval the plugin wrote into the block
  itself reads back as the same interval, a number with a misspelt unit is a number of seconds, and a block
  without a colon and a line break is the default configuration or an error.
\<close>

section \<open>Durations in the block\<close>

lemma space_tail_byte: "space2 b a \<Longrightarrow> 127 < byte_of a" "space3 c b a \<Longrightarrow> 127 < byte_of a"
  unfolding space2_def space3_def by (elim disjE conjE; simp; fail)+

lemma tail_space_end:
  assumes "32 < byte_of a" "byte_of a < 127"
  shows "tail_space (a # r) = 0"
proof -
  have "\<not> space2 b a" "\<not> space3 c b a" for b c
    using assms space_tail_byte(1) [of b a] space_tail_byte(2) [of c b a] by auto
  then show ?thesis
    using visible_no_space(1) [OF assms] by (cases "a # r" rule: tail_space.cases) simp_all
qed

lemma TrimSpace_ends:
  assumes "s \<noteq> []" "32 < byte_of (hd s)" "byte_of (hd s) < 127" "32 < byte_of (last s)" "byte_of (last s) < 127"
  shows "TrimSpace s = s"
proof -
  have lead: "lead_space s = 0"
    using assms(1-3) by (cases s rule: lead_space.cases) (simp_all add: visible_no_space)
  have "rev s = last s # tl (rev s)" using assms(1) by (metis hd_rev list.collapse rev_is_Nil_conv)
  then have "tail_space (rev s) = 0" using tail_space_end [OF assms(4,5)] by metis
  with lead show ?thesis by (simp add: TrimSpace_def TrimLeftSpace_def TrimRightSpace_def strip_fixed)
qed

lemma duration_text_last: "duration_text u \<noteq> [] \<and> last (duration_text u) = CHR ''s''"
  by (simp add: duration_text_def Let_def)

lemma literal_reads:
  assumes "0 < v" "v \<le> max_int64"
  shows "ParseDuration (durationLiteral v) = Some v"
proof (cases "v mod Minute = 0")
  case True
  then have v: "v div Minute * Minute = v" by (simp add: mod_eq_0_iff_dvd)
  moreover have "0 \<le> v div Minute" using assms(1) by (simp add: Minute_def Second_def)
  ultimately show ?thesis
    using True assms ParseDuration_minutes [of "v div Minute"] by (simp add: durationLiteral_def)
next
  case False
  then show ?thesis
    using assms ParseDuration_String [of v] by (simp add: durationLiteral_def min_int64_def)
qed

lemma literal_trimmed:
  assumes "0 < v" "v \<le> max_int64"
  shows "TrimSpace (durationLiteral v) = durationLiteral v" "durationLiteral v \<noteq> []" "durationLiteral v \<noteq> ''0''"
proof -
  have ends: "durationLiteral v \<noteq> []" "last (durationLiteral v) \<in> {CHR ''m'', CHR ''s''}"
    using assms(1) duration_text_last [of v] by (auto simp: durationLiteral_def duration_String_def)
  then show "durationLiteral v \<noteq> []" by simp
  have "ParseDuration ''0'' = Some 0" by (simp add: ParseDuration_def)
  then show "durationLiteral v \<noteq> ''0''" using literal_reads [OF assms] assms(1) by auto
  have "hd (durationLiteral v) = CHR ''.'' \<or> is_decimal (hd (durationLiteral v))"
    using assms duration_text_shape(4) [of v] Itoa_digit [of "v div Minute"]
    by (simp add: durationLiteral_def duration_String_def max_int64_def Minute_def Second_def)
  then have "32 < byte_of (hd (durationLiteral v)) \<and> byte_of (hd (durationLiteral v)) < 127"
    by (auto simp: is_decimal_def digit_val_def split: if_split_asm)
  then show "TrimSpace (durationLiteral v) = durationLiteral v"
    using ends by (intro TrimSpace_ends) auto
qed

text \<open>C36: The refresh interval the plugin writes into its own configuration block is read back as the same
  interval: the spelling of the seeded default, decoded by the program's own duration decoder, gives exactly the
  interval in force, whatever was configured before, and from a field of any earlier value.\<close>

theorem seeded_refresh_reads_back:
  fixes c :: Config
  assumes "dur_Value (cfg_PlanRefresh c) \<le> max_int64"
  defines "v \<equiv> Or (cfg_PlanRefresh c) DefaultPlanRefresh"
  shows "UnmarshalYAML exotic overflow (Some (durationLiteral v)) d = \<lparr>dur_Value = v, dur_Set = True\<rparr>"
proof -
  have "0 < v" "v \<le> max_int64"
    using assms(1) by (auto simp: v_def Or_def DefaultPlanRefresh_def max_int64_def Minute_def Second_def)
  then show ?thesis using literal_trimmed [of v] literal_reads [of v] by (simp add: UnmarshalYAML_def Let_def)
qed

lemma seeded_refresh_reads_back_witness:
  "UnmarshalYAML (\<lambda>_. None) (\<lambda>_. 0) (Some (durationLiteral (Or (cfg_PlanRefresh Default) DefaultPlanRefresh)))
     \<lparr>dur_Value = 0, dur_Set = False\<rparr> = \<lparr>dur_Value = DefaultPlanRefresh, dur_Set = True\<rparr>"
proof -
  have le: "dur_Value (cfg_PlanRefresh Default) \<le> max_int64"
    by (simp add: Default_def DefaultPlanRefresh_def max_int64_def Minute_def Second_def)
  have "Or (cfg_PlanRefresh Default) DefaultPlanRefresh = DefaultPlanRefresh"
    by (simp add: Default_def Or_def)
  with seeded_refresh_reads_back [OF le, of "\<lambda>_. None" "\<lambda>_. 0" "\<lparr>dur_Value = 0, dur_Set = False\<rparr>"]
  show ?thesis by simp
qed

lemma digits_of_leading:
  assumes "0 < n"
  shows "hd (digits_of n) \<noteq> CHR ''0''"
proof (cases "10 \<le> n")
  case False
  then have "digits_of n = [char_of (48 + n)]" by (subst digits_of.simps) simp
  moreover have "digit_val (char_of (48 + n)) = Some n" "digit_val (CHR ''0'') = Some 0"
    using False digit_val_char [of n] by (simp_all add: digit_val_def)
  ultimately show ?thesis using assms by auto
qed (rule digits_of_head)

lemma digits_heads: "is_decimal (hd (digits_of n))" "is_decimal c \<Longrightarrow> c \<notin> set ''+-nNiI.''"
  using Itoa_digit [of "int n"] by (auto simp: Itoa_def is_decimal_def digit_val_def split: if_split_asm)

lemma scan_seconds:
  assumes "0 < n" "int n * Second < 2 ^ 63" "unit_text u" "hd u \<notin> set ''_pPeE''"
  shows "Sscanf_float exotic (digits_of n @ u) = Some (real n)"
proof -
  note heads = digits_heads(1) [of n] digits_heads(2) [OF digits_heads(1) [of n]]
  have body: "scan_sign (digits_of n @ u) = (False, digits_of n @ u)"
    using heads by (cases "digits_of n") (auto simp: scan_sign_def)
  have start: "\<not> exotic_start (digits_of n @ u)"
    using heads digits_of_leading [OF assms(1)] by (cases "digits_of n") (auto simp: exotic_start_def)
  have u: "u \<noteq> []" "hd u \<noteq> CHR ''.''" "\<not> is_decimal (hd u)" using unit_head [OF assms(3), of "[]"] by simp_all
  have span: "digit_prefix (digits_of n @ u) = digits_of n" "digit_rest (digits_of n @ u) = u"
    using span_digits [OF is_decimal_of, of u n] u by (simp_all add: digit_prefix_def digit_rest_def)
  have "n < 2 ^ 63" using assms(2) by (simp add: Second_def)
  then have "real n < 2 ^ 63" by (metis of_nat_less_iff of_nat_numeral of_nat_power)
  moreover have "(2 :: real) ^ 63 \<le> 2 ^ 1024 - 2 ^ 970" by simp
  ultimately have "\<not> real n \<ge> 2 ^ 1024 - 2 ^ 970" by linarith
  then have "decimal_value (digits_of n) [] 0 = Some (real n)"
    by (simp add: decimal_value_def digits_value_def parse_digits_of)
  then have "scan_decimal (digits_of n @ u) = Some (Some (real n))"
    using start span u assms(4) by (simp add: scan_decimal_def exotic_next_def Let_def)
  with body show ?thesis by (simp add: Sscanf_float_def)
qed

lemma unknown_unit:
  assumes "unit_text u" "duration_unit u = None"
  shows "ParseDuration (digits_of n @ u) = None"
proof -
  note heads = digits_heads(1) [of n] digits_heads(2) [OF digits_heads(1) [of n]]
  have u: "u \<noteq> []" "hd u \<noteq> CHR ''.''" "\<not> is_decimal (hd u)" using unit_head [OF assms(1), of "[]"] by simp_all
  have lead: "leadingInt (digits_of n @ u) = None \<or> leadingInt (digits_of n @ u) = Some (int n, u)"
    using u span_digits [OF is_decimal_of, of u n] by (simp add: leadingInt_def digits_value_def parse_digits_of Let_def)
  then have "duration_part (digits_of n @ u) = None"
    using assms(2) u unit_span [OF assms(1), of "[]"] by (elim disjE) (simp_all add: duration_part_def Let_def takeWhile_eq_all_conv [THEN iffD2])
  then have none: "duration_parts (Suc f) 0 (digits_of n @ u) = None" for f
    using u by (cases "digits_of n @ u") simp_all
  have "3 + length (digits_of n @ u) = Suc (2 + length (digits_of n @ u))" by simp
  then have "duration_parts (3 + length (digits_of n @ u)) 0 (digits_of n @ u) = None" by (simp only: none)
  moreover have "digits_of n @ u \<noteq> ''0''" using u digits_of_nonempty [of n] by (auto simp: append_eq_Cons_conv)
  ultimately show ?thesis
    using heads u by (simp add: ParseDuration_def)
qed

text \<open>C37: A duration with a unit Go does not know is read as a number of seconds. Take a whole number in
  range, followed by letters that are no unit of Go and do not start an exponent, such as 10min or 1d: the decoder
  takes the number, drops the letters, and marks the value as set, so the caller's default does not apply.\<close>

theorem misspelt_unit_is_seconds:
  assumes "0 < n" "int n * Second < 2 ^ 63" "unit_text u" "duration_unit u = None" "hd u \<notin> set ''_pPeE''"
    and "32 < byte_of (last u)" "byte_of (last u) < 127"
  shows "UnmarshalYAML exotic overflow (Some (digits_of n @ u)) d = \<lparr>dur_Value = int n * Second, dur_Set = True\<rparr>"
proof -
  have u: "u \<noteq> []" using assms(3) by (simp add: unit_text_def)
  have "is_decimal (hd (digits_of n @ u))" using digits_heads(1) by simp
  then have "32 < byte_of (hd (digits_of n @ u))" "byte_of (hd (digits_of n @ u)) < 127"
    by (auto simp: is_decimal_def digit_val_def split: if_split_asm)
  then have trim: "TrimSpace (digits_of n @ u) = digits_of n @ u" using u assms(6,7) by (intro TrimSpace_ends) auto
  have zero: "digits_of n @ u \<noteq> ''0''" using u by (cases "digits_of n") auto
  have ns: "real n * real_of_int Second = real_of_int (int n * Second)" by simp
  have "real_of_int (int n * Second) < real_of_int (2 ^ 63)" using assms(2) by (simp only: of_int_less_iff)
  moreover have "0 \<le> real_of_int (int n * Second)" by (simp add: Second_def)
  ultimately have "seconds_duration overflow (real n) = int n * Second"
    unfolding seconds_duration_def Let_def ns by (simp only: floor_of_int of_int_power of_int_numeral) simp
  then show ?thesis
    using trim zero u scan_seconds [OF assms(1-3,5)] unknown_unit [OF assms(3,4)]
    by (simp add: UnmarshalYAML_def Let_def)
qed

lemma ten_minutes_text: "digits_of 10 @ ''min'' = ''10min''"
  by (simp add: digits_of.simps char_of_def bit_0 bit_Suc)

lemma misspelt_unit_is_seconds_witness:
  "UnmarshalYAML (\<lambda>_. None) (\<lambda>_. 0) (Some ''10min'') (cfg_PlanRefresh Default) =
     \<lparr>dur_Value = 10 * Second, dur_Set = True\<rparr> \<and>
   poll_interval (Default\<lparr>cfg_PlanRefresh := \<lparr>dur_Value = 10 * Second, dur_Set = True\<rparr>\<rparr>) = Minute"
proof
  have "unit_text ''min''" "duration_unit ''min'' = None" "hd ''min'' \<notin> set ''_pPeE''"
    by (simp_all add: unit_text_def duration_unit_def is_decimal_def digit_val_def)
  then show "UnmarshalYAML (\<lambda>_. None) (\<lambda>_. 0) (Some ''10min'') (cfg_PlanRefresh Default) =
      \<lparr>dur_Value = 10 * Second, dur_Set = True\<rparr>"
    using misspelt_unit_is_seconds [of 10 "''min''" "\<lambda>_. None" "\<lambda>_. 0" "cfg_PlanRefresh Default"] ten_minutes_text
    by (simp add: Second_def)
qed (simp add: poll_interval_def Or_def Let_def Minute_def Second_def)

section \<open>A document without a colon\<close>

lemma unquote_rest: "unquote n s = Some (t, r) \<Longrightarrow> set r \<subseteq> set s"
proof (induction n s arbitrary: t r rule: unquote.induct)
  case (3 n c s)
  have cut: "set (drop k x) \<subseteq> set x" for k and x :: string by (rule set_drop_subset)
  consider "c = dquote" | "c \<noteq> dquote" "c = bslash" | "c \<noteq> dquote" "c \<noteq> bslash" "byte_of c < 128"
    | "c \<noteq> dquote" "c \<noteq> bslash" "\<not> byte_of c < 128" by blast
  then show ?case
  proof cases
    case 2
    then obtain e x where s: "s = e # x" using 3 by (auto split: list.split_asm)
    show ?thesis
    proof (cases "e = CHR ''u''")
      case True
      with 2 s 3(5) obtain out k where k: "unicode_escape x = Some (out, k)"
        by (auto split: option.split_asm)
      with 2 s True 3(5) obtain t' where "unquote n (drop k x) = Some (t', r)" by auto
      with 3(1) [OF 2 s True k] cut [of k x] s show ?thesis by auto
    next
      case False
      with 2 s 3(5) obtain out t' where "simple_escape e = Some out" "unquote n x = Some (t', r)"
        by (auto split: option.split_asm)
      with 3(2) [OF 2 s False] s show ?thesis by auto
    qed
  next
    case 3
    then show ?thesis using 3 "3.IH"(3) "3.prems" by (auto split: if_split_asm)
  next
    case 4
    then obtain t' where "unquote n (drop (rune_size (c # s)) (c # s)) = Some (t', r)"
      using "3.prems" by (auto simp: Let_def)
    then have "set r \<subseteq> set (drop (rune_size (c # s)) (c # s))"
      by (rule "3.IH"(4) [OF 4(1,2) _ _ refl, rotated -1]) (use 4 in auto)
    with cut [of "rune_size (c # s)" "c # s"] show ?thesis by blast
  qed (use "3.prems" in auto)
qed simp_all

lemma set_skip_space: "set (skip_space s) \<subseteq> set s"
  by (auto simp: skip_space_def dest: set_dropWhileD)

text \<open>A member needs a colon, so a document without one is an object without members or no object.\<close>

lemma members_colon: "parse_members n s = Some (ms, r) \<Longrightarrow> CHR '':'' \<in> set s"
proof (cases n)
  case (Suc m)
  assume parse: "parse_members n s = Some (ms, r)"
  then obtain q x where qx: "skip_space s = q # x" and q: "q = dquote"
    using Suc by (auto split: list.split_asm if_split_asm)
  then obtain k y where ky: "unquote (Suc (length x)) x = Some (k, y)"
    using parse Suc by (auto split: option.split_asm)
  then obtain z where "skip_space y = CHR '':'' # z"
    using parse Suc qx q by (auto split: list.split_asm if_split_asm)
  then have "CHR '':'' \<in> set y" using set_skip_space [of y] by auto
  then show ?thesis using unquote_rest [OF ky] set_skip_space [of s] qx by auto
qed simp

lemma object_without_colon:
  assumes "parse_json s = Some (JObj ms)" "CHR '':'' \<notin> set s"
  shows "ms = []"
proof -
  from assms(1) obtain r where "parse_value (Suc (2 * length s + 1)) s = Some (JObj ms, r)"
    by (auto simp: parse_json_def split: option.split_asm if_split_asm)
  then obtain c x where cx: "skip_space s = c # x"
    and body: "(case skip_space x of d # r' \<Rightarrow> if d = CHR 0x7D then Some (JObj [], r')
                  else map_option (\<lambda>(ms, rest). (JObj ms, rest)) (parse_members (2 * length s + 1) x)
                | [] \<Rightarrow> None) = Some (JObj ms, r)"
    by (auto split: list.split_asm if_split_asm)
  have "CHR '':'' \<notin> set x" using assms(2) set_skip_space [of s] cx by auto
  then have "parse_members (2 * length s + 1) x \<noteq> Some (ms, r)" using members_colon by blast
  with body show ?thesis by (auto split: list.split_asm if_split_asm)
qed

lemma json_config_empty: "json_config [] c = Some c"
  by (simp add: json_config_def json_list_def json_duration_def)

text \<open>The branch of \<open>Parse\<close> for such a document is \<open>decodeJSONConfig\<close> followed by the normalisation.\<close>

lemma ParseBlock_json:
  assumes "TrimSpace raw \<noteq> []" "CHR 0x0A \<notin> set (TrimSpace raw)" "CHR '':'' \<notin> set (TrimSpace raw)"
  shows "ParseBlock yamlProbe yamlDecode raw = map_option normalize_config (decodeJSONConfig (TrimSpace raw) Default)"
  using assms by (simp add: ParseBlock_def Parse_def decodeJSONConfig_def Let_def split: option.split)

lemma decode_without_colon:
  assumes "CHR '':'' \<notin> set s"
  shows "decodeJSONConfig s c = (if parse_json s \<in> {Some (JObj []), Some JNull} then Some c else None)"
proof (cases "parse_json s")
  case None
  then show ?thesis by (simp add: decodeJSONConfig_def json_unmarshal_def)
next
  case (Some j)
  show ?thesis
  proof (cases j)
    case (JObj ms)
    with Some assms have "ms = []" using object_without_colon by auto
    with Some JObj show ?thesis
      by (simp add: decodeJSONConfig_def json_unmarshal_def json_hosts_probe_def json_config_empty)
  qed (use Some in \<open>simp_all add: decodeJSONConfig_def json_unmarshal_def json_hosts_probe_def\<close>)
qed

text \<open>A configuration block on one line without a colon sets nothing: the empty object and \<open>null\<close> give the
  normalised default, every other text is an error. So the JSON decoder of the configuration never reads a field,
  whatever the document; a JSON object with a member has a colon and goes to the YAML decoder.\<close>

theorem one_line_document_is_default:
  assumes "TrimSpace raw \<noteq> []" "CHR 0x0A \<notin> set (TrimSpace raw)" "CHR '':'' \<notin> set (TrimSpace raw)"
  shows "ParseBlock yamlProbe yamlDecode raw =
    (if parse_json (TrimSpace raw) \<in> {Some (JObj []), Some JNull} then Some (normalize_config Default) else None)"
  using ParseBlock_json [OF assms] decode_without_colon [OF assms(3)] by simp

lemma empty_object_parses: "parse_json [CHR 0x7B, CHR 0x7D] = Some (JObj [])"
  by (simp add: parse_json_def numeral_eq_Suc skip_space_def json_space_def dquote_def)

lemma one_line_document_is_default_witness:
  "ParseBlock (\<lambda>_. None) (\<lambda>_ _. None) [CHR '' '', CHR 0x7B, CHR 0x7D] = Some (normalize_config Default)"
proof -
  have trim: "TrimSpace [CHR '' '', CHR 0x7B, CHR 0x7D] = [CHR 0x7B, CHR 0x7D]"
    by (simp add: TrimSpace_def TrimLeftSpace_def TrimRightSpace_def strip.simps ascii_space_def space2_def)
  show ?thesis
    using one_line_document_is_default [of "[CHR '' '', CHR 0x7B, CHR 0x7D]" "\<lambda>_. None" "\<lambda>_ _. None"]
    unfolding trim empty_object_parses by simp
qed

end
