(* ===== verification/Service_Threads.thy ===== *)
theory Service_Threads
  imports Prelude
begin

text \<open>
  The goroutines of the scanner of \<open>internal/channellog/channellog.go\<close> and of the recorder of
  \<open>internal/observation/observation.go\<close>: who may be between which two statements of \<open>Start\<close>, \<open>Stop\<close> and the loop,
  for any number of concurrent callers.

  One action is one statement under its lock, or one synchronisation of Go: closing a channel, a case of a
  \<open>select\<close>, the return of \<open>WaitGroup.Wait\<close>. An action that is not enabled in a state is \<open>None\<close>, so a schedule is
  a list of actions and running it is a function. What a pass does is \<open>Channel_Scan\<close>'s.
\<close>

section \<open>The scanner\<close>

text \<open>
  A stop channel is named by the number of the \<open>Start\<close> that made it, and so is the loop that got it.
  \<open>th_spawning\<close> are the \<open>Start\<close> calls that released the lock and have not started their loop; \<open>th_loops\<close> the
  running loops, \<open>th_passing\<close> those inside a pass; \<open>th_closing\<close> the \<open>Stop\<close> calls that took a channel and have not closed
  it; \<open>th_waiting\<close> those that wait for the loops.
\<close>

record ScanThreads =
  th_started :: bool
  th_stopCh :: "nat option"
  th_next :: nat
  th_spawning :: "nat set"
  th_loops :: "nat set"
  th_passing :: "nat set"
  th_closing :: "nat set"
  th_closed :: "nat set"
  th_waiting :: "nat set"

definition new_threads :: ScanThreads where
  "new_threads = \<lparr>th_started = False, th_stopCh = None, th_next = 0, th_spawning = {}, th_loops = {}, th_passing = {},
     th_closing = {}, th_closed = {}, th_waiting = {}\<rparr>"

text \<open>\<open>Start\<close> under \<open>startMu\<close>, on an enabled scanner; then the \<open>Add\<close> and the \<open>go\<close> statement.\<close>

definition start_locked :: "ScanThreads \<Rightarrow> ScanThreads" where
  "start_locked t =
     (if th_started t then t
      else t\<lparr>th_started := True, th_stopCh := Some (th_next t), th_next := Suc (th_next t),
             th_spawning := insert (th_next t) (th_spawning t)\<rparr>)"

definition start_spawn :: "nat \<Rightarrow> ScanThreads \<Rightarrow> ScanThreads option" where
  "start_spawn n t =
     (if n \<in> th_spawning t
      then Some (t\<lparr>th_spawning := th_spawning t - {n}, th_loops := insert n (th_loops t),
              th_passing := insert n (th_passing t)\<rparr>) else None)"

text \<open>\<open>Stop\<close> under \<open>startMu\<close>; then the \<open>close\<close>, which panics on a closed channel; then the return of \<open>Wait\<close>.\<close>

definition stop_locked :: "ScanThreads \<Rightarrow> ScanThreads" where
  "stop_locked t =
     (let t1 = t\<lparr>th_stopCh := None, th_started := False\<rparr> in
      case th_stopCh t of
        Some n \<Rightarrow> if th_started t then t1\<lparr>th_closing := insert n (th_closing t)\<rparr> else t1
      | None \<Rightarrow> t1)"

datatype close_panic = Close_of_closed_channel

definition stop_close :: "nat \<Rightarrow> ScanThreads \<Rightarrow> (close_panic + ScanThreads) option" where
  "stop_close n t =
     (if n \<notin> th_closing t then None
      else if n \<in> th_closed t then Some (Inl Close_of_closed_channel)
      else Some (Inr (t\<lparr>th_closing := th_closing t - {n}, th_closed := insert n (th_closed t),
                       th_waiting := insert n (th_waiting t)\<rparr>)))"

definition stop_return :: "nat \<Rightarrow> ScanThreads \<Rightarrow> ScanThreads option" where
  "stop_return n t =
     (if n \<in> th_waiting t \<and> th_loops t = {} then Some (t\<lparr>th_waiting := th_waiting t - {n}\<rparr>) else None)"

text \<open>
  The loop: the end of a pass, and the two cases of its \<open>select\<close>. A closed channel does not disable the ticker:
  when both are ready Go takes either.
\<close>

definition loop_pass_done :: "nat \<Rightarrow> ScanThreads \<Rightarrow> ScanThreads option" where
  "loop_pass_done n t = (if n \<in> th_passing t then Some (t\<lparr>th_passing := th_passing t - {n}\<rparr>) else None)"

definition loop_tick :: "nat \<Rightarrow> ScanThreads \<Rightarrow> ScanThreads option" where
  "loop_tick n t = (if n \<in> th_loops t - th_passing t then Some (t\<lparr>th_passing := insert n (th_passing t)\<rparr>) else None)"

definition loop_exit :: "nat \<Rightarrow> ScanThreads \<Rightarrow> ScanThreads option" where
  "loop_exit n t = (if n \<in> th_loops t - th_passing t \<and> n \<in> th_closed t
     then Some (t\<lparr>th_loops := th_loops t - {n}\<rparr>) else None)"

datatype thread_action = Call_Start | Spawn nat | Call_Stop | Close nat | Return nat | Pass_Done nat | Tick nat | Exit nat

fun thread_act :: "thread_action \<Rightarrow> ScanThreads \<Rightarrow> (close_panic + ScanThreads) option" where
  "thread_act Call_Start t = Some (Inr (start_locked t))"
| "thread_act (Spawn n) t = map_option Inr (start_spawn n t)"
| "thread_act Call_Stop t = Some (Inr (stop_locked t))"
| "thread_act (Close n) t = stop_close n t"
| "thread_act (Return n) t = map_option Inr (stop_return n t)"
| "thread_act (Pass_Done n) t = map_option Inr (loop_pass_done n t)"
| "thread_act (Tick n) t = map_option Inr (loop_tick n t)"
| "thread_act (Exit n) t = map_option Inr (loop_exit n t)"

text \<open>A schedule; a panic ends it.\<close>

fun thread_run :: "thread_action list \<Rightarrow> ScanThreads \<Rightarrow> (close_panic + ScanThreads) option" where
  "thread_run [] t = Some (Inr t)"
| "thread_run (a # as) t =
     (case thread_act a t of
        None \<Rightarrow> None
      | Some (Inl p) \<Rightarrow> Some (Inl p)
      | Some (Inr t') \<Rightarrow> thread_run as t')"

section \<open>The invariant of the goroutines\<close>

text \<open>
  Every loop, running or about to start, has the channel of the field, or one a \<open>Stop\<close> has taken. So at most one
  loop has not been told to stop, and a channel is closed once.
\<close>

definition threads_ok :: "ScanThreads \<Rightarrow> bool" where
  "threads_ok t \<longleftrightarrow>
     (th_started t \<longleftrightarrow> th_stopCh t \<noteq> None) \<and>
     th_spawning t \<union> th_loops t \<subseteq> set_option (th_stopCh t) \<union> th_closing t \<union> th_closed t \<and>
     set_option (th_stopCh t) \<inter> (th_closing t \<union> th_closed t) = {} \<and> th_closing t \<inter> th_closed t = {} \<and>
     th_spawning t \<inter> th_loops t = {} \<and> th_passing t \<subseteq> th_loops t \<and> th_waiting t \<subseteq> th_closed t \<and>
     set_option (th_stopCh t) \<union> th_closing t \<union> th_closed t \<subseteq> {..<th_next t} \<and>
     finite (th_spawning t) \<and> finite (th_loops t) \<and> finite (th_closing t) \<and> finite (th_waiting t)"

lemma new_threads_ok: "threads_ok new_threads"
  by (simp add: threads_ok_def new_threads_def)

lemmas thread_defs = start_locked_def start_spawn_def stop_locked_def stop_close_def stop_return_def
  loop_pass_done_def loop_tick_def loop_exit_def

lemma start_ok:
  assumes "threads_ok t"
  shows "threads_ok (start_locked t)"
proof (cases "th_started t")
  case False
  have none: "th_stopCh t = None" using assms False by (simp add: threads_ok_def)
  with assms have "th_spawning t \<union> th_loops t \<subseteq> th_closing t \<union> th_closed t"
    "th_closing t \<union> th_closed t \<subseteq> {..<th_next t}"
    by (auto simp: threads_ok_def)
  then have "th_next t \<notin> th_closing t \<union> th_closed t" "th_next t \<notin> th_loops t" by auto
  then show ?thesis
    using assms False none by (auto simp: start_locked_def threads_ok_def lessThan_Suc)
qed (use assms in \<open>simp add: start_locked_def\<close>)

lemma stop_ok: "threads_ok t \<Longrightarrow> threads_ok (stop_locked t)"
  by (cases "th_stopCh t") (auto simp: stop_locked_def threads_ok_def)

lemma close_ok: "threads_ok t \<Longrightarrow> stop_close n t = Some r \<Longrightarrow> \<exists>t'. r = Inr t' \<and> threads_ok t'"
  by (auto simp: stop_close_def threads_ok_def split: if_split_asm)

lemma spawn_ok: "threads_ok t \<Longrightarrow> start_spawn n t = Some t' \<Longrightarrow> threads_ok t'"
  and return_ok: "threads_ok t \<Longrightarrow> stop_return n t = Some t' \<Longrightarrow> threads_ok t'"
  and pass_ok: "threads_ok t \<Longrightarrow> loop_pass_done n t = Some t' \<Longrightarrow> threads_ok t'"
  and tick_ok: "threads_ok t \<Longrightarrow> loop_tick n t = Some t' \<Longrightarrow> threads_ok t'"
  and exit_ok: "threads_ok t \<Longrightarrow> loop_exit n t = Some t' \<Longrightarrow> threads_ok t'"
  by (auto simp: thread_defs threads_ok_def split: if_split_asm)

lemma thread_act_ok:
  assumes "threads_ok t" "thread_act a t = Some r"
  shows "\<exists>t'. r = Inr t' \<and> threads_ok t'"
  using assms start_ok stop_ok close_ok by (cases a) (auto intro: spawn_ok return_ok pass_ok tick_ok exit_ok)

lemma thread_run_ok: "threads_ok t \<Longrightarrow> thread_run as t = Some r \<Longrightarrow> \<exists>t'. r = Inr t' \<and> threads_ok t'"
proof (induction as arbitrary: t)
  case (Cons a as)
  then obtain r' where act: "thread_act a t = Some r'" by (auto split: option.split_asm)
  with thread_act_ok [OF Cons.prems(1)] obtain t' where "r' = Inr t'" "threads_ok t'" by blast
  with act Cons show ?case by auto
qed auto

section \<open>What Start and Stop promise\<close>










text \<open>A \<open>Start\<close> that has only released its lock is missed: \<open>Stop\<close> returns, and the pass begins afterwards.\<close>

lemma start_under_way_is_missed:
  "\<exists>t. thread_run [Call_Start, Call_Stop, Close 0, Return 0, Spawn 0] new_threads = Some (Inr t) \<and>
     \<not> th_started t \<and> th_waiting t = {} \<and> th_passing t = {0}"
  by (simp add: new_threads_def thread_defs Let_def)

section \<open>Stop returns\<close>

text \<open>
  The synchronisations left before everything told to stop has stopped, when no ticker fires. A loop inside a
  pass has two left: the end of the pass and its exit.
\<close>

definition effort :: "ScanThreads \<Rightarrow> nat" where
  "effort t = 3 * card (th_spawning t) + card (th_loops t) + card (th_passing t) +
     2 * card (th_closing t) + card (th_waiting t)"

fun internal :: "thread_action \<Rightarrow> bool" where
  "internal Call_Start = False"
| "internal Call_Stop = False"
| "internal (Tick n) = False"
| "internal a = True"

lemma card_remove: "n \<in> A \<Longrightarrow> finite A \<Longrightarrow> card A = Suc (card (A - {n}))"
  by (metis card_Suc_Diff1)

lemma finite_threads:
  "threads_ok t \<Longrightarrow> finite (th_spawning t) \<and> finite (th_loops t) \<and> finite (th_passing t) \<and>
     finite (th_closing t) \<and> finite (th_waiting t)"
  using finite_subset by (auto simp: threads_ok_def)

lemma internal_effort:
  assumes "threads_ok t" "internal a" "thread_act a t = Some (Inr t')"
  shows "effort t = Suc (effort t')"
proof (cases a)
  case (Spawn n)
  then have "n \<in> th_spawning t" "n \<notin> th_loops t" "n \<notin> th_passing t"
    using assms by (auto simp: start_spawn_def threads_ok_def split: if_split_asm)
  then show ?thesis using Spawn assms finite_threads [OF assms(1)] card_remove [of n "th_spawning t"]
    by (auto simp: start_spawn_def effort_def)
next
  case (Close n)
  then have "n \<in> th_closing t" "n \<notin> th_waiting t"
    using assms by (auto simp: stop_close_def threads_ok_def split: if_split_asm)
  then show ?thesis using Close assms finite_threads [OF assms(1)] card_remove [of n "th_closing t"]
    by (auto simp: stop_close_def effort_def split: if_split_asm)
next
  case (Return n)
  then show ?thesis using assms finite_threads [OF assms(1)] card_remove [of n "th_waiting t"]
    by (auto simp: stop_return_def effort_def split: if_split_asm)
next
  case (Pass_Done n)
  then show ?thesis using assms finite_threads [OF assms(1)] card_remove [of n "th_passing t"]
    by (auto simp: loop_pass_done_def effort_def split: if_split_asm)
next
  case (Exit n)
  then show ?thesis using assms finite_threads [OF assms(1)] card_remove [of n "th_loops t"]
    by (auto simp: loop_exit_def effort_def split: if_split_asm)
qed (use assms in auto)

lemma internal_stopped: "internal a \<Longrightarrow> thread_act a t = Some (Inr t') \<Longrightarrow> th_started t' = th_started t"
  by (cases a) (auto simp: thread_defs split: if_split_asm)

lemma internal_progress:
  assumes "threads_ok t" "\<not> th_started t" "effort t \<noteq> 0"
  shows "\<exists>a t'. internal a \<and> thread_act a t = Some (Inr t')"
proof -
  have closed: "th_closing t = {} \<Longrightarrow> th_spawning t = {} \<Longrightarrow> th_loops t \<subseteq> th_closed t"
    using assms(1,2) by (auto simp: threads_ok_def)
  have some: "th_spawning t \<noteq> {} \<or> th_closing t \<noteq> {} \<or> th_passing t \<noteq> {} \<or> th_loops t \<noteq> {} \<or> th_waiting t \<noteq> {}"
    using assms(3) by (auto simp: effort_def)
  consider n where "n \<in> th_spawning t" | n where "n \<in> th_closing t" | n where "n \<in> th_passing t"
    | n where "th_spawning t = {}" "th_closing t = {}" "th_passing t = {}" "n \<in> th_loops t"
    | n where "th_loops t = {}" "n \<in> th_waiting t"
    using some by blast
  then show ?thesis
  proof cases
    case 1
    then show ?thesis by (intro exI [of _ "Spawn n"]) (simp add: start_spawn_def)
  next
    case 2
    then have "n \<notin> th_closed t" using assms(1) by (auto simp: threads_ok_def)
    with 2 show ?thesis by (intro exI [of _ "Close n"]) (simp add: stop_close_def)
  next
    case 3
    then show ?thesis by (intro exI [of _ "Pass_Done n"]) (simp add: loop_pass_done_def)
  next
    case 4
    then have "n \<in> th_closed t" using closed by auto
    with 4 show ?thesis by (intro exI [of _ "Exit n"]) (simp add: loop_exit_def)
  next
    case 5
    then show ?thesis by (intro exI [of _ "Return n"]) (simp add: stop_return_def)
  qed
qed

lemma internal_run:
  "threads_ok t \<Longrightarrow> list_all internal as \<Longrightarrow> thread_run as t = Some (Inr t') \<Longrightarrow> effort t = length as + effort t'"
proof (induction as arbitrary: t)
  case (Cons a as)
  then obtain t1 where t1: "thread_act a t = Some (Inr t1)" by (auto split: option.split_asm sum.split_asm)
  moreover have "threads_ok t1" using thread_act_ok [OF Cons.prems(1) t1] by simp
  ultimately show ?case using Cons internal_effort [of t a t1] by auto
qed simp

lemma internal_finishes:
  "threads_ok t \<Longrightarrow> \<not> th_started t \<Longrightarrow>
   \<exists>as t'. list_all internal as \<and> thread_run as t = Some (Inr t') \<and> effort t' = 0"
proof (induction "effort t" arbitrary: t)
  case 0
  then show ?case by (intro exI [of _ "[]"]) simp
next
  case (Suc k)
  then obtain a t1 where a: "internal a" "thread_act a t = Some (Inr t1)"
    using internal_progress [of t] by auto
  then have "threads_ok t1" "\<not> th_started t1" "k = effort t1"
    using Suc thread_act_ok [OF Suc.prems(1) a(2)] internal_stopped internal_effort [OF Suc.prems(1) a] by auto
  from Suc.hyps(1) [OF this(3,1,2)] obtain as t' where
    "list_all internal as" "thread_run as t1 = Some (Inr t')" "effort t' = 0" by blast
  with a show ?case by (intro exI [of _ "a # as"]) auto
qed

text \<open>C40: Stopping terminates. From any reachable state in which the scanner is stopped, a schedule without further
  calls and ticks has at most effort actions; and some schedule of exactly that many actions ends with every
  Stop returned and every loop gone, so no wait is a deadlock.\<close>

theorem stop_always_returns:
  assumes "thread_run as new_threads = Some (Inr s)" "\<not> th_started s"
  shows "(\<forall>bs t. list_all internal bs \<longrightarrow> thread_run bs s = Some (Inr t) \<longrightarrow> length bs \<le> effort s) \<and>
    (\<exists>bs t. list_all internal bs \<and> thread_run bs s = Some (Inr t) \<and> length bs = effort s \<and>
       th_waiting t = {} \<and> th_loops t = {})"
proof -
  have ok: "threads_ok s" using thread_run_ok [OF new_threads_ok assms(1)] by auto
  obtain bs t where bs: "list_all internal bs" "thread_run bs s = Some (Inr t)" "effort t = 0"
    using internal_finishes [OF ok assms(2)] by blast
  have "threads_ok t" using thread_run_ok [OF ok bs(2)] by auto
  then have "th_waiting t = {}" "th_loops t = {}" using bs(3) finite_threads [of t] by (auto simp: effort_def)
  with bs internal_run [OF ok bs(1,2)] show ?thesis using internal_run [OF ok] by fastforce
qed

lemma stop_always_returns_witness:
  "\<exists>s bs t. thread_run [Call_Start, Spawn 0, Call_Stop, Close 0] new_threads = Some (Inr s) \<and>
     th_waiting s = {0} \<and> thread_run bs s = Some (Inr t) \<and> th_waiting t = {}"
proof -
  obtain s where s: "thread_run [Call_Start, Spawn 0, Call_Stop, Close 0] new_threads = Some (Inr s)"
    "\<not> th_started s" "th_waiting s = {0}"
    by (simp add: new_threads_def thread_defs Let_def)
  from stop_always_returns [OF s(1,2)] s show ?thesis by blast
qed

section \<open>The recorder\<close>

text \<open>
  The recorder has one stop channel for its life and two loops. \<open>rt_checked\<close> counts the \<open>Stop\<close> calls between the
  \<open>select\<close> that found the channel open and the \<open>close\<close>; there is no lock around the two.
\<close>

record RecorderThreads =
  rt_closed :: bool
  rt_loops :: nat
  rt_checked :: nat
  rt_waiting :: nat

definition recorder_spawn :: "RecorderThreads \<Rightarrow> RecorderThreads" where
  "recorder_spawn t = t\<lparr>rt_loops := rt_loops t + 2\<rparr>"

definition recorder_check :: "RecorderThreads \<Rightarrow> RecorderThreads" where
  "recorder_check t = (if rt_closed t then t else t\<lparr>rt_checked := rt_checked t + 1\<rparr>)"

definition recorder_close :: "RecorderThreads \<Rightarrow> (close_panic + RecorderThreads) option" where
  "recorder_close t =
     (if rt_checked t = 0 then None
      else if rt_closed t then Some (Inl Close_of_closed_channel)
      else Some (Inr (t\<lparr>rt_closed := True, rt_checked := rt_checked t - 1, rt_waiting := rt_waiting t + 1\<rparr>)))"

definition recorder_loop_exit :: "RecorderThreads \<Rightarrow> RecorderThreads option" where
  "recorder_loop_exit t = (if rt_closed t \<and> rt_loops t > 0 then Some (t\<lparr>rt_loops := rt_loops t - 1\<rparr>) else None)"

definition recorder_return :: "RecorderThreads \<Rightarrow> RecorderThreads option" where
  "recorder_return t = (if rt_waiting t > 0 \<and> rt_loops t = 0 then Some (t\<lparr>rt_waiting := rt_waiting t - 1\<rparr>) else None)"

datatype recorder_action = Recorder_Start | Check_Open | Close_Stop | Loop_Exit | Stop_Return

fun recorder_act :: "recorder_action \<Rightarrow> RecorderThreads \<Rightarrow> (close_panic + RecorderThreads) option" where
  "recorder_act Recorder_Start t = Some (Inr (recorder_spawn t))"
| "recorder_act Check_Open t = Some (Inr (recorder_check t))"
| "recorder_act Close_Stop t = recorder_close t"
| "recorder_act Loop_Exit t = map_option Inr (recorder_loop_exit t)"
| "recorder_act Stop_Return t = map_option Inr (recorder_return t)"

fun recorder_run :: "recorder_action list \<Rightarrow> RecorderThreads \<Rightarrow> (close_panic + RecorderThreads) option" where
  "recorder_run [] t = Some (Inr t)"
| "recorder_run (a # as) t =
     (case recorder_act a t of
        None \<Rightarrow> None
      | Some (Inl p) \<Rightarrow> Some (Inl p)
      | Some (Inr t') \<Rightarrow> recorder_run as t')"

text \<open>The callers take turns when none checks while another is between its check and its close.\<close>

fun in_turn :: "recorder_action list \<Rightarrow> RecorderThreads \<Rightarrow> bool" where
  "in_turn [] t = True"
| "in_turn (a # as) t =
     ((a = Check_Open \<longrightarrow> rt_checked t = 0) \<and>
      (case recorder_act a t of Some (Inr t') \<Rightarrow> in_turn as t' | _ \<Rightarrow> True))"

definition new_recorder_threads :: RecorderThreads where
  "new_recorder_threads = \<lparr>rt_closed = False, rt_loops = 0, rt_checked = 0, rt_waiting = 0\<rparr>"

lemma recorder_turns:
  "rt_checked t = 0 \<or> rt_checked t = 1 \<and> \<not> rt_closed t \<Longrightarrow> in_turn as t \<Longrightarrow>
   recorder_run as t = Some r \<Longrightarrow> \<exists>t'. r = Inr t'"
proof (induction as arbitrary: t)
  case (Cons a as)
  have "recorder_act a t \<noteq> Some (Inl p)" for p
    using Cons.prems by (cases a) (auto simp: recorder_close_def)
  moreover have "rt_checked t' = 0 \<or> rt_checked t' = 1 \<and> \<not> rt_closed t'" if "recorder_act a t = Some (Inr t')" for t'
    using Cons.prems that
    by (cases a) (auto simp: recorder_spawn_def recorder_check_def recorder_close_def recorder_loop_exit_def
        recorder_return_def split: if_split_asm)
  ultimately show ?case
    using Cons by (auto split: option.split_asm sum.split_asm)
qed auto

text \<open>Stops in turn never panic; two at once may.\<close>

lemma recorder_stop_in_turn:
  "in_turn as new_recorder_threads \<Longrightarrow> recorder_run as new_recorder_threads = Some r \<Longrightarrow> \<exists>t. r = Inr t"
  by (rule recorder_turns) (simp_all add: new_recorder_threads_def)

lemma recorder_stops_at_once_panic:
  "recorder_run [Recorder_Start, Check_Open, Check_Open, Close_Stop, Close_Stop] new_recorder_threads =
   Some (Inl Close_of_closed_channel)"
  by (simp add: new_recorder_threads_def recorder_spawn_def recorder_check_def recorder_close_def)

end
