(* ===== verification/Plugin_Startup.thy ===== *)
theory Plugin_Startup
  imports Plugin_Lifecycle
begin

text \<open>
  What the plugin tells the operator when a configuration is loaded: the fields of the line "configured"
  (\<open>LoadConfig\<close> of \<open>internal/plugin/plugin.go\<close>, \<open>accountGuardLogFields\<close> of \<open>accountguard.go\<close>) and the hint about the
  switches that are still off (\<open>GatewayHint\<close> of \<open>internal/hostconf/hostconf.go\<close>).
\<close>

section \<open>The fields of a load\<close>

definition accountGuardLogFields :: "Config \<Rightarrow> (string \<rightharpoonup> string)" where
  "accountGuardLogFields cfg =
     [''account_guard'' \<mapsto> FormatBool (cfg_AccountGuardEnabled cfg),
      ''account_guard_dry_run'' \<mapsto> FormatBool (cfg_AccountGuardDryRun cfg),
      ''account_guard_threshold'' \<mapsto> Itoa (cfg_AccountGuardThreshold cfg)]"

definition load_fields :: "Config \<Rightarrow> (string \<rightharpoonup> string)" where
  "load_fields cfg =
     [''plan_enabled'' \<mapsto> FormatBool (cfg_PlanEnabled cfg),
      ''plan_refresh'' \<mapsto> duration_String (Or (cfg_PlanRefresh cfg) DefaultPlanRefresh),
      ''plan_usage'' \<mapsto> FormatBool (cfg_PlanUsageEnabled cfg),
      ''plan_config_path'' \<mapsto> cfg_PlanConfigPath cfg,
      ''channel_observe'' \<mapsto> FormatBool (cfg_ChannelObserveEnabled cfg),
      ''channel_store_dir'' \<mapsto> cfg_ChannelStoreDir cfg,
      ''channel_baseline'' \<mapsto> cfg_ChannelBaselineProvider cfg,
      ''channel_log'' \<mapsto> FormatBool (cfg_ChannelLogEnabled cfg),
      ''channel_log_dir'' \<mapsto> cfg_ChannelLogDir cfg] ++ accountGuardLogFields cfg"

section \<open>The hint\<close>

text \<open>The four pieces of the text in UTF-8, and what joins the missing switches.\<close>

definition hint_start :: string where
  "hint_start =
     concat (map utf8_encode [0x7F51, 0x5173, 0x6E20, 0x9053, 0x672A, 0x542F, 0x7528, 0xFF1A]) @
     ''channel_log_enabled=false'' @ concat (map utf8_encode [0xFF0C, 0x300C, 0x771F, 0x5B9E, 0x6E20, 0x9053,
     0x300D, 0x5217, 0x4E0E, 0x504F, 0x79BB, 0x6307, 0x6807, 0x4F1A, 0x4E00, 0x76F4, 0x662F, 0x7A7A, 0x7684])"

definition hint_missing :: string where
  "hint_missing =
     concat (map utf8_encode [0xFF1B]) @ ''CPA '' @ concat (map utf8_encode [0x4FA7, 0x8FD8, 0x9700, 0x8981]) @
     '' ''"

definition hint_comma :: string where
  "hint_comma =
     concat (map utf8_encode [0x3001])"

definition hint_restart :: string where
  "hint_restart =
     concat (map utf8_encode [0xFF0C, 0x6539, 0x5B8C, 0x91CD, 0x542F, 0x5BB9, 0x5668])"

definition hint_end :: string where
  "hint_end =
     concat (map utf8_encode [0x3002, 0x7BA1, 0x7406, 0x9875, 0x9876, 0x90E8, 0x7684, 0x300C, 0x914D, 0x7F6E,
     0x81EA, 0x68C0, 0x300D, 0x4F1A, 0x6309, 0x5F53, 0x524D, 0x72B6, 0x6001, 0x5217, 0x51FA, 0x540C, 0x6837,
     0x7684, 0x6E05, 0x5355])"

text \<open>A switch that is absent counts as off for the request log and as off for the commercial mode.\<close>

definition missing_switches :: "Snapshot \<Rightarrow> string list" where
  "missing_switches s =
     (if sn_RequestLog s \<noteq> Some True then [''observability.logs.request-log: true''] else []) @
     (if sn_CommercialMode s = Some True then [''server.commercial-mode: false''] else [])"

definition GatewayHint :: "(Config \<Rightarrow> Snapshot) \<Rightarrow> Config \<Rightarrow> string" where
  "GatewayHint readConfig cfg =
     (if cfg_ChannelLogEnabled cfg then []
      else let s = readConfig cfg; missing = missing_switches s in
        hint_start @
        (if sn_Readable s \<and> missing \<noteq> [] then hint_missing @ separated hint_comma missing @ hint_restart else []) @
        hint_end)"

lemma hint_only_when_off: "GatewayHint readConfig cfg = [] \<longleftrightarrow> cfg_ChannelLogEnabled cfg"
  by (simp add: GatewayHint_def Let_def hint_start_def)

text \<open>The line of a load names the effective dry run of the guard, whatever the rest of the configuration is.\<close>

lemma load_line_names_dry_run:
  "load_fields cfg ''account_guard_dry_run'' = Some (FormatBool (cfg_AccountGuardDryRun cfg)) \<and>
   sublist (''account_guard_dry_run='' @ FormatBool (cfg_AccountGuardDryRun cfg)) (logFields (load_fields cfg))"
proof -
  have some: "load_fields cfg ''account_guard_dry_run'' = Some (FormatBool (cfg_AccountGuardDryRun cfg))"
    by (simp add: load_fields_def accountGuardLogFields_def)
  have part: "sublist x (separated sep xs)" if "x \<in> set xs" for x sep and xs :: "string list"
  proof -
    from that obtain ys zs where xs: "xs = ys @ x # zs" by (meson split_list)
    show ?thesis
    proof (cases ys)
      case Nil
      then show ?thesis by (simp add: xs separated_def)
    next
      case (Cons y ys')
      have "separated sep xs = (y @ concat (map (\<lambda>q. sep @ q) ys') @ sep) @ x @ concat (map (\<lambda>q. sep @ q) zs)"
        by (simp add: xs Cons separated_def)
      then show ?thesis by (simp only: sublist_appendI)
    qed
  qed
  have "''account_guard_dry_run'' \<in> set (sorted_list_of_set (dom (load_fields cfg)))"
    using some by (simp add: load_fields_def accountGuardLogFields_def)
  then have "''account_guard_dry_run'' @ ''='' @ FormatBool (cfg_AccountGuardDryRun cfg) \<in>
      set (map (\<lambda>k. k @ ''='' @ the (load_fields cfg k)) (sorted_list_of_set (dom (load_fields cfg))))"
    unfolding set_map using some by (intro image_eqI [where x = "''account_guard_dry_run''"]) simp_all
  from part [OF this] some show ?thesis by (simp add: logFields_def)
qed

end
